(* ===== verification/NVT_Prelude.thy ===== *)
theory NVT_Prelude
  imports Main
begin

text \<open>
  Shared vocabulary of the development: the result type of Go functions that return an error,
  the lemma collections used by the component proofs, generic facts on lists and options, and
  the two generic interfaces (transition systems with an invariant, and tables whose rows are
  replaced by key) that the stateful components instantiate.
\<close>

named_theorems go_result \<open>evaluation rules for results\<close>
named_theorems go_string \<open>facts on the modelled string library\<close>
named_theorems go_time \<open>facts on durations and deadlines\<close>

section \<open>Results\<close>

text \<open>
  A Go function \<open>func f(...) (T, error)\<close> is a HOL function into \<open>'e + 't\<close>: \<open>Inl\<close> is a
  non-nil error, \<open>Inr\<close> the value. A function that returns only an error is a function into
  \<open>'e option\<close>, where \<open>None\<close> is Go's \<open>nil\<close>.
\<close>

fun result_ok :: "'e + 'a \<Rightarrow> bool" where
  "result_ok (Inl e) = False"
| "result_ok (Inr a) = True"

fun result_bind :: "'e + 'a \<Rightarrow> ('a \<Rightarrow> 'e + 'b) \<Rightarrow> 'e + 'b" where
  "result_bind (Inl e) f = Inl e"
| "result_bind (Inr a) f = f a"

lemma result_bind_Inr [go_result]:
  "result_bind r f = Inr b \<longleftrightarrow> (\<exists>a. r = Inr a \<and> f a = Inr b)"
  by (cases r) auto

lemma result_ok_iff [go_result]: "result_ok r \<longleftrightarrow> (\<exists>a. r = Inr a)"
  by (cases r) auto

text \<open>The first error of a list of checks, in the order the code runs them.\<close>

fun first_error :: "'e option list \<Rightarrow> 'e option" where
  "first_error [] = None"
| "first_error (None # es) = first_error es"
| "first_error (Some e # es) = Some e"

lemma first_error_None [go_result]: "first_error es = None \<longleftrightarrow> (\<forall>e \<in> set es. e = None)"
  by (induction es rule: first_error.induct) auto

definition check :: "bool \<Rightarrow> 'e \<Rightarrow> 'e option" where
  "check bad e = (if bad then Some e else None)"

lemma check_None [simp, go_result]: "check bad e = None \<longleftrightarrow> \<not> bad"
  by (simp add: check_def)

section \<open>Lists\<close>

text \<open>
  Loops of the form \<open>for _, x := range xs { if bad(x) return err; if seen[x] return err; seen[x] = ... }\<close>
  run over a list with the set of keys seen so far.
\<close>

fun unique_loop :: "('a \<Rightarrow> bool) \<Rightarrow> ('a \<Rightarrow> 'k) \<Rightarrow> 'k list \<Rightarrow> 'a list \<Rightarrow> bool" where
  "unique_loop ok key seen [] = True"
| "unique_loop ok key seen (x # xs) =
     (if \<not> ok x then False
      else if key x \<in> set seen then False
      else unique_loop ok key (key x # seen) xs)"

lemma unique_loop_iff:
  "unique_loop ok key seen xs \<longleftrightarrow>
     list_all ok xs \<and> distinct (map key xs) \<and> set (map key xs) \<inter> set seen = {}"
  by (induction xs arbitrary: seen) auto

lemma list_ex_find: "list_ex P xs \<longleftrightarrow> find P xs \<noteq> None"
  by (induction xs) auto

lemma distinct_map_eq:
  "distinct (map f xs) \<Longrightarrow> x \<in> set xs \<Longrightarrow> y \<in> set xs \<Longrightarrow> f x = f y \<Longrightarrow> x = y"
  by (meson distinct_map inj_on_def)

lemma find_Some_set: "find P xs = Some x \<Longrightarrow> x \<in> set xs \<and> P x"
  by (induction xs) (auto split: if_splits)

lemma find_distinct:
  "distinct (map f xs) \<Longrightarrow> x \<in> set xs \<Longrightarrow> find (\<lambda>y. f y = f x) xs = Some x"
  by (induction xs) (auto split: if_splits)

lemma filter_length_le: "(\<And>x. x \<in> set xs \<Longrightarrow> P x \<Longrightarrow> Q x) \<Longrightarrow> length (filter P xs) \<le> length (filter Q xs)"
  by (induction xs) (auto simp: le_Suc_eq)

section \<open>Transition systems with an invariant\<close>

text \<open>
  The interface every stateful component offers to the safety proofs: a set of initial states, a
  step relation, and a predicate that holds initially and that every step keeps.
\<close>

locale transition_system =
  fixes initial :: "'s \<Rightarrow> bool"
    and step :: "'s \<Rightarrow> 's \<Rightarrow> bool"
    and inv :: "'s \<Rightarrow> bool"
  assumes inv_initial: "initial s \<Longrightarrow> inv s"
    and inv_step: "inv s \<Longrightarrow> step s t \<Longrightarrow> inv t"
begin

lemma inv_rtranclp: "step\<^sup>*\<^sup>* s t \<Longrightarrow> inv s \<Longrightarrow> inv t"
  by (induction rule: rtranclp_induct) (auto intro: inv_step)

lemma inv_reachable: "initial s \<Longrightarrow> step\<^sup>*\<^sup>* s t \<Longrightarrow> inv t"
  by (blast intro: inv_initial inv_rtranclp)

end

end
