(* ===== verification/Go_Strings.thy ===== *)
theory Go_Strings
  imports NVT_Prelude "HOL-Library.Sublist"
begin

text \<open>
  The part of Go's \<^verbatim>\<open>strings\<close>, \<^verbatim>\<open>unicode\<close>, \<^verbatim>\<open>unicode/utf8\<close>, \<^verbatim>\<open>regexp\<close> and \<^verbatim>\<open>net/netip\<close>
  packages that the modelled code calls. A Go string is a sequence of bytes, so it is a HOL
  \<open>string\<close> (a list of 8-bit characters) and \<open>len(s)\<close> is \<open>length s\<close>.
\<close>

section \<open>Bytes\<close>

definition byte :: "char \<Rightarrow> int" where
  "byte c = of_char c"

definition lowerAlphaNumeric :: "char \<Rightarrow> bool" where
  "lowerAlphaNumeric c \<longleftrightarrow> 97 \<le> byte c \<and> byte c \<le> 122 \<or> 48 \<le> byte c \<and> byte c \<le> 57"

definition upper_alpha :: "char \<Rightarrow> bool" where
  "upper_alpha c \<longleftrightarrow> 65 \<le> byte c \<and> byte c \<le> 90"

definition ascii :: "string \<Rightarrow> bool" where
  "ascii s \<longleftrightarrow> list_all (\<lambda>c. byte c < 128) s"

lemma byte_inject [simp]: "byte c = byte d \<longleftrightarrow> c = d"
  by (simp add: byte_def)

lemma byte_mod_256: "byte c mod 256 = byte c"
  using of_char_mod_256 [where 'a = int, of c] by (simp add: byte_def)

lemma byte_less_256 [simp]: "byte c < 256" and byte_nonneg [simp]: "0 \<le> byte c"
  using byte_mod_256 [of c] by (metis pos_mod_bound pos_mod_sign zero_less_numeral)+

text \<open>\<open>len\<close> as a Go \<open>int\<close>.\<close>

definition len :: "'a list \<Rightarrow> int" where
  "len xs = int (length xs)"

lemma len_code [code]: "len [] = 0" "len (x # xs) = len xs + 1"
  by (simp_all add: len_def)

section \<open>Searching and cutting\<close>

definition contains_any :: "string \<Rightarrow> string \<Rightarrow> bool" where
  "contains_any s cs \<longleftrightarrow> list_ex (\<lambda>c. c \<in> set cs) s"

definition trim_prefix :: "string \<Rightarrow> string \<Rightarrow> string" where
  "trim_prefix s p = (if prefix p s then drop (length p) s else s)"

definition trim_suffix :: "string \<Rightarrow> string \<Rightarrow> string" where
  "trim_suffix s p = (if suffix p s then take (length s - length p) s else s)"

text \<open>\<open>strings.Split(s, sep)\<close> for a one-byte separator.\<close>

fun split_on :: "char \<Rightarrow> string \<Rightarrow> string list" where
  "split_on d [] = [[]]"
| "split_on d (c # cs) =
     (if c = d then [] # split_on d cs
      else (c # hd (split_on d cs)) # tl (split_on d cs))"

text \<open>\<open>strings.Cut(s, sep)\<close> for a one-byte separator.\<close>

fun cut_on :: "char \<Rightarrow> string \<Rightarrow> (string \<times> string) option" where
  "cut_on d [] = None"
| "cut_on d (c # cs) =
     (if c = d then Some ([], cs)
      else (case cut_on d cs of None \<Rightarrow> None | Some (a, b) \<Rightarrow> Some (c # a, b)))"

fun join_with :: "string \<Rightarrow> string list \<Rightarrow> string" where
  "join_with sep [] = []"
| "join_with sep [w] = w"
| "join_with sep (w # v # ws) = w @ sep @ join_with sep (v # ws)"

lemma split_on_nonempty [simp]: "split_on d s \<noteq> []"
  by (cases s) auto

lemma join_Cons: "ws \<noteq> [] \<Longrightarrow> join_with sep (w # ws) = w @ sep @ join_with sep ws"
  by (cases ws) auto

lemma join_append:
  "xs \<noteq> [] \<Longrightarrow> ys \<noteq> [] \<Longrightarrow> join_with sep (xs @ ys) = join_with sep xs @ sep @ join_with sep ys"
proof (induction xs)
  case (Cons x xs)
  then show ?case by (cases "xs = []") (simp_all add: join_Cons)
qed simp

lemma join_hd: "ws \<noteq> [] \<Longrightarrow> join_with sep ((c # hd ws) # tl ws) = c # join_with sep ws"
  by (cases ws; cases "tl ws") auto

lemma split_on_code [code]:
  "split_on d [] = [[]]"
  "split_on d (c # cs) =
     (if c = d then [] # split_on d cs
      else case split_on d cs of [] \<Rightarrow> [[c]] | w # ws \<Rightarrow> (c # w) # ws)"
  by (simp_all split: list.split)

lemma join_split [go_string]: "join_with [d] (split_on d s) = s"
  by (induction s) (auto simp: join_Cons join_hd)

lemma split_on_parts: "w \<in> set (split_on d s) \<Longrightarrow> d \<notin> set w \<and> set w \<subseteq> set s"
proof (induction s arbitrary: w)
  case Nil
  then show ?case by simp
next
  case (Cons c cs)
  let ?h = "hd (split_on d cs)"
  have h: "?h \<in> set (split_on d cs)" by simp
  then have "d \<notin> set ?h" "\<And>x. x \<in> set ?h \<Longrightarrow> x \<in> set cs" using Cons.IH by blast+
  moreover have "x \<in> set (split_on d cs)" if "x \<in> set (tl (split_on d cs))" for x
    using that by (metis list.set_sel(2) split_on_nonempty)
  ultimately show ?case using Cons by (auto split: if_splits)
qed

lemma split_on_set: "\<Union> (set ` set (split_on d s)) \<union> {d} = set s \<union> {d}"
proof (induction s)
  case (Cons c cs)
  obtain w ws where w: "split_on d cs = w # ws"
    by (metis list.exhaust split_on_nonempty)
  show ?case using Cons w by (auto split: if_splits)
qed simp

lemma split_on_append_sep: "split_on d (s @ d # t) = split_on d s @ split_on d t"
proof (induction s)
  case (Cons c cs)
  obtain w ws where "split_on d cs = w # ws"
    by (metis list.exhaust split_on_nonempty)
  with Cons show ?case by simp
qed simp

lemma contains_any_iff [go_string]: "contains_any s cs \<longleftrightarrow> set s \<inter> set cs \<noteq> {}"
  by (auto simp: contains_any_def list_ex_iff)

lemma trim_suffix_subset: "set (trim_suffix s p) \<subseteq> set s"
  by (auto simp: trim_suffix_def dest: in_set_takeD)

section \<open>UTF-8\<close>

text \<open>
  \<open>utf8.DecodeRuneInString\<close>: the code point at the front of the string and its width in bytes.
  An ill-formed sequence is \<open>RuneError\<close> (U+FFFD) with width 1.
\<close>

definition RuneError :: int where
  "RuneError = 65533"

fun decode_rune :: "string \<Rightarrow> int \<times> nat" where
  "decode_rune [] = (RuneError, 0)"
| "decode_rune (c0 # cs) =
     (let b0 = byte c0;
          lo = (if b0 = 224 then 160 else if b0 = 240 then 144 else 128);
          hi = (if b0 = 237 then 159 else if b0 = 244 then 143 else 191);
          cont = (\<lambda>c. 128 \<le> byte c \<and> byte c \<le> 191)
      in if b0 < 128 then (b0, 1)
         else if b0 < 194 \<or> 244 < b0 then (RuneError, 1)
         else case cs of
             [] \<Rightarrow> (RuneError, 1)
           | c1 # cs1 \<Rightarrow>
               if byte c1 < lo \<or> hi < byte c1 then (RuneError, 1)
               else if b0 < 224 then ((b0 mod 32) * 64 + byte c1 mod 64, 2)
               else case cs1 of
                   [] \<Rightarrow> (RuneError, 1)
                 | c2 # cs2 \<Rightarrow>
                     if \<not> cont c2 then (RuneError, 1)
                     else if b0 < 240 then
                       ((b0 mod 16) * 4096 + (byte c1 mod 64) * 64 + byte c2 mod 64, 3)
                     else case cs2 of
                         [] \<Rightarrow> (RuneError, 1)
                       | c3 # cs3 \<Rightarrow>
                           if \<not> cont c3 then (RuneError, 1)
                           else ((b0 mod 8) * 262144 + (byte c1 mod 64) * 4096
                                   + (byte c2 mod 64) * 64 + byte c3 mod 64, 4))"

lemma decode_rune_width: "0 < snd (decode_rune (c # cs))"
  by (auto simp: Let_def split: list.splits)

declare decode_rune.simps(2) [simp del]

text \<open>The code points of a string with the bytes of each, as \<open>for _, r := range s\<close> visits them.\<close>

function runes :: "string \<Rightarrow> (int \<times> string) list" where
  "runes s = (if s = [] then [] else
     (let (r, w) = decode_rune s in (r, take w s) # runes (drop w s)))"
  by pat_completeness auto
termination
proof (relation "measure length")
  fix s :: string and x r w
  assume "s \<noteq> []" "x = decode_rune s" "(r, w) = x"
  then have "0 < w" using decode_rune_width by (metis list.exhaust snd_conv)
  with \<open>s \<noteq> []\<close> show "(drop w s, s) \<in> measure length" by simp
qed simp

declare runes.simps [simp del]

definition valid_utf8 :: "string \<Rightarrow> bool" where
  "valid_utf8 s \<longleftrightarrow> list_all (\<lambda>(r, bs). \<not> (r = RuneError \<and> length bs = 1)) (runes s)"

text \<open>\<open>unicode.IsSpace\<close> and \<open>unicode.IsControl\<close>.\<close>

definition is_space :: "int \<Rightarrow> bool" where
  "is_space r \<longleftrightarrow> 9 \<le> r \<and> r \<le> 13 \<or>
     r \<in> {32, 133, 160, 5760, 8232, 8233, 8239, 8287, 12288} \<or> 8192 \<le> r \<and> r \<le> 8202"

definition is_control :: "int \<Rightarrow> bool" where
  "is_control r \<longleftrightarrow> r < 32 \<or> 127 \<le> r \<and> r < 160"

text \<open>
  \<open>strings.TrimSpace\<close>. Continuation bytes never start a code point, so trimming the forward
  decoding at both ends gives the same bytes as Go's forward and backward scans.
\<close>

definition trim_space :: "string \<Rightarrow> string" where
  "trim_space s =
     concat (map snd (rev (dropWhile (\<lambda>(r, _). is_space r)
       (rev (dropWhile (\<lambda>(r, _). is_space r) (runes s))))))"

text \<open>
  \<open>strings.ToLower\<close>. On ASCII text it is the byte-wise map. Outside ASCII exactly two code
  points are mapped to an ASCII letter: U+0130 to \<open>i\<close> and U+212A (the Kelvin sign) to \<open>k\<close>. Every
  other code point beyond ASCII is mapped to one beyond ASCII; the model keeps its bytes, which
  is all the callers can observe, since they reject every byte beyond ASCII afterwards.
\<close>

definition lower_rune :: "int \<times> string \<Rightarrow> string" where
  "lower_rune = (\<lambda>(r, bs).
     if 65 \<le> r \<and> r \<le> 90 then [char_of (r + 32)]
     else if r = 304 then ''i''
     else if r = 8490 then ''k''
     else bs)"

definition to_lower :: "string \<Rightarrow> string" where
  "to_lower s = concat (map lower_rune (runes s))"

lemma decode_rune_ascii: "byte c < 128 \<Longrightarrow> decode_rune (c # cs) = (byte c, 1)"
  by (simp add: decode_rune.simps)

lemma runes_Nil [simp]: "runes [] = []"
  by (simp add: runes.simps)

lemma runes_ascii_Cons:
  "byte c < 128 \<Longrightarrow> runes (c # cs) = (byte c, [c]) # runes cs"
  by (simp add: runes.simps [of "c # cs"] decode_rune_ascii)

lemma runes_ascii [go_string]: "ascii s \<Longrightarrow> runes s = map (\<lambda>c. (byte c, [c])) s"
  by (induction s) (auto simp: ascii_def runes_ascii_Cons)

lemma runes_bytes: "concat (map snd (runes s)) = s"
proof (induction s rule: runes.induct)
  case (1 s)
  show ?case
  proof (cases "s = []")
    case False
    obtain r w where rw: "decode_rune s = (r, w)" by fastforce
    then have "concat (map snd (runes (drop w s))) = drop w s"
      using 1 [OF False refl] by simp
    with rw False show ?thesis by (subst runes.simps) simp
  qed simp
qed

lemma valid_utf8_ascii [go_string]: "ascii s \<Longrightarrow> valid_utf8 s"
  by (auto simp: valid_utf8_def runes_ascii list_all_iff ascii_def RuneError_def)

section \<open>Regular expressions\<close>

text \<open>
  The anchored patterns of the contract packages use character classes, sequence, alternation
  and repetition. \<open>matches r s\<close> is \<open>regexp.MustCompile(r).MatchString(s)\<close> for a pattern
  anchored at both ends, computed by derivatives; \<open>lang\<close> is its meaning.
\<close>

datatype rexp =
    RZero
  | ROne
  | RClass "char \<Rightarrow> bool"
  | RSeq rexp rexp
  | RAlt rexp rexp
  | RStar rexp

definition RPlus :: "rexp \<Rightarrow> rexp" where
  "RPlus r = RSeq r (RStar r)"

definition ROpt :: "rexp \<Rightarrow> rexp" where
  "ROpt r = RAlt ROne r"

definition RChars :: "string \<Rightarrow> rexp" where
  "RChars cs = RClass (\<lambda>c. c \<in> set cs)"

definition RLit :: "string \<Rightarrow> rexp" where
  "RLit s = foldr (\<lambda>c r. RSeq (RClass (\<lambda>d. d = c)) r) s ROne"

fun nullable :: "rexp \<Rightarrow> bool" where
  "nullable RZero = False"
| "nullable ROne = True"
| "nullable (RClass p) = False"
| "nullable (RSeq r s) = (nullable r \<and> nullable s)"
| "nullable (RAlt r s) = (nullable r \<or> nullable s)"
| "nullable (RStar r) = True"

fun deriv :: "char \<Rightarrow> rexp \<Rightarrow> rexp" where
  "deriv c RZero = RZero"
| "deriv c ROne = RZero"
| "deriv c (RClass p) = (if p c then ROne else RZero)"
| "deriv c (RSeq r s) = (if nullable r then RAlt (RSeq (deriv c r) s) (deriv c s) else RSeq (deriv c r) s)"
| "deriv c (RAlt r s) = RAlt (deriv c r) (deriv c s)"
| "deriv c (RStar r) = RSeq (deriv c r) (RStar r)"

fun matches :: "rexp \<Rightarrow> string \<Rightarrow> bool" where
  "matches r [] = nullable r"
| "matches r (c # cs) = matches (deriv c r) cs"

inductive lang :: "rexp \<Rightarrow> string \<Rightarrow> bool" where
  lang_one: "lang ROne []"
| lang_class: "p c \<Longrightarrow> lang (RClass p) [c]"
| lang_seq: "lang r u \<Longrightarrow> lang s v \<Longrightarrow> lang (RSeq r s) (u @ v)"
| lang_alt1: "lang r u \<Longrightarrow> lang (RAlt r s) u"
| lang_alt2: "lang s u \<Longrightarrow> lang (RAlt r s) u"
| lang_star0: "lang (RStar r) []"
| lang_star1: "lang r u \<Longrightarrow> lang (RStar r) v \<Longrightarrow> lang (RStar r) (u @ v)"

inductive_simps lang_zero_iff [simp]: "lang RZero u"
inductive_simps lang_one_iff [simp]: "lang ROne u"
inductive_simps lang_class_iff [simp]: "lang (RClass p) u"
inductive_simps lang_seq_iff: "lang (RSeq r s) u"
inductive_simps lang_alt_iff [simp]: "lang (RAlt r s) u"
inductive_cases lang_starE: "lang (RStar r) u"

lemma nullable_lang: "nullable r \<longleftrightarrow> lang r []"
  by (induction r) (auto simp: lang_seq_iff intro: lang.intros)

lemma lang_seq_Cons:
  "lang (RSeq r s) (c # u) \<longleftrightarrow>
     (\<exists>u1 u2. u = u1 @ u2 \<and> lang r (c # u1) \<and> lang s u2) \<or> lang r [] \<and> lang s (c # u)"
  by (auto simp: lang_seq_iff Cons_eq_append_conv)

lemma lang_star_Cons:
  "lang (RStar r) (c # u) \<longleftrightarrow> (\<exists>u1 u2. u = u1 @ u2 \<and> lang r (c # u1) \<and> lang (RStar r) u2)"
proof
  assume "lang (RStar r) (c # u)"
  then show "\<exists>u1 u2. u = u1 @ u2 \<and> lang r (c # u1) \<and> lang (RStar r) u2"
  proof (induction "RStar r" "c # u" arbitrary: c u rule: lang.induct)
    case (lang_star1 v w)
    then show ?case by (cases v) auto
  qed
next
  assume "\<exists>u1 u2. u = u1 @ u2 \<and> lang r (c # u1) \<and> lang (RStar r) u2"
  then show "lang (RStar r) (c # u)" by (metis append_Cons lang_star1)
qed

lemma deriv_lang: "lang (deriv c r) u \<longleftrightarrow> lang r (c # u)"
proof (induction r arbitrary: u)
  case (RSeq r s)
  have "lang (RSeq (deriv c r) s) u \<longleftrightarrow> (\<exists>u1 u2. u = u1 @ u2 \<and> lang r (c # u1) \<and> lang s u2)"
    by (simp add: lang_seq_iff RSeq.IH(1))
  then show ?case by (simp add: lang_seq_Cons nullable_lang RSeq.IH(2))
next
  case (RStar r)
  then show ?case by (auto simp: lang_seq_iff lang_star_Cons)
qed auto

lemma matches_lang: "matches r s \<longleftrightarrow> lang r s"
  by (induction s arbitrary: r) (auto simp: nullable_lang deriv_lang)

lemma lang_star_class: "lang (RStar (RClass p)) u \<longleftrightarrow> list_all p u"
proof (induction u)
  case Nil
  show ?case by (simp add: lang_star0)
next
  case (Cons c u)
  then show ?case by (auto simp: lang_star_Cons)
qed

text \<open>
  The shape of the name patterns: one end class, then any number of inner characters ended by an
  end-class character.
\<close>

definition name_rexp :: "(char \<Rightarrow> bool) \<Rightarrow> (char \<Rightarrow> bool) \<Rightarrow> rexp" where
  "name_rexp edge inner =
     RSeq (RClass edge) (ROpt (RSeq (RStar (RClass inner)) (RClass edge)))"

lemma matches_name_rexp:
  assumes "\<And>c. edge c \<Longrightarrow> inner c"
  shows "matches (name_rexp edge inner) s \<longleftrightarrow>
    s \<noteq> [] \<and> edge (hd s) \<and> list_all inner s \<and> edge (last s)"
proof -
  have "matches (name_rexp edge inner) s \<longleftrightarrow>
      (\<exists>c u. s = c # u \<and> edge c \<and> (u = [] \<or> (\<exists>v d. u = v @ [d] \<and> list_all inner v \<and> edge d)))"
    unfolding matches_lang name_rexp_def ROpt_def
    by (cases s) (auto simp: lang_seq_Cons lang_seq_iff [of "RStar r" for r] lang_seq_iff [of _ _ "[]"] lang_star_class)
  also have "\<dots> \<longleftrightarrow> s \<noteq> [] \<and> edge (hd s) \<and> list_all inner s \<and> edge (last s)"
  proof (cases s)
    case (Cons c u)
    show ?thesis by (cases u rule: rev_cases) (use Cons assms in auto)
  qed simp
  finally show ?thesis .
qed

end
