(* ===== verification/Net_Addr.thy ===== *)
theory Net_Addr
  imports Go_Strings "HOL-Library.Word"
begin

unbundle bit_operations_syntax

text \<open>
  Go's \<^verbatim>\<open>net/netip\<close> addresses and prefixes, \<^verbatim>\<open>strconv.Atoi\<close> and \<^verbatim>\<open>net.SplitHostPort\<close>, as the
  egress gateway uses them. An address is a 32-bit word, a 128-bit word with an optional zone,
  or the invalid zero value.
\<close>

section \<open>Numbers\<close>

definition digit :: "char \<Rightarrow> bool" where
  "digit c \<longleftrightarrow> 48 \<le> byte c \<and> byte c \<le> 57"

definition digits_val :: "string \<Rightarrow> int" where
  "digits_val s = foldl (\<lambda>v c. v * 10 + (byte c - 48)) 0 s"

text \<open>\<open>strconv.Atoi\<close> on a 64-bit platform: an optional sign, at least one digit, in range.\<close>

definition atoi :: "string \<Rightarrow> int option" where
  "atoi s =
     (let neg = (s \<noteq> [] \<and> hd s = CHR ''-'');
          ds = (if s \<noteq> [] \<and> hd s \<in> {CHR ''-'', CHR ''+''} then tl s else s);
          v = (if neg then - digits_val ds else digits_val ds)
      in if ds = [] \<or> \<not> list_all digit ds then None
         else if v < - (2 ^ 63) \<or> 2 ^ 63 \<le> v then None
         else Some v)"

section \<open>Addresses\<close>

datatype addr = AddrInvalid | V4 "32 word" | V6 "128 word" string

text \<open>One decimal octet: digits only, no leading zero, at most 255.\<close>

definition parse_octet :: "string \<Rightarrow> int option" where
  "parse_octet s =
     (if s = [] \<or> \<not> list_all digit s then None
      else if 1 < length s \<and> hd s = CHR ''0'' then None
      else if 255 < digits_val s then None
      else Some (digits_val s))"

definition parse_ipv4_fields :: "string \<Rightarrow> int list option" where
  "parse_ipv4_fields s =
     (let fs = map parse_octet (split_on (CHR ''.'') s)
      in if length fs = 4 \<and> list_all (\<lambda>f. f \<noteq> None) fs then Some (map the fs) else None)"

definition word_of_groups :: "int \<Rightarrow> int list \<Rightarrow> int" where
  "word_of_groups base gs = foldl (\<lambda>v g. v * base + g) 0 gs"

definition parse_ipv4 :: "string \<Rightarrow> addr option" where
  "parse_ipv4 s =
     (case parse_ipv4_fields s of
        None \<Rightarrow> None
      | Some fs \<Rightarrow> Some (V4 (of_int (word_of_groups 256 fs))))"

definition hex_digit :: "char \<Rightarrow> bool" where
  "hex_digit c \<longleftrightarrow> digit c \<or> 97 \<le> byte c \<and> byte c \<le> 102 \<or> 65 \<le> byte c \<and> byte c \<le> 70"

definition hex_val :: "char \<Rightarrow> int" where
  "hex_val c = (if digit c then byte c - 48 else if 97 \<le> byte c then byte c - 87 else byte c - 55)"

text \<open>
  The group loop of \<open>parseIPv6\<close>: the 16-bit groups read so far and the position of the
  ellipsis. Every round consumes at least one hexadecimal digit.
\<close>

function v6_groups :: "string \<Rightarrow> int list \<Rightarrow> nat option \<Rightarrow> (int list \<times> nat option) option" where
  "v6_groups s gs e =
     (if 8 \<le> length gs then (if s = [] then Some (gs, e) else None)
      else let h = takeWhile hex_digit s; rest = dropWhile hex_digit s in
        if h = [] \<or> 4 < length h then None
        else if rest \<noteq> [] \<and> hd rest = CHR ''.'' then
          (if e = None \<and> length gs \<noteq> 6 \<or> 6 < length gs then None
           else case parse_ipv4_fields s of
               None \<Rightarrow> None
             | Some fs \<Rightarrow> Some (gs @ [fs ! 0 * 256 + fs ! 1, fs ! 2 * 256 + fs ! 3], e))
        else let gs' = gs @ [word_of_groups 16 (map hex_val h)] in
          if rest = [] then Some (gs', e)
          else if hd rest \<noteq> CHR '':'' \<or> tl rest = [] then None
          else if hd (tl rest) = CHR '':'' then
            (if e \<noteq> None then None
             else if tl (tl rest) = [] then Some (gs', Some (length gs'))
             else v6_groups (tl (tl rest)) gs' (Some (length gs')))
          else v6_groups (tl rest) gs' e)"
  by pat_completeness auto
termination
proof (relation "measure (\<lambda>(s, gs, e). length s)", goal_cases)
  case (2 s gs e h rest gs')
  then have "length s = length h + length rest" "0 < length h"
    by (metis length_append takeWhile_dropWhile_id) (use 2 in simp)
  then show ?case by (simp del: length_greater_0_conv)
next
  case (3 s gs e h rest gs')
  then have "length s = length h + length rest" "0 < length h"
    by (metis length_append takeWhile_dropWhile_id) (use 3 in simp)
  then show ?case by (simp del: length_greater_0_conv)
qed simp

declare v6_groups.simps [simp del]

definition expand_groups :: "int list \<Rightarrow> nat option \<Rightarrow> int list option" where
  "expand_groups gs e =
     (if length gs < 8 then
        (case e of None \<Rightarrow> None
         | Some p \<Rightarrow> Some (take p gs @ replicate (8 - length gs) 0 @ drop p gs))
      else if e \<noteq> None then None else Some gs)"

definition parse_ipv6 :: "string \<Rightarrow> addr option" where
  "parse_ipv6 s =
     (let (body, zone) = (case cut_on (CHR ''%'') s of None \<Rightarrow> (s, None) | Some (a, z) \<Rightarrow> (a, Some z));
          lead = prefix ''::'' body;
          body' = (if lead then drop 2 body else body);
          z = (case zone of None \<Rightarrow> [] | Some z \<Rightarrow> z)
      in if zone = Some [] then None
         else if lead \<and> body' = [] then Some (V6 0 z)
         else case v6_groups body' [] (if lead then Some 0 else None) of
             None \<Rightarrow> None
           | Some (gs, e) \<Rightarrow>
               (case expand_groups gs e of
                  None \<Rightarrow> None
                | Some ws \<Rightarrow> Some (V6 (of_int (word_of_groups 65536 ws)) z)))"

text \<open>\<open>netip.ParseAddr\<close>: the first of \<open>.\<close>, \<open>:\<close> and \<open>%\<close> decides.\<close>

definition parse_addr :: "string \<Rightarrow> addr option" where
  "parse_addr s =
     (case find (\<lambda>c. c \<in> set ''.:%'') s of
        None \<Rightarrow> None
      | Some c \<Rightarrow> if c = CHR ''.'' then parse_ipv4 s
                  else if c = CHR '':'' then parse_ipv6 s else None)"

text \<open>\<open>Addr.Unmap\<close>: an IPv4-mapped IPv6 address becomes the IPv4 address, without its zone.\<close>

definition is4in6 :: "addr \<Rightarrow> bool" where
  "is4in6 a = (case a of V6 w z \<Rightarrow> drop_bit 32 w = 65535 | _ \<Rightarrow> False)"

definition unmap :: "addr \<Rightarrow> addr" where
  "unmap a = (case a of V6 w z \<Rightarrow> if is4in6 a then V4 (ucast w) else a | _ \<Rightarrow> a)"

definition is4 :: "addr \<Rightarrow> bool" where
  "is4 a = (case a of V4 w \<Rightarrow> True | _ \<Rightarrow> False)"

definition zone_of :: "addr \<Rightarrow> string" where
  "zone_of a = (case a of V6 w z \<Rightarrow> z | _ \<Rightarrow> [])"

text \<open>The predicates of \<^verbatim>\<open>netip.Addr\<close>, written on the leading bits of the address.\<close>

definition is_unspecified :: "addr \<Rightarrow> bool" where
  "is_unspecified a = (case a of V4 w \<Rightarrow> w = 0 | V6 w z \<Rightarrow> w = 0 \<and> z = [] | AddrInvalid \<Rightarrow> False)"

definition is_loopback :: "addr \<Rightarrow> bool" where
  "is_loopback a =
     (case unmap a of V4 w \<Rightarrow> drop_bit 24 w = 127 | V6 w z \<Rightarrow> w = 1 | AddrInvalid \<Rightarrow> False)"

definition is_private :: "addr \<Rightarrow> bool" where
  "is_private a =
     (case unmap a of
        V4 w \<Rightarrow> drop_bit 24 w = 10 \<or> drop_bit 20 w = 2753 \<or> drop_bit 16 w = 49320
      | V6 w z \<Rightarrow> drop_bit 121 w = 126
      | AddrInvalid \<Rightarrow> False)"

definition is_link_local_unicast :: "addr \<Rightarrow> bool" where
  "is_link_local_unicast a =
     (case unmap a of
        V4 w \<Rightarrow> drop_bit 16 w = 43518 | V6 w z \<Rightarrow> drop_bit 118 w = 1018 | AddrInvalid \<Rightarrow> False)"

definition is_link_local_multicast :: "addr \<Rightarrow> bool" where
  "is_link_local_multicast a =
     (case unmap a of
        V4 w \<Rightarrow> drop_bit 8 w = 14680064
      | V6 w z \<Rightarrow> drop_bit 112 w AND 65295 = 65282
      | AddrInvalid \<Rightarrow> False)"

definition is_multicast :: "addr \<Rightarrow> bool" where
  "is_multicast a =
     (case unmap a of V4 w \<Rightarrow> drop_bit 28 w = 14 | V6 w z \<Rightarrow> drop_bit 120 w = 255 | AddrInvalid \<Rightarrow> False)"

section \<open>Prefixes\<close>

record prefix_t =
  pfx_addr :: addr
  pfx_bits :: nat

definition last_slash :: "string \<Rightarrow> (string \<times> string) option" where
  "last_slash s =
     (case cut_on (CHR ''/'') (rev s) of None \<Rightarrow> None | Some (a, b) \<Rightarrow> Some (rev b, rev a))"

text \<open>\<open>netip.ParsePrefix\<close>: an address without a zone, a slash, and a length without sign or leading zero.\<close>

definition parse_prefix :: "string \<Rightarrow> prefix_t option" where
  "parse_prefix s =
     (case last_slash s of
        None \<Rightarrow> None
      | Some (a, b) \<Rightarrow>
          (case parse_addr a of
             None \<Rightarrow> None
           | Some ip \<Rightarrow>
               if zone_of ip \<noteq> [] then None
               else if 1 < length b \<and> \<not> (49 \<le> byte (hd b) \<and> byte (hd b) \<le> 57) then None
               else (case atoi b of
                   None \<Rightarrow> None
                 | Some n \<Rightarrow>
                     if n < 0 \<or> (if is4 ip then 32 else 128) < n then None
                     else Some \<lparr>pfx_addr = ip, pfx_bits = nat n\<rparr>)))"

definition masked :: "prefix_t \<Rightarrow> prefix_t" where
  "masked p =
     (case pfx_addr p of
        V4 w \<Rightarrow> p\<lparr>pfx_addr := V4 (push_bit (32 - pfx_bits p) (drop_bit (32 - pfx_bits p) w))\<rparr>
      | V6 w z \<Rightarrow> p\<lparr>pfx_addr := V6 (push_bit (128 - pfx_bits p) (drop_bit (128 - pfx_bits p) w)) []\<rparr>
      | AddrInvalid \<Rightarrow> p)"

text \<open>\<open>Prefix.Contains\<close>: same family, no zone, and the leading bits agree.\<close>

definition prefix_contains :: "prefix_t \<Rightarrow> addr \<Rightarrow> bool" where
  "prefix_contains p a =
     (case (pfx_addr p, a) of
        (V4 w, V4 v) \<Rightarrow> drop_bit (32 - pfx_bits p) (w XOR v) = 0
      | (V6 w z, V6 v y) \<Rightarrow> y = [] \<and> drop_bit (128 - pfx_bits p) (w XOR v) = 0
      | _ \<Rightarrow> False)"

lemma unmap_V4 [simp]: "unmap (V4 w) = V4 w"
  by (simp add: unmap_def)

lemma unmap_idem [simp]: "unmap (unmap a) = unmap a"
  by (cases a) (auto simp: unmap_def is4in6_def)

lemma unmap_not4in6 [simp]: "\<not> is4in6 (unmap a)"
  by (cases a) (auto simp: unmap_def is4in6_def)

lemma is4_unmap: "is4 (unmap a) \<longleftrightarrow> is4 a \<or> is4in6 a"
  by (cases a) (auto simp: unmap_def is4in6_def is4_def)

lemma prefix_contains_V4:
  "prefix_contains \<lparr>pfx_addr = V4 w, pfx_bits = b\<rparr> (V4 v) \<longleftrightarrow> drop_bit (32 - b) w = drop_bit (32 - b) v"
proof -
  have "drop_bit (32 - b) (w XOR v) = drop_bit (32 - b) w XOR drop_bit (32 - b) v"
    by (simp add: bit_eq_iff bit_simps)
  also have "\<dots> = 0 \<longleftrightarrow> drop_bit (32 - b) w = drop_bit (32 - b) v"
    by (auto simp: bit_eq_iff bit_simps)
  finally show ?thesis by (simp add: prefix_contains_def)
qed

text \<open>Without a colon or a percent sign only the IPv4 syntax can be an address.\<close>

lemma parse_addr_plain:
  assumes "CHR '':'' \<notin> set s" "CHR ''%'' \<notin> set s"
  shows "parse_addr s = (if CHR ''.'' \<in> set s then parse_ipv4 s else None)"
proof (cases "find (\<lambda>c. c \<in> set ''.:%'') s")
  case None
  then have "CHR ''.'' \<notin> set s" by (auto simp: find_None_iff)
  then show ?thesis unfolding parse_addr_def None by simp
next
  case (Some c)
  then have "c \<in> set s" "c \<in> set ''.:%''" by (auto dest: find_Some_set)
  with assms have "c = CHR ''.''" by auto
  with \<open>c \<in> set s\<close> show ?thesis unfolding parse_addr_def Some by simp
qed

lemma cut_on_None: "cut_on d s = None \<longleftrightarrow> d \<notin> set s"
  by (induction s) (auto split: option.splits)

lemma parse_addr_zone:
  assumes "CHR ''%'' \<notin> set s" "parse_addr s = Some a"
  shows "zone_of a = []"
  using assms
  by (auto simp: parse_addr_def parse_ipv4_def parse_ipv6_def zone_of_def Let_def
      cut_on_None [THEN iffD2] split: option.splits if_splits prod.splits)

end
