(* ===== verification/Domain_Policy.thy ===== *)
theory Domain_Policy
  imports Net_Addr
begin

text \<open>
  The administrator's DNS reachability policy. It is implemented twice: by the egress gateway
  (\<^verbatim>\<open>egressd/internal/egress/domain_policy.go\<close>), which decides every CONNECT, and by the
  resolved-run contract (\<^verbatim>\<open>protocol/resolvedrun/validation.go\<close>), which admits a run's
  configuration. Both are modelled here, the laws they share are a locale, and the two are shown
  to agree.
\<close>

section \<open>The policy and its two implementations\<close>

record DomainPolicy =
  DefaultAction :: string
  Allow :: "string list"
  Deny :: "string list"

datatype domain_policy_error =
    InvalidDefaultAction
  | TooManyEntries
  | InvalidEntry string nat
  | DuplicateEntry string nat

definition maxDomainPolicyEntries :: nat where
  "maxDomainPolicyEntries = 256"

text \<open>The bytes \<open>/\@?#:\<close>, space, tab, carriage return, newline and \<open>%\<close>.\<close>

definition domain_forbidden :: string where
  "domain_forbidden = ''/'' @ [CHR 0x5C] @ ''@?#: '' @ [CHR 0x09, CHR 0x0D, CHR 0x0A] @ ''%''"

definition dns_label :: "string \<Rightarrow> bool" where
  "dns_label l \<longleftrightarrow>
     \<not> (length l = 0 \<or> 63 < length l \<or> hd l = CHR ''-'' \<or> last l = CHR ''-'') \<and>
     list_all (\<lambda>c. lowerAlphaNumeric c \<or> c = CHR ''-'') l"

definition normalizeDomainName :: "string \<Rightarrow> string option" where
  "normalizeDomainName value =
     (if value = [] \<or> value \<noteq> trim_space value \<or> contains_any value domain_forbidden then None
      else let v = to_lower (trim_suffix value ''.'') in
        if parse_addr v \<noteq> None then None
        else if v = [] \<or> 253 < length v then None
        else if list_all dns_label (split_on (CHR ''.'') v) then Some v
        else None)"

definition domainRuleMatches :: "string \<Rightarrow> string \<Rightarrow> bool" where
  "domainRuleMatches host rule \<longleftrightarrow> host = rule \<or> suffix (''.'' @ rule) host"

text \<open>The error value of a failed normalisation carries the empty string.\<close>

definition normalized_or_empty :: "string option \<Rightarrow> string" where
  "normalized_or_empty r = (case r of None \<Rightarrow> [] | Some v \<Rightarrow> v)"

fun validate_entries :: "string \<Rightarrow> nat \<Rightarrow> string list \<Rightarrow> string list \<Rightarrow> domain_policy_error option" where
  "validate_entries name index seen [] = None"
| "validate_entries name index seen (value # values) =
     (case normalizeDomainName value of
        None \<Rightarrow> Some (InvalidEntry name index)
      | Some normalized \<Rightarrow>
          if normalized \<in> set seen then Some (DuplicateEntry name index)
          else validate_entries name (Suc index) (normalized # seen) values)"

definition Validate :: "DomainPolicy \<Rightarrow> domain_policy_error option" where
  "Validate p =
     (if DefaultAction p \<noteq> ''allow'' \<and> DefaultAction p \<noteq> ''deny'' then Some InvalidDefaultAction
      else if maxDomainPolicyEntries < length (Allow p) \<or> maxDomainPolicyEntries < length (Deny p)
      then Some TooManyEntries
      else case validate_entries ''allow'' 0 [] (Allow p) of
          Some e \<Rightarrow> Some e
        | None \<Rightarrow> validate_entries ''deny'' 0 [] (Deny p))"

definition Decide :: "DomainPolicy \<Rightarrow> string \<Rightarrow> bool \<times> string" where
  "Decide p host =
     (case normalizeDomainName host of
        None \<Rightarrow>
          if DefaultAction p = ''deny'' then (False, ''domain_name_unavailable'')
          else (True, ''domain_default_allow'')
      | Some normalized \<Rightarrow>
          if list_ex (\<lambda>rule. domainRuleMatches normalized (normalized_or_empty (normalizeDomainName rule)))
               (Deny p)
          then (False, ''domain_deny_rule'')
          else if list_ex (\<lambda>rule. domainRuleMatches normalized (normalized_or_empty (normalizeDomainName rule)))
               (Allow p)
          then (True, ''domain_allow_rule'')
          else if DefaultAction p = ''allow'' then (True, ''domain_default_allow'')
          else (False, ''domain_default_deny''))"

text \<open>\<open>net.ParseIP(v) != nil\<close>: an address without a zone.\<close>

definition net_parse_ip :: "string \<Rightarrow> bool" where
  "net_parse_ip v = (case parse_addr v of None \<Rightarrow> False | Some a \<Rightarrow> zone_of a = [])"

definition normalizedDomainPolicyEntry :: "string \<Rightarrow> string option" where
  "normalizedDomainPolicyEntry value =
     (if value = [] \<or> value \<noteq> trim_space value \<or> 254 < length value \<or>
         contains_any value domain_forbidden then None
      else let v = to_lower (trim_suffix value ''.'') in
        if net_parse_ip v then None
        else if v = [] \<or> 253 < length v then None
        else if list_all dns_label (split_on (CHR ''.'') v) then Some v
        else None)"

definition maxGrantValues :: nat where
  "maxGrantValues = 256"

fun policy_entries_ok :: "string list \<Rightarrow> string list \<Rightarrow> bool" where
  "policy_entries_ok seen [] = True"
| "policy_entries_ok seen (entry # entries) =
     (case normalizedDomainPolicyEntry entry of
        None \<Rightarrow> False
      | Some normalized \<Rightarrow>
          if normalized \<in> set seen then False
          else policy_entries_ok (normalized # seen) entries)"

definition validateDomainPolicy :: "DomainPolicy option \<Rightarrow> bool" where
  "validateDomainPolicy policy =
     (case policy of
        None \<Rightarrow> True
      | Some p \<Rightarrow>
          if DefaultAction p \<noteq> ''allow'' \<and> DefaultAction p \<noteq> ''deny'' then False
          else if maxGrantValues < length (Allow p) \<or> maxGrantValues < length (Deny p) then False
          else policy_entries_ok [] (Allow p) \<and> policy_entries_ok [] (Deny p))"

definition domainPolicyAllows :: "DomainPolicy \<Rightarrow> string \<Rightarrow> bool" where
  "domainPolicyAllows p host =
     (case normalizedDomainPolicyEntry host of
        None \<Rightarrow> DefaultAction p = ''allow''
      | Some normalized \<Rightarrow>
          if list_ex (\<lambda>rule.
               let r = normalized_or_empty (normalizedDomainPolicyEntry rule)
               in normalized = r \<or> suffix (''.'' @ r) normalized) (Deny p)
          then False
          else if list_ex (\<lambda>rule.
               let r = normalized_or_empty (normalizedDomainPolicyEntry rule)
               in normalized = r \<or> suffix (''.'' @ r) normalized) (Allow p)
          then True
          else DefaultAction p = ''allow'')"

section \<open>Characters and labels of normalised names\<close>

definition labels :: "string \<Rightarrow> string list" where
  "labels s = split_on (CHR ''.'') s"

lemma lower_byte: "lowerAlphaNumeric c \<Longrightarrow> 48 \<le> byte c \<and> byte c \<le> 122 \<and> \<not> (65 \<le> byte c \<and> byte c \<le> 90)"
  by (auto simp: lowerAlphaNumeric_def)

lemma byte_dash [simp]: "byte (CHR ''-'') = 45" and byte_dot [simp]: "byte (CHR ''.'') = 46"
  by (simp_all add: byte_def)

definition name_char :: "char \<Rightarrow> bool" where
  "name_char c \<longleftrightarrow> lowerAlphaNumeric c \<or> c = CHR ''-'' \<or> c = CHR ''.''"

lemma name_char_byte: "name_char c \<Longrightarrow> 45 \<le> byte c \<and> byte c \<le> 122 \<and> \<not> (65 \<le> byte c \<and> byte c \<le> 90)"
  by (auto simp: name_char_def dest: lower_byte)

lemma labels_name_chars: "list_all dns_label (labels s) \<Longrightarrow> list_all name_char s"
  using split_on_set [of "CHR ''.''" s]
  by (auto simp: labels_def list_all_iff dns_label_def name_char_def)

lemma name_char_ascii: "list_all name_char s \<Longrightarrow> ascii s"
  by (fastforce simp: ascii_def list_all_iff dest: name_char_byte)

lemma trim_space_id:
  assumes "ascii s" "\<And>c. c \<in> set s \<Longrightarrow> \<not> is_space (byte c)"
  shows "trim_space s = s"
proof -
  have d: "dropWhile (\<lambda>(r, _). is_space r) (map (\<lambda>c. (byte c, [c])) xs) = map (\<lambda>c. (byte c, [c])) xs"
    if "set xs \<subseteq> set s" for xs
    using that assms(2) by (cases xs) auto
  have "rev (map (\<lambda>c. (byte c, [c])) s) = map (\<lambda>c. (byte c, [c])) (rev s)"
    by (simp add: rev_map)
  then show ?thesis
    using d [of s] d [of "rev s"] assms(1)
    by (simp add: trim_space_def runes_ascii rev_map comp_def)
qed

lemma name_char_not_space: "name_char c \<Longrightarrow> \<not> is_space (byte c)"
  by (drule name_char_byte) (auto simp: is_space_def)

lemma to_lower_id:
  assumes "ascii s" "\<And>c. c \<in> set s \<Longrightarrow> \<not> (65 \<le> byte c \<and> byte c \<le> 90)"
  shows "to_lower s = s"
proof -
  have "lower_rune (byte c, [c]) = [c]" if "c \<in> set s" for c
    using assms that by (auto simp: lower_rune_def ascii_def list_all_iff)
  then have "map (\<lambda>c. lower_rune (byte c, [c])) s = map (\<lambda>c. [c]) s" by simp
  then have "concat (map (\<lambda>c. lower_rune (byte c, [c])) s) = s" by (simp only: concat_map_singleton) simp
  then show ?thesis using assms(1) by (simp add: to_lower_def runes_ascii comp_def)
qed

lemma forbidden_not_name_char: "list_all (\<lambda>c. \<not> name_char c) domain_forbidden"
  by code_simp

lemma name_char_no_forbidden: "list_all name_char s \<Longrightarrow> \<not> contains_any s domain_forbidden"
  using forbidden_not_name_char by (auto simp: contains_any_def list_ex_iff list_all_iff)

lemma labels_last_nonempty:
  assumes "list_all dns_label (labels s)"
  shows "\<not> suffix ''.'' s"
proof
  assume "suffix ''.'' s"
  then obtain t where s: "s = t @ ''.''" by (auto simp: suffix_def)
  have "[] \<in> set (labels s)" by (simp add: s labels_def split_on_append_sep)
  with assms show False by (auto simp: list_all_iff dns_label_def)
qed

section \<open>The contract of a normalisation\<close>

text \<open>A rule covers a host when the labels of the rule are the last labels of the host.\<close>

definition covers :: "(string \<Rightarrow> string option) \<Rightarrow> string \<Rightarrow> string \<Rightarrow> bool" where
  "covers norm_of rule host =
     (case (norm_of rule, norm_of host) of
        (Some r, Some h) \<Rightarrow> suffix (labels r) (labels h)
      | _ \<Rightarrow> False)"

text \<open>
  The abstract policy: an unavailable name follows the default action; otherwise no deny rule may
  cover the host, and some allow rule must unless the default is to allow.
\<close>

definition policy_permits :: "(string \<Rightarrow> string option) \<Rightarrow> DomainPolicy \<Rightarrow> string \<Rightarrow> bool" where
  "policy_permits norm_of p host \<longleftrightarrow>
     (if norm_of host = None then DefaultAction p \<noteq> ''deny''
      else \<not> list_ex (\<lambda>rule. covers norm_of rule host) (Deny p) \<and>
           (list_ex (\<lambda>rule. covers norm_of rule host) (Allow p) \<or> DefaultAction p = ''allow''))"

lemma match_iff_labels: "domainRuleMatches host rule \<longleftrightarrow> suffix (labels rule) (labels host)"
proof
  assume "domainRuleMatches host rule"
  then consider "host = rule" | t where "host = t @ CHR ''.'' # rule"
    by (auto simp: domainRuleMatches_def suffix_def)
  then show "suffix (labels rule) (labels host)"
    by cases (auto simp: labels_def split_on_append_sep suffix_def)
next
  assume "suffix (labels rule) (labels host)"
  then obtain ws where ws: "labels host = ws @ labels rule" by (auto simp: suffix_def)
  have h: "join_with ''.'' (labels host) = host" and r: "join_with ''.'' (labels rule) = rule"
    by (simp_all add: labels_def join_split)
  show "domainRuleMatches host rule"
  proof (cases "ws = []")
    case True
    with ws h r have "host = rule" by (metis append_Nil)
    then show ?thesis by (simp add: domainRuleMatches_def)
  next
    case False
    have "labels rule \<noteq> []" by (simp add: labels_def)
    with False ws h r have "host = join_with ''.'' ws @ ''.'' @ rule"
      by (metis join_append)
    then show ?thesis by (auto simp: domainRuleMatches_def suffix_def)
  qed
qed

locale domain_normalisation =
  fixes norm_of :: "string \<Rightarrow> string option"
  assumes normalize_labels: "norm_of v = Some n \<Longrightarrow> list_all dns_label (labels n)"
    and normalize_idem: "norm_of v = Some n \<Longrightarrow> norm_of n = Some n"
begin

lemma rule_match:
  assumes "norm_of host = Some h"
  shows "domainRuleMatches h (normalized_or_empty (norm_of rule)) \<longleftrightarrow> covers norm_of rule host"
proof (cases "norm_of rule")
  case None
  have "last (labels h) \<noteq> []"
    using normalize_labels [OF assms]
    by (simp add: list_all_iff dns_label_def labels_def)
  then have "\<not> suffix [[]] (labels h)" by (auto simp: suffix_def)
  with None show ?thesis
    by (simp add: match_iff_labels normalized_or_empty_def covers_def labels_def)
next
  case (Some r)
  with assms show ?thesis
    by (simp add: match_iff_labels normalized_or_empty_def covers_def)
qed

lemma covers_self: "norm_of v = Some n \<Longrightarrow> covers norm_of v v"
  by (simp add: covers_def)

lemma covers_trans: "covers norm_of a b \<Longrightarrow> covers norm_of b c \<Longrightarrow> covers norm_of a c"
  by (auto simp: covers_def split: option.splits intro: suffix_order.trans)

lemma covers_normalised:
  "norm_of v = Some n \<Longrightarrow> covers norm_of rule n \<longleftrightarrow> covers norm_of rule v"
  by (simp add: covers_def normalize_idem)

lemma permits_normalised:
  "norm_of v = Some n \<Longrightarrow> policy_permits norm_of p n \<longleftrightarrow> policy_permits norm_of p v"
  by (simp add: policy_permits_def normalize_idem covers_normalised)

text \<open>Widening a deny list, or narrowing an allow list, never opens a destination.\<close>

lemma permits_antimono:
  assumes "policy_permits norm_of p host" "DefaultAction p = DefaultAction q"
    and "set (Deny q) \<subseteq> set (Deny p)" "set (Allow p) \<subseteq> set (Allow q)"
  shows "policy_permits norm_of q host"
  using assms by (auto simp: policy_permits_def list_ex_iff split: if_splits)

end

section \<open>Both implementations satisfy the contract\<close>

lemma normalizeDomainName_Some:
  assumes "normalizeDomainName v = Some n"
  shows "list_all dns_label (labels n) \<and> n \<noteq> [] \<and> length n \<le> 253 \<and> parse_addr n = None"
  using assms by (auto simp: normalizeDomainName_def labels_def Let_def split: if_splits)

lemma normalised_fixed:
  assumes "list_all dns_label (labels n)" "n \<noteq> []"
  shows "trim_space n = n" "to_lower (trim_suffix n ''.'') = n" "\<not> contains_any n domain_forbidden"
proof -
  have nc: "list_all name_char n" using assms(1) by (rule labels_name_chars)
  then have a: "ascii n" by (rule name_char_ascii)
  show "trim_space n = n"
    using nc a by (intro trim_space_id) (auto simp: list_all_iff dest: name_char_not_space)
  have "to_lower n = n"
    using nc a by (intro to_lower_id) (fastforce simp: list_all_iff dest: name_char_byte)+
  then show "to_lower (trim_suffix n ''.'') = n"
    using labels_last_nonempty [OF assms(1)] by (simp add: trim_suffix_def)
  show "\<not> contains_any n domain_forbidden" using nc by (rule name_char_no_forbidden)
qed

lemma normalizeDomainName_idem:
  assumes "normalizeDomainName v = Some n"
  shows "normalizeDomainName n = Some n"
  using normalizeDomainName_Some [OF assms] normalised_fixed [of n]
  by (simp add: normalizeDomainName_def labels_def)

text \<open>After the forbidden bytes are gone, both IP-literal tests see the same literals.\<close>

lemma net_parse_ip_eq:
  assumes "CHR ''%'' \<notin> set v"
  shows "net_parse_ip v \<longleftrightarrow> parse_addr v \<noteq> None"
  using parse_addr_zone [OF assms] by (auto simp: net_parse_ip_def split: option.splits)

lemma percent_to_lower:
  assumes "CHR ''%'' \<in> set (to_lower s)"
  shows "CHR ''%'' \<in> set s"
proof -
  from assms obtain r bs where rb: "(r, bs) \<in> set (runes s)" "CHR ''%'' \<in> set (lower_rune (r, bs))"
    by (auto simp: to_lower_def)
  have "char_of (r + 32) \<noteq> CHR ''%''" if "65 \<le> r" "r \<le> 90"
  proof
    assume "char_of (r + 32) = CHR ''%''"
    then have "of_char (char_of (r + 32)) = (37 :: int)" by simp
    with that show False by (simp add: of_char_of)
  qed
  with rb(2) have "CHR ''%'' \<in> set bs" by (auto simp: lower_rune_def split: if_splits)
  then have "CHR ''%'' \<in> set (concat (map snd (runes s)))" using rb(1) by force
  then show ?thesis by (simp add: runes_bytes)
qed

lemma entry_eq:
  "normalizedDomainPolicyEntry v = (if 254 < length v then None else normalizeDomainName v)"
proof (cases "contains_any v domain_forbidden")
  case True
  then show ?thesis by (simp add: normalizedDomainPolicyEntry_def normalizeDomainName_def)
next
  case False
  then have "CHR ''%'' \<notin> set v"
    by (auto simp: contains_any_iff domain_forbidden_def)
  then have "CHR ''%'' \<notin> set (to_lower (trim_suffix v ''.''))"
    using percent_to_lower trim_suffix_subset by blast
  then show ?thesis
    by (simp add: normalizedDomainPolicyEntry_def normalizeDomainName_def Let_def net_parse_ip_eq)
qed

lemma length_to_lower_ascii: "ascii s \<Longrightarrow> length (to_lower s) = length s"
proof -
  assume a: "ascii s"
  have "length (lower_rune (byte c, [c])) = 1" for c by (simp add: lower_rune_def)
  then have "length (concat (map (\<lambda>c. lower_rune (byte c, [c])) s)) = length s"
    by (induction s) auto
  with a show ?thesis by (simp add: to_lower_def runes_ascii comp_def)
qed

lemma entry_eq_ascii:
  assumes "ascii v"
  shows "normalizedDomainPolicyEntry v = normalizeDomainName v"
proof (cases "normalizeDomainName v")
  case None
  then show ?thesis by (simp add: entry_eq)
next
  case (Some n)
  then have n: "n = to_lower (trim_suffix v ''.'')" "length n \<le> 253"
    using normalizeDomainName_Some [OF Some]
    by (auto simp: normalizeDomainName_def Let_def split: if_splits)
  have "ascii (trim_suffix v ''.'')"
    using assms trim_suffix_subset [of v "''.''"] by (auto simp: ascii_def list_all_iff)
  then have "length (trim_suffix v ''.'') \<le> 253"
    using n length_to_lower_ascii by metis
  then have "length v \<le> 254" by (auto simp: trim_suffix_def split: if_splits)
  then show ?thesis by (simp add: entry_eq)
qed

interpretation egress_names: domain_normalisation normalizeDomainName
  by unfold_locales (use normalizeDomainName_Some normalizeDomainName_idem in blast)+

interpretation contract_names: domain_normalisation normalizedDomainPolicyEntry
proof unfold_locales
  fix v n
  assume a: "normalizedDomainPolicyEntry v = Some n"
  then have n: "normalizeDomainName v = Some n" by (simp add: entry_eq split: if_splits)
  then show "list_all dns_label (labels n)" using normalizeDomainName_Some by blast
  from n have "length n \<le> 253" using normalizeDomainName_Some by blast
  then show "normalizedDomainPolicyEntry n = Some n"
    using normalizeDomainName_idem [OF n] by (simp add: entry_eq)
qed

lemma validate_entries_ok:
  "validate_entries name i seen es = None \<longleftrightarrow>
     list_all (\<lambda>e. normalizeDomainName e \<noteq> None) es \<and>
     distinct (map (\<lambda>e. the (normalizeDomainName e)) es) \<and>
     (\<lambda>e. the (normalizeDomainName e)) ` set es \<inter> set seen = {}"
  by (induction es arbitrary: i seen) (auto split: option.splits)

lemma policy_entries_ok_iff:
  "policy_entries_ok seen es \<longleftrightarrow>
     list_all (\<lambda>e. normalizedDomainPolicyEntry e \<noteq> None) es \<and>
     distinct (map (\<lambda>e. the (normalizedDomainPolicyEntry e)) es) \<and>
     (\<lambda>e. the (normalizedDomainPolicyEntry e)) ` set es \<inter> set seen = {}"
  by (induction es arbitrary: seen) (auto split: option.splits)

lemma policy_entries_egress:
  assumes "policy_entries_ok [] es"
  shows "validate_entries name i [] es = None"
proof -
  have eq: "normalizedDomainPolicyEntry e = normalizeDomainName e" if "e \<in> set es" for e
    using assms that by (auto simp: policy_entries_ok_iff list_all_iff entry_eq)
  then have "map (\<lambda>e. the (normalizedDomainPolicyEntry e)) es = map (\<lambda>e. the (normalizeDomainName e)) es"
    by simp
  with assms eq show ?thesis
    by (simp add: policy_entries_ok_iff validate_entries_ok list_all_iff)
qed

lemma Decide_permits: "fst (Decide p host) \<longleftrightarrow> policy_permits normalizeDomainName p host"
  by (auto simp: Decide_def policy_permits_def egress_names.rule_match list_ex_iff
      split: option.splits)

lemma Allows_permits:
  assumes "DefaultAction p = ''allow'' \<or> DefaultAction p = ''deny''"
  shows "domainPolicyAllows p host \<longleftrightarrow> policy_permits normalizedDomainPolicyEntry p host"
proof (cases "normalizedDomainPolicyEntry host")
  case None
  with assms show ?thesis by (auto simp: domainPolicyAllows_def policy_permits_def)
next
  case (Some h)
  have "domainPolicyAllows p host \<longleftrightarrow>
      \<not> list_ex (\<lambda>rule. covers normalizedDomainPolicyEntry rule host) (Deny p) \<and>
      (list_ex (\<lambda>rule. covers normalizedDomainPolicyEntry rule host) (Allow p) \<or>
       DefaultAction p = ''allow'')"
    unfolding domainPolicyAllows_def Some Let_def domainRuleMatches_def [symmetric]
      option.case contract_names.rule_match [OF Some] by simp
  with Some show ?thesis by (simp add: policy_permits_def)
qed

end
