(* ===== verification/Go_JSON.thy ===== *)
theory Go_JSON
  imports Net_Addr
begin

text \<open>
  What the contract packages use of Go's \<^verbatim>\<open>encoding/json\<close>: the lexer and parser of a document into
  a value tree (with \<^verbatim>\<open>UseNumber\<close>, so a number is its literal), the decoding of a tree into a Go
  struct with \<^verbatim>\<open>DisallowUnknownFields\<close>, and the encoder with its HTML escaping. An object keeps,
  for each member, the raw text of the value, which is what a \<^verbatim>\<open>json.RawMessage\<close> field receives.
\<close>

section \<open>Code points and hexadecimal\<close>

text \<open>\<open>utf8.AppendRune\<close>: a surrogate or an out-of-range value is encoded as U+FFFD.\<close>

definition encode_rune :: "int \<Rightarrow> string" where
  "encode_rune r0 =
     (let r = (if r0 < 0 \<or> 1114111 < r0 \<or> 55296 \<le> r0 \<and> r0 \<le> 57343 then RuneError else r0)
      in if r < 128 then [char_of r]
         else if r < 2048 then [char_of (192 + r div 64), char_of (128 + r mod 64)]
         else if r < 65536 then
           [char_of (224 + r div 4096), char_of (128 + r div 64 mod 64), char_of (128 + r mod 64)]
         else
           [char_of (240 + r div 262144), char_of (128 + r div 4096 mod 64),
            char_of (128 + r div 64 mod 64), char_of (128 + r mod 64)])"

definition hex4 :: "string \<Rightarrow> int option" where
  "hex4 s = (if length s = 4 \<and> list_all hex_digit s then Some (foldl (\<lambda>v c. v * 16 + hex_val c) 0 s) else None)"

definition hex_char :: "int \<Rightarrow> char" where
  "hex_char v = (if v < 10 then char_of (48 + v) else char_of (87 + v))"

section \<open>String literals\<close>

text \<open>
  \<open>unquoteBytes\<close> on the text between the quotes: escapes are resolved, a lone surrogate escape
  and every ill-formed byte become U+FFFD. \<open>None\<close> is a literal the scanner rejects.
\<close>

definition simple_escape :: "char \<Rightarrow> char option" where
  "simple_escape c =
     (if c \<in> {CHR 0x22, CHR 0x5C, CHR ''/''} then Some c
      else if c = CHR ''b'' then Some (CHR 0x08)
      else if c = CHR ''f'' then Some (CHR 0x0C)
      else if c = CHR ''n'' then Some (CHR 0x0A)
      else if c = CHR ''r'' then Some (CHR 0x0D)
      else if c = CHR ''t'' then Some (CHR 0x09)
      else None)"

definition is_surrogate :: "int \<Rightarrow> bool" where
  "is_surrogate r \<longleftrightarrow> 55296 \<le> r \<and> r < 57344"

text \<open>The second half of a surrogate pair at the front of the rest, as \<open>utf16.DecodeRune\<close> reads it.\<close>

definition surrogate_pair :: "int \<Rightarrow> string \<Rightarrow> int option" where
  "surrogate_pair r1 rest =
     (if 55296 \<le> r1 \<and> r1 < 56320 \<and> take 2 rest = [CHR 0x5C, CHR ''u''] then
        (case hex4 (take 4 (drop 2 rest)) of
           Some r2 \<Rightarrow> if 56320 \<le> r2 \<and> r2 < 57344
                     then Some ((r1 - 55296) * 1024 + (r2 - 56320) + 65536) else None
         | None \<Rightarrow> None)
      else None)"

function unquote :: "string \<Rightarrow> string option" where
  "unquote [] = Some []"
| "unquote (c # cs) =
     (if c = CHR 0x5C then
        (case cs of
           [] \<Rightarrow> None
         | e # es \<Rightarrow>
             if e = CHR ''u'' then
               (case hex4 (take 4 es) of
                  None \<Rightarrow> None
                | Some r \<Rightarrow>
                    (case surrogate_pair r (drop 4 es) of
                       Some r2 \<Rightarrow> map_option ((@) (encode_rune r2)) (unquote (drop 10 es))
                     | None \<Rightarrow> map_option ((@) (encode_rune r)) (unquote (drop 4 es))))
             else case simple_escape e of
                 None \<Rightarrow> None
               | Some d \<Rightarrow> map_option ((#) d) (unquote es))
      else if byte c < 32 \<or> c = CHR 0x22 then None
      else let (r, w) = decode_rune (c # cs)
           in map_option ((@) (encode_rune r)) (unquote (drop w (c # cs))))"
  by pat_completeness auto
termination
proof (relation "measure length", goal_cases)
  case (5 c cs x r w)
  then have "0 < w" using decode_rune_width by (metis snd_conv)
  then show ?case by simp
qed auto

declare unquote.simps(2) [simp del]

section \<open>Tokens\<close>

text \<open>
  A token is a punctuation character, a string literal or a word (a number or a literal name),
  with the white space before it. The scanner reads the document byte by byte.
\<close>

datatype token = TPunct char | TString string | TWord string

datatype lex_mode = LexStart | LexWord string | LexString string bool

definition json_space :: "char \<Rightarrow> bool" where
  "json_space c \<longleftrightarrow> c \<in> {CHR '' '', CHR 0x09, CHR 0x0A, CHR 0x0D}"

definition json_punct :: "char \<Rightarrow> bool" where
  "json_punct c \<longleftrightarrow> c \<in> set ''{}[]:,''"

text \<open>Words and string bodies are gathered in reverse; the white space as well.\<close>

fun lex :: "lex_mode \<Rightarrow> string \<Rightarrow> string \<Rightarrow> (string \<times> token) list option" where
  "lex LexStart ws [] = Some []"
| "lex (LexWord acc) ws [] = Some [(rev ws, TWord (rev acc))]"
| "lex (LexString acc esc) ws [] = None"
| "lex (LexString acc esc) ws (c # cs) =
     (if esc then lex (LexString (c # acc) False) ws cs
      else if c = CHR 0x5C then lex (LexString (c # acc) True) ws cs
      else if c = CHR 0x22 then map_option ((#) (rev ws, TString (rev acc))) (lex LexStart [] cs)
      else lex (LexString (c # acc) False) ws cs)"
| "lex LexStart ws (c # cs) =
     (if json_space c then lex LexStart (c # ws) cs
      else if json_punct c then map_option ((#) (rev ws, TPunct c)) (lex LexStart [] cs)
      else if c = CHR 0x22 then lex (LexString [] False) ws cs
      else lex (LexWord [c]) ws cs)"
| "lex (LexWord acc) ws (c # cs) =
     (if json_space c then map_option ((#) (rev ws, TWord (rev acc))) (lex LexStart [c] cs)
      else if json_punct c then
        map_option (\<lambda>ts. (rev ws, TWord (rev acc)) # ([], TPunct c) # ts) (lex LexStart [] cs)
      else if c = CHR 0x22 then
        map_option ((#) (rev ws, TWord (rev acc))) (lex (LexString [] False) [] cs)
      else lex (LexWord (c # acc)) ws cs)"

fun token_text :: "token \<Rightarrow> string" where
  "token_text (TPunct c) = [c]"
| "token_text (TString s) = CHR 0x22 # s @ [CHR 0x22]"
| "token_text (TWord w) = w"

section \<open>Values\<close>

datatype json =
    JNull
  | JBool bool
  | JNumber string
  | JString string
  | JArray "json list"
  | JObject "(string \<times> string \<times> json) list"

text \<open>The number grammar of RFC 8259.\<close>

definition number_rexp :: rexp where
  "number_rexp =
     (let digits = RStar (RClass digit);
          digits1 = RPlus (RClass digit)
      in RSeq (ROpt (RLit ''-''))
        (RSeq (RAlt (RLit ''0'') (RSeq (RClass (\<lambda>c. digit c \<and> c \<noteq> CHR ''0'')) digits))
        (RSeq (ROpt (RSeq (RLit ''.'') digits1))
              (ROpt (RSeq (RChars ''eE'') (RSeq (ROpt (RChars ''+-'')) digits1))))))"

definition word_value :: "string \<Rightarrow> json option" where
  "word_value w =
     (if w = ''null'' then Some JNull
      else if w = ''true'' then Some (JBool True)
      else if w = ''false'' then Some (JBool False)
      else if matches number_rexp w then Some (JNumber w)
      else None)"

text \<open>
  The parser is a stack machine over the tokens. A frame is an open array or object with the
  white space before it, its text so far (in reverse) and its members so far (in reverse); an
  object also has the key whose value comes next.
\<close>

datatype frame =
    FArray string "string list" "json list"
  | FObject string "string list" "(string \<times> string \<times> json) list" string

datatype expect = EValue | EFirst | EFirstKey | EKey | EColon | ENext | EDone json

type_synonym pstate = "expect \<times> frame list"

fun deliver :: "string \<Rightarrow> string \<Rightarrow> json \<Rightarrow> frame list \<Rightarrow> pstate" where
  "deliver ws txt v [] = (EDone v, [])"
| "deliver ws txt v (FArray lead raw vs # st) = (ENext, FArray lead (txt # ws # raw) (v # vs) # st)"
| "deliver ws txt v (FObject lead raw ms k # st) =
     (ENext, FObject lead (txt # ws # raw) ((k, txt, v) # ms) k # st)"

fun close :: "string \<Rightarrow> char \<Rightarrow> frame list \<Rightarrow> pstate option" where
  "close ws c [] = None"
| "close ws c (FArray lead raw vs # st) =
     (if c = CHR '']'' then
        Some (deliver lead (concat (rev ([c] # ws # raw))) (JArray (rev vs)) st)
      else None)"
| "close ws c (FObject lead raw ms k # st) =
     (if c = CHR ''}'' then
        Some (deliver lead (concat (rev ([c] # ws # raw))) (JObject (rev ms)) st)
      else None)"

definition open_value :: "string \<Rightarrow> token \<Rightarrow> frame list \<Rightarrow> pstate option" where
  "open_value ws t st =
     (case t of
        TPunct c \<Rightarrow>
          if c = CHR ''{'' then Some (EFirstKey, FObject ws [[c]] [] [] # st)
          else if c = CHR ''['' then Some (EFirst, FArray ws [[c]] [] # st)
          else None
      | TString s \<Rightarrow> map_option (\<lambda>v. deliver ws (token_text t) (JString v) st) (unquote s)
      | TWord w \<Rightarrow> map_option (\<lambda>v. deliver ws (token_text t) v st) (word_value w))"

fun open_key :: "string \<Rightarrow> token \<Rightarrow> frame list \<Rightarrow> pstate option" where
  "open_key ws (TString s) (FObject lead raw ms k # st) =
     map_option (\<lambda>k'. (EColon, FObject lead (token_text (TString s) # ws # raw) ms k' # st)) (unquote s)"
| "open_key ws t st = None"

fun separate :: "string \<Rightarrow> frame list \<Rightarrow> pstate option" where
  "separate ws [] = None"
| "separate ws (FArray lead raw vs # st) = Some (EValue, FArray lead ('','' # ws # raw) vs # st)"
| "separate ws (FObject lead raw ms k # st) = Some (EKey, FObject lead ('','' # ws # raw) ms k # st)"

fun colon :: "string \<Rightarrow> frame list \<Rightarrow> pstate option" where
  "colon ws (FObject lead raw ms k # st) = Some (EValue, FObject lead ('':'' # ws # raw) ms k # st)"
| "colon ws st = None"

definition parse_token :: "string \<times> token \<Rightarrow> pstate \<Rightarrow> pstate option" where
  "parse_token = (\<lambda>(ws, t) (e, st).
     case e of
       EValue \<Rightarrow> open_value ws t st
     | EFirst \<Rightarrow> if t = TPunct (CHR '']'') then close ws (CHR '']'') st else open_value ws t st
     | EFirstKey \<Rightarrow> if t = TPunct (CHR ''}'') then close ws (CHR ''}'') st else open_key ws t st
     | EKey \<Rightarrow> open_key ws t st
     | EColon \<Rightarrow> if t = TPunct (CHR '':'') then colon ws st else None
     | ENext \<Rightarrow>
         (case t of
            TPunct c \<Rightarrow> if c = CHR '','' then separate ws st else close ws c st
          | _ \<Rightarrow> None)
     | EDone v \<Rightarrow> None)"

fun parse_tokens :: "(string \<times> token) list \<Rightarrow> pstate \<Rightarrow> json option" where
  "parse_tokens [] (e, st) = (case e of EDone v \<Rightarrow> Some v | _ \<Rightarrow> None)"
| "parse_tokens (t # ts) ps =
     (case parse_token t ps of None \<Rightarrow> None | Some ps' \<Rightarrow> parse_tokens ts ps')"

text \<open>One document: exactly one value, white space around it.\<close>

definition json_value :: "string \<Rightarrow> json option" where
  "json_value s =
     (case lex LexStart [] s of
        None \<Rightarrow> None
      | Some ts \<Rightarrow> parse_tokens ts (EValue, []))"

section \<open>Decoding into Go values\<close>

text \<open>
  A decoder updates the value that is already there, as \<open>reflect\<close> does: \<open>null\<close> leaves a scalar or
  a struct alone and clears a pointer, slice or map. A decoder receives the value and its raw
  text; \<open>None\<close> is an \<open>UnmarshalTypeError\<close> or an unknown field.
\<close>

type_synonym 'a decoder = "json \<Rightarrow> string \<Rightarrow> 'a \<Rightarrow> 'a option"

fun dec_string :: "string decoder" where
  "dec_string (JString s) raw v = Some s"
| "dec_string JNull raw v = Some v"
| "dec_string _ raw v = None"

fun dec_bool :: "bool decoder" where
  "dec_bool (JBool b) raw v = Some b"
| "dec_bool JNull raw v = Some v"
| "dec_bool _ raw v = None"

text \<open>\<open>strconv.ParseInt\<close> on the literal, then the width of the field; a fraction or an exponent is refused.\<close>

definition dec_int :: "nat \<Rightarrow> int decoder" where
  "dec_int w j raw v =
     (case j of
        JNumber s \<Rightarrow>
          (case atoi s of
             Some i \<Rightarrow> if - (2 ^ (w - 1)) \<le> i \<and> i < 2 ^ (w - 1) then Some i else None
           | None \<Rightarrow> None)
      | JNull \<Rightarrow> Some v
      | _ \<Rightarrow> None)"

definition dec_raw :: "string decoder" where
  "dec_raw j raw v = Some raw"

definition dec_pointer :: "'a \<Rightarrow> 'a decoder \<Rightarrow> 'a option decoder" where
  "dec_pointer zero d j raw v =
     (if j = JNull then Some None
      else map_option Some (d j raw (case v of None \<Rightarrow> zero | Some x \<Rightarrow> x)))"

fun dec_elements :: "'a \<Rightarrow> 'a decoder \<Rightarrow> json list \<Rightarrow> 'a list \<Rightarrow> 'a list option" where
  "dec_elements zero d [] vs = Some []"
| "dec_elements zero d (j # js) vs =
     (case d j [] (case vs of [] \<Rightarrow> zero | v # _ \<Rightarrow> v) of
        None \<Rightarrow> None
      | Some x \<Rightarrow> map_option ((#) x) (dec_elements zero d js (tl vs)))"

definition dec_slice :: "'a \<Rightarrow> 'a decoder \<Rightarrow> 'a list decoder" where
  "dec_slice zero d j raw vs =
     (case j of
        JArray js \<Rightarrow> dec_elements zero d js vs
      | JNull \<Rightarrow> Some []
      | _ \<Rightarrow> None)"

text \<open>
  A \<open>map[string]string\<close> is an association list in the byte order of its keys, so that equal maps
  are equal lists; storing under a key replaces the entry.
\<close>

fun string_less :: "string \<Rightarrow> string \<Rightarrow> bool" where
  "string_less s [] = False"
| "string_less [] (d # ds) = True"
| "string_less (c # cs) (d # ds) = (byte c < byte d \<or> c = d \<and> string_less cs ds)"

fun map_insert :: "string \<Rightarrow> 'a \<Rightarrow> (string \<times> 'a) list \<Rightarrow> (string \<times> 'a) list" where
  "map_insert k x [] = [(k, x)]"
| "map_insert k x (q # qs) =
     (if k = fst q then (k, x) # qs
      else if string_less k (fst q) then (k, x) # q # qs
      else q # map_insert k x qs)"

fun dec_members :: "'a \<Rightarrow> 'a decoder \<Rightarrow> (string \<times> string \<times> json) list \<Rightarrow> (string \<times> 'a) list
    \<Rightarrow> (string \<times> 'a) list option" where
  "dec_members zero d [] m = Some m"
| "dec_members zero d ((k, raw, j) # ms) m =
     (case d j raw zero of
        None \<Rightarrow> None
      | Some x \<Rightarrow> dec_members zero d ms (map_insert k x m))"

definition dec_map :: "'a \<Rightarrow> 'a decoder \<Rightarrow> (string \<times> 'a) list decoder" where
  "dec_map zero d j raw m =
     (case j of
        JObject ms \<Rightarrow> dec_members zero d ms m
      | JNull \<Rightarrow> Some []
      | _ \<Rightarrow> None)"

text \<open>
  Field names are matched without regard to case (\<open>foldName\<close>): besides the ASCII letters, U+017F
  folds to \<open>s\<close> and U+212A to \<open>k\<close>.
\<close>

definition fold_name :: "string \<Rightarrow> string" where
  "fold_name s =
     concat (map (\<lambda>(r, bs).
       if 65 \<le> r \<and> r \<le> 90 then [char_of (r + 32)]
       else if r = 383 then ''s''
       else if r = 8490 then ''k''
       else bs) (runes s))"

type_synonym 'a fields = "(string \<times> 'a decoder) list"

definition fld :: "string \<Rightarrow> ('r \<Rightarrow> 'f) \<Rightarrow> (('f \<Rightarrow> 'f) \<Rightarrow> 'r \<Rightarrow> 'r) \<Rightarrow> 'f decoder \<Rightarrow> string \<times> 'r decoder" where
  "fld name get upd d =
     (name, \<lambda>j raw r. map_option (\<lambda>x. upd (\<lambda>_. x) r) (d j raw (get r)))"

fun dec_fields :: "'r fields \<Rightarrow> (string \<times> string \<times> json) list \<Rightarrow> 'r \<Rightarrow> 'r option" where
  "dec_fields fs [] r = Some r"
| "dec_fields fs ((k, raw, j) # ms) r =
     (case map_of fs (fold_name k) of
        None \<Rightarrow> None
      | Some d \<Rightarrow> (case d j raw r of None \<Rightarrow> None | Some r' \<Rightarrow> dec_fields fs ms r'))"

definition dec_struct :: "'r fields \<Rightarrow> 'r decoder" where
  "dec_struct fs j raw r =
     (case j of
        JObject ms \<Rightarrow> dec_fields fs ms r
      | JNull \<Rightarrow> Some r
      | _ \<Rightarrow> None)"

section \<open>Encoding\<close>

text \<open>
  \<open>appendString\<close> with HTML escaping: \<open>\"\<close>, the backslash and control characters are escaped, \<open><\<close>,
  \<open>>\<close> and \<open>&\<close> become \<open>u00XX\<close> escapes, U+2028 and U+2029 as well, an ill-formed byte becomes the
  escape of U+FFFD.
\<close>

definition u_escape :: "int \<Rightarrow> string" where
  "u_escape r =
     [CHR 0x5C, CHR ''u'', hex_char (r div 4096 mod 16), hex_char (r div 256 mod 16),
      hex_char (r div 16 mod 16), hex_char (r mod 16)]"

definition enc_rune :: "int \<times> string \<Rightarrow> string" where
  "enc_rune = (\<lambda>(r, bs).
     if r = 34 \<or> r = 92 then [CHR 0x5C, char_of r]
     else if r = 8 then [CHR 0x5C, CHR ''b'']
     else if r = 12 then [CHR 0x5C, CHR ''f'']
     else if r = 10 then [CHR 0x5C, CHR ''n'']
     else if r = 13 then [CHR 0x5C, CHR ''r'']
     else if r = 9 then [CHR 0x5C, CHR ''t'']
     else if r < 32 \<or> r = 60 \<or> r = 62 \<or> r = 38 \<or> r = 8232 \<or> r = 8233 then u_escape r
     else if r = RuneError \<and> length bs = 1 then u_escape RuneError
     else bs)"

definition enc_string :: "string \<Rightarrow> string" where
  "enc_string s = CHR 0x22 # concat (map enc_rune (runes s)) @ [CHR 0x22]"

fun dec_digits :: "nat \<Rightarrow> int \<Rightarrow> string \<Rightarrow> string" where
  "dec_digits 0 i acc = acc"
| "dec_digits (Suc n) i acc =
     (if i < 10 then char_of (48 + i) # acc
      else dec_digits n (i div 10) (char_of (48 + i mod 10) # acc))"

text \<open>An \<open>int64\<close> has at most 19 digits.\<close>

definition enc_int :: "int \<Rightarrow> string" where
  "enc_int i = (if i < 0 then CHR ''-'' # dec_digits 20 (- i) [] else dec_digits 20 i [])"

definition enc_bool :: "bool \<Rightarrow> string" where
  "enc_bool b = (if b then ''true'' else ''false'')"

text \<open>
  \<open>appendCompact\<close> of a \<open>RawMessage\<close>: white space outside strings is dropped, the HTML characters
  and the bytes of U+2028 and U+2029 become escapes. A nil message is \<open>null\<close>, an ill-formed one an
  error.
\<close>

fun compact_bytes :: "string \<Rightarrow> string" where
  "compact_bytes [] = []"
| "compact_bytes (c # cs) =
     (if c \<in> {CHR ''<'', CHR ''>'', CHR ''&''} then u_escape (byte c) @ compact_bytes cs
      else case cs of
          d # e # es \<Rightarrow>
            if c = CHR 0xE2 \<and> d = CHR 0x80 \<and> (e = CHR 0xA8 \<or> e = CHR 0xA9)
            then u_escape (if e = CHR 0xA8 then 8232 else 8233) @ compact_bytes es
            else c # compact_bytes cs
        | _ \<Rightarrow> c # compact_bytes cs)"

definition enc_raw :: "string \<Rightarrow> string option" where
  "enc_raw s =
     (if s = [] then Some ''null''
      else case json_value s of
          None \<Rightarrow> None
        | Some _ \<Rightarrow>
            map_option (\<lambda>ts. concat (map (compact_bytes \<circ> token_text \<circ> snd) ts)) (lex LexStart [] s))"

text \<open>The present members of an object, in field order; an absent one is an \<open>omitempty\<close> zero value.\<close>

definition enc_object :: "(string \<times> string option) list \<Rightarrow> string" where
  "enc_object fs =
     ''{'' @ join_with '','' (concat (map (\<lambda>(k, t).
        case t of None \<Rightarrow> [] | Some txt \<Rightarrow> [enc_string k @ '':'' @ txt]) fs)) @ ''}''"

definition enc_array :: "('a \<Rightarrow> string) \<Rightarrow> 'a list \<Rightarrow> string" where
  "enc_array f xs = ''['' @ join_with '','' (map f xs) @ '']''"

definition omit_empty :: "('a \<Rightarrow> string) \<Rightarrow> 'a list \<Rightarrow> string option" where
  "omit_empty f s = (if s = [] then None else Some (enc_array f s))"

definition omit_string :: "string \<Rightarrow> string option" where
  "omit_string s = (if s = [] then None else Some (enc_string s))"

definition omit_false :: "bool \<Rightarrow> string option" where
  "omit_false b = (if b then Some ''true'' else None)"

definition omit_zero :: "int \<Rightarrow> string option" where
  "omit_zero i = (if i = 0 then None else Some (enc_int i))"

end
