(* ===== verification/Run_Contract.thy ===== *)
theory Run_Contract
  imports Domain_Policy Go_JSON
begin

text \<open>
  The provider-neutral run contract, \<^verbatim>\<open>protocol/resolvedrun/contract.go\<close>: the value types with the
  source's fields (a field name shared by several structs carries a prefix), their zero values,
  their JSON decoders and, for the resolved run, the JSON encoder. A Go map is an association
  list, a pointer an \<^verbatim>\<open>option\<close>, a raw message its text; a nil and an empty slice are the same list.
\<close>

section \<open>Types\<close>

record Principal =
  Issuer :: string
  Subject :: string
  DisplayName :: string

record DockerNetwork =
  net_Name :: string
  net_Subnet :: string

record RuntimeDocker =
  KernelLogDevice :: bool
  RequiredNetworks :: "DockerNetwork list"

record RuntimeContainer =
  container_Capabilities :: "string list"

record Runtime =
  rt_Type :: string
  Autonomy :: string
  Model :: string
  Effort :: string
  rt_User :: string
  Container :: "RuntimeContainer option"
  Docker :: "RuntimeDocker option"

record RepositoryIdentity =
  id_Mode :: string
  id_Name :: string
  id_Email :: string

record Repository =
  CheckoutTarget :: string
  BrokerRepository :: string
  repo_URL :: string
  repo_Path :: string
  Upstream :: string
  CredentialProvider :: string
  CredentialUsername :: string
  Identity :: "RepositoryIdentity option"

record CredentialProviderMapping =
  map_Name :: string
  BrokerProvider :: string
  CredentialKind :: string
  MatchTargets :: "string list"

record BrokerGrantAuthorizationRule =
  Operation :: string
  Resource :: string

record BrokerGrantAuthorization =
  auth_DefaultAction :: string
  Rules :: "BrokerGrantAuthorizationRule list"

record BrokerGrantQuota =
  Requests :: int

record BrokerGrant =
  Provider :: string
  grant_Repositories :: "string list"
  grant_Resources :: "string list"
  grant_Capabilities :: "string list"
  Preparations :: "string list"
  Materialization :: string
  EgressHosts :: "string list"
  Git :: bool
  Permissions :: "(string \<times> string) list"
  Authorization :: "BrokerGrantAuthorization option"
  Quota :: "BrokerGrantQuota option"
  AllowInsecureUpstream :: bool

record Broker =
  Grants :: "BrokerGrant list"

record Egress =
  egress_Mode :: string
  Transport :: string
  Enforced :: bool
  ProxyProvider :: string
  PairedEgressRequired :: bool
  AllowInsecureBroker :: bool
  MaxConcurrentTunnels :: int
  egress_DomainPolicy :: "DomainPolicy option"

record Resources =
  CPURequest :: string
  CPULimit :: string
  MemoryRequest :: string
  MemoryLimit :: string

record WorkspaceInstructions =
  wi_Profile :: string
  wi_Workflow :: string

record Persistence =
  Workspace :: bool
  RuntimeState :: bool
  DockerData :: bool

record TTL =
  ActiveSeconds :: int
  CompletedSeconds :: int
  FailedSeconds :: int
  RunRetentionSeconds :: int

record Lifecycle =
  CompleteOn :: "string list"
  FailOn :: "string list"

record ExecutionBackend =
  be_Name :: string
  be_Kind :: string

record RetentionPolicy =
  ret_Name :: string
  ret_Persistence :: Persistence
  ret_TTL :: TTL

record ResolvedAgentRun =
  ContractVersion :: string
  RunID :: string
  run_Principal :: Principal
  SourceURL :: string
  run_Profile :: string
  run_Workflow :: string
  Image :: string
  run_Runtime :: Runtime
  AgentConfig :: string
  Prompt :: string
  Repositories :: "Repository list"
  CredentialProviders :: "CredentialProviderMapping list"
  DefaultCredentialProvider :: string
  run_Broker :: Broker
  run_Egress :: Egress
  run_WorkspaceInstructions :: WorkspaceInstructions
  run_Resources :: Resources
  run_Persistence :: Persistence
  Retention :: string
  run_TTL :: TTL
  run_Lifecycle :: Lifecycle
  Execution :: ExecutionBackend

record PlatformDefaults =
  def_Image :: string
  def_Runtime :: Runtime
  def_AgentConfig :: string
  def_Resources :: Resources
  def_Lifecycle :: Lifecycle

record Profile =
  prof_Name :: string
  prof_Image :: string
  prof_Runtime :: "Runtime option"
  prof_AgentConfig :: string
  prof_Resources :: "Resources option"
  prof_Lifecycle :: "Lifecycle option"
  prof_CredentialProviders :: "CredentialProviderMapping list"
  prof_DefaultCredentialProvider :: string
  prof_Broker :: Broker
  prof_Egress :: Egress
  prof_WorkspaceInstructions :: string
  AllowedBackends :: "string list"
  DefaultBackend :: string
  AllowedRetentions :: "string list"

record Workflow =
  wf_Name :: string
  wf_Repositories :: "Repository list"
  wf_WorkspaceInstructions :: string
  wf_Lifecycle :: "Lifecycle option"

record TrustedConfiguration =
  Defaults :: PlatformDefaults
  Profiles :: "Profile list"
  Workflows :: "Workflow list"
  ExecutionBackends :: "ExecutionBackend list"
  RetentionPolicies :: "RetentionPolicy list"

record AuthorizedSelection =
  sel_Profile :: string
  sel_Workflows :: "string list"

record AuthorizationContext =
  ctx_Principal :: Principal
  Selections :: "AuthorizedSelection list"

record LocalRunRequest =
  req_RunID :: string
  req_Profile :: string
  req_Workflow :: string
  req_Retention :: string
  req_Backend :: string
  req_Prompt :: string
  req_SourceURL :: string

section \<open>Limits\<close>

definition contract_version :: string where
  "contract_version = ''nvt.resolved-agent-run/v1''"

definition MaxDocumentBytes :: int where "MaxDocumentBytes = 2 ^ 20"
definition MaxProfiles :: int where "MaxProfiles = 128"
definition MaxWorkflows :: int where "MaxWorkflows = 128"
definition MaxExecutionBackends :: int where "MaxExecutionBackends = 32"
definition MaxRetentionPolicies :: int where "MaxRetentionPolicies = 32"
definition MaxRepositories :: int where "MaxRepositories = 128"
definition MaxCredentialProviderMappings :: int where "MaxCredentialProviderMappings = 64"
definition MaxBrokerGrants :: int where "MaxBrokerGrants = 64"
definition MaxWorkspaceInstructionsBytes :: int where "MaxWorkspaceInstructionsBytes = 64 * 2 ^ 10"
definition MaxAgentConfigBytes :: int where "MaxAgentConfigBytes = 256 * 2 ^ 10"
definition MaxPromptBytes :: int where "MaxPromptBytes = 64 * 2 ^ 10"
definition MaxSourceURLBytes :: int where "MaxSourceURLBytes = 2048"

section \<open>Zero values and decoders\<close>

text \<open>
  One table per struct: the JSON name of each field with the decoder of its type, as the struct
  tags give them.
\<close>

definition zero_Principal :: Principal where
  "zero_Principal = \<lparr>Issuer = [], Subject = [], DisplayName = []\<rparr>"

definition Principal_fields :: "Principal fields" where
  "Principal_fields = [
     fld ''issuer'' Issuer Issuer_update dec_string,
     fld ''subject'' Subject Subject_update dec_string,
     fld ''display_name'' DisplayName DisplayName_update dec_string]"

definition zero_DockerNetwork :: DockerNetwork where
  "zero_DockerNetwork = \<lparr>net_Name = [], net_Subnet = []\<rparr>"

definition DockerNetwork_fields :: "DockerNetwork fields" where
  "DockerNetwork_fields = [
     fld ''name'' net_Name net_Name_update dec_string,
     fld ''subnet'' net_Subnet net_Subnet_update dec_string]"

definition zero_RuntimeDocker :: RuntimeDocker where
  "zero_RuntimeDocker = \<lparr>KernelLogDevice = False, RequiredNetworks = []\<rparr>"

definition RuntimeDocker_fields :: "RuntimeDocker fields" where
  "RuntimeDocker_fields = [
     fld ''kernel_log_device'' KernelLogDevice KernelLogDevice_update dec_bool,
     fld ''required_networks'' RequiredNetworks RequiredNetworks_update (dec_slice zero_DockerNetwork (dec_struct DockerNetwork_fields))]"

definition zero_RuntimeContainer :: RuntimeContainer where
  "zero_RuntimeContainer = \<lparr>container_Capabilities = []\<rparr>"

definition RuntimeContainer_fields :: "RuntimeContainer fields" where
  "RuntimeContainer_fields = [
     fld ''capabilities'' container_Capabilities container_Capabilities_update (dec_slice [] dec_string)]"

definition zero_Runtime :: Runtime where
  "zero_Runtime = \<lparr>rt_Type = [], Autonomy = [], Model = [], Effort = [], rt_User = [], Container = None,
     Docker = None\<rparr>"

definition Runtime_fields :: "Runtime fields" where
  "Runtime_fields = [
     fld ''type'' rt_Type rt_Type_update dec_string,
     fld ''autonomy'' Autonomy Autonomy_update dec_string,
     fld ''model'' Model Model_update dec_string,
     fld ''effort'' Effort Effort_update dec_string,
     fld ''user'' rt_User rt_User_update dec_string,
     fld ''container'' Container Container_update (dec_pointer zero_RuntimeContainer (dec_struct RuntimeContainer_fields)),
     fld ''docker'' Docker Docker_update (dec_pointer zero_RuntimeDocker (dec_struct RuntimeDocker_fields))]"

definition zero_RepositoryIdentity :: RepositoryIdentity where
  "zero_RepositoryIdentity = \<lparr>id_Mode = [], id_Name = [], id_Email = []\<rparr>"

definition RepositoryIdentity_fields :: "RepositoryIdentity fields" where
  "RepositoryIdentity_fields = [
     fld ''mode'' id_Mode id_Mode_update dec_string,
     fld ''name'' id_Name id_Name_update dec_string,
     fld ''email'' id_Email id_Email_update dec_string]"

definition zero_Repository :: Repository where
  "zero_Repository = \<lparr>CheckoutTarget = [], BrokerRepository = [], repo_URL = [], repo_Path = [], Upstream = [],
     CredentialProvider = [], CredentialUsername = [], Identity = None\<rparr>"

definition Repository_fields :: "Repository fields" where
  "Repository_fields = [
     fld ''checkout_target'' CheckoutTarget CheckoutTarget_update dec_string,
     fld ''broker_repository'' BrokerRepository BrokerRepository_update dec_string,
     fld ''url'' repo_URL repo_URL_update dec_string,
     fld ''path'' repo_Path repo_Path_update dec_string,
     fld ''upstream'' Upstream Upstream_update dec_string,
     fld ''credential_provider'' CredentialProvider CredentialProvider_update dec_string,
     fld ''credential_username'' CredentialUsername CredentialUsername_update dec_string,
     fld ''identity'' Identity Identity_update (dec_pointer zero_RepositoryIdentity (dec_struct RepositoryIdentity_fields))]"

definition zero_CredentialProviderMapping :: CredentialProviderMapping where
  "zero_CredentialProviderMapping = \<lparr>map_Name = [], BrokerProvider = [], CredentialKind = [], MatchTargets = []\<rparr>"

definition CredentialProviderMapping_fields :: "CredentialProviderMapping fields" where
  "CredentialProviderMapping_fields = [
     fld ''name'' map_Name map_Name_update dec_string,
     fld ''broker_provider'' BrokerProvider BrokerProvider_update dec_string,
     fld ''credential_kind'' CredentialKind CredentialKind_update dec_string,
     fld ''match_targets'' MatchTargets MatchTargets_update (dec_slice [] dec_string)]"

definition zero_BrokerGrantAuthorizationRule :: BrokerGrantAuthorizationRule where
  "zero_BrokerGrantAuthorizationRule = \<lparr>Operation = [], Resource = []\<rparr>"

definition BrokerGrantAuthorizationRule_fields :: "BrokerGrantAuthorizationRule fields" where
  "BrokerGrantAuthorizationRule_fields = [
     fld ''operation'' Operation Operation_update dec_string,
     fld ''resource'' Resource Resource_update dec_string]"

definition zero_BrokerGrantAuthorization :: BrokerGrantAuthorization where
  "zero_BrokerGrantAuthorization = \<lparr>auth_DefaultAction = [], Rules = []\<rparr>"

definition BrokerGrantAuthorization_fields :: "BrokerGrantAuthorization fields" where
  "BrokerGrantAuthorization_fields = [
     fld ''default_action'' auth_DefaultAction auth_DefaultAction_update dec_string,
     fld ''rules'' Rules Rules_update (dec_slice zero_BrokerGrantAuthorizationRule (dec_struct BrokerGrantAuthorizationRule_fields))]"

definition zero_BrokerGrantQuota :: BrokerGrantQuota where
  "zero_BrokerGrantQuota = \<lparr>Requests = 0\<rparr>"

definition BrokerGrantQuota_fields :: "BrokerGrantQuota fields" where
  "BrokerGrantQuota_fields = [
     fld ''requests'' Requests Requests_update (dec_int 64)]"

definition zero_BrokerGrant :: BrokerGrant where
  "zero_BrokerGrant = \<lparr>Provider = [], grant_Repositories = [], grant_Resources = [], grant_Capabilities = [],
     Preparations = [], Materialization = [], EgressHosts = [], Git = False, Permissions = [],
     Authorization = None, Quota = None, AllowInsecureUpstream = False\<rparr>"

definition BrokerGrant_fields :: "BrokerGrant fields" where
  "BrokerGrant_fields = [
     fld ''provider'' Provider Provider_update dec_string,
     fld ''repositories'' grant_Repositories grant_Repositories_update (dec_slice [] dec_string),
     fld ''resources'' grant_Resources grant_Resources_update (dec_slice [] dec_string),
     fld ''capabilities'' grant_Capabilities grant_Capabilities_update (dec_slice [] dec_string),
     fld ''preparations'' Preparations Preparations_update (dec_slice [] dec_string),
     fld ''materialization'' Materialization Materialization_update dec_string,
     fld ''egress_hosts'' EgressHosts EgressHosts_update (dec_slice [] dec_string),
     fld ''git'' Git Git_update dec_bool,
     fld ''permissions'' Permissions Permissions_update (dec_map [] dec_string),
     fld ''authorization'' Authorization Authorization_update (dec_pointer zero_BrokerGrantAuthorization (dec_struct BrokerGrantAuthorization_fields)),
     fld ''quota'' Quota Quota_update (dec_pointer zero_BrokerGrantQuota (dec_struct BrokerGrantQuota_fields)),
     fld ''allow_insecure_upstream'' AllowInsecureUpstream AllowInsecureUpstream_update dec_bool]"

definition zero_Broker :: Broker where
  "zero_Broker = \<lparr>Grants = []\<rparr>"

definition Broker_fields :: "Broker fields" where
  "Broker_fields = [
     fld ''grants'' Grants Grants_update (dec_slice zero_BrokerGrant (dec_struct BrokerGrant_fields))]"

definition zero_DomainPolicy :: DomainPolicy where
  "zero_DomainPolicy = \<lparr>DefaultAction = [], Allow = [], Deny = []\<rparr>"

definition DomainPolicy_fields :: "DomainPolicy fields" where
  "DomainPolicy_fields = [
     fld ''default_action'' DefaultAction DefaultAction_update dec_string,
     fld ''allow'' Allow Allow_update (dec_slice [] dec_string),
     fld ''deny'' Deny Deny_update (dec_slice [] dec_string)]"

definition zero_Egress :: Egress where
  "zero_Egress = \<lparr>egress_Mode = [], Transport = [], Enforced = False, ProxyProvider = [],
     PairedEgressRequired = False, AllowInsecureBroker = False, MaxConcurrentTunnels = 0,
     egress_DomainPolicy = None\<rparr>"

definition Egress_fields :: "Egress fields" where
  "Egress_fields = [
     fld ''mode'' egress_Mode egress_Mode_update dec_string,
     fld ''transport'' Transport Transport_update dec_string,
     fld ''enforced'' Enforced Enforced_update dec_bool,
     fld ''proxy_provider'' ProxyProvider ProxyProvider_update dec_string,
     fld ''paired_egress_required'' PairedEgressRequired PairedEgressRequired_update dec_bool,
     fld ''allow_insecure_broker'' AllowInsecureBroker AllowInsecureBroker_update dec_bool,
     fld ''max_concurrent_tunnels'' MaxConcurrentTunnels MaxConcurrentTunnels_update (dec_int 32),
     fld ''domain_policy'' egress_DomainPolicy egress_DomainPolicy_update (dec_pointer zero_DomainPolicy (dec_struct DomainPolicy_fields))]"

definition zero_Resources :: Resources where
  "zero_Resources = \<lparr>CPURequest = [], CPULimit = [], MemoryRequest = [], MemoryLimit = []\<rparr>"

definition Resources_fields :: "Resources fields" where
  "Resources_fields = [
     fld ''cpu_request'' CPURequest CPURequest_update dec_string,
     fld ''cpu_limit'' CPULimit CPULimit_update dec_string,
     fld ''memory_request'' MemoryRequest MemoryRequest_update dec_string,
     fld ''memory_limit'' MemoryLimit MemoryLimit_update dec_string]"

definition zero_WorkspaceInstructions :: WorkspaceInstructions where
  "zero_WorkspaceInstructions = \<lparr>wi_Profile = [], wi_Workflow = []\<rparr>"

definition WorkspaceInstructions_fields :: "WorkspaceInstructions fields" where
  "WorkspaceInstructions_fields = [
     fld ''profile'' wi_Profile wi_Profile_update dec_string,
     fld ''workflow'' wi_Workflow wi_Workflow_update dec_string]"

definition zero_Persistence :: Persistence where
  "zero_Persistence = \<lparr>Workspace = False, RuntimeState = False, DockerData = False\<rparr>"

definition Persistence_fields :: "Persistence fields" where
  "Persistence_fields = [
     fld ''workspace'' Workspace Workspace_update dec_bool,
     fld ''runtime_state'' RuntimeState RuntimeState_update dec_bool,
     fld ''docker_data'' DockerData DockerData_update dec_bool]"

definition zero_TTL :: TTL where
  "zero_TTL = \<lparr>ActiveSeconds = 0, CompletedSeconds = 0, FailedSeconds = 0, RunRetentionSeconds = 0\<rparr>"

definition TTL_fields :: "TTL fields" where
  "TTL_fields = [
     fld ''active_seconds'' ActiveSeconds ActiveSeconds_update (dec_int 64),
     fld ''completed_seconds'' CompletedSeconds CompletedSeconds_update (dec_int 64),
     fld ''failed_seconds'' FailedSeconds FailedSeconds_update (dec_int 64),
     fld ''run_retention_seconds'' RunRetentionSeconds RunRetentionSeconds_update (dec_int 64)]"

definition zero_Lifecycle :: Lifecycle where
  "zero_Lifecycle = \<lparr>CompleteOn = [], FailOn = []\<rparr>"

definition Lifecycle_fields :: "Lifecycle fields" where
  "Lifecycle_fields = [
     fld ''complete_on'' CompleteOn CompleteOn_update (dec_slice [] dec_string),
     fld ''fail_on'' FailOn FailOn_update (dec_slice [] dec_string)]"

definition zero_ExecutionBackend :: ExecutionBackend where
  "zero_ExecutionBackend = \<lparr>be_Name = [], be_Kind = []\<rparr>"

definition ExecutionBackend_fields :: "ExecutionBackend fields" where
  "ExecutionBackend_fields = [
     fld ''name'' be_Name be_Name_update dec_string,
     fld ''kind'' be_Kind be_Kind_update dec_string]"

definition zero_RetentionPolicy :: RetentionPolicy where
  "zero_RetentionPolicy = \<lparr>ret_Name = [], ret_Persistence = zero_Persistence, ret_TTL = zero_TTL\<rparr>"

definition RetentionPolicy_fields :: "RetentionPolicy fields" where
  "RetentionPolicy_fields = [
     fld ''name'' ret_Name ret_Name_update dec_string,
     fld ''persistence'' ret_Persistence ret_Persistence_update (dec_struct Persistence_fields),
     fld ''ttl'' ret_TTL ret_TTL_update (dec_struct TTL_fields)]"

definition zero_ResolvedAgentRun :: ResolvedAgentRun where
  "zero_ResolvedAgentRun = \<lparr>ContractVersion = [], RunID = [], run_Principal = zero_Principal, SourceURL = [],
     run_Profile = [], run_Workflow = [], Image = [], run_Runtime = zero_Runtime,
     AgentConfig = [], Prompt = [], Repositories = [], CredentialProviders = [],
     DefaultCredentialProvider = [], run_Broker = zero_Broker, run_Egress = zero_Egress,
     run_WorkspaceInstructions = zero_WorkspaceInstructions, run_Resources = zero_Resources,
     run_Persistence = zero_Persistence, Retention = [], run_TTL = zero_TTL,
     run_Lifecycle = zero_Lifecycle, Execution = zero_ExecutionBackend\<rparr>"

definition ResolvedAgentRun_fields :: "ResolvedAgentRun fields" where
  "ResolvedAgentRun_fields = [
     fld ''contract_version'' ContractVersion ContractVersion_update dec_string,
     fld ''run_id'' RunID RunID_update dec_string,
     fld ''principal'' run_Principal run_Principal_update (dec_struct Principal_fields),
     fld ''source_url'' SourceURL SourceURL_update dec_string,
     fld ''profile'' run_Profile run_Profile_update dec_string,
     fld ''workflow'' run_Workflow run_Workflow_update dec_string,
     fld ''image'' Image Image_update dec_string,
     fld ''runtime'' run_Runtime run_Runtime_update (dec_struct Runtime_fields),
     fld ''agent_config'' AgentConfig AgentConfig_update dec_raw,
     fld ''prompt'' Prompt Prompt_update dec_string,
     fld ''repositories'' Repositories Repositories_update (dec_slice zero_Repository (dec_struct Repository_fields)),
     fld ''credential_providers'' CredentialProviders CredentialProviders_update (dec_slice zero_CredentialProviderMapping (dec_struct CredentialProviderMapping_fields)),
     fld ''default_credential_provider'' DefaultCredentialProvider DefaultCredentialProvider_update dec_string,
     fld ''broker'' run_Broker run_Broker_update (dec_struct Broker_fields),
     fld ''egress'' run_Egress run_Egress_update (dec_struct Egress_fields),
     fld ''workspace_instructions'' run_WorkspaceInstructions run_WorkspaceInstructions_update (dec_struct WorkspaceInstructions_fields),
     fld ''resources'' run_Resources run_Resources_update (dec_struct Resources_fields),
     fld ''persistence'' run_Persistence run_Persistence_update (dec_struct Persistence_fields),
     fld ''retention'' Retention Retention_update dec_string,
     fld ''ttl'' run_TTL run_TTL_update (dec_struct TTL_fields),
     fld ''lifecycle'' run_Lifecycle run_Lifecycle_update (dec_struct Lifecycle_fields),
     fld ''execution'' Execution Execution_update (dec_struct ExecutionBackend_fields)]"

definition zero_PlatformDefaults :: PlatformDefaults where
  "zero_PlatformDefaults = \<lparr>def_Image = [], def_Runtime = zero_Runtime, def_AgentConfig = [],
     def_Resources = zero_Resources, def_Lifecycle = zero_Lifecycle\<rparr>"

definition PlatformDefaults_fields :: "PlatformDefaults fields" where
  "PlatformDefaults_fields = [
     fld ''image'' def_Image def_Image_update dec_string,
     fld ''runtime'' def_Runtime def_Runtime_update (dec_struct Runtime_fields),
     fld ''agent_config'' def_AgentConfig def_AgentConfig_update dec_raw,
     fld ''resources'' def_Resources def_Resources_update (dec_struct Resources_fields),
     fld ''lifecycle'' def_Lifecycle def_Lifecycle_update (dec_struct Lifecycle_fields)]"

definition zero_Profile :: Profile where
  "zero_Profile = \<lparr>prof_Name = [], prof_Image = [], prof_Runtime = None, prof_AgentConfig = [],
     prof_Resources = None, prof_Lifecycle = None, prof_CredentialProviders = [],
     prof_DefaultCredentialProvider = [], prof_Broker = zero_Broker,
     prof_Egress = zero_Egress, prof_WorkspaceInstructions = [], AllowedBackends = [],
     DefaultBackend = [], AllowedRetentions = []\<rparr>"

definition Profile_fields :: "Profile fields" where
  "Profile_fields = [
     fld ''name'' prof_Name prof_Name_update dec_string,
     fld ''image'' prof_Image prof_Image_update dec_string,
     fld ''runtime'' prof_Runtime prof_Runtime_update (dec_pointer zero_Runtime (dec_struct Runtime_fields)),
     fld ''agent_config'' prof_AgentConfig prof_AgentConfig_update dec_raw,
     fld ''resources'' prof_Resources prof_Resources_update (dec_pointer zero_Resources (dec_struct Resources_fields)),
     fld ''lifecycle'' prof_Lifecycle prof_Lifecycle_update (dec_pointer zero_Lifecycle (dec_struct Lifecycle_fields)),
     fld ''credential_providers'' prof_CredentialProviders prof_CredentialProviders_update (dec_slice zero_CredentialProviderMapping (dec_struct CredentialProviderMapping_fields)),
     fld ''default_credential_provider'' prof_DefaultCredentialProvider prof_DefaultCredentialProvider_update dec_string,
     fld ''broker'' prof_Broker prof_Broker_update (dec_struct Broker_fields),
     fld ''egress'' prof_Egress prof_Egress_update (dec_struct Egress_fields),
     fld ''workspace_instructions'' prof_WorkspaceInstructions prof_WorkspaceInstructions_update dec_string,
     fld ''allowed_backends'' AllowedBackends AllowedBackends_update (dec_slice [] dec_string),
     fld ''default_backend'' DefaultBackend DefaultBackend_update dec_string,
     fld ''allowed_retentions'' AllowedRetentions AllowedRetentions_update (dec_slice [] dec_string)]"

definition zero_Workflow :: Workflow where
  "zero_Workflow = \<lparr>wf_Name = [], wf_Repositories = [], wf_WorkspaceInstructions = [], wf_Lifecycle = None\<rparr>"

definition Workflow_fields :: "Workflow fields" where
  "Workflow_fields = [
     fld ''name'' wf_Name wf_Name_update dec_string,
     fld ''repositories'' wf_Repositories wf_Repositories_update (dec_slice zero_Repository (dec_struct Repository_fields)),
     fld ''workspace_instructions'' wf_WorkspaceInstructions wf_WorkspaceInstructions_update dec_string,
     fld ''lifecycle'' wf_Lifecycle wf_Lifecycle_update (dec_pointer zero_Lifecycle (dec_struct Lifecycle_fields))]"

definition zero_TrustedConfiguration :: TrustedConfiguration where
  "zero_TrustedConfiguration = \<lparr>Defaults = zero_PlatformDefaults, Profiles = [], Workflows = [], ExecutionBackends = [],
     RetentionPolicies = []\<rparr>"

definition TrustedConfiguration_fields :: "TrustedConfiguration fields" where
  "TrustedConfiguration_fields = [
     fld ''defaults'' Defaults Defaults_update (dec_struct PlatformDefaults_fields),
     fld ''profiles'' Profiles Profiles_update (dec_slice zero_Profile (dec_struct Profile_fields)),
     fld ''workflows'' Workflows Workflows_update (dec_slice zero_Workflow (dec_struct Workflow_fields)),
     fld ''execution_backends'' ExecutionBackends ExecutionBackends_update (dec_slice zero_ExecutionBackend (dec_struct ExecutionBackend_fields)),
     fld ''retention_policies'' RetentionPolicies RetentionPolicies_update (dec_slice zero_RetentionPolicy (dec_struct RetentionPolicy_fields))]"

definition zero_LocalRunRequest :: LocalRunRequest where
  "zero_LocalRunRequest = \<lparr>req_RunID = [], req_Profile = [], req_Workflow = [], req_Retention = [],
     req_Backend = [], req_Prompt = [], req_SourceURL = []\<rparr>"

definition LocalRunRequest_fields :: "LocalRunRequest fields" where
  "LocalRunRequest_fields = [
     fld ''run_id'' req_RunID req_RunID_update dec_string,
     fld ''profile'' req_Profile req_Profile_update dec_string,
     fld ''workflow'' req_Workflow req_Workflow_update dec_string,
     fld ''retention'' req_Retention req_Retention_update dec_string,
     fld ''backend'' req_Backend req_Backend_update dec_string,
     fld ''prompt'' req_Prompt req_Prompt_update dec_string,
     fld ''source_url'' req_SourceURL req_SourceURL_update dec_string]"

section \<open>Encoding\<close>

text \<open>\<open>json.Marshal\<close> writes the keys of a map in increasing order.\<close>

definition omit_map :: "(string \<times> string) list \<Rightarrow> string option" where
  "omit_map m = (if m = [] then None
     else Some (enc_object (map (\<lambda>(k, v). (k, Some (enc_string v))) (foldr (\<lambda>(k, v). map_insert k v) m []))))"

definition enc_Principal :: "Principal \<Rightarrow> string" where
  "enc_Principal v = enc_object [
     (''issuer'', Some (enc_string (Issuer v))),
     (''subject'', Some (enc_string (Subject v))),
     (''display_name'', omit_string (DisplayName v))]"

definition enc_DockerNetwork :: "DockerNetwork \<Rightarrow> string" where
  "enc_DockerNetwork v = enc_object [
     (''name'', Some (enc_string (net_Name v))),
     (''subnet'', Some (enc_string (net_Subnet v)))]"

definition enc_RuntimeDocker :: "RuntimeDocker \<Rightarrow> string" where
  "enc_RuntimeDocker v = enc_object [
     (''kernel_log_device'', omit_false (KernelLogDevice v)),
     (''required_networks'', omit_empty enc_DockerNetwork (RequiredNetworks v))]"

definition enc_RuntimeContainer :: "RuntimeContainer \<Rightarrow> string" where
  "enc_RuntimeContainer v = enc_object [
     (''capabilities'', omit_empty enc_string (container_Capabilities v))]"

definition enc_Runtime :: "Runtime \<Rightarrow> string" where
  "enc_Runtime v = enc_object [
     (''type'', Some (enc_string (rt_Type v))),
     (''autonomy'', Some (enc_string (Autonomy v))),
     (''model'', omit_string (Model v)),
     (''effort'', omit_string (Effort v)),
     (''user'', Some (enc_string (rt_User v))),
     (''container'', map_option enc_RuntimeContainer (Container v)),
     (''docker'', map_option enc_RuntimeDocker (Docker v))]"

definition enc_RepositoryIdentity :: "RepositoryIdentity \<Rightarrow> string" where
  "enc_RepositoryIdentity v = enc_object [
     (''mode'', Some (enc_string (id_Mode v))),
     (''name'', omit_string (id_Name v)),
     (''email'', omit_string (id_Email v))]"

definition enc_Repository :: "Repository \<Rightarrow> string" where
  "enc_Repository v = enc_object [
     (''checkout_target'', Some (enc_string (CheckoutTarget v))),
     (''broker_repository'', Some (enc_string (BrokerRepository v))),
     (''url'', Some (enc_string (repo_URL v))),
     (''path'', omit_string (repo_Path v)),
     (''upstream'', omit_string (Upstream v)),
     (''credential_provider'', omit_string (CredentialProvider v)),
     (''credential_username'', omit_string (CredentialUsername v)),
     (''identity'', map_option enc_RepositoryIdentity (Identity v))]"

definition enc_CredentialProviderMapping :: "CredentialProviderMapping \<Rightarrow> string" where
  "enc_CredentialProviderMapping v = enc_object [
     (''name'', Some (enc_string (map_Name v))),
     (''broker_provider'', Some (enc_string (BrokerProvider v))),
     (''credential_kind'', omit_string (CredentialKind v)),
     (''match_targets'', omit_empty enc_string (MatchTargets v))]"

definition enc_BrokerGrantAuthorizationRule :: "BrokerGrantAuthorizationRule \<Rightarrow> string" where
  "enc_BrokerGrantAuthorizationRule v = enc_object [
     (''operation'', Some (enc_string (Operation v))),
     (''resource'', Some (enc_string (Resource v)))]"

definition enc_BrokerGrantAuthorization :: "BrokerGrantAuthorization \<Rightarrow> string" where
  "enc_BrokerGrantAuthorization v = enc_object [
     (''default_action'', Some (enc_string (auth_DefaultAction v))),
     (''rules'', omit_empty enc_BrokerGrantAuthorizationRule (Rules v))]"

definition enc_BrokerGrantQuota :: "BrokerGrantQuota \<Rightarrow> string" where
  "enc_BrokerGrantQuota v = enc_object [
     (''requests'', Some (enc_int (Requests v)))]"

definition enc_BrokerGrant :: "BrokerGrant \<Rightarrow> string" where
  "enc_BrokerGrant v = enc_object [
     (''provider'', Some (enc_string (Provider v))),
     (''repositories'', omit_empty enc_string (grant_Repositories v)),
     (''resources'', omit_empty enc_string (grant_Resources v)),
     (''capabilities'', omit_empty enc_string (grant_Capabilities v)),
     (''preparations'', omit_empty enc_string (Preparations v)),
     (''materialization'', omit_string (Materialization v)),
     (''egress_hosts'', omit_empty enc_string (EgressHosts v)),
     (''git'', omit_false (Git v)),
     (''permissions'', omit_map (Permissions v)),
     (''authorization'', map_option enc_BrokerGrantAuthorization (Authorization v)),
     (''quota'', map_option enc_BrokerGrantQuota (Quota v)),
     (''allow_insecure_upstream'', omit_false (AllowInsecureUpstream v))]"

definition enc_Broker :: "Broker \<Rightarrow> string" where
  "enc_Broker v = enc_object [
     (''grants'', omit_empty enc_BrokerGrant (Grants v))]"

definition enc_DomainPolicy :: "DomainPolicy \<Rightarrow> string" where
  "enc_DomainPolicy v = enc_object [
     (''default_action'', Some (enc_string (DefaultAction v))),
     (''allow'', omit_empty enc_string (Allow v)),
     (''deny'', omit_empty enc_string (Deny v))]"

definition enc_Egress :: "Egress \<Rightarrow> string" where
  "enc_Egress v = enc_object [
     (''mode'', Some (enc_string (egress_Mode v))),
     (''transport'', omit_string (Transport v)),
     (''enforced'', omit_false (Enforced v)),
     (''proxy_provider'', omit_string (ProxyProvider v)),
     (''paired_egress_required'', omit_false (PairedEgressRequired v)),
     (''allow_insecure_broker'', omit_false (AllowInsecureBroker v)),
     (''max_concurrent_tunnels'', omit_zero (MaxConcurrentTunnels v)),
     (''domain_policy'', map_option enc_DomainPolicy (egress_DomainPolicy v))]"

definition enc_Resources :: "Resources \<Rightarrow> string" where
  "enc_Resources v = enc_object [
     (''cpu_request'', omit_string (CPURequest v)),
     (''cpu_limit'', omit_string (CPULimit v)),
     (''memory_request'', omit_string (MemoryRequest v)),
     (''memory_limit'', omit_string (MemoryLimit v))]"

definition enc_WorkspaceInstructions :: "WorkspaceInstructions \<Rightarrow> string" where
  "enc_WorkspaceInstructions v = enc_object [
     (''profile'', omit_string (wi_Profile v)),
     (''workflow'', omit_string (wi_Workflow v))]"

definition enc_Persistence :: "Persistence \<Rightarrow> string" where
  "enc_Persistence v = enc_object [
     (''workspace'', Some (enc_bool (Workspace v))),
     (''runtime_state'', Some (enc_bool (RuntimeState v))),
     (''docker_data'', omit_false (DockerData v))]"

definition enc_TTL :: "TTL \<Rightarrow> string" where
  "enc_TTL v = enc_object [
     (''active_seconds'', omit_zero (ActiveSeconds v)),
     (''completed_seconds'', omit_zero (CompletedSeconds v)),
     (''failed_seconds'', omit_zero (FailedSeconds v)),
     (''run_retention_seconds'', omit_zero (RunRetentionSeconds v))]"

definition enc_Lifecycle :: "Lifecycle \<Rightarrow> string" where
  "enc_Lifecycle v = enc_object [
     (''complete_on'', omit_empty enc_string (CompleteOn v)),
     (''fail_on'', omit_empty enc_string (FailOn v))]"

definition enc_ExecutionBackend :: "ExecutionBackend \<Rightarrow> string" where
  "enc_ExecutionBackend v = enc_object [
     (''name'', Some (enc_string (be_Name v))),
     (''kind'', Some (enc_string (be_Kind v)))]"

text \<open>\<open>json.Marshal\<close> of a resolved run fails only on a raw message that is not a JSON value.\<close>

definition enc_ResolvedAgentRun :: "ResolvedAgentRun \<Rightarrow> string option" where
  "enc_ResolvedAgentRun v =
     (case enc_raw (AgentConfig v) of
        None \<Rightarrow> None
      | Some config \<Rightarrow> Some (enc_object [
     (''contract_version'', Some (enc_string (ContractVersion v))),
     (''run_id'', Some (enc_string (RunID v))),
     (''principal'', Some (enc_Principal (run_Principal v))),
     (''source_url'', omit_string (SourceURL v)),
     (''profile'', Some (enc_string (run_Profile v))),
     (''workflow'', Some (enc_string (run_Workflow v))),
     (''image'', Some (enc_string (Image v))),
     (''runtime'', Some (enc_Runtime (run_Runtime v))),
     (''agent_config'', Some config),
     (''prompt'', omit_string (Prompt v)),
     (''repositories'', omit_empty enc_Repository (Repositories v)),
     (''credential_providers'', omit_empty enc_CredentialProviderMapping (CredentialProviders v)),
     (''default_credential_provider'', omit_string (DefaultCredentialProvider v)),
     (''broker'', Some (enc_Broker (run_Broker v))),
     (''egress'', Some (enc_Egress (run_Egress v))),
     (''workspace_instructions'', Some (enc_WorkspaceInstructions (run_WorkspaceInstructions v))),
     (''resources'', Some (enc_Resources (run_Resources v))),
     (''persistence'', Some (enc_Persistence (run_Persistence v))),
     (''retention'', Some (enc_string (Retention v))),
     (''ttl'', Some (enc_TTL (run_TTL v))),
     (''lifecycle'', Some (enc_Lifecycle (run_Lifecycle v))),
     (''execution'', Some (enc_ExecutionBackend (Execution v)))]))"

definition enc_PlatformDefaults :: "PlatformDefaults \<Rightarrow> string option" where
  "enc_PlatformDefaults v =
     (case enc_raw (def_AgentConfig v) of
        None \<Rightarrow> None
      | Some config \<Rightarrow> Some (enc_object [
     (''image'', Some (enc_string (def_Image v))),
     (''runtime'', Some (enc_Runtime (def_Runtime v))),
     (''agent_config'', Some config),
     (''resources'', Some (enc_Resources (def_Resources v))),
     (''lifecycle'', Some (enc_Lifecycle (def_Lifecycle v)))]))"

definition omit_raw :: "string \<Rightarrow> string option option" where
  "omit_raw raw = (if raw = [] then Some None else map_option Some (enc_raw raw))"

definition enc_Profile :: "Profile \<Rightarrow> string option" where
  "enc_Profile v =
     (case omit_raw (prof_AgentConfig v) of
        None \<Rightarrow> None
      | Some config \<Rightarrow> Some (enc_object [
     (''name'', Some (enc_string (prof_Name v))),
     (''image'', omit_string (prof_Image v)),
     (''runtime'', map_option enc_Runtime (prof_Runtime v)),
     (''agent_config'', config),
     (''resources'', map_option enc_Resources (prof_Resources v)),
     (''lifecycle'', map_option enc_Lifecycle (prof_Lifecycle v)),
     (''credential_providers'', omit_empty enc_CredentialProviderMapping (prof_CredentialProviders v)),
     (''default_credential_provider'', omit_string (prof_DefaultCredentialProvider v)),
     (''broker'', Some (enc_Broker (prof_Broker v))),
     (''egress'', Some (enc_Egress (prof_Egress v))),
     (''workspace_instructions'', omit_string (prof_WorkspaceInstructions v)),
     (''allowed_backends'', Some (enc_array enc_string (AllowedBackends v))),
     (''default_backend'', Some (enc_string (DefaultBackend v))),
     (''allowed_retentions'', Some (enc_array enc_string (AllowedRetentions v)))]))"

definition enc_Workflow :: "Workflow \<Rightarrow> string" where
  "enc_Workflow v = enc_object [
     (''name'', Some (enc_string (wf_Name v))),
     (''repositories'', omit_empty enc_Repository (wf_Repositories v)),
     (''workspace_instructions'', omit_string (wf_WorkspaceInstructions v)),
     (''lifecycle'', map_option enc_Lifecycle (wf_Lifecycle v))]"

end
