(* ===== verification/Go_URL.thy ===== *)
theory Go_URL
  imports Net_Addr
begin

text \<open>
  Go's \<^verbatim>\<open>net/url\<close> as the contract packages use it: \<^verbatim>\<open>url.Parse\<close>, the \<^verbatim>\<open>Hostname\<close>, \<^verbatim>\<open>Port\<close>,
  \<^verbatim>\<open>EscapedPath\<close> and \<^verbatim>\<open>String\<close> methods and \<^verbatim>\<open>url.QueryUnescape\<close>; and \<^verbatim>\<open>net.SplitHostPort\<close>. User
  information is only recorded as present or absent: every caller refuses a URL that has it.
\<close>

section \<open>Percent encoding\<close>

datatype url_mode = EncodePath | EncodeHost | EncodeZone | EncodeUser | EncodeQuery | EncodeFragment

definition alnum :: "char \<Rightarrow> bool" where
  "alnum c \<longleftrightarrow> lowerAlphaNumeric c \<or> upper_alpha c"

definition shouldEscape :: "url_mode \<Rightarrow> char \<Rightarrow> bool" where
  "shouldEscape m c \<longleftrightarrow>
     (if alnum c then False
      else if m \<in> {EncodeHost, EncodeZone} \<and> (c \<in> set ''!$&()*+,;=:[]<>'' \<or> c = CHR 0x27 \<or> c = CHR 0x22) then False
      else if c \<in> set ''-_.~'' then False
      else if c \<in> set ''$&+,/:;=?@'' then
        (case m of
           EncodePath \<Rightarrow> c = CHR ''?''
         | EncodeUser \<Rightarrow> c \<in> set ''@/?:''
         | EncodeQuery \<Rightarrow> True
         | EncodeFragment \<Rightarrow> False
         | _ \<Rightarrow> True)
      else if m = EncodeFragment \<and> c \<in> set ''!()*'' then False
      else True)"

text \<open>
  \<open>unescape\<close>: a percent sign must be followed by two hexadecimal digits; in a host only bytes
  beyond ASCII and the percent sign itself may be encoded, and every plain byte must be a host
  character.
\<close>

fun unescape :: "url_mode \<Rightarrow> string \<Rightarrow> string option" where
  "unescape m [] = Some []"
| "unescape m (c # cs) =
     (if c = CHR ''%'' then
        (case cs of
           a # b # rest \<Rightarrow>
             if hex_digit a \<and> hex_digit b then
               (let v = hex_val a * 16 + hex_val b in
                if m = EncodeHost \<and> hex_val a < 8 \<and> v \<noteq> 37 then None
                else if m = EncodeZone \<and> v \<noteq> 37 \<and> v \<noteq> 32 \<and> shouldEscape EncodeHost (char_of v) then None
                else map_option ((#) (char_of v)) (unescape m rest))
             else None
         | _ \<Rightarrow> None)
      else if c = CHR ''+'' \<and> m = EncodeQuery then map_option ((#) (CHR '' '')) (unescape m cs)
      else if m \<in> {EncodeHost, EncodeZone} \<and> byte c < 128 \<and> shouldEscape m c then None
      else map_option ((#) c) (unescape m cs))"

definition upper_hex :: "int \<Rightarrow> char" where
  "upper_hex v = (if v < 10 then char_of (48 + v) else char_of (55 + v))"

definition escape :: "url_mode \<Rightarrow> string \<Rightarrow> string" where
  "escape m s =
     concat (map (\<lambda>c.
       if shouldEscape m c then
         (if c = CHR '' '' \<and> m = EncodeQuery then ''+''
          else [CHR ''%'', upper_hex (byte c div 16), upper_hex (byte c mod 16)])
       else [c]) s)"

definition QueryUnescape :: "string \<Rightarrow> string option" where
  "QueryUnescape s = unescape EncodeQuery s"

definition validEncoded :: "url_mode \<Rightarrow> string \<Rightarrow> bool" where
  "validEncoded m s \<longleftrightarrow>
     list_all (\<lambda>c. c \<in> set ''!$&()*+,;=:@[]%'' \<or> c = CHR 0x27 \<or> \<not> shouldEscape m c) s"

section \<open>Hosts\<close>

definition cut_last :: "char \<Rightarrow> string \<Rightarrow> (string \<times> string) option" where
  "cut_last d s = (case cut_on d (rev s) of None \<Rightarrow> None | Some (a, b) \<Rightarrow> Some (rev b, rev a))"

definition validOptionalPort :: "string \<Rightarrow> bool" where
  "validOptionalPort p \<longleftrightarrow> p = [] \<or> hd p = CHR '':'' \<and> list_all digit (tl p)"

text \<open>Cut at the first occurrence of \<open>%25\<close>, which starts a zone.\<close>

fun cut_zone :: "string \<Rightarrow> (string \<times> string) option" where
  "cut_zone [] = None"
| "cut_zone (c # cs) =
     (if prefix ''%25'' (c # cs) then Some ([], c # cs)
      else (case cut_zone cs of None \<Rightarrow> None | Some (a, b) \<Rightarrow> Some (c # a, b)))"

definition unescape_literal :: "string \<Rightarrow> string option" where
  "unescape_literal h =
     (case cut_zone h of
        None \<Rightarrow> unescape EncodeHost h
      | Some (a, b) \<Rightarrow>
          (case (unescape EncodeHost a, unescape EncodeZone b) of
             (Some x, Some y) \<Rightarrow> Some (x @ y)
           | _ \<Rightarrow> None))"

text \<open>A bracketed host must hold an IPv6 address.\<close>

definition parseHost :: "string \<Rightarrow> string option" where
  "parseHost host =
     (if CHR ''['' \<in> set host then
        (if hd host \<noteq> CHR ''['' then None
         else case cut_last (CHR '']'') (tl host) of
             None \<Rightarrow> None
           | Some (name, colonPort) \<Rightarrow>
               if \<not> validOptionalPort colonPort then None
               else (case unescape_literal name of
                   None \<Rightarrow> None
                 | Some n \<Rightarrow>
                     (case parse_addr n of
                        Some (V6 w z) \<Rightarrow> Some (''['' @ n @ '']'' @ colonPort)
                      | _ \<Rightarrow> None)))
      else case cut_last (CHR '':'') host of
          Some (_, port) \<Rightarrow>
            if \<not> validOptionalPort (CHR '':'' # port) then None else unescape EncodeHost host
        | None \<Rightarrow> unescape EncodeHost host)"

definition splitHostPort :: "string \<Rightarrow> string \<times> string" where
  "splitHostPort hostPort =
     (let (host, port) =
            (case cut_last (CHR '':'') hostPort of
               Some (h, p) \<Rightarrow> if list_all digit p then (h, p) else (hostPort, [])
             | None \<Rightarrow> (hostPort, []))
      in (if host \<noteq> [] \<and> hd host = CHR ''['' \<and> last host = CHR '']'' \<and> 2 \<le> length host
          then butlast (tl host) else host, port))"

section \<open>URLs\<close>

record url =
  url_Scheme :: string
  url_Opaque :: string
  url_User :: bool
  url_Host :: string
  url_Path :: string
  url_RawPath :: string
  url_OmitHost :: bool
  url_ForceQuery :: bool
  url_RawQuery :: string
  url_Fragment :: string
  url_RawFragment :: string

definition zero_url :: url where
  "zero_url = \<lparr>url_Scheme = [], url_Opaque = [], url_User = False, url_Host = [], url_Path = [],
     url_RawPath = [], url_OmitHost = False, url_ForceQuery = False, url_RawQuery = [],
     url_Fragment = [], url_RawFragment = []\<rparr>"

definition alpha :: "char \<Rightarrow> bool" where
  "alpha c \<longleftrightarrow> 97 \<le> byte c \<and> byte c \<le> 122 \<or> upper_alpha c"

text \<open>\<open>getScheme\<close>: \<open>None\<close> is the error of a URL that starts with a colon.\<close>

definition getScheme :: "string \<Rightarrow> (string \<times> string) option" where
  "getScheme s =
     (case cut_on (CHR '':'') s of
        None \<Rightarrow> Some ([], s)
      | Some (a, b) \<Rightarrow>
          if a = [] then None
          else if alpha (hd a) \<and> list_all (\<lambda>c. alpha c \<or> digit c \<or> c \<in> set ''+-.'') a then Some (a, b)
          else Some ([], s))"

definition cut_or :: "char \<Rightarrow> string \<Rightarrow> string \<times> string" where
  "cut_or d s = (case cut_on d s of None \<Rightarrow> (s, []) | Some p \<Rightarrow> p)"

definition validUserinfo :: "string \<Rightarrow> bool" where
  "validUserinfo s \<longleftrightarrow> list_all (\<lambda>c. alnum c \<or> c \<in> set ''-._:~!$&()*+,;=%@'' \<or> c = CHR 0x27) s"

definition parseAuthority :: "string \<Rightarrow> (bool \<times> string) option" where
  "parseAuthority a =
     (case cut_last (CHR ''@'') a of
        None \<Rightarrow> map_option (\<lambda>h. (False, h)) (parseHost a)
      | Some (user, host) \<Rightarrow>
          (case parseHost host of
             None \<Rightarrow> None
           | Some h \<Rightarrow>
               (let (name, pass) = cut_or (CHR '':'') user in
                if validUserinfo user \<and> unescape EncodeUser name \<noteq> None \<and> unescape EncodeUser pass \<noteq> None
                then Some (True, h) else None)))"

definition setPath :: "url \<Rightarrow> string \<Rightarrow> url option" where
  "setPath u p =
     (case unescape EncodePath p of
        None \<Rightarrow> None
      | Some q \<Rightarrow> Some (u\<lparr>url_Path := q, url_RawPath := (if p = escape EncodePath q then [] else p)\<rparr>))"

definition setFragment :: "url \<Rightarrow> string \<Rightarrow> url option" where
  "setFragment u f =
     (case unescape EncodeFragment f of
        None \<Rightarrow> None
      | Some g \<Rightarrow> Some (u\<lparr>url_Fragment := g,
                        url_RawFragment := (if f = escape EncodeFragment g then [] else f)\<rparr>))"

text \<open>The scheme, then the query, then the authority, then the path.\<close>

definition parse_rest :: "url \<Rightarrow> string \<Rightarrow> url option" where
  "parse_rest u rest =
     (if \<not> prefix ''/'' rest \<and> url_Scheme u \<noteq> [] then Some (u\<lparr>url_Opaque := rest\<rparr>)
      else if \<not> prefix ''/'' rest \<and> CHR '':'' \<in> set (fst (cut_or (CHR ''/'') rest)) then None
      else if (url_Scheme u \<noteq> [] \<or> \<not> prefix ''///'' rest) \<and> prefix ''//'' rest then
        (let body = drop 2 rest;
             authority = takeWhile (\<lambda>c. c \<noteq> CHR ''/'') body;
             path = dropWhile (\<lambda>c. c \<noteq> CHR ''/'') body
         in case parseAuthority authority of
              None \<Rightarrow> None
            | Some (user, host) \<Rightarrow> setPath (u\<lparr>url_User := user, url_Host := host\<rparr>) path)
      else setPath (u\<lparr>url_OmitHost := (url_Scheme u \<noteq> [] \<and> prefix ''/'' rest)\<rparr>) rest)"

definition parse_url :: "string \<Rightarrow> url option" where
  "parse_url raw =
     (if list_ex (\<lambda>c. byte c < 32 \<or> byte c = 127) raw then None
      else if raw = ''*'' then Some (zero_url\<lparr>url_Path := ''*''\<rparr>)
      else case getScheme raw of
          None \<Rightarrow> None
        | Some (scheme, rest) \<Rightarrow>
            (let u = zero_url\<lparr>url_Scheme := to_lower scheme\<rparr> in
             if rest \<noteq> [] \<and> last rest = CHR ''?'' \<and> CHR ''?'' \<notin> set (butlast rest)
             then parse_rest (u\<lparr>url_ForceQuery := True\<rparr>) (butlast rest)
             else let (front, query) = cut_or (CHR ''?'') rest
                  in parse_rest (u\<lparr>url_RawQuery := query\<rparr>) front))"

definition url_Parse :: "string \<Rightarrow> url option" where
  "url_Parse raw =
     (let (front, frag) = cut_or (CHR ''#'') raw
      in case parse_url front of
           None \<Rightarrow> None
         | Some u \<Rightarrow> if frag = [] then Some u else setFragment u frag)"

definition Hostname :: "url \<Rightarrow> string" where
  "Hostname u = fst (splitHostPort (url_Host u))"

definition Port :: "url \<Rightarrow> string" where
  "Port u = snd (splitHostPort (url_Host u))"

definition EscapedPath :: "url \<Rightarrow> string" where
  "EscapedPath u =
     (if url_RawPath u \<noteq> [] \<and> validEncoded EncodePath (url_RawPath u)
         \<and> unescape EncodePath (url_RawPath u) = Some (url_Path u) then url_RawPath u
      else if url_Path u = ''*'' then ''*''
      else escape EncodePath (url_Path u))"

definition EscapedFragment :: "url \<Rightarrow> string" where
  "EscapedFragment u =
     (if url_RawFragment u \<noteq> [] \<and> validEncoded EncodeFragment (url_RawFragment u)
         \<and> unescape EncodeFragment (url_RawFragment u) = Some (url_Fragment u) then url_RawFragment u
      else escape EncodeFragment (url_Fragment u))"

text \<open>\<open>URL.String\<close> for a URL with a scheme and no user information.\<close>

definition url_String :: "url \<Rightarrow> string" where
  "url_String u =
     url_Scheme u @ '':'' @
     (if url_Opaque u \<noteq> [] then url_Opaque u
      else
        (if url_OmitHost u \<and> url_Host u = [] then []
         else (if url_Host u \<noteq> [] \<or> url_Path u \<noteq> [] then ''//'' else []) @ escape EncodeHost (url_Host u)) @
        (if EscapedPath u \<noteq> [] \<and> hd (EscapedPath u) \<noteq> CHR ''/'' \<and> url_Host u \<noteq> [] then ''/'' else []) @
        EscapedPath u) @
     (if url_ForceQuery u \<or> url_RawQuery u \<noteq> [] then CHR ''?'' # url_RawQuery u else []) @
     (if url_Fragment u \<noteq> [] then CHR ''#'' # EscapedFragment u else [])"

section \<open>Host and port\<close>

text \<open>\<open>net.SplitHostPort\<close>: the last colon separates; an IPv6 host must stand in brackets.\<close>

definition SplitHostPort :: "string \<Rightarrow> (string \<times> string) option" where
  "SplitHostPort hostport =
     (case cut_last (CHR '':'') hostport of
        None \<Rightarrow> None
      | Some (h, port) \<Rightarrow>
          if hostport \<noteq> [] \<and> hd hostport = CHR ''['' then
            (case cut_on (CHR '']'') hostport of
               None \<Rightarrow> None
             | Some (inner, rest) \<Rightarrow>
                 if rest = CHR '':'' # port \<and> CHR ''['' \<notin> set (tl hostport) \<and> CHR '']'' \<notin> set rest
                 then Some (tl inner, port) else None)
          else if CHR '':'' \<in> set h then None
          else if CHR ''['' \<in> set hostport \<or> CHR '']'' \<in> set hostport then None
          else Some (h, port))"

end
