(* ===== verification/Run_Validation.thy ===== *)
theory Run_Validation
  imports Run_Contract Go_URL
begin

text \<open>
  Validation of the run contract, \<^verbatim>\<open>protocol/resolvedrun/validation.go\<close>, and its strict decoders,
  \<^verbatim>\<open>protocol/resolvedrun/decode.go\<close>. A validator returns the message of the first failing check, or
  \<^verbatim>\<open>None\<close> for Go's \<^verbatim>\<open>nil\<close>, with the checks in the order of the source.
\<close>

section \<open>Patterns\<close>

definition lower_alpha :: "char \<Rightarrow> bool" where
  "lower_alpha c \<longleftrightarrow> 97 \<le> byte c \<and> byte c \<le> 122"

definition namePattern :: rexp where
  "namePattern = name_rexp lowerAlphaNumeric (\<lambda>c. lowerAlphaNumeric c \<or> c = CHR ''-'')"

definition providerPattern :: rexp where
  "providerPattern = name_rexp alnum (\<lambda>c. alnum c \<or> c \<in> set ''-._'')"

definition environmentPattern :: rexp where
  "environmentPattern =
     RSeq (RClass (\<lambda>c. alpha c \<or> c = CHR ''_'')) (RStar (RClass (\<lambda>c. alnum c \<or> c = CHR ''_'')))"

definition capabilityPattern :: rexp where
  "capabilityPattern =
     RSeq (RClass lower_alpha) (RSeq (RStar (RClass lowerAlphaNumeric))
       (RStar (RSeq (RChars ''._-'') (RPlus (RClass lowerAlphaNumeric)))))"

definition linuxCapabilityPattern :: rexp where
  "linuxCapabilityPattern =
     RSeq (RClass upper_alpha) (RStar (RClass (\<lambda>c. upper_alpha c \<or> digit c \<or> c = CHR ''_'')))"

definition naturalPattern :: rexp where
  "naturalPattern =
     RAlt (RLit ''0'') (RSeq (RClass (\<lambda>c. digit c \<and> c \<noteq> CHR ''0'')) (RStar (RClass digit)))"

definition cpuQuantityPattern :: rexp where
  "cpuQuantityPattern = RSeq naturalPattern (ROpt (RLit ''m''))"

definition memoryQuantityPattern :: rexp where
  "memoryQuantityPattern =
     RSeq naturalPattern (ROpt (RSeq (RChars ''KMGTP'') (RLit ''i'')))"

section \<open>Text\<close>

definition validName :: "string \<Rightarrow> bool" where
  "validName v \<longleftrightarrow> len v \<le> 63 \<and> matches namePattern v"

definition validProvider :: "string \<Rightarrow> bool" where
  "validProvider v \<longleftrightarrow> len v \<le> 128 \<and> matches providerPattern v"

definition validCapability :: "string \<Rightarrow> bool" where
  "validCapability v \<longleftrightarrow> len v \<le> 128 \<and> matches capabilityPattern v"

definition validEventName :: "string \<Rightarrow> bool" where
  "validEventName v \<longleftrightarrow> len v \<le> 256 \<and> matches capabilityPattern v"

definition containsControl :: "string \<Rightarrow> bool" where
  "containsControl v \<longleftrightarrow> contains_any v [CHR 0x00, CHR 0x0D, CHR 0x0A] \<or> \<not> valid_utf8 v"

definition validBoundedText :: "string \<Rightarrow> int \<Rightarrow> bool \<Rightarrow> bool" where
  "validBoundedText v maximum allowEmpty \<longleftrightarrow>
     (allowEmpty \<or> v \<noteq> []) \<and> len v \<le> maximum \<and> v = trim_space v \<and> \<not> containsControl v \<and> valid_utf8 v"

definition validateUniqueStrings :: "string list \<Rightarrow> (string \<Rightarrow> bool) \<Rightarrow> bool" where
  "validateUniqueStrings vs valid = unique_loop valid id [] vs"

definition containsString :: "string list \<Rightarrow> string \<Rightarrow> bool" where
  "containsString vs wanted = list_ex (\<lambda>v. v = wanted) vs"

text \<open>\<open>strings.IndexFunc(v, unicode.IsControl) != -1\<close>.\<close>

definition has_control_rune :: "string \<Rightarrow> bool" where
  "has_control_rune v = list_ex (\<lambda>(r, _). is_control r) (runes v)"

definition ValidateSourceURL :: "string \<Rightarrow> string option" where
  "ValidateSourceURL v =
     (if v = [] \<or> MaxSourceURLBytes < len v \<or> \<not> valid_utf8 v \<or> v \<noteq> trim_space v \<or> has_control_rune v
      then Some ''source URL is invalid''
      else case url_Parse v of
          None \<Rightarrow> Some ''source URL is invalid''
        | Some u \<Rightarrow>
            if url_Scheme u \<noteq> ''https'' \<or> url_Host u = [] \<or> Hostname u = [] \<or> url_User u
               \<or> url_Opaque u \<noteq> [] \<or> url_String u \<noteq> v
            then Some ''source URL is invalid''
            else case QueryUnescape (url_RawQuery u) of
                None \<Rightarrow> Some ''source URL is invalid''
              | Some q \<Rightarrow>
                  if \<not> valid_utf8 (url_Path u) \<or> \<not> valid_utf8 q \<or> \<not> valid_utf8 (url_Fragment u)
                     \<or> has_control_rune (url_Path u) \<or> has_control_rune q
                     \<or> has_control_rune (url_Fragment u)
                  then Some ''source URL is invalid''
                  else None)"

definition ValidateLocalRunRequest :: "LocalRunRequest \<Rightarrow> string option" where
  "ValidateLocalRunRequest v = first_error [
     check (\<not> validName (req_RunID v)) ''run_id is invalid'',
     check (\<not> validName (req_Profile v)) ''profile is invalid'',
     check (\<not> validName (req_Workflow v)) ''workflow is invalid'',
     check (\<not> validName (req_Retention v)) ''retention is invalid'',
     check (req_Backend v \<noteq> [] \<and> \<not> validName (req_Backend v)) ''backend is invalid'',
     check (MaxPromptBytes < len (req_Prompt v) \<or> CHR 0x00 \<in> set (req_Prompt v)
            \<or> \<not> valid_utf8 (req_Prompt v)) ''prompt is invalid'',
     check (req_SourceURL v \<noteq> [] \<and> ValidateSourceURL (req_SourceURL v) \<noteq> None)
       ''source_url is invalid'']"

definition validatePrincipal :: "Principal \<Rightarrow> string option" where
  "validatePrincipal v = first_error [
     check (Issuer v = [] \<or> 2048 < len (Issuer v) \<or> Issuer v \<noteq> trim_space (Issuer v)
            \<or> containsControl (Issuer v)) ''principal issuer is invalid'',
     (case url_Parse (Issuer v) of
        None \<Rightarrow> Some ''principal issuer is invalid''
      | Some u \<Rightarrow>
          check (url_Scheme u \<noteq> ''https'' \<or> url_Host u = [] \<or> url_User u \<or> url_RawQuery u \<noteq> []
                 \<or> url_Fragment u \<noteq> [] \<or> url_String u \<noteq> Issuer v) ''principal issuer is invalid''),
     check (Subject v = [] \<or> 512 < len (Subject v) \<or> Subject v \<noteq> trim_space (Subject v)
            \<or> containsControl (Subject v)) ''principal subject is invalid'',
     check (512 < len (DisplayName v) \<or> containsControl (DisplayName v))
       ''principal display_name is invalid'']"

definition selections_ok :: "AuthorizedSelection list \<Rightarrow> bool" where
  "selections_ok ss \<longleftrightarrow>
     unique_loop (\<lambda>s. validName (sel_Profile s) \<and> sel_Workflows s \<noteq> []
                    \<and> len (sel_Workflows s) \<le> MaxWorkflows) sel_Profile [] ss
     \<and> list_all (\<lambda>s. validateUniqueStrings (sel_Workflows s) validName) ss"

definition ValidateAuthorizationContext :: "AuthorizationContext \<Rightarrow> string option" where
  "ValidateAuthorizationContext v = first_error [
     check (validatePrincipal (ctx_Principal v) \<noteq> None) ''authorization context is invalid'',
     check (Selections v = [] \<or> MaxProfiles < len (Selections v)) ''authorization context is invalid'',
     check (\<not> selections_ok (Selections v)) ''authorization context is invalid'']"

section \<open>Runtime\<close>

text \<open>
  \<open>net.ParseCIDR\<close> for the question asked of it: an IPv4 network address with its prefix length.
  The length is plain decimal digits; leading zeros are allowed.
\<close>

definition validDockerSubnet :: "string \<Rightarrow> bool" where
  "validDockerSubnet v =
     (case cut_on (CHR ''/'') v of
        None \<Rightarrow> False
      | Some (a, m) \<Rightarrow>
          (case parse_addr a of
             Some (V4 w) \<Rightarrow>
               m \<noteq> [] \<and> list_all digit m \<and> 16 \<le> digits_val m \<and> digits_val m \<le> 30
               \<and> pfx_addr (masked \<lparr>pfx_addr = V4 w, pfx_bits = nat (digits_val m)\<rparr>) = V4 w
           | _ \<Rightarrow> False))"

definition validateRuntimeSelection :: "Runtime \<Rightarrow> string option" where
  "validateRuntimeSelection v =
     (if Model v = [] \<and> Effort v = [] then None
      else if rt_Type v = ''codex'' then
        check (Effort v \<noteq> []
               \<and> \<not> containsString [''minimal'', ''low'', ''medium'', ''high'', ''xhigh''] (Effort v))
          ''runtime effort is unsupported for codex''
      else if rt_Type v = ''claude'' then
        check (Effort v \<noteq> []
               \<and> \<not> containsString [''low'', ''medium'', ''high'', ''xhigh'', ''max''] (Effort v))
          ''runtime effort is unsupported for claude''
      else Some ''runtime model or effort selection is unsupported'')"

fun validate_networks :: "string list \<Rightarrow> DockerNetwork list \<Rightarrow> string option" where
  "validate_networks seen [] = None"
| "validate_networks seen (n # ns) =
     (if \<not> validName (net_Name n) \<or> \<not> validDockerSubnet (net_Subnet n)
      then Some ''runtime Docker network is invalid''
      else if net_Name n \<in> set seen then Some ''runtime Docker network is duplicated''
      else validate_networks (net_Name n # seen) ns)"

definition validateRuntime :: "Runtime \<Rightarrow> string option" where
  "validateRuntime v = first_error [
     check (\<not> validProvider (rt_Type v)) ''runtime type is invalid'',
     check (Autonomy v \<noteq> ''trusted-local'' \<and> Autonomy v \<noteq> ''interactive''
            \<or> rt_User v \<noteq> ''root'' \<and> rt_User v \<noteq> ''non-root'') ''runtime autonomy or user is invalid'',
     check (Model v \<noteq> [] \<and> (\<not> validBoundedText (Model v) 256 False \<or> trim_space (Model v) \<noteq> Model v))
       ''runtime model is invalid'',
     validateRuntimeSelection v,
     (case Container v of
        None \<Rightarrow> None
      | Some c \<Rightarrow>
          check (64 < len (container_Capabilities c)
                 \<or> \<not> validateUniqueStrings (container_Capabilities c)
                     (\<lambda>item. len item \<le> 64 \<and> matches linuxCapabilityPattern item))
            ''runtime container capabilities are invalid''),
     (case Docker v of
        None \<Rightarrow> None
      | Some d \<Rightarrow>
          if 16 < len (RequiredNetworks d) then Some ''runtime Docker networks exceed their limit''
          else validate_networks [] (RequiredNetworks d))]"

section \<open>The agent configuration document\<close>

text \<open>
  \<open>consumeUniqueValue\<close>: no object has two equal keys and no value is nested deeper than 64.
\<close>

function consumeUniqueValue :: "int \<Rightarrow> json \<Rightarrow> bool" where
  "consumeUniqueValue depth v =
     (depth \<le> 64 \<and>
      (case v of
         JArray vs \<Rightarrow> list_all (\<lambda>w. consumeUniqueValue (depth + 1) w) vs
       | JObject ms \<Rightarrow>
           distinct (map fst ms) \<and> list_all (\<lambda>m. consumeUniqueValue (depth + 1) (snd (snd m))) ms
       | _ \<Rightarrow> True))"
  by pat_completeness auto
termination
proof (relation "measure (\<lambda>(_, v). size v)", goal_cases)
  case (2 depth v vs w)
  from 2(2) have "size w < size (JArray vs)" by (induction vs) auto
  with 2 show ?case by simp
next
  case (3 depth v ms m)
  from 3(2) have "size (snd (snd m)) < size (JObject ms)"
    by (induction ms) (auto simp: size_prod_simp split: prod.splits)
  with 3 show ?case by simp
qed simp

declare consumeUniqueValue.simps [simp del]

text \<open>The document as a value tree, when it is one value and passes the duplicate check.\<close>

definition rejectDuplicateKeys :: "string \<Rightarrow> json option" where
  "rejectDuplicateKeys data =
     (case json_value data of
        None \<Rightarrow> None
      | Some v \<Rightarrow> if consumeUniqueValue 0 v then Some v else None)"

type_synonym members = "(string \<times> string \<times> json) list"

definition member :: "members \<Rightarrow> string \<Rightarrow> json option" where
  "member ms k = map_option snd (map_of ms k)"

text \<open>\<open>x.(map[string]any)\<close>, \<open>x.(string)\<close> and \<open>x.([]any)\<close>, each the comma-ok form.\<close>

fun as_object :: "json option \<Rightarrow> members option" where
  "as_object (Some (JObject ms)) = Some ms"
| "as_object _ = None"

fun as_string :: "json option \<Rightarrow> string option" where
  "as_string (Some (JString s)) = Some s"
| "as_string _ = None"

fun as_array :: "json option \<Rightarrow> json list option" where
  "as_array (Some (JArray vs)) = Some vs"
| "as_array _ = None"

definition optionalAnySlice :: "members \<Rightarrow> string \<Rightarrow> json list option" where
  "optionalAnySlice ms k = (case member ms k of None \<Rightarrow> Some [] | Some v \<Rightarrow> as_array (Some v))"

definition validateCommand :: "string \<Rightarrow> json list \<Rightarrow> bool" where
  "validateCommand command args \<longleftrightarrow>
     validBoundedText command 4096 False \<and> \<not> contains_any command [CHR '' '', CHR 0x09]
     \<and> len args \<le> 256
     \<and> list_all (\<lambda>raw. case as_string (Some raw) of
          None \<Rightarrow> False
        | Some a \<Rightarrow> len a \<le> 16384 \<and> CHR 0x00 \<notin> set a \<and> valid_utf8 a) args"

definition command_ok :: "members \<Rightarrow> bool" where
  "command_ok ms =
     (case (as_string (member ms ''command''), optionalAnySlice ms ''args'') of
        (Some command, Some args) \<Rightarrow> validateCommand command args
      | _ \<Rightarrow> False)"

definition to_upper :: "string \<Rightarrow> string" where
  "to_upper s = map (\<lambda>c. if lower_alpha c then char_of (byte c - 32) else c) s"

definition sensitiveEnvironmentName :: "string \<Rightarrow> bool" where
  "sensitiveEnvironmentName name =
     (let upper = to_upper name in
      list_ex (\<lambda>seg. upper = seg \<or> prefix (seg @ ''_'') upper \<or> suffix (''_'' @ seg) upper
                  \<or> sublist (''_'' @ seg @ ''_'') upper)
        [''TOKEN'', ''SECRET'', ''PASSWORD'', ''CREDENTIAL'', ''PRIVATE_KEY'', ''API_KEY'', ''AUTHORIZATION''])"

definition environment_ok :: "json \<Rightarrow> bool" where
  "environment_ok raw =
     (case as_object (Some raw) of
        None \<Rightarrow> False
      | Some env \<Rightarrow>
          len env \<le> 128 \<and> list_all (\<lambda>(name, _, v).
            case as_string (Some v) of
              None \<Rightarrow> False
            | Some txt \<Rightarrow>
                len name \<le> 128 \<and> matches environmentPattern name \<and> len txt \<le> 16384
                \<and> CHR 0x00 \<notin> set txt \<and> \<not> sensitiveEnvironmentName name) env)"

definition managedControllerPlugins :: "string list" where
  "managedControllerPlugins = [''git-host-credentials'', ''git-credentials'', ''checkout-repos'']"

fun validate_plugins :: "json list \<Rightarrow> string option" where
  "validate_plugins [] = None"
| "validate_plugins (raw # rest) =
     (case as_object (Some raw) of
        None \<Rightarrow> Some ''agent_config plugins are invalid''
      | Some plugin \<Rightarrow>
          (case as_string (member plugin ''name'') of
             None \<Rightarrow> Some ''agent_config plugins are invalid''
           | Some name \<Rightarrow>
               if name = [] then Some ''agent_config plugins are invalid''
               else if name \<in> set managedControllerPlugins
               then Some ''agent_config contains a controller-owned plugin''
               else validate_plugins rest))"

definition validate_runtime_object :: "members \<Rightarrow> string option" where
  "validate_runtime_object runtime = first_error [
     check (member runtime ''initial-prompt'' \<noteq> None) ''agent_config contains controller-owned initial prompt'',
     check (member runtime ''proxy'' \<noteq> None) ''agent_config contains controller-owned runtime proxy'',
     check (\<not> command_ok runtime) ''agent_config runtime command is invalid'',
     (case member runtime ''resume'' of
        None \<Rightarrow> None
      | Some raw \<Rightarrow>
          (case as_object (Some raw) of
             None \<Rightarrow> Some ''agent_config runtime resume is invalid''
           | Some resume \<Rightarrow> check (\<not> command_ok resume) ''agent_config runtime resume is invalid'')),
     (case member runtime ''env'' of
        None \<Rightarrow> None
      | Some raw \<Rightarrow> check (\<not> environment_ok raw) ''agent_config runtime environment is invalid'')]"

definition validate_config_root :: "members \<Rightarrow> string option" where
  "validate_config_root root =
     (if member root ''egress'' \<noteq> None then Some ''agent_config contains controller-owned egress''
      else case as_object (member root ''runtime'') of
          None \<Rightarrow> Some ''agent_config runtime is invalid''
        | Some runtime \<Rightarrow> first_error [
            validate_runtime_object runtime,
            (case member root ''plugins'' of
               None \<Rightarrow> None
             | Some JNull \<Rightarrow> None
             | Some raw \<Rightarrow>
                 (case as_array (Some raw) of
                    None \<Rightarrow> Some ''agent_config plugins are invalid''
                  | Some plugins \<Rightarrow> validate_plugins plugins))])"

definition validateAgentConfig :: "string \<Rightarrow> string option" where
  "validateAgentConfig v =
     (if v = [] \<or> MaxAgentConfigBytes < len v then Some ''agent_config is invalid''
      else case as_object (rejectDuplicateKeys v) of
          None \<Rightarrow> Some ''agent_config is invalid''
        | Some root \<Rightarrow> validate_config_root root)"

section \<open>Lifecycle, resources and the effective configuration\<close>

definition validateLifecycle :: "Lifecycle \<Rightarrow> string option" where
  "validateLifecycle v = first_error [
     check (128 < len (CompleteOn v) \<or> 128 < len (FailOn v)
            \<or> \<not> validateUniqueStrings (CompleteOn v) validEventName
            \<or> \<not> validateUniqueStrings (FailOn v) validEventName) ''lifecycle is invalid'',
     check (list_ex (\<lambda>e. e \<in> set (CompleteOn v)) (FailOn v))
       ''lifecycle event has conflicting outcomes'']"

definition validateResources :: "Resources \<Rightarrow> string option" where
  "validateResources v = first_error [
     check (CPURequest v \<noteq> [] \<and> \<not> matches cpuQuantityPattern (CPURequest v)) ''CPU request is invalid'',
     check (CPULimit v \<noteq> [] \<and> \<not> matches cpuQuantityPattern (CPULimit v)) ''CPU limit is invalid'',
     check (MemoryRequest v \<noteq> [] \<and> \<not> matches memoryQuantityPattern (MemoryRequest v))
       ''memory request is invalid'',
     check (MemoryLimit v \<noteq> [] \<and> \<not> matches memoryQuantityPattern (MemoryLimit v))
       ''memory limit is invalid'']"

definition validateEffective :: "string \<Rightarrow> Runtime \<Rightarrow> string \<Rightarrow> Resources \<Rightarrow> Lifecycle \<Rightarrow> string option" where
  "validateEffective img runtime agentConfig resources lifecycle = first_error [
     check (img = [] \<or> 4096 < len img \<or> img \<noteq> trim_space img \<or> containsControl img)
       ''image is invalid'',
     validateRuntime runtime,
     validateAgentConfig agentConfig,
     validateLifecycle lifecycle,
     validateResources resources]"

definition validateTTL :: "TTL \<Rightarrow> string option" where
  "validateTTL v =
     check (list_ex (\<lambda>s. s < 0 \<or> 31536000 < s)
       [ActiveSeconds v, CompletedSeconds v, FailedSeconds v, RunRetentionSeconds v]) ''TTL is invalid''"

definition validateInstructions :: "string \<Rightarrow> string option" where
  "validateInstructions v =
     check (MaxWorkspaceInstructionsBytes < len v \<or> CHR 0x00 \<in> set v \<or> \<not> valid_utf8 v)
       ''workspace instructions are invalid''"

section \<open>Repositories and hosts\<close>

definition trim_slashes :: "string \<Rightarrow> string" where
  "trim_slashes v = rev (dropWhile (\<lambda>c. c = CHR ''/'') (rev (dropWhile (\<lambda>c. c = CHR ''/'') v)))"

definition validRepositoryID :: "string \<Rightarrow> bool" where
  "validRepositoryID v =
     (if v = [] \<or> 1024 < len v \<or> v \<noteq> trim_slashes v \<or> containsControl v \<or> sublist ''//'' v then False
      else let segments = split_on (CHR ''/'') v in
        2 \<le> len segments
        \<and> list_all (\<lambda>s. \<not> (s = [] \<or> s = ''.'' \<or> s = ''..'' \<or> contains_any s (''?#@'' @ [CHR 0x5C]))) segments)"

definition validRepositoryPattern :: "string \<Rightarrow> bool" where
  "validRepositoryPattern v =
     (if suffix ''/*'' v then validRepositoryID (trim_suffix v ''/*'' @ ''/repository'')
      else validRepositoryID v)"

definition patternsContain :: "string list \<Rightarrow> string \<Rightarrow> bool" where
  "patternsContain patterns repository =
     list_ex (\<lambda>p. p = repository \<or> suffix ''/*'' p \<and> prefix (trim_suffix p ''*'') repository) patterns"

definition hasDotPathSegment :: "string \<Rightarrow> bool" where
  "hasDotPathSegment v = list_ex (\<lambda>s. s = [] \<or> s = ''.'' \<or> s = ''..'') (split_on (CHR ''/'') v)"

definition port_ok :: "url \<Rightarrow> bool" where
  "port_ok u =
     (if url_Host u \<noteq> Hostname u then
        (case atoi (Port u) of None \<Rightarrow> False | Some p \<Rightarrow> 1 \<le> p \<and> p \<le> 65535)
      else True)"

definition repositoryTargetFromURL :: "string \<Rightarrow> string" where
  "repositoryTargetFromURL v =
     (if v = [] \<or> 4096 < len v \<or> containsControl v then []
      else case url_Parse v of
          None \<Rightarrow> []
        | Some u \<Rightarrow>
            if url_Scheme u \<noteq> ''https'' \<or> url_Host u = [] \<or> url_Host u \<noteq> to_lower (url_Host u)
               \<or> url_User u \<or> url_RawQuery u \<noteq> [] \<or> url_Fragment u \<noteq> [] \<or> url_RawPath u \<noteq> []
               \<or> CHR ''%'' \<in> set (EscapedPath u) \<or> url_Path u = [] \<or> url_Path u = ''/''
               \<or> suffix ''/'' (url_Path u) \<or> hasDotPathSegment (trim_prefix (url_Path u) ''/'')
               \<or> net_parse_ip (Hostname u) then []
            else if \<not> port_ok u then []
            else let identifier = url_Host u @ trim_suffix (url_Path u) ''.git''
                 in if validRepositoryID identifier then identifier else [])"

definition validCheckoutPath :: "string \<Rightarrow> bool" where
  "validCheckoutPath v =
     (v = [] \<or> len v \<le> 1024 \<and> v = trim_slashes v \<and> \<not> prefix ''/'' v \<and> \<not> hasDotPathSegment v
      \<and> \<not> containsControl v \<and> CHR 0x5C \<notin> set v)"

definition validEgressHost :: "string \<Rightarrow> bool" where
  "validEgressHost v =
     (if v = [] \<or> 512 < len v \<or> v \<noteq> to_lower v \<or> containsControl v \<or> sublist ''://'' v then False
      else case url_Parse (''https://'' @ v) of
          None \<Rightarrow> False
        | Some u \<Rightarrow>
            \<not> (url_User u \<or> url_Path u \<noteq> [] \<or> url_RawQuery u \<noteq> [] \<or> url_Fragment u \<noteq> [] \<or> Hostname u = [])
            \<and> \<not> net_parse_ip (Hostname u) \<and> port_ok u)"

definition egressHostName :: "string \<Rightarrow> string" where
  "egressHostName v = (case SplitHostPort v of Some (host, _) \<Rightarrow> host | None \<Rightarrow> v)"

section \<open>Broker grants and egress\<close>

definition isTunnelTransport :: "string \<Rightarrow> bool" where
  "isTunnelTransport t \<longleftrightarrow> t = ''forward-proxy'' \<or> t = ''transparent''"

definition rule_ok :: "BrokerGrantAuthorizationRule \<Rightarrow> bool" where
  "rule_ok r \<longleftrightarrow>
     \<not> (Operation r = [] \<or> 4096 < len (Operation r) \<or> \<not> valid_utf8 (Operation r)
        \<or> Resource r = [] \<or> 8192 < len (Resource r) \<or> \<not> valid_utf8 (Resource r))"

definition validate_authorization :: "BrokerGrantAuthorization option \<Rightarrow> string option" where
  "validate_authorization a =
     (case a of
        None \<Rightarrow> None
      | Some v \<Rightarrow> first_error [
          check (auth_DefaultAction v \<noteq> ''allow'' \<and> auth_DefaultAction v \<noteq> ''deny'')
            ''broker grant authorization default action is invalid'',
          check (256 < len (Rules v)) ''broker grant authorization exceeds its limit'',
          check (\<not> list_all rule_ok (Rules v)) ''broker grant authorization rule is invalid''])"

text \<open>The body of the grant loop, after the provider name and its uniqueness.\<close>

definition validate_grant :: "BrokerGrant \<Rightarrow> string option" where
  "validate_grant g = first_error [
     check (list_ex (\<lambda>n. 256 < n)
       [len (grant_Repositories g), len (grant_Resources g), len (grant_Capabilities g),
        len (Preparations g), len (EgressHosts g), len (Permissions g)]) ''broker grant exceeds its limit'',
     check (\<not> validateUniqueStrings (grant_Repositories g) validRepositoryPattern)
       ''broker grant repositories are invalid'',
     check (\<not> validateUniqueStrings (grant_Resources g) (\<lambda>v. validBoundedText v 4096 False))
       ''broker grant resources are invalid'',
     check (\<not> validateUniqueStrings (grant_Capabilities g) validCapability)
       ''broker grant capabilities are invalid'',
     check (\<not> validateUniqueStrings (Preparations g) validCapability)
       ''broker grant preparations are invalid'',
     check (\<not> validateUniqueStrings (EgressHosts g) validEgressHost)
       ''broker grant egress hosts are invalid'',
     check (\<not> list_all (\<lambda>(p, access). validCapability p \<and> (access = ''read'' \<or> access = ''write'')) (Permissions g))
       ''broker grant permissions are invalid'',
     validate_authorization (Authorization g),
     check (case Quota g of None \<Rightarrow> False | Some q \<Rightarrow> Requests q < 1 \<or> 1000000000 < Requests q)
       ''broker grant quota is invalid'',
     check (Git g \<and> (Materialization g \<noteq> ''header-inject'' \<or> AllowInsecureUpstream g))
       ''git broker grant policy is invalid'',
     check (\<not> containsString [''file-bundle'', ''header-inject'', ''placeholder-file''] (Materialization g))
       ''broker grant materialization is invalid'']"

fun validate_grants :: "string list \<Rightarrow> BrokerGrant list \<Rightarrow> string option" where
  "validate_grants seen [] = None"
| "validate_grants seen (g # gs) =
     (if \<not> validProvider (Provider g) then Some ''broker grant provider is invalid''
      else if Provider g \<in> set seen then Some ''broker grant provider is duplicated''
      else case validate_grant g of
          Some e \<Rightarrow> Some e
        | None \<Rightarrow> validate_grants (Provider g # seen) gs)"

definition validate_direct :: "BrokerGrant list \<Rightarrow> Egress \<Rightarrow> string option" where
  "validate_direct gs e = first_error [
     check (Transport e \<noteq> [] \<or> Enforced e \<or> ProxyProvider e \<noteq> [] \<or> PairedEgressRequired e
            \<or> MaxConcurrentTunnels e \<noteq> 0 \<or> egress_DomainPolicy e \<noteq> None)
       ''direct egress contains mediated policy'',
     check (\<not> list_all (\<lambda>g. Materialization g = ''file-bundle'') gs)
       ''direct egress contains a mediated broker grant'']"

text \<open>The body of the mediated grant loop.\<close>

definition validate_mediated_grant :: "Egress \<Rightarrow> BrokerGrant \<Rightarrow> string option" where
  "validate_mediated_grant e g = first_error [
     check (Materialization g \<noteq> ''header-inject'' \<and> Materialization g \<noteq> ''placeholder-file'')
       ''mediated egress contains a non-mediated broker grant'',
     check (Materialization g = ''header-inject'' \<and> EgressHosts g = [])
       ''mediated egress grant has no bounded host'',
     check (isTunnelTransport (Transport e)
            \<and> (case egress_DomainPolicy e of
                 None \<Rightarrow> False
               | Some p \<Rightarrow> list_ex (\<lambda>v. \<not> domainPolicyAllows p (egressHostName v)) (EgressHosts g)))
       ''mediated injection host is denied by domain policy'']"

definition validate_mediated :: "BrokerGrant list \<Rightarrow> Egress \<Rightarrow> string option" where
  "validate_mediated gs e = first_error ([
     check (\<not> PairedEgressRequired e) ''mediated egress lacks its paired identity'',
     (if Transport e = ''redirect'' then
        check (ProxyProvider e \<noteq> [] \<or> MaxConcurrentTunnels e \<noteq> 0 \<or> egress_DomainPolicy e \<noteq> None)
          ''mediated redirect contains tunnel policy''
      else if isTunnelTransport (Transport e) then
        check (\<not> Enforced e \<or> ProxyProvider e = [])
          ''mediated tunnel transport lacks enforcement or proxy provider''
      else Some ''mediated egress transport is invalid''),
     check (ProxyProvider e \<noteq> [] \<and> ProxyProvider e \<notin> set (map Provider gs))
       ''mediated egress proxy provider is not granted'',
     check (MaxConcurrentTunnels e \<noteq> 0 \<and> Transport e \<noteq> ''forward-proxy'' \<and> Transport e \<noteq> ''transparent'')
       ''mediated egress tunnel limit requires a tunnel transport'']
     @ map (validate_mediated_grant e) gs @ [
     check (Transport e = ''redirect'' \<and> \<not> list_ex (\<lambda>g. Materialization g = ''header-inject'') gs)
       ''mediated redirect has no header-injection route'',
     check (isTunnelTransport (Transport e) \<and> list_all (\<lambda>g. EgressHosts g = []) gs)
       ''mediated tunnel transport has no injection route''])"

definition validateBrokerAndEgress :: "Broker \<Rightarrow> Egress \<Rightarrow> string option" where
  "validateBrokerAndEgress b e = first_error [
     check (MaxBrokerGrants < len (Grants b)) ''broker grants exceed their limit'',
     validate_grants [] (Grants b),
     check (MaxConcurrentTunnels e < 0 \<or> 4096 < MaxConcurrentTunnels e) ''egress tunnel limit is invalid'',
     check (\<not> validateDomainPolicy (egress_DomainPolicy e)) ''egress domain policy is invalid'',
     (if egress_Mode e = ''direct'' then validate_direct (Grants b) e
      else if egress_Mode e = ''mediated'' then validate_mediated (Grants b) e
      else Some ''egress mode is invalid'')]"

section \<open>Credential mappings and repositories\<close>

definition validCredentialUsername :: "string \<Rightarrow> bool" where
  "validCredentialUsername v \<longleftrightarrow> len v \<le> 256 \<and> v = trim_space v \<and> \<not> containsControl v"

definition validateRepositoryIdentity :: "RepositoryIdentity option \<Rightarrow> string option" where
  "validateRepositoryIdentity identity =
     (case identity of
        None \<Rightarrow> None
      | Some i \<Rightarrow>
          if id_Mode i = ''provider'' then
            check (id_Name i \<noteq> [] \<or> id_Email i \<noteq> []) ''provider repository identity contains explicit fields''
          else if id_Mode i = ''explicit'' then
            check (\<not> validBoundedText (id_Name i) 512 False \<or> \<not> validBoundedText (id_Email i) 512 False)
              ''explicit repository identity is invalid''
          else Some ''repository identity mode is invalid'')"

text \<open>The map from provider to grant; the last grant of a provider wins, as in the Go map.\<close>

definition grant_of :: "BrokerGrant list \<Rightarrow> string \<Rightarrow> BrokerGrant option" where
  "grant_of gs p = find (\<lambda>g. Provider g = p) (rev gs)"

definition validate_mapping :: "BrokerGrant list \<Rightarrow> Egress \<Rightarrow> CredentialProviderMapping list
    \<Rightarrow> CredentialProviderMapping \<Rightarrow> string option" where
  "validate_mapping gs e aliases m = first_error [
     check (\<not> validProvider (map_Name m) \<or> \<not> validProvider (BrokerProvider m) \<or> 256 < len (MatchTargets m)
            \<or> (CredentialKind m \<noteq> [] \<and> CredentialKind m \<noteq> ''token'' \<and> CredentialKind m \<noteq> ''headers''
                \<and> CredentialKind m \<noteq> ''mediated'')) ''credential provider mapping is invalid'',
     check (map_Name m \<in> set (map map_Name aliases)) ''credential provider mapping is duplicated'',
     (case grant_of gs (BrokerProvider m) of
        None \<Rightarrow> Some ''credential provider mapping references an ungranted provider''
      | Some g \<Rightarrow>
          check ((CredentialKind m = ''mediated'') \<noteq>
                 (egress_Mode e = ''mediated'' \<and> Materialization g = ''header-inject'' \<and> Git g))
            ''credential provider kind does not match its git transport''),
     check (\<not> validateUniqueStrings (MatchTargets m) validRepositoryPattern)
       ''credential provider match targets are invalid'']"

fun validate_mappings :: "BrokerGrant list \<Rightarrow> Egress \<Rightarrow> CredentialProviderMapping list
    \<Rightarrow> CredentialProviderMapping list \<Rightarrow> string option" where
  "validate_mappings gs e aliases [] = None"
| "validate_mappings gs e aliases (m # ms) =
     (case validate_mapping gs e aliases m of
        Some err \<Rightarrow> Some err
      | None \<Rightarrow> validate_mappings gs e (m # aliases) ms)"

text \<open>\<open>path.Base\<close>.\<close>

definition path_base :: "string \<Rightarrow> string" where
  "path_base v =
     (if v = [] then ''.''
      else let t = rev (dropWhile (\<lambda>c. c = CHR ''/'') (rev v))
           in if t = [] then ''/''
              else rev (takeWhile (\<lambda>c. c \<noteq> CHR ''/'') (rev t)))"

definition repository_shape_ok :: "Repository \<Rightarrow> bool" where
  "repository_shape_ok r \<longleftrightarrow>
     \<not> (\<not> validRepositoryID (CheckoutTarget r) \<or> repositoryTargetFromURL (repo_URL r) \<noteq> CheckoutTarget r
        \<or> Upstream r \<noteq> [] \<and> repositoryTargetFromURL (Upstream r) = []
        \<or> \<not> validCheckoutPath (repo_Path r)
        \<or> CredentialProvider r = [] \<and> BrokerRepository r \<noteq> []
        \<or> CredentialProvider r = [] \<and> CredentialUsername r \<noteq> []
        \<or> CredentialProvider r = [] \<and> Identity r \<noteq> None
        \<or> CredentialProvider r \<noteq> [] \<and> \<not> validRepositoryID (BrokerRepository r)
        \<or> CredentialUsername r \<noteq> [] \<and> \<not> validCredentialUsername (CredentialUsername r)
        \<or> validateRepositoryIdentity (Identity r) \<noteq> None)"

definition effectivePath :: "Repository \<Rightarrow> string" where
  "effectivePath r =
     (if repo_Path r = [] then path_base (trim_suffix (CheckoutTarget r) ''.git'') else repo_Path r)"

text \<open>The credential checks of a repository that names a mapping.\<close>

definition validate_repository_credential :: "CredentialProviderMapping list \<Rightarrow> BrokerGrant list
    \<Rightarrow> Egress \<Rightarrow> Repository \<Rightarrow> string option" where
  "validate_repository_credential ms gs e r =
     (case find (\<lambda>m. map_Name m = CredentialProvider r) ms of
        None \<Rightarrow> Some ''workflow repository is not authorized by its credential mapping''
      | Some m \<Rightarrow>
          if \<not> patternsContain (MatchTargets m) (CheckoutTarget r)
          then Some ''workflow repository is not authorized by its credential mapping''
          else case grant_of gs (BrokerProvider m) of
              None \<Rightarrow> Some ''workflow repository is not authorized by its broker grant''
            | Some g \<Rightarrow> first_error [
                check (\<not> patternsContain (grant_Repositories g) (BrokerRepository r))
                  ''workflow repository is not authorized by its broker grant'',
                check (egress_Mode e = ''mediated''
                       \<and> (Materialization g \<noteq> ''header-inject'' \<or> \<not> Git g \<or> CredentialKind m \<noteq> ''mediated''))
                  ''mediated repository lacks a mediated git credential path'',
                check ((case Identity r of None \<Rightarrow> False | Some i \<Rightarrow> id_Mode i = ''provider'')
                       \<and> Enforced e \<and> \<not> containsString (Preparations g) ''identity'')
                  ''enforced provider identity lacks trusted preparation''])"

fun validate_repositories :: "CredentialProviderMapping list \<Rightarrow> BrokerGrant list \<Rightarrow> Egress
    \<Rightarrow> string list \<Rightarrow> string list \<Rightarrow> Repository list \<Rightarrow> string option" where
  "validate_repositories ms gs e identifiers paths [] = None"
| "validate_repositories ms gs e identifiers paths (r # rs) =
     (if \<not> repository_shape_ok r then Some ''workflow repository is invalid''
      else if CheckoutTarget r \<in> set identifiers then Some ''workflow repository is duplicated''
      else if effectivePath r \<in> set paths then Some ''workflow checkout path is duplicated''
      else if CredentialProvider r = [] then
        validate_repositories ms gs e (CheckoutTarget r # identifiers) (effectivePath r # paths) rs
      else case validate_repository_credential ms gs e r of
          Some err \<Rightarrow> Some err
        | None \<Rightarrow>
            validate_repositories ms gs e (CheckoutTarget r # identifiers) (effectivePath r # paths) rs)"

definition validateMappingsAndRepositories :: "CredentialProviderMapping list \<Rightarrow> Repository list
    \<Rightarrow> Broker \<Rightarrow> Egress \<Rightarrow> string option" where
  "validateMappingsAndRepositories ms rs b e =
     (case validate_mappings (Grants b) e [] ms of
        Some err \<Rightarrow> Some err
      | None \<Rightarrow> validate_repositories ms (Grants b) e [] [] rs)"

definition validDefaultCredentialProvider :: "string \<Rightarrow> CredentialProviderMapping list \<Rightarrow> bool" where
  "validDefaultCredentialProvider name ms =
     (if name = [] then True
      else if \<not> validProvider name then False
      else list_ex (\<lambda>m. map_Name m = name) ms)"

section \<open>The resolved run\<close>

definition ValidateResolvedAgentRun :: "ResolvedAgentRun \<Rightarrow> string option" where
  "ValidateResolvedAgentRun v = first_error [
     check (ContractVersion v \<noteq> contract_version) ''contract_version is unsupported'',
     ValidateLocalRunRequest \<lparr>req_RunID = RunID v, req_Profile = run_Profile v,
       req_Workflow = run_Workflow v, req_Retention = Retention v, req_Backend = be_Name (Execution v),
       req_Prompt = Prompt v, req_SourceURL = SourceURL v\<rparr>,
     validatePrincipal (run_Principal v),
     check (\<not> validName (be_Kind (Execution v))) ''execution kind is invalid'',
     validateEffective (Image v) (run_Runtime v) (AgentConfig v) (run_Resources v) (run_Lifecycle v),
     check (MaxRepositories < len (Repositories v)
            \<or> MaxCredentialProviderMappings < len (CredentialProviders v))
       ''resolved repository configuration exceeds its limit'',
     validateBrokerAndEgress (run_Broker v) (run_Egress v),
     validateMappingsAndRepositories (CredentialProviders v) (Repositories v) (run_Broker v) (run_Egress v),
     check (\<not> validDefaultCredentialProvider (DefaultCredentialProvider v) (CredentialProviders v))
       ''default credential provider is invalid'',
     check (validateInstructions (wi_Profile (run_WorkspaceInstructions v)) \<noteq> None)
       ''profile workspace instructions are invalid'',
     check (validateInstructions (wi_Workflow (run_WorkspaceInstructions v)) \<noteq> None)
       ''workflow workspace instructions are invalid'',
     validateTTL (run_TTL v)]"

section \<open>Strict decoding\<close>

definition decodeStrict :: "'a \<Rightarrow> 'a fields \<Rightarrow> string \<Rightarrow> 'a option" where
  "decodeStrict zero fs data =
     (if data = [] \<or> MaxDocumentBytes < len data then None
      else case rejectDuplicateKeys data of
          None \<Rightarrow> None
        | Some v \<Rightarrow> dec_struct fs v data zero)"

definition DecodeResolvedAgentRun :: "string \<Rightarrow> ResolvedAgentRun option" where
  "DecodeResolvedAgentRun data =
     (case decodeStrict zero_ResolvedAgentRun ResolvedAgentRun_fields data of
        None \<Rightarrow> None
      | Some r \<Rightarrow> if ValidateResolvedAgentRun r = None then Some r else None)"

definition DecodeLocalRunRequest :: "string \<Rightarrow> LocalRunRequest option" where
  "DecodeLocalRunRequest data =
     (case decodeStrict zero_LocalRunRequest LocalRunRequest_fields data of
        None \<Rightarrow> None
      | Some r \<Rightarrow> if ValidateLocalRunRequest r = None then Some r else None)"

end
