(* ===== verification/SHA256.thy ===== *)
theory SHA256
  imports Go_Strings "HOL-Library.Word"
begin

unbundle bit_operations_syntax

text \<open>
  \<^verbatim>\<open>crypto/sha256\<close> and \<^verbatim>\<open>encoding/hex\<close>: the digest that names a resolved-run snapshot in the store.
\<close>

text \<open>
  The constants of the algorithm are the first 32 bits of the fractional parts of roots of small
  primes: the cube roots of the first 64 for the rounds, the square roots of the first 8 for the
  initial state. They are computed here from that description.
\<close>

definition small_primes :: "int list" where
  "small_primes = filter (\<lambda>p. list_all (\<lambda>d. p mod d \<noteq> 0) [2..p - 1]) [2..311]"

text \<open>The integer part of the \<open>k\<close>-th root, bit by bit from the top.\<close>

definition integer_root :: "nat \<Rightarrow> int \<Rightarrow> int" where
  "integer_root k n = foldl (\<lambda>x b. if (x + 2 ^ b) ^ k \<le> n then x + 2 ^ b else x) 0 (rev [0..<40])"

definition root_fraction :: "nat \<Rightarrow> int \<Rightarrow> 32 word" where
  "root_fraction k p = of_int (integer_root k (p * 2 ^ (32 * k)))"

definition round_constants :: "32 word list" where
  "round_constants = map (root_fraction 3) small_primes"

record digest_state =
  dg_a :: "32 word"
  dg_b :: "32 word"
  dg_c :: "32 word"
  dg_d :: "32 word"
  dg_e :: "32 word"
  dg_f :: "32 word"
  dg_g :: "32 word"
  dg_h :: "32 word"

definition initial_digest :: digest_state where
  "initial_digest =
     (let h = (\<lambda>i. root_fraction 2 (small_primes ! i)) in
      \<lparr>dg_a = h 0, dg_b = h 1, dg_c = h 2, dg_d = h 3, dg_e = h 4, dg_f = h 5, dg_g = h 6, dg_h = h 7\<rparr>)"

definition rotr :: "nat \<Rightarrow> 32 word \<Rightarrow> 32 word" where
  "rotr n w = drop_bit n w OR push_bit (32 - n) w"

text \<open>The message schedule, newest word first.\<close>

definition schedule_word :: "32 word list \<Rightarrow> 32 word" where
  "schedule_word ws =
     (let v1 = ws ! 1; v2 = ws ! 14;
          t1 = rotr 17 v1 XOR rotr 19 v1 XOR drop_bit 10 v1;
          t2 = rotr 7 v2 XOR rotr 18 v2 XOR drop_bit 3 v2
      in t1 + ws ! 6 + t2 + ws ! 15)"

definition message_schedule :: "32 word list \<Rightarrow> 32 word list" where
  "message_schedule block = rev (((\<lambda>ws. schedule_word ws # ws) ^^ 48) (rev block))"

definition compress_round :: "digest_state \<Rightarrow> 32 word \<times> 32 word \<Rightarrow> digest_state" where
  "compress_round s = (\<lambda>(k, w).
     let a = dg_a s; e = dg_e s;
         t1 = dg_h s + (rotr 6 e XOR rotr 11 e XOR rotr 25 e)
                + ((e AND dg_f s) XOR (NOT e AND dg_g s)) + k + w;
         t2 = (rotr 2 a XOR rotr 13 a XOR rotr 22 a)
                + ((a AND dg_b s) XOR (a AND dg_c s) XOR (dg_b s AND dg_c s))
     in \<lparr>dg_a = t1 + t2, dg_b = a, dg_c = dg_b s, dg_d = dg_c s,
         dg_e = dg_d s + t1, dg_f = e, dg_g = dg_f s, dg_h = dg_g s\<rparr>)"

definition compress :: "digest_state \<Rightarrow> 32 word list \<Rightarrow> digest_state" where
  "compress s block =
     (let r = foldl compress_round s (zip round_constants (message_schedule block))
      in \<lparr>dg_a = dg_a s + dg_a r, dg_b = dg_b s + dg_b r, dg_c = dg_c s + dg_c r, dg_d = dg_d s + dg_d r,
          dg_e = dg_e s + dg_e r, dg_f = dg_f s + dg_f r, dg_g = dg_g s + dg_g r, dg_h = dg_h s + dg_h r\<rparr>)"

definition be_bytes :: "nat \<Rightarrow> int \<Rightarrow> int list" where
  "be_bytes n v = map (\<lambda>i. v div 256 ^ i mod 256) (rev [0..<n])"

text \<open>The padded message: a one bit, zero bits, and the bit length in eight bytes.\<close>

definition sha_padding :: "nat \<Rightarrow> int list" where
  "sha_padding n = 128 # replicate ((119 - n mod 64) mod 64) 0 @ be_bytes 8 (8 * int n)"

fun be_words :: "int list \<Rightarrow> 32 word list" where
  "be_words (a # b # c # d # rest) = of_int (a * 16777216 + b * 65536 + c * 256 + d) # be_words rest"
| "be_words _ = []"

function blocks :: "'a list \<Rightarrow> 'a list list" where
  "blocks ws = (if ws = [] then [] else take 16 ws # blocks (drop 16 ws))"
  by pat_completeness auto
termination by (relation "measure length") auto

declare blocks.simps [simp del]

definition digest_words :: "digest_state \<Rightarrow> 32 word list" where
  "digest_words s = [dg_a s, dg_b s, dg_c s, dg_d s, dg_e s, dg_f s, dg_g s, dg_h s]"

definition sha256_bytes :: "string \<Rightarrow> int list" where
  "sha256_bytes s =
     concat (map (\<lambda>w. be_bytes 4 (uint w)) (digest_words
       (foldl compress initial_digest (blocks (be_words (map byte s @ sha_padding (length s)))))))"

definition hex_byte :: "int \<Rightarrow> string" where
  "hex_byte b = map (\<lambda>v. if v < 10 then char_of (48 + v) else char_of (87 + v)) [b div 16, b mod 16]"

text \<open>\<open>hex.EncodeToString\<close> of \<open>sha256.Sum256\<close>.\<close>

definition sha256_hex :: "string \<Rightarrow> string" where
  "sha256_hex s = concat (map hex_byte (sha256_bytes s))"

lemma sha_padding_blocks: "(n + length (sha_padding n)) mod 64 = 0"
proof -
  define q r where "q = n div 64" and "r = n mod 64"
  then have n: "n = 64 * q + r" and r: "r < 64" by simp_all
  have "(119 - r) mod 64 = (if r \<le> 55 then 55 - r else 119 - r)"
    using r by (simp add: mod_if)
  then have "n + (Suc ((119 - r) mod 64) + 8) = 64 * (q + (if r \<le> 55 then 1 else 2))"
    using n r by simp
  then have "(n + (Suc ((119 - n mod 64) mod 64) + 8)) mod 64 = 0"
    by (simp only: r_def mod_mult_self1_is_0)
  then show ?thesis by (simp add: sha_padding_def be_bytes_def)
qed

lemma sha256_hex_length: "length (sha256_hex s) = 64"
proof -
  have hex: "length (concat (map hex_byte bs)) = 2 * length bs" for bs
    by (induction bs) (simp_all add: hex_byte_def)
  have "length (sha256_bytes s) = 32"
    by (simp add: sha256_bytes_def digest_words_def be_bytes_def)
  then show ?thesis by (simp only: sha256_hex_def hex)
qed

end
