(* ===== verification/Local_Run.thy ===== *)
theory Local_Run
  imports Run_Validation SHA256 "HOL-Library.Char_ord" "HOL-Library.List_Lexorder"
begin

text \<open>
  The local run of the local controller: its states and transitions, errors and API view
  (\<^verbatim>\<open>localcontroller/internal/controller/types.go\<close>), the row that \<^verbatim>\<open>store.go\<close> keeps for it, the
  validation of a row and the time and text helpers of the store. Time is in nanoseconds; its
  text form in the database is not modelled. A \<^verbatim>\<open>TEXT\<close> column that may be \<^verbatim>\<open>NULL\<close> is an \<^verbatim>\<open>option\<close>.
\<close>

section \<open>States\<close>

datatype State =
    StatePending
  | StatePreparing
  | StateRunning
  | StateStopping
  | StateCompleted
  | StateFailed
  | StateExpired
  | StateEmpty
  | StateOther string

datatype store_error =
    ErrInvalidRequest
  | ErrNotFound
  | ErrGone
  | ErrConflict
  | ErrActiveGroup
  | ErrCapacityExceeded
  | ErrInvalidTransition
  | ErrOwnershipConflict
  | ErrStoreUnavailable
  | ErrDestructiveReconcile "string list" "string list"

fun state_valid :: "State \<Rightarrow> bool" where
  "state_valid StateEmpty = False"
| "state_valid (StateOther s) = False"
| "state_valid _ = True"

definition state_terminal :: "State \<Rightarrow> bool" where
  "state_terminal s \<longleftrightarrow> s = StateCompleted \<or> s = StateFailed \<or> s = StateExpired"

definition state_active :: "State \<Rightarrow> bool" where
  "state_active s \<longleftrightarrow> state_valid s \<and> \<not> state_terminal s"

fun transitionAllowed :: "State \<Rightarrow> State \<Rightarrow> bool" where
  "transitionAllowed StatePending to = (to = StatePreparing \<or> to = StateStopping)"
| "transitionAllowed StatePreparing to = (to = StateRunning \<or> to = StateStopping)"
| "transitionAllowed StateRunning to = (to = StatePreparing \<or> to = StateStopping)"
| "transitionAllowed StateStopping to = (to = StateCompleted \<or> to = StateFailed \<or> to = StateExpired)"
| "transitionAllowed _ to = False"

lemma state_terminal_simps [simp]:
  "state_terminal StateCompleted" "state_terminal StateFailed" "state_terminal StateExpired"
  "\<not> state_terminal StatePending" "\<not> state_terminal StatePreparing" "\<not> state_terminal StateRunning"
  "\<not> state_terminal StateStopping" "\<not> state_terminal StateEmpty" "\<not> state_terminal (StateOther s)"
  by (simp_all add: state_terminal_def)

lemma state_active_iff: "state_active s \<longleftrightarrow> s \<in> {StatePending, StatePreparing, StateRunning, StateStopping}"
  by (cases s) (simp_all add: state_active_def)

lemma state_terminal_valid: "state_terminal s \<Longrightarrow> state_valid s"
  by (auto simp: state_terminal_def)

section \<open>The API view\<close>

record Run =
  v_APIVersion :: string
  v_RunID :: string
  v_State :: State
  v_Revision :: int
  v_SnapshotDigest :: string
  v_Issuer :: string
  v_Subject :: string
  v_SourceURL :: string
  v_Profile :: string
  v_Workflow :: string
  v_Retention :: string
  v_Persistent :: bool
  v_CreatedAt :: int
  v_UpdatedAt :: int
  v_DeadlineAt :: "int option"
  v_TerminalExpiresAt :: "int option"
  v_DeleteRequested :: bool
  v_TerminalTarget :: State
  v_LastReason :: string
  v_ReconcileOwner :: string
  v_ReconcileUntil :: "int option"

definition api_version :: string where
  "api_version = ''nvt.local-runs/v1''"

definition zero_Run :: Run where
  "zero_Run = \<lparr>v_APIVersion = [], v_RunID = [], v_State = StateEmpty, v_Revision = 0,
     v_SnapshotDigest = [], v_Issuer = [], v_Subject = [], v_SourceURL = [], v_Profile = [],
     v_Workflow = [], v_Retention = [], v_Persistent = False, v_CreatedAt = 0, v_UpdatedAt = 0,
     v_DeadlineAt = None, v_TerminalExpiresAt = None, v_DeleteRequested = False,
     v_TerminalTarget = StateEmpty, v_LastReason = [], v_ReconcileOwner = [], v_ReconcileUntil = None\<rparr>"

record CreateInput =
  in_IdempotencyKey :: string
  in_ActiveGroup :: string
  in_ResolvedRun :: string

record ClaimInput =
  claim_RunID :: string
  claim_Owner :: string
  claim_ExpectedRevision :: int
  claim_Lease :: int

record StatusInput =
  st_RunID :: string
  st_Owner :: string
  st_ExpectedRevision :: int
  st_State :: State
  st_TerminalTarget :: State
  st_Reason :: string
  st_LifecycleCursor :: "string option"

record ListResult =
  list_APIVersion :: string
  list_Runs :: "Run list"
  list_NextAfter :: string

record CreateResult =
  result_Run :: Run
  result_Created :: bool

definition persistentRun :: "bool \<Rightarrow> bool \<Rightarrow> bool \<Rightarrow> bool" where
  "persistentRun workspace runtimeState dockerData \<longleftrightarrow> workspace \<or> runtimeState \<or> dockerData"

section \<open>Text checks\<close>

definition validRunID :: "string \<Rightarrow> bool" where
  "validRunID v =
     (if v = [] \<or> 63 < len v \<or> \<not> lowerAlphaNumeric (hd v) then False
      else if \<not> list_all (\<lambda>c. lowerAlphaNumeric c \<or> c = CHR ''-'') (tl v) then False
      else lowerAlphaNumeric (last v))"

definition validIdempotencyKey :: "string \<Rightarrow> bool" where
  "validIdempotencyKey v \<longleftrightarrow>
     \<not> (len v < 16 \<or> 256 < len v \<or> v \<noteq> trim_space v)
     \<and> list_all (\<lambda>(r, _). \<not> (r < 33 \<or> 126 < r)) (runes v)"

definition validOwner :: "string \<Rightarrow> bool" where
  "validOwner v \<longleftrightarrow>
     v \<noteq> [] \<and> len v \<le> 128 \<and> v = trim_space v \<and> \<not> contains_any v [CHR 0x00, CHR 0x0D, CHR 0x0A]"

definition validReason :: "string \<Rightarrow> bool" where
  "validReason v \<longleftrightarrow>
     \<not> (128 < len v \<or> v \<noteq> trim_space v)
     \<and> list_all (\<lambda>(r, _). 97 \<le> r \<and> r \<le> 122 \<or> 48 \<le> r \<and> r \<le> 57 \<or> r = 45 \<or> r = 46) (runes v)"

text \<open>The loop indexes the string at every code point and looks at its first byte.\<close>

definition validLifecycleCursor :: "string \<Rightarrow> bool" where
  "validLifecycleCursor v \<longleftrightarrow>
     len v \<le> 256 \<and> list_all (\<lambda>(_, bs). alnum (hd bs) \<or> hd bs \<in> set ''.:_-'') (runes v)"

section \<open>Rows\<close>

record row =
  run_id :: string
  idempotency_key :: string
  active_group :: string
  request_digest :: string
  snapshot :: string
  snapshot_digest :: string
  state :: State
  revision :: int
  created_at :: int
  updated_at :: int
  deadline_at :: "int option"
  terminal_expires_at :: "int option"
  reconcile_owner :: "string option"
  reconcile_until :: "int option"
  delete_requested :: bool
  deleted_at :: "int option"
  last_reason :: string
  terminal_target :: State
  lifecycle_cursor :: string
  ownership_digest :: string
  pending_snapshot :: "string option"
  pending_snapshot_digest :: string

text \<open>The bytes of a \<open>BLOB\<close> column: \<open>NULL\<close> scans into an empty slice.\<close>

definition pendingSnapshot :: "row \<Rightarrow> string" where
  "pendingSnapshot r = (case pending_snapshot r of None \<Rightarrow> [] | Some s \<Rightarrow> s)"

definition reconcileOwner :: "row \<Rightarrow> string" where
  "reconcileOwner r = (case reconcile_owner r of None \<Rightarrow> [] | Some s \<Rightarrow> s)"

text \<open>The view as \<open>scanStoredRun\<close> fills it: without the fields that come from the snapshot.\<close>

definition scanStoredRun :: "row \<Rightarrow> Run" where
  "scanStoredRun r = zero_Run\<lparr>v_APIVersion := api_version, v_RunID := run_id r,
     v_SnapshotDigest := snapshot_digest r, v_State := state r, v_Revision := revision r,
     v_CreatedAt := created_at r, v_UpdatedAt := updated_at r, v_DeadlineAt := deadline_at r,
     v_TerminalExpiresAt := terminal_expires_at r, v_DeleteRequested := delete_requested r,
     v_LastReason := last_reason r, v_TerminalTarget := terminal_target r,
     v_ReconcileOwner := reconcileOwner r, v_ReconcileUntil := reconcile_until r\<rparr>"

definition populateRunMetadata :: "ResolvedAgentRun \<Rightarrow> Run \<Rightarrow> Run" where
  "populateRunMetadata resolved view = view\<lparr>
     v_Issuer := Issuer (run_Principal resolved),
     v_Subject := Subject (run_Principal resolved),
     v_SourceURL := SourceURL resolved,
     v_Profile := run_Profile resolved,
     v_Workflow := run_Workflow resolved,
     v_Retention := Retention resolved,
     v_Persistent := persistentRun (Workspace (run_Persistence resolved))
       (RuntimeState (run_Persistence resolved)) (DockerData (run_Persistence resolved))\<rparr>"

definition fully_persistent :: "ResolvedAgentRun \<Rightarrow> bool" where
  "fully_persistent r \<longleftrightarrow>
     Workspace (run_Persistence r) \<and> RuntimeState (run_Persistence r) \<and> DockerData (run_Persistence r)"

text \<open>
  A configuration update may change these fields and no other: \<open>reflect.DeepEqual\<close> after the
  update fields of the active run are overwritten by the desired ones. (\<open>DeepEqual\<close> also tells a
  nil slice from an empty one, a difference the value types here do not keep.)
\<close>

definition workstationUpdateCompatible :: "ResolvedAgentRun \<Rightarrow> ResolvedAgentRun \<Rightarrow> bool" where
  "workstationUpdateCompatible active desired =
     (if \<not> fully_persistent active \<or> \<not> fully_persistent desired
         \<or> run_TTL active \<noteq> zero_TTL \<or> run_TTL desired \<noteq> zero_TTL then False
      else active\<lparr>AgentConfig := AgentConfig desired,
             run_Workflow := run_Workflow desired,
             Repositories := Repositories desired,
             CredentialProviders := CredentialProviders desired,
             DefaultCredentialProvider := DefaultCredentialProvider desired,
             run_Broker := run_Broker desired,
             run_Egress := run_Egress desired,
             run_WorkspaceInstructions := run_WorkspaceInstructions desired\<rparr> = desired)"

text \<open>\<open>hex.DecodeString\<close> succeeds with 32 bytes.\<close>

definition hex_digest :: "string \<Rightarrow> bool" where
  "hex_digest s \<longleftrightarrow> len s = 64 \<and> list_all hex_digit s"

section \<open>Row validation\<close>

definition replacement_requested :: "row \<Rightarrow> bool" where
  "replacement_requested r \<longleftrightarrow>
     state r = StateStopping \<and> delete_requested r \<and> last_reason r = ''immutable-replacement-requested''"

definition row_fields_ok :: "row \<Rightarrow> bool" where
  "row_fields_ok r \<longleftrightarrow>
     \<not> (\<not> validRunID (run_id r) \<or> \<not> state_valid (state r) \<or> revision r < 1
        \<or> \<not> validIdempotencyKey (idempotency_key r)
        \<or> active_group r \<noteq> [] \<and> \<not> validIdempotencyKey (active_group r)
        \<or> \<not> validReason (last_reason r) \<or> \<not> validLifecycleCursor (lifecycle_cursor r)
        \<or> snapshot r = [] \<or> MaxDocumentBytes < len (snapshot r)
        \<or> len (request_digest r) \<noteq> 64 \<or> len (snapshot_digest r) \<noteq> 64 \<or> len (ownership_digest r) \<noteq> 64
        \<or> updated_at r < created_at r
        \<or> (case deadline_at r of None \<Rightarrow> False | Some t \<Rightarrow> t < created_at r)
        \<or> (case deleted_at r of None \<Rightarrow> False | Some t \<Rightarrow> t < created_at r))"

definition row_pending_ok :: "ResolvedAgentRun \<Rightarrow> row \<Rightarrow> bool" where
  "row_pending_ok resolved r =
     (if pendingSnapshot r \<noteq> [] then
        (case DecodeResolvedAgentRun (pendingSnapshot r) of
           None \<Rightarrow> False
         | Some pending \<Rightarrow>
             \<not> (MaxDocumentBytes < len (pendingSnapshot r)
                \<or> pending_snapshot_digest r \<noteq> sha256_hex (pendingSnapshot r)
                \<or> RunID pending \<noteq> RunID resolved
                \<or> \<not> replacement_requested r
                    \<and> (\<not> workstationUpdateCompatible resolved pending \<or> state r \<noteq> StatePreparing)))
      else pending_snapshot_digest r = [])"

definition row_lifecycle_ok :: "row \<Rightarrow> bool" where
  "row_lifecycle_ok r \<longleftrightarrow>
     \<not> (deleted_at r \<noteq> None \<and> (\<not> state_terminal (state r) \<or> \<not> delete_requested r)
        \<or> \<not> state_terminal (state r) \<and> terminal_expires_at r \<noteq> None
        \<or> state_terminal (state r) \<and> delete_requested r \<and> deleted_at r = None
        \<or> delete_requested r \<and> deleted_at r = None \<and> \<not> state_terminal (state r) \<and> state r \<noteq> StateStopping)
     \<and> \<not> (reconcileOwner r = [] \<and> reconcile_until r \<noteq> None
          \<or> reconcileOwner r \<noteq> [] \<and> reconcile_until r = None
          \<or> state_terminal (state r) \<and> reconcileOwner r \<noteq> [])
     \<and> (if state r = StateStopping then state_terminal (terminal_target r)
        else terminal_target r = StateEmpty)"

text \<open>\<open>None\<close> is \<open>ErrStoreUnavailable\<close>; otherwise the view with the metadata of the snapshot.\<close>

definition validateStoredRun :: "row \<Rightarrow> Run option" where
  "validateStoredRun r =
     (if \<not> row_fields_ok r then None
      else if sha256_hex (snapshot r) \<noteq> snapshot_digest r \<or> request_digest r \<noteq> snapshot_digest r then None
      else if \<not> hex_digest (ownership_digest r) then None
      else case DecodeResolvedAgentRun (snapshot r) of
          None \<Rightarrow> None
        | Some resolved \<Rightarrow>
            if RunID resolved \<noteq> run_id r then None
            else if \<not> row_pending_ok resolved r then None
            else if \<not> row_lifecycle_ok r then None
            else Some (populateRunMetadata resolved (scanStoredRun r)))"

definition valid_row :: "row \<Rightarrow> bool" where
  "valid_row r \<longleftrightarrow> validateStoredRun r \<noteq> None"

definition administratorWorkstation :: "row \<Rightarrow> bool" where
  "administratorWorkstation r =
     (case DecodeResolvedAgentRun (snapshot r) of
        None \<Rightarrow> False
      | Some resolved \<Rightarrow>
          if Subject (run_Principal resolved) \<noteq> ''workstation-'' @ run_id r
             \<or> \<not> fully_persistent resolved \<or> run_TTL resolved \<noteq> zero_TTL then False
          else idempotency_key r =
                 ''workstation-'' @ sha256_hex (''nvt.workstation/v1'' @ [CHR 0x00] @ run_id r))"

definition repairableMalformedTerminal :: "row \<Rightarrow> row option" where
  "repairableMalformedTerminal r =
     (if \<not> state_terminal (state r) \<or> deleted_at r \<noteq> None \<or> delete_requested r then None
      else case DecodeResolvedAgentRun (snapshot r) of
          None \<Rightarrow> None
        | Some resolved \<Rightarrow>
            if RunID resolved \<noteq> run_id r then None
            else let d = sha256_hex (snapshot r);
                     r' = r\<lparr>snapshot_digest := d, request_digest := d\<rparr>
                 in if valid_row r' then Some r' else None)"

text \<open>The canonical snapshot, the decoded run and the digest.\<close>

definition canonicalSnapshot :: "string \<Rightarrow> (string \<times> ResolvedAgentRun \<times> string) option" where
  "canonicalSnapshot raw =
     (case DecodeResolvedAgentRun raw of
        None \<Rightarrow> None
      | Some resolved \<Rightarrow>
          (case enc_ResolvedAgentRun resolved of
             None \<Rightarrow> None
           | Some canonical \<Rightarrow>
               if MaxDocumentBytes < len canonical then None
               else Some (canonical, resolved, sha256_hex canonical)))"

section \<open>Deadlines\<close>

text \<open>\<open>time.Duration(s) * time.Second\<close>: the product of two \<open>int64\<close> values wraps around.\<close>

definition duration_seconds :: "int \<Rightarrow> int" where
  "duration_seconds s = sint (of_int s * of_int 1000000000 :: 64 word)"

definition optionalDeadline :: "int \<Rightarrow> int \<Rightarrow> int option" where
  "optionalDeadline now seconds = (if seconds \<le> 0 then None else Some (now + duration_seconds seconds))"

definition expiry_candidates :: "State \<Rightarrow> ResolvedAgentRun \<Rightarrow> int list" where
  "expiry_candidates s resolved =
     (let ttl = run_TTL resolved; p = run_Persistence resolved in
      (if \<not> persistentRun (Workspace p) (RuntimeState p) (DockerData p) then
         (if s = StateCompleted \<and> 0 < CompletedSeconds ttl then [CompletedSeconds ttl] else []) @
         (if (s = StateFailed \<or> s = StateExpired) \<and> 0 < FailedSeconds ttl then [FailedSeconds ttl] else [])
       else []) @
      (if 0 < RunRetentionSeconds ttl then [RunRetentionSeconds ttl] else []))"

definition terminalExpiry :: "int \<Rightarrow> State \<Rightarrow> ResolvedAgentRun \<Rightarrow> int option" where
  "terminalExpiry now s resolved =
     (if \<not> state_terminal s then None
      else case expiry_candidates s resolved of
          [] \<Rightarrow> None
        | c # cs \<Rightarrow>
            Some (now + duration_seconds (foldl (\<lambda>m d. if d < m then d else m) c cs)))"

section \<open>Facts on names, digests and times\<close>

lemma validName_validRunID: "validName v \<longleftrightarrow> validRunID v"
proof -
  have "matches namePattern v \<longleftrightarrow>
      v \<noteq> [] \<and> lowerAlphaNumeric (hd v) \<and> list_all (\<lambda>c. lowerAlphaNumeric c \<or> c = CHR ''-'') v
      \<and> lowerAlphaNumeric (last v)"
    unfolding namePattern_def by (rule matches_name_rexp) simp
  then show ?thesis
    by (cases v) (auto simp: validName_def validRunID_def)
qed

lemma Decode_valid:
  "DecodeResolvedAgentRun data = Some r \<Longrightarrow> ValidateResolvedAgentRun r = None"
  by (auto simp: DecodeResolvedAgentRun_def split: option.splits if_splits)

lemma Decode_bounds:
  assumes "DecodeResolvedAgentRun data = Some r"
  shows "data \<noteq> []" "len data \<le> MaxDocumentBytes"
  using assms by (auto simp: DecodeResolvedAgentRun_def decodeStrict_def split: option.splits if_splits)

lemma Decode_RunID: "DecodeResolvedAgentRun data = Some r \<Longrightarrow> validRunID (RunID r)"
  by (drule Decode_valid)
     (simp add: ValidateResolvedAgentRun_def ValidateLocalRunRequest_def first_error_None validName_validRunID)

definition ttl_ok :: "TTL \<Rightarrow> bool" where
  "ttl_ok t \<longleftrightarrow>
     (\<forall>s \<in> {ActiveSeconds t, CompletedSeconds t, FailedSeconds t, RunRetentionSeconds t}.
        0 \<le> s \<and> s \<le> 31536000)"

lemma Decode_TTL: "DecodeResolvedAgentRun data = Some r \<Longrightarrow> ttl_ok (run_TTL r)"
  by (drule Decode_valid)
     (simp add: ValidateResolvedAgentRun_def first_error_None validateTTL_def ttl_ok_def not_less)

text \<open>Within the bound on TTLs the product does not wrap.\<close>

lemma duration_seconds_exact [go_time]:
  assumes "0 \<le> s" "s \<le> 31536000"
  shows "duration_seconds s = s * 1000000000"
proof -
  have "sint (of_int (s * 1000000000) :: 64 word) = s * 1000000000"
    using assms by (subst sint_sbintrunc') (simp add: signed_take_bit_int_eq_self)
  then show ?thesis by (simp add: duration_seconds_def)
qed

lemma foldl_min:
  "foldl (\<lambda>m d. if d < m then d else m) c cs \<in> set (c # cs)
   \<and> (\<forall>x \<in> set (c # cs). foldl (\<lambda>m d. if d < m then d else m) c cs \<le> x)" for c :: int
proof (induction cs arbitrary: c)
  case (Cons d cs)
  show ?case using Cons [of "if d < c then d else c"] by auto
qed simp

lemma hex_char_digit: "0 \<le> v \<Longrightarrow> v < 16 \<Longrightarrow> hex_digit (if v < 10 then char_of (48 + v) else char_of (87 + v))" for v :: int
proof -
  assume "0 \<le> v" "v < 16"
  then have "v \<in> {0..15}" by simp
  moreover have "\<forall>v \<in> set [0..15]. hex_digit (if v < 10 then char_of (48 + v) else char_of (87 + v))"
    by code_simp
  ultimately show ?thesis by simp
qed

lemma hex_digest_sha256 [simp]: "hex_digest (sha256_hex s)"
proof -
  have "list_all (\<lambda>b. 0 \<le> b \<and> b < 256) (sha256_bytes s)"
    by (auto simp: sha256_bytes_def be_bytes_def list_all_iff)
  moreover have "list_all hex_digit (hex_byte b)" if "0 \<le> b" "b < 256" for b
    using that hex_char_digit [of "b div 16"] hex_char_digit [of "b mod 16"]
    by (simp add: hex_byte_def)
  ultimately have "list_all hex_digit (sha256_hex s)"
    by (auto simp: sha256_hex_def list_all_iff)
  then show ?thesis by (simp add: hex_digest_def len_def sha256_hex_length)
qed

end
