(* ===== verification/Run_Store.thy ===== *)
theory Run_Store
  imports Local_Run
begin

text \<open>
  The durable run store, \<^verbatim>\<open>localcontroller/internal/controller/store.go\<close>. The table \<^verbatim>\<open>local_runs\<close> is a
  list of rows; an \<^verbatim>\<open>UPDATE ... WHERE\<close> is a map over it with the number of rows it touched; a
  transaction is a function from the table to a result and a table, with the old table when it
  rolls back. Every call of the injected clock is a reading of its own: the store counts its
  readings and the environment gives the time of each. Failures of SQLite itself, the schema
  migrations and the \<^verbatim>\<open>PRAGMA\<close> checks are not modelled.
\<close>

section \<open>Environment, state, SQL\<close>

record store_env =
  maxActiveRuns :: int
  maxClaimLease :: int
  env_now :: "nat \<Rightarrow> int"

record store =
  local_runs :: "row list"
  ticks :: nat

type_synonym 'a tx = "row list \<Rightarrow> (store_error + 'a) \<times> row list"
type_synonym 'a store_op = "store \<Rightarrow> (store_error + 'a) \<times> store"

definition exec_update :: "(row \<Rightarrow> bool) \<Rightarrow> (row \<Rightarrow> row) \<Rightarrow> row list \<Rightarrow> row list \<times> int" where
  "exec_update p f rs = (map (\<lambda>r. if p r then f r else r) rs, len (filter p rs))"

text \<open>\<open>if err != nil || rowsAffected(result) != 1 { return e }\<close>\<close>

definition update_one :: "store_error \<Rightarrow> (row \<Rightarrow> bool) \<Rightarrow> (row \<Rightarrow> row) \<Rightarrow> row list \<Rightarrow> store_error + row list" where
  "update_one e p f rs = (let (rs', n) = exec_update p f rs in if n \<noteq> 1 then Inl e else Inr rs')"

definition query_run :: "string \<Rightarrow> row list \<Rightarrow> row option" where
  "query_run rid rs = find (\<lambda>r. run_id r = rid) rs"

definition queryByIdempotency :: "string \<Rightarrow> row list \<Rightarrow> row option" where
  "queryByIdempotency key rs = find (\<lambda>r. idempotency_key r = key) rs"

text \<open>\<open>SELECT ... WHERE deleted_at IS NULL ORDER BY run_id\<close>\<close>

definition select_live :: "row list \<Rightarrow> row list" where
  "select_live rs = sort_key run_id (filter (\<lambda>r. deleted_at r = None) rs)"

definition at_revision :: "string \<Rightarrow> int \<Rightarrow> row \<Rightarrow> bool" where
  "at_revision rid n r \<longleftrightarrow> run_id r = rid \<and> revision r = n"

definition loadForUpdate :: "string \<Rightarrow> row list \<Rightarrow> store_error + row \<times> Run" where
  "loadForUpdate rid rs =
     (case query_run rid rs of
        None \<Rightarrow> Inl ErrNotFound
      | Some r \<Rightarrow>
          (case validateStoredRun r of
             None \<Rightarrow> Inl ErrStoreUnavailable
           | Some view \<Rightarrow> if deleted_at r \<noteq> None then Inl ErrNotFound else Inr (r, view)))"

section \<open>Deadline sweep\<close>

definition reached :: "int \<Rightarrow> int option \<Rightarrow> bool" where
  "reached now t = (case t of None \<Rightarrow> False | Some d \<Rightarrow> \<not> now < d)"

definition expire_active :: "int \<Rightarrow> row \<Rightarrow> row" where
  "expire_active now r = r\<lparr>state := StateStopping, revision := revision r + 1, updated_at := now,
     reconcile_owner := None, reconcile_until := None, last_reason := ''active-deadline-exceeded'',
     terminal_target := StateExpired, pending_snapshot := None, pending_snapshot_digest := []\<rparr>"

definition expire_retention :: "int \<Rightarrow> row \<Rightarrow> row" where
  "expire_retention now r = r\<lparr>state := StateStopping, terminal_target := state r,
     terminal_expires_at := None, delete_requested := True, revision := revision r + 1,
     updated_at := now, last_reason := ''retention-expired''\<rparr>"

definition sweep_update :: "int \<Rightarrow> row \<Rightarrow> (row \<Rightarrow> row) option" where
  "sweep_update now r =
     (if state_active (state r) \<and> state r \<noteq> StateStopping \<and> reached now (deadline_at r)
      then Some (expire_active now)
      else if state_terminal (state r) \<and> reached now (terminal_expires_at r)
      then Some (expire_retention now)
      else None)"

fun sweep_records :: "int \<Rightarrow> row list \<Rightarrow> row list \<Rightarrow> int \<Rightarrow> store_error + int \<times> row list" where
  "sweep_records now [] rs changed = Inr (changed, rs)"
| "sweep_records now (q # qs) rs changed =
     (case sweep_update now q of
        None \<Rightarrow> sweep_records now qs rs changed
      | Some f \<Rightarrow>
          (case update_one ErrStoreUnavailable (at_revision (run_id q) (revision q)) f rs of
             Inl e \<Rightarrow> Inl e
           | Inr rs' \<Rightarrow> sweep_records now qs rs' (changed + 1)))"

text \<open>A malformed row stops the sweep unless it is terminal; a malformed terminal row is skipped.\<close>

definition sweepTx :: "int \<Rightarrow> row list \<Rightarrow> store_error + int \<times> row list" where
  "sweepTx now rs =
     (let live = select_live rs in
      if list_ex (\<lambda>r. \<not> valid_row r \<and> \<not> state_terminal (state r)) live then Inl ErrStoreUnavailable
      else sweep_records now (filter valid_row live) rs 0)"

definition Sweep :: "store_env \<Rightarrow> int store_op" where
  "Sweep env st =
     (let now = env_now env (ticks st);
          st1 = st\<lparr>ticks := Suc (ticks st)\<rparr>
      in case sweepTx now (local_runs st) of
           Inl e \<Rightarrow> (Inl e, st1)
         | Inr (changed, rs) \<Rightarrow> (Inr changed, st1\<lparr>local_runs := rs\<rparr>))"

text \<open>The frame of the mutating operations: sweep, read the clock, run one transaction.\<close>

definition in_tx :: "store_env \<Rightarrow> (int \<Rightarrow> 'a tx) \<Rightarrow> 'a store_op" where
  "in_tx env body st =
     (let (res, rs) = body (env_now env (ticks st)) (local_runs st)
      in (res, st\<lparr>ticks := Suc (ticks st), local_runs := rs\<rparr>))"

definition after_sweep :: "store_env \<Rightarrow> 'a store_op \<Rightarrow> 'a store_op" where
  "after_sweep env body st =
     (case Sweep env st of
        (Inl e, st1) \<Rightarrow> (Inl e, st1)
      | (Inr _, st1) \<Rightarrow> body st1)"

section \<open>Claim\<close>

definition claim_row :: "ClaimInput \<Rightarrow> int \<Rightarrow> row \<Rightarrow> row" where
  "claim_row input now r = r\<lparr>reconcile_owner := Some (claim_Owner input),
     reconcile_until := Some (now + claim_Lease input), revision := revision r + 1, updated_at := now\<rparr>"

definition claimTx :: "ClaimInput \<Rightarrow> int \<Rightarrow> Run tx" where
  "claimTx input now rs =
     (case loadForUpdate (claim_RunID input) rs of
        Inl e \<Rightarrow> (Inl e, rs)
      | Inr (r, view) \<Rightarrow>
          if revision r \<noteq> claim_ExpectedRevision input \<or> state_terminal (state r)
          then (Inl ErrOwnershipConflict, rs)
          else if reconcileOwner r \<noteq> [] \<and> reconcileOwner r \<noteq> claim_Owner input
                  \<and> (case reconcile_until r of None \<Rightarrow> False | Some t \<Rightarrow> now < t)
          then (Inl ErrOwnershipConflict, rs)
          else case update_one ErrOwnershipConflict
                 (at_revision (claim_RunID input) (claim_ExpectedRevision input)) (claim_row input now) rs of
              Inl e \<Rightarrow> (Inl e, rs)
            | Inr rs' \<Rightarrow>
                (Inr (view\<lparr>v_ReconcileOwner := claim_Owner input,
                           v_ReconcileUntil := Some (now + claim_Lease input),
                           v_Revision := revision r + 1, v_UpdatedAt := now\<rparr>), rs'))"

definition Claim :: "store_env \<Rightarrow> ClaimInput \<Rightarrow> Run store_op" where
  "Claim env input st =
     (if \<not> validRunID (claim_RunID input) \<or> \<not> validOwner (claim_Owner input)
         \<or> claim_ExpectedRevision input < 1 \<or> claim_Lease input < 1000000000
         \<or> maxClaimLease env < claim_Lease input
      then (Inl ErrInvalidRequest, st)
      else after_sweep env (in_tx env (claimTx input)) st)"

section \<open>Status updates\<close>

text \<open>Progress of the lifecycle cursor in the same state.\<close>

definition cursor_row :: "string \<Rightarrow> int \<Rightarrow> row \<Rightarrow> row" where
  "cursor_row cursor now r = r\<lparr>lifecycle_cursor := cursor, revision := revision r + 1, updated_at := now,
     reconcile_owner := None, reconcile_until := None\<rparr>"

text \<open>A configuration rollout that reached the running state: the pending snapshot becomes the active one.\<close>

definition promote_row :: "string \<Rightarrow> string \<Rightarrow> int \<Rightarrow> row \<Rightarrow> row" where
  "promote_row reason cursor now r = r\<lparr>snapshot := pendingSnapshot r,
     snapshot_digest := pending_snapshot_digest r, request_digest := pending_snapshot_digest r,
     pending_snapshot := None, pending_snapshot_digest := [], state := StateRunning,
     revision := revision r + 1, updated_at := now, reconcile_owner := None, reconcile_until := None,
     last_reason := reason, lifecycle_cursor := cursor\<rparr>"

text \<open>An immutable replacement whose cleanup is complete: the run starts again from the pending snapshot.\<close>

definition replace_row :: "int \<Rightarrow> row \<Rightarrow> row" where
  "replace_row now r = r\<lparr>snapshot := pendingSnapshot r,
     snapshot_digest := pending_snapshot_digest r, request_digest := pending_snapshot_digest r,
     ownership_digest := pending_snapshot_digest r, pending_snapshot := None,
     pending_snapshot_digest := [], state := StatePending, revision := revision r + 1,
     updated_at := now, terminal_expires_at := None, reconcile_owner := None,
     reconcile_until := None, delete_requested := False, deleted_at := None,
     last_reason := ''immutable-replacement-cleanup-complete'', terminal_target := StateEmpty,
     lifecycle_cursor := []\<rparr>"

definition status_row :: "StatusInput \<Rightarrow> int option \<Rightarrow> int option \<Rightarrow> State \<Rightarrow> string \<Rightarrow> int \<Rightarrow> row \<Rightarrow> row" where
  "status_row input expiry deletedAt target cursor now r = r\<lparr>state := st_State input,
     revision := revision r + 1, updated_at := now, terminal_expires_at := expiry,
     reconcile_owner := None, reconcile_until := None, deleted_at := deletedAt,
     last_reason := st_Reason input, terminal_target := target, lifecycle_cursor := cursor,
     pending_snapshot := (if st_State input = StateStopping then None else pending_snapshot r),
     pending_snapshot_digest := (if st_State input = StateStopping then [] else pending_snapshot_digest r)\<rparr>"

definition released :: "Run \<Rightarrow> Run" where
  "released view = view\<lparr>v_ReconcileOwner := [], v_ReconcileUntil := None\<rparr>"

definition new_cursor :: "StatusInput \<Rightarrow> row \<Rightarrow> string" where
  "new_cursor input r = (case st_LifecycleCursor input of None \<Rightarrow> lifecycle_cursor r | Some c \<Rightarrow> c)"

definition input_row :: "StatusInput \<Rightarrow> row \<Rightarrow> bool" where
  "input_row input = at_revision (st_RunID input) (st_ExpectedRevision input)"

text \<open>The branch for an unchanged state.\<close>

definition same_state_tx :: "StatusInput \<Rightarrow> int \<Rightarrow> row \<Rightarrow> Run \<Rightarrow> Run tx" where
  "same_state_tx input now r view rs =
     (case st_LifecycleCursor input of
        None \<Rightarrow> (Inr view, rs)
      | Some c \<Rightarrow>
          if c = lifecycle_cursor r then (Inr view, rs)
          else if st_Reason input \<noteq> [] \<or> st_TerminalTarget input \<noteq> StateEmpty
          then (Inl ErrInvalidTransition, rs)
          else case update_one ErrOwnershipConflict (input_row input) (cursor_row c now) rs of
              Inl e \<Rightarrow> (Inl e, rs)
            | Inr rs' \<Rightarrow>
                (Inr (released (view\<lparr>v_Revision := revision r + 1, v_UpdatedAt := now\<rparr>)), rs'))"

text \<open>The branch that promotes a pending configuration.\<close>

definition promote_tx :: "StatusInput \<Rightarrow> int \<Rightarrow> row \<Rightarrow> Run \<Rightarrow> Run tx" where
  "promote_tx input now r view rs =
     (case update_one ErrOwnershipConflict (input_row input)
             (promote_row (st_Reason input) (new_cursor input r) now) rs of
        Inl e \<Rightarrow> (Inl e, rs)
      | Inr rs' \<Rightarrow>
          (case DecodeResolvedAgentRun (pendingSnapshot r) of
             None \<Rightarrow> (Inl ErrStoreUnavailable, rs')
           | Some resolved \<Rightarrow>
               (Inr (populateRunMetadata resolved (released (view\<lparr>v_State := StateRunning,
                  v_Revision := revision r + 1, v_UpdatedAt := now,
                  v_SnapshotDigest := pending_snapshot_digest r, v_LastReason := st_Reason input\<rparr>))), rs')))"

text \<open>The branch that completes an immutable replacement.\<close>

definition replace_tx :: "StatusInput \<Rightarrow> int \<Rightarrow> row \<Rightarrow> Run \<Rightarrow> Run tx" where
  "replace_tx input now r view rs =
     (case update_one ErrOwnershipConflict (input_row input) (replace_row now) rs of
        Inl e \<Rightarrow> (Inl e, rs)
      | Inr rs' \<Rightarrow>
          (case DecodeResolvedAgentRun (pendingSnapshot r) of
             None \<Rightarrow> (Inl ErrStoreUnavailable, rs')
           | Some resolved \<Rightarrow>
               (Inr (populateRunMetadata resolved (released (view\<lparr>v_State := StatePending,
                  v_Revision := revision r + 1, v_UpdatedAt := now,
                  v_SnapshotDigest := pending_snapshot_digest r, v_DeleteRequested := False,
                  v_TerminalTarget := StateEmpty,
                  v_LastReason := ''immutable-replacement-cleanup-complete''\<rparr>))), rs')))"

text \<open>The general transition. The row of a deleted run becomes a tombstone and the caller sees \<open>ErrGone\<close>.\<close>

definition transition_tx :: "StatusInput \<Rightarrow> int \<Rightarrow> row \<Rightarrow> Run \<Rightarrow> Run tx" where
  "transition_tx input now r view rs =
     (case DecodeResolvedAgentRun (snapshot r) of
        None \<Rightarrow> (Inl ErrStoreUnavailable, rs)
      | Some resolved \<Rightarrow>
          (let expiry = terminalExpiry now (st_State input) resolved;
               deletedAt = (if state_terminal (st_State input) \<and> delete_requested r then Some now else None);
               target = (if st_State input = StateStopping then st_TerminalTarget input else StateEmpty)
           in case update_one ErrOwnershipConflict (input_row input)
                     (status_row input expiry deletedAt target (new_cursor input r) now) rs of
                Inl e \<Rightarrow> (Inl e, rs)
              | Inr rs' \<Rightarrow>
                  if deletedAt \<noteq> None then (Inl ErrGone, rs')
                  else (Inr (released (view\<lparr>v_State := st_State input, v_Revision := revision r + 1,
                         v_UpdatedAt := now, v_TerminalExpiresAt := expiry,
                         v_LastReason := st_Reason input, v_TerminalTarget := target\<rparr>)), rs')))"

definition updateStatusTx :: "StatusInput \<Rightarrow> int \<Rightarrow> Run tx" where
  "updateStatusTx input now rs =
     (case loadForUpdate (st_RunID input) rs of
        Inl e \<Rightarrow> (Inl e, rs)
      | Inr (r, view) \<Rightarrow>
          if revision r \<noteq> st_ExpectedRevision input \<or> reconcileOwner r \<noteq> st_Owner input
             \<or> \<not> (case reconcile_until r of None \<Rightarrow> False | Some t \<Rightarrow> now < t)
          then (Inl ErrOwnershipConflict, rs)
          else if st_State input = state r then same_state_tx input now r view rs
          else if \<not> transitionAllowed (state r) (st_State input) then (Inl ErrInvalidTransition, rs)
          else if state r = StatePreparing \<and> st_State input = StateRunning \<and> pendingSnapshot r \<noteq> []
          then promote_tx input now r view rs
          else if state r = StateStopping \<and> st_State input \<noteq> terminal_target r
          then (Inl ErrInvalidTransition, rs)
          else if state r = StateStopping \<and> state_terminal (st_State input) \<and> pendingSnapshot r \<noteq> []
                  \<and> last_reason r = ''immutable-replacement-requested''
          then replace_tx input now r view rs
          else transition_tx input now r view rs)"

definition UpdateStatus :: "store_env \<Rightarrow> StatusInput \<Rightarrow> Run store_op" where
  "UpdateStatus env input st =
     (if \<not> validRunID (st_RunID input) \<or> \<not> validOwner (st_Owner input) \<or> st_ExpectedRevision input < 1
         \<or> \<not> state_valid (st_State input) \<or> \<not> validReason (st_Reason input)
         \<or> st_State input = StateStopping \<and> \<not> state_terminal (st_TerminalTarget input)
         \<or> st_State input \<noteq> StateStopping \<and> st_TerminalTarget input \<noteq> StateEmpty
         \<or> (case st_LifecycleCursor input of None \<Rightarrow> False | Some c \<Rightarrow> \<not> validLifecycleCursor c)
      then (Inl ErrInvalidRequest, st)
      else after_sweep env (in_tx env (updateStatusTx input)) st)"

text \<open>
  \<open>abortPendingConfiguration\<close> is one statement, without a sweep, and looks neither at the state
  nor at the lease.
\<close>

definition abort_row :: "int \<Rightarrow> row \<Rightarrow> row" where
  "abort_row now r = r\<lparr>pending_snapshot := None, pending_snapshot_digest := [], state := StateRunning,
     revision := revision r + 1, updated_at := now, reconcile_owner := None, reconcile_until := None,
     last_reason := ''configuration-rollout-rejected''\<rparr>"

definition abortTx :: "string \<Rightarrow> string \<Rightarrow> int \<Rightarrow> int \<Rightarrow> unit tx" where
  "abortTx rid owner expected now rs =
     (case update_one ErrOwnershipConflict
             (\<lambda>r. at_revision rid expected r \<and> reconcile_owner r = Some owner \<and> pending_snapshot r \<noteq> None)
             (abort_row now) rs of
        Inl e \<Rightarrow> (Inl e, rs)
      | Inr rs' \<Rightarrow> (Inr (), rs'))"

definition abortPendingConfiguration :: "store_env \<Rightarrow> string \<Rightarrow> string \<Rightarrow> int \<Rightarrow> unit store_op" where
  "abortPendingConfiguration env rid owner expected = in_tx env (abortTx rid owner expected)"

section \<open>Cancel and delete\<close>

definition stop_terminal_row :: "int \<Rightarrow> row \<Rightarrow> row" where
  "stop_terminal_row now r = r\<lparr>state := StateStopping, terminal_target := state r,
     terminal_expires_at := None, delete_requested := True, revision := revision r + 1,
     updated_at := now, last_reason := ''delete-requested''\<rparr>"

definition stop_row :: "bool \<Rightarrow> string \<Rightarrow> State \<Rightarrow> int \<Rightarrow> row \<Rightarrow> row" where
  "stop_row deleting reason target now r = r\<lparr>state := StateStopping,
     delete_requested := deleting, revision := revision r + 1, updated_at := now,
     reconcile_owner := None, reconcile_until := None, last_reason := reason,
     terminal_target := target, pending_snapshot := None, pending_snapshot_digest := []\<rparr>"

definition stop_terminal_tx :: "string \<Rightarrow> int \<Rightarrow> row \<Rightarrow> Run \<Rightarrow> Run tx" where
  "stop_terminal_tx rid now r view rs =
     (case update_one ErrConflict (at_revision rid (revision r)) (stop_terminal_row now) rs of
        Inl e \<Rightarrow> (Inl e, rs)
      | Inr rs' \<Rightarrow>
          (Inr (view\<lparr>v_TerminalTarget := state r, v_State := StateStopping, v_TerminalExpiresAt := None,
             v_DeleteRequested := True, v_Revision := revision r + 1, v_UpdatedAt := now,
             v_LastReason := ''delete-requested''\<rparr>), rs'))"

definition requestStopTx :: "string \<Rightarrow> bool \<Rightarrow> int \<Rightarrow> Run tx" where
  "requestStopTx rid deleteRequested now rs =
     (case loadForUpdate rid rs of
        Inl e \<Rightarrow> (Inl e, rs)
      | Inr (r, view) \<Rightarrow>
          if state_terminal (state r) then
            (if \<not> deleteRequested then (Inr view, rs) else stop_terminal_tx rid now r view rs)
          else if state r = StateStopping \<and> (\<not> deleteRequested \<or> delete_requested r) then (Inr view, rs)
          else
            (let reason = (if deleteRequested then ''delete-requested'' else ''cancel-requested'');
                 target = (if state r = StateStopping then terminal_target r
                           else if deleteRequested then StateCompleted else StateFailed);
                 deleting = (deleteRequested \<or> delete_requested r)
             in case update_one ErrConflict (at_revision rid (revision r))
                       (stop_row deleting reason target now) rs of
                  Inl e \<Rightarrow> (Inl e, rs)
                | Inr rs' \<Rightarrow>
                    (Inr (released (view\<lparr>v_State := StateStopping, v_DeleteRequested := deleting,
                       v_Revision := revision r + 1, v_UpdatedAt := now, v_LastReason := reason,
                       v_TerminalTarget := target\<rparr>)), rs')))"

definition requestStop :: "store_env \<Rightarrow> string \<Rightarrow> bool \<Rightarrow> Run store_op" where
  "requestStop env rid deleteRequested st =
     (if \<not> validRunID rid then (Inl ErrInvalidRequest, st)
      else after_sweep env (in_tx env (requestStopTx rid deleteRequested)) st)"

definition Cancel :: "store_env \<Rightarrow> string \<Rightarrow> Run store_op" where
  "Cancel env rid = requestStop env rid False"

text \<open>The boolean says that the run is already gone.\<close>

definition Delete :: "store_env \<Rightarrow> string \<Rightarrow> (Run \<times> bool) store_op" where
  "Delete env rid st =
     (case requestStop env rid True st of
        (Inr run, st1) \<Rightarrow> (Inr (run, False), st1)
      | (Inl ErrGone, st1) \<Rightarrow> (Inr (zero_Run, True), st1)
      | (Inl ErrNotFound, st1) \<Rightarrow>
          (case query_run rid (local_runs st1) of
             None \<Rightarrow> (Inl ErrNotFound, st1)
           | Some r \<Rightarrow>
               if valid_row r \<and> deleted_at r \<noteq> None then (Inr (zero_Run, True), st1)
               else (Inl ErrStoreUnavailable, st1))
      | (Inl e, st1) \<Rightarrow> (Inl e, st1))"

section \<open>Reads\<close>

definition Get :: "store_env \<Rightarrow> string \<Rightarrow> Run store_op" where
  "Get env rid st =
     (if \<not> validRunID rid then (Inl ErrInvalidRequest, st)
      else after_sweep env (\<lambda>st1.
        (map_sum id snd (loadForUpdate rid (local_runs st1)), st1)) st)"

definition ResolvedSnapshot :: "string \<Rightarrow> (string \<times> string) store_op" where
  "ResolvedSnapshot rid st =
     (if \<not> validRunID rid then (Inl ErrInvalidRequest, st)
      else (map_sum id (\<lambda>(r, view). (snapshot r, snapshot_digest r)) (loadForUpdate rid (local_runs st)), st))"

record backend_snapshot =
  bs_snapshot :: string
  bs_digest :: string
  bs_ownership :: string
  bs_cursor :: string
  bs_pending :: bool

definition backendSnapshot :: "string \<Rightarrow> backend_snapshot store_op" where
  "backendSnapshot rid st =
     (if \<not> validRunID rid then (Inl ErrInvalidRequest, st)
      else (map_sum id (\<lambda>(r, view).
              let pending = pendingSnapshot r \<noteq> [] in
              \<lparr>bs_snapshot = (if pending then pendingSnapshot r else snapshot r),
               bs_digest = (if pending then pending_snapshot_digest r else snapshot_digest r),
               bs_ownership = ownership_digest r, bs_cursor = lifecycle_cursor r, bs_pending = pending\<rparr>)
            (loadForUpdate rid (local_runs st)), st))"

definition replacementCleanupPending :: "store_env \<Rightarrow> row list \<Rightarrow> bool" where
  "replacementCleanupPending env rs =
     (let live = filter (\<lambda>r. deleted_at r = None \<and> state_active (state r)) rs
      in 0 < len (filter (\<lambda>r. state r = StateStopping) live) \<and> maxActiveRuns env < len live)"

section \<open>Listing\<close>

text \<open>
  One page of the query: the views gathered so far, the number of rows read and the last row
  read. The loop over the page stops when one more run than the limit has been found.
\<close>

fun list_page :: "int \<Rightarrow> row list \<Rightarrow> Run list \<Rightarrow> int \<Rightarrow> string \<Rightarrow> (Run list \<times> int \<times> string) option" where
  "list_page limit [] runs raw cursor = Some (runs, raw, cursor)"
| "list_page limit (r # rs) runs raw cursor =
     (case validateStoredRun r of
        None \<Rightarrow>
          if state_terminal (state r) then list_page limit rs runs (raw + 1) (run_id r) else None
      | Some view \<Rightarrow>
          let runs' = runs @ [view] in
          if limit < len runs' then Some (runs', raw + 1, run_id r)
          else list_page limit rs runs' (raw + 1) (run_id r))"

definition list_query :: "bool \<Rightarrow> string \<Rightarrow> row list \<Rightarrow> row list" where
  "list_query activeOnly cursor rs =
     filter (\<lambda>r. cursor < run_id r \<and> (activeOnly \<longrightarrow> state_active (state r))) (select_live rs)"

text \<open>
  The outer loop asks for page after page. It is run with one round more than the table has rows:
  every round but the last reads at least one new row.
\<close>

fun list_loop :: "nat \<Rightarrow> int \<Rightarrow> bool \<Rightarrow> row list \<Rightarrow> Run list \<Rightarrow> string \<Rightarrow> Run list option" where
  "list_loop 0 limit activeOnly rs runs cursor = None"
| "list_loop (Suc fuel) limit activeOnly rs runs cursor =
     (if limit < len runs then Some runs
      else case list_page limit (take (nat limit + 1) (list_query activeOnly cursor rs)) runs 0 cursor of
          None \<Rightarrow> None
        | Some (runs', raw, cursor') \<Rightarrow>
            if limit < len runs' \<or> raw < limit + 1 then Some runs'
            else list_loop fuel limit activeOnly rs runs' cursor')"

definition list_runs :: "store_env \<Rightarrow> int \<Rightarrow> string \<Rightarrow> bool \<Rightarrow> ListResult store_op" where
  "list_runs env limit after activeOnly st =
     (if limit < 1 \<or> 500 < limit \<or> after \<noteq> [] \<and> \<not> validRunID after then (Inl ErrInvalidRequest, st)
      else after_sweep env (\<lambda>st1.
        (case list_loop (Suc (length (local_runs st1))) limit activeOnly (local_runs st1) [] after of
           None \<Rightarrow> Inl ErrStoreUnavailable
         | Some runs \<Rightarrow>
             if limit < len runs then
               (let page = take (nat limit) runs in
                Inr \<lparr>list_APIVersion = api_version, list_Runs = page, list_NextAfter = v_RunID (last page)\<rparr>)
             else Inr \<lparr>list_APIVersion = api_version, list_Runs = runs, list_NextAfter = []\<rparr>, st1)) st)"

definition ListRuns :: "store_env \<Rightarrow> int \<Rightarrow> string \<Rightarrow> ListResult store_op" where
  "ListRuns env limit after = list_runs env limit after False"

definition listActive :: "store_env \<Rightarrow> int \<Rightarrow> string \<Rightarrow> ListResult store_op" where
  "listActive env limit after = list_runs env limit after True"

section \<open>Creating runs\<close>

record preparedCreate =
  prep_input :: CreateInput
  prep_snapshot :: string
  prep_resolved :: ResolvedAgentRun
  prep_digest :: string

definition prep_key :: "preparedCreate \<Rightarrow> string" where
  "prep_key c = in_IdempotencyKey (prep_input c)"

text \<open>Validation of the inputs and their uniqueness within the batch.\<close>

fun prepare_inputs :: "string list \<Rightarrow> string list \<Rightarrow> string list \<Rightarrow> CreateInput list
    \<Rightarrow> store_error + preparedCreate list" where
  "prepare_inputs keys ids groups [] = Inr []"
| "prepare_inputs keys ids groups (i # is) =
     (if \<not> validIdempotencyKey (in_IdempotencyKey i)
         \<or> in_ActiveGroup i \<noteq> [] \<and> \<not> validIdempotencyKey (in_ActiveGroup i) then Inl ErrInvalidRequest
      else case canonicalSnapshot (in_ResolvedRun i) of
          None \<Rightarrow> Inl ErrInvalidRequest
        | Some (snap, resolved, digest) \<Rightarrow>
            if in_IdempotencyKey i \<in> set keys then Inl ErrConflict
            else if RunID resolved \<in> set ids then Inl ErrConflict
            else if in_ActiveGroup i \<noteq> [] \<and> in_ActiveGroup i \<in> set groups then Inl ErrActiveGroup
            else result_bind (prepare_inputs (in_IdempotencyKey i # keys) (RunID resolved # ids)
                   (if in_ActiveGroup i \<noteq> [] then in_ActiveGroup i # groups else groups) is)
                 (\<lambda>cs. Inr (\<lparr>prep_input = i, prep_snapshot = snap, prep_resolved = resolved,
                             prep_digest = digest\<rparr> # cs)))"

text \<open>What the batch will do with a candidate: one constructor per index list of the source.\<close>

datatype batch_action =
    ActNew
  | ActReplay
  | ActUpdate
  | ActCancel
  | ActRestart
  | ActRestartUpdate
  | ActReplace
  | ActTerminalReplace

text \<open>Repair of a terminal row whose digest columns do not match its snapshot.\<close>

definition repair_row :: "row \<Rightarrow> row \<Rightarrow> row" where
  "repair_row repaired r =
     r\<lparr>snapshot_digest := snapshot_digest repaired, request_digest := request_digest repaired\<rparr>"

definition load_existing :: "preparedCreate \<Rightarrow> row \<Rightarrow> row list \<Rightarrow> store_error + row \<times> row list" where
  "load_existing c existing rs =
     (if valid_row existing then Inr (existing, rs)
      else case repairableMalformedTerminal existing of
          None \<Rightarrow> Inl ErrStoreUnavailable
        | Some repaired \<Rightarrow>
            if run_id repaired \<noteq> RunID (prep_resolved c) then Inl ErrStoreUnavailable
            else result_bind (update_one ErrStoreUnavailable
                   (\<lambda>r. run_id r = run_id repaired \<and> idempotency_key r = prep_key c
                        \<and> deleted_at r = None \<and> state_terminal (state r))
                   (repair_row repaired) rs)
                 (\<lambda>rs'. Inr (repaired, rs')))"

definition classify_existing :: "int \<Rightarrow> bool \<Rightarrow> bool \<Rightarrow> preparedCreate \<Rightarrow> row \<Rightarrow> store_error + batch_action" where
  "classify_existing now reclaim replace c e =
     (if deleted_at e \<noteq> None then Inl ErrGone
      else if run_id e \<noteq> RunID (prep_resolved c) then Inl ErrConflict
      else if (request_digest e \<noteq> prep_digest c \<or> pendingSnapshot e \<noteq> [])
              \<and> (case reconcile_until e of None \<Rightarrow> False | Some t \<Rightarrow> now < t) then Inl ErrConflict
      else if request_digest e \<noteq> prep_digest c then
        (if (case DecodeResolvedAgentRun (snapshot e) of
               None \<Rightarrow> True
             | Some active \<Rightarrow> \<not> workstationUpdateCompatible active (prep_resolved c))
            \<or> delete_requested e
         then
           (if \<not> replace \<or> delete_requested e then Inl ErrConflict
            else if state_terminal (state e) then Inr ActTerminalReplace
            else Inr ActReplace)
         else if reclaim \<and> (state e = StateCompleted \<or> state e = StateFailed) then Inr ActRestartUpdate
         else if state e \<noteq> StateRunning \<and> \<not> (state e = StatePreparing \<and> pendingSnapshot e \<noteq> [])
         then Inl ErrConflict
         else if pending_snapshot_digest e \<noteq> prep_digest c then Inr ActUpdate
         else Inr ActReplay)
      else if pendingSnapshot e \<noteq> [] then Inr ActCancel
      else if reclaim \<and> (state e = StateCompleted \<or> state e = StateFailed) then Inr ActRestart
      else Inr ActReplay)"

definition existing_view :: "row \<Rightarrow> Run" where
  "existing_view e = (case validateStoredRun e of None \<Rightarrow> scanStoredRun e | Some view \<Rightarrow> view)"

definition initial_result :: "batch_action \<Rightarrow> row \<Rightarrow> CreateResult" where
  "initial_result act e =
     (if act = ActReplace \<or> act = ActTerminalReplace then \<lparr>result_Run = zero_Run, result_Created = False\<rparr>
      else \<lparr>result_Run = existing_view e, result_Created = False\<rparr>)"

type_synonym batch_item = "preparedCreate \<times> batch_action \<times> CreateResult"

fun classify_all :: "int \<Rightarrow> bool \<Rightarrow> bool \<Rightarrow> preparedCreate list \<Rightarrow> row list
    \<Rightarrow> store_error + batch_item list \<times> row list" where
  "classify_all now reclaim replace [] rs = Inr ([], rs)"
| "classify_all now reclaim replace (c # cs) rs =
     (case queryByIdempotency (prep_key c) rs of
        None \<Rightarrow>
          result_bind (classify_all now reclaim replace cs rs)
            (\<lambda>(items, rs'). Inr ((c, ActNew, \<lparr>result_Run = zero_Run, result_Created = False\<rparr>) # items, rs'))
      | Some existing \<Rightarrow>
          result_bind (load_existing c existing rs) (\<lambda>(e, rs1).
          result_bind (classify_existing now reclaim replace c e) (\<lambda>act.
          result_bind (classify_all now reclaim replace cs rs1) (\<lambda>(items, rs2).
            Inr ((c, act, initial_result act e) # items, rs2)))))"

definition prune_ids :: "string list \<Rightarrow> row list \<Rightarrow> store_error + string list" where
  "prune_ids desired rs =
     (let live = select_live rs in
      if list_ex (\<lambda>r. \<not> valid_row r \<and> \<not> state_terminal (state r)) live then Inl ErrStoreUnavailable
      else Inr (map run_id (filter (\<lambda>r. valid_row r \<and> idempotency_key r \<notin> set desired
             \<and> administratorWorkstation r \<and> \<not> delete_requested r) live)))"

definition group_busy :: "string \<Rightarrow> row list \<Rightarrow> bool" where
  "group_busy g rs =
     list_ex (\<lambda>r. deleted_at r = None \<and> (active_group r = g \<or> idempotency_key r = g)
                  \<and> state_active (state r)) rs"

definition counted :: "bool \<Rightarrow> row \<Rightarrow> bool" where
  "counted reclaim r \<longleftrightarrow>
     deleted_at r = None \<and> state_active (state r) \<and> (reclaim \<longrightarrow> state r \<noteq> StateStopping)"

text \<open>The rows the apply phases write, one function per SQL statement.\<close>

definition new_row :: "int \<Rightarrow> preparedCreate \<Rightarrow> row" where
  "new_row now c = \<lparr>run_id = RunID (prep_resolved c), idempotency_key = prep_key c,
     active_group = in_ActiveGroup (prep_input c), request_digest = prep_digest c,
     snapshot = prep_snapshot c, snapshot_digest = prep_digest c, state = StatePending, revision = 1,
     created_at = now, updated_at = now,
     deadline_at = optionalDeadline now (ActiveSeconds (run_TTL (prep_resolved c))),
     terminal_expires_at = None, reconcile_owner = None, reconcile_until = None,
     delete_requested = False, deleted_at = None, last_reason = [], terminal_target = StateEmpty,
     lifecycle_cursor = [], ownership_digest = prep_digest c, pending_snapshot = None,
     pending_snapshot_digest = []\<rparr>"

definition update_row :: "int \<Rightarrow> preparedCreate \<Rightarrow> row \<Rightarrow> row" where
  "update_row now c r = r\<lparr>pending_snapshot := Some (prep_snapshot c),
     pending_snapshot_digest := prep_digest c, state := StatePreparing, revision := revision r + 1,
     updated_at := now, last_reason := ''configuration-rollout-requested'',
     reconcile_owner := None, reconcile_until := None\<rparr>"

definition cancel_row :: "int \<Rightarrow> row \<Rightarrow> row" where
  "cancel_row now r = r\<lparr>pending_snapshot := Some (snapshot r),
     pending_snapshot_digest := snapshot_digest r, state := StatePreparing,
     revision := revision r + 1, updated_at := now,
     last_reason := ''configuration-rollback-requested'', reconcile_owner := None,
     reconcile_until := None\<rparr>"

definition restart_row :: "int \<Rightarrow> row \<Rightarrow> row" where
  "restart_row now r = r\<lparr>state := StatePending, revision := revision r + 1, updated_at := now,
     terminal_expires_at := None, reconcile_owner := None, reconcile_until := None,
     last_reason := ''workstation-restart-requested'', terminal_target := StateEmpty\<rparr>"

definition restart_update_row :: "int \<Rightarrow> preparedCreate \<Rightarrow> row \<Rightarrow> row" where
  "restart_update_row now c r = r\<lparr>snapshot := prep_snapshot c, snapshot_digest := prep_digest c,
     request_digest := prep_digest c, pending_snapshot := None, pending_snapshot_digest := [],
     state := StatePending, revision := revision r + 1, updated_at := now,
     terminal_expires_at := None, reconcile_owner := None, reconcile_until := None,
     last_reason := ''workstation-restart-with-configuration-requested'',
     terminal_target := StateEmpty\<rparr>"

definition request_replacement_row :: "int \<Rightarrow> preparedCreate \<Rightarrow> row \<Rightarrow> row" where
  "request_replacement_row now c r = r\<lparr>pending_snapshot := Some (prep_snapshot c),
     pending_snapshot_digest := prep_digest c, state := StateStopping, delete_requested := True,
     terminal_target := StateCompleted, terminal_expires_at := None, revision := revision r + 1,
     updated_at := now, reconcile_owner := None, reconcile_until := None,
     last_reason := ''immutable-replacement-requested''\<rparr>"

definition prune_row :: "int \<Rightarrow> row \<Rightarrow> row" where
  "prune_row now r = r\<lparr>state := StateStopping, delete_requested := True,
     terminal_target := StateCompleted, revision := revision r + 1, updated_at := now,
     reconcile_owner := None, reconcile_until := None, last_reason := ''workstation-prune-requested'',
     pending_snapshot := None, pending_snapshot_digest := []\<rparr>"

definition restartable :: "row \<Rightarrow> bool" where
  "restartable r \<longleftrightarrow> deleted_at r = None \<and> (state r = StateCompleted \<or> state r = StateFailed)"

text \<open>The condition and the assignment of the statement that an action runs on the row of its key.\<close>

fun action_update :: "int \<Rightarrow> preparedCreate \<Rightarrow> batch_action \<Rightarrow> (row \<Rightarrow> bool) \<times> (row \<Rightarrow> row)" where
  "action_update now c ActUpdate = (\<lambda>r. idempotency_key r = prep_key c \<and> deleted_at r = None, update_row now c)"
| "action_update now c ActCancel =
     (\<lambda>r. idempotency_key r = prep_key c \<and> pending_snapshot r \<noteq> None, cancel_row now)"
| "action_update now c ActRestart = (\<lambda>r. idempotency_key r = prep_key c \<and> restartable r, restart_row now)"
| "action_update now c ActRestartUpdate =
     (\<lambda>r. idempotency_key r = prep_key c \<and> restartable r, restart_update_row now c)"
| "action_update now c _ =
     (\<lambda>r. idempotency_key r = prep_key c \<and> deleted_at r = None, request_replacement_row now c)"

text \<open>
  After the statement the row is read back without validation, so the view in the result lacks
  the metadata of the snapshot. A replacement leaves its result as it was.
\<close>

definition apply_item :: "int \<Rightarrow> batch_item \<Rightarrow> row list \<Rightarrow> store_error + CreateResult \<times> row list" where
  "apply_item now item rs =
     (let (c, act, res) = item; (p, f) = action_update now c act in
      result_bind (update_one ErrStoreUnavailable p f rs) (\<lambda>rs'.
        if act = ActReplace \<or> act = ActTerminalReplace then Inr (res, rs')
        else case queryByIdempotency (prep_key c) rs' of
            None \<Rightarrow> Inl ErrStoreUnavailable
          | Some r \<Rightarrow> Inr (\<lparr>result_Run = scanStoredRun r, result_Created = False\<rparr>, rs')))"

definition insert_item :: "int \<Rightarrow> preparedCreate \<Rightarrow> row list \<Rightarrow> store_error + CreateResult \<times> row list" where
  "insert_item now c rs =
     (if list_ex (\<lambda>r. run_id r = RunID (prep_resolved c) \<or> idempotency_key r = prep_key c) rs
      then Inl ErrConflict
      else Inr (\<lparr>result_Run = populateRunMetadata (prep_resolved c) (zero_Run\<lparr>
                   v_APIVersion := api_version, v_RunID := RunID (prep_resolved c),
                   v_State := StatePending, v_Revision := 1, v_SnapshotDigest := prep_digest c,
                   v_CreatedAt := now, v_UpdatedAt := now,
                   v_DeadlineAt := optionalDeadline now (ActiveSeconds (run_TTL (prep_resolved c)))\<rparr>),
                 result_Created = True\<rparr>, rs @ [new_row now c]))"

text \<open>One phase: every item of the action, in input order; the other items keep their result.\<close>

fun apply_phase :: "int \<Rightarrow> batch_action list \<Rightarrow> batch_item list \<Rightarrow> row list
    \<Rightarrow> store_error + batch_item list \<times> row list" where
  "apply_phase now acts [] rs = Inr ([], rs)"
| "apply_phase now acts ((c, act, res) # items) rs =
     (if act \<in> set acts then
        result_bind (if act = ActNew then insert_item now c rs else apply_item now (c, act, res) rs)
          (\<lambda>(res', rs1). result_bind (apply_phase now acts items rs1)
             (\<lambda>(items', rs2). Inr ((c, act, res') # items', rs2)))
      else result_bind (apply_phase now acts items rs)
             (\<lambda>(items', rs'). Inr ((c, act, res) # items', rs')))"

fun apply_prune :: "int \<Rightarrow> string list \<Rightarrow> row list \<Rightarrow> store_error + row list" where
  "apply_prune now [] rs = Inr rs"
| "apply_prune now (rid # ids) rs =
     result_bind (update_one ErrStoreUnavailable (\<lambda>r. run_id r = rid \<and> deleted_at r = None)
                    (prune_row now) rs) (apply_prune now ids)"

text \<open>The phases in the order of the source; replacements of live rows come before those of terminal rows.\<close>

fun apply_phases :: "int \<Rightarrow> batch_action list list \<Rightarrow> batch_item list \<Rightarrow> row list
    \<Rightarrow> store_error + batch_item list \<times> row list" where
  "apply_phases now [] items rs = Inr (items, rs)"
| "apply_phases now (acts # phases) items rs =
     result_bind (apply_phase now acts items rs) (\<lambda>(items', rs'). apply_phases now phases items' rs')"

definition batch_phases :: "batch_action list list" where
  "batch_phases = [[ActNew], [ActUpdate], [ActCancel], [ActRestart], [ActRestartUpdate],
     [ActReplace], [ActTerminalReplace]]"

definition items_with :: "batch_action list \<Rightarrow> batch_item list \<Rightarrow> batch_item list" where
  "items_with acts items = filter (\<lambda>(_, act, _). act \<in> set acts) items"

definition batch_admit :: "store_env \<Rightarrow> bool \<Rightarrow> bool \<Rightarrow> batch_item list \<Rightarrow> string list \<Rightarrow> row list \<Rightarrow> store_error option" where
  "batch_admit env reclaim acknowledged items pruned rs =
     (let replaced = map (\<lambda>(c, _, _). RunID (prep_resolved c)) (items_with [ActReplace, ActTerminalReplace] items) in
      first_error [
        check ((pruned \<noteq> [] \<or> replaced \<noteq> []) \<and> \<not> acknowledged) (ErrDestructiveReconcile pruned (sort replaced)),
        check (list_ex (\<lambda>(c, _, _). in_ActiveGroup (prep_input c) \<noteq> []
                 \<and> group_busy (in_ActiveGroup (prep_input c)) rs) (items_with [ActNew] items)) ErrActiveGroup,
        check (maxActiveRuns env < len (filter (counted reclaim) rs)
                 + len (items_with [ActNew, ActRestart, ActRestartUpdate, ActTerminalReplace] items))
          ErrCapacityExceeded])"

definition batchTx :: "store_env \<Rightarrow> preparedCreate list \<Rightarrow> bool \<Rightarrow> bool \<Rightarrow> bool \<Rightarrow> bool \<Rightarrow> int \<Rightarrow> CreateResult list tx" where
  "batchTx env prepared reclaim prune replace acknowledged now rs =
     (case
        result_bind (sweepTx now rs) (\<lambda>(_, rs0).
        result_bind (classify_all now reclaim replace prepared rs0) (\<lambda>(items, rs1).
        result_bind (if prune then prune_ids (map prep_key prepared) rs1 else Inr []) (\<lambda>pruned.
        case batch_admit env reclaim acknowledged items pruned rs1 of
          Some e \<Rightarrow> Inl e
        | None \<Rightarrow>
            result_bind (apply_phases now batch_phases items rs1) (\<lambda>(items', rs2).
            result_bind (apply_prune now pruned rs2) (\<lambda>rs3.
            Inr (map (\<lambda>(_, _, res). res) items', rs3))))))
      of Inl e \<Rightarrow> (Inl e, rs)
       | Inr (results, rs') \<Rightarrow> (Inr results, rs'))"

definition createBatch :: "store_env \<Rightarrow> CreateInput list \<Rightarrow> bool \<Rightarrow> bool \<Rightarrow> bool \<Rightarrow> bool \<Rightarrow> CreateResult list store_op" where
  "createBatch env inputs reclaim prune replace acknowledged st =
     (if inputs = [] \<and> \<not> prune \<or> maxActiveRuns env < len inputs then (Inl ErrInvalidRequest, st)
      else case prepare_inputs [] [] [] inputs of
          Inl e \<Rightarrow> (Inl e, st)
        | Inr prepared \<Rightarrow> in_tx env (batchTx env prepared reclaim prune replace acknowledged) st)"

definition Create :: "store_env \<Rightarrow> CreateInput \<Rightarrow> CreateResult store_op" where
  "Create env input st =
     after_sweep env (\<lambda>st1.
       case createBatch env [input] False False False False st1 of
         (Inl e, st2) \<Rightarrow> (Inl e, st2)
       | (Inr results, st2) \<Rightarrow> (Inr (hd results), st2)) st"

definition CreateBatch :: "store_env \<Rightarrow> CreateInput list \<Rightarrow> CreateResult list store_op" where
  "CreateBatch env inputs = createBatch env inputs True False False False"

definition ReconcileWorkstations :: "store_env \<Rightarrow> CreateInput list \<Rightarrow> bool \<Rightarrow> bool \<Rightarrow> bool \<Rightarrow> CreateResult list store_op" where
  "ReconcileWorkstations env inputs prune replace acknowledged =
     createBatch env inputs True prune replace acknowledged"

section \<open>Opening\<close>

text \<open>\<open>Store.validate\<close> on the rows of an existing database.\<close>

definition validate_table :: "row list \<Rightarrow> bool" where
  "validate_table rs \<longleftrightarrow>
     len rs \<le> 100000 \<and> \<not> list_ex (\<lambda>r. \<not> valid_row r \<and> \<not> state_terminal (state r)) rs"

definition store_options_ok :: "store_env \<Rightarrow> bool" where
  "store_options_ok env \<longleftrightarrow>
     \<not> (maxActiveRuns env < 1 \<or> 10000 < maxActiveRuns env
        \<or> maxClaimLease env < 1000000000 \<or> 3600 * 1000000000 < maxClaimLease env)"

definition OpenStore :: "store_env \<Rightarrow> row list \<Rightarrow> store_error + store" where
  "OpenStore env rs =
     (if \<not> store_options_ok env then Inl ErrInvalidRequest
      else if \<not> validate_table rs then Inl ErrStoreUnavailable
      else Inr \<lparr>local_runs = rs, ticks = 0\<rparr>)"

end
