(* ===== verification/Run_Reconciler.thy ===== *)
theory Run_Reconciler
  imports Run_Store
begin

text \<open>
  The lifecycle reconciler of the local controller,
  \<^verbatim>\<open>localcontroller/internal/controller/reconciler.go\<close>: it lists the runs of the store, claims each,
  drives the execution backend and writes the outcome back. The backend is the interface
  \<^verbatim>\<open>LocalBackend\<close>: a record of three operations on a state of any type. Other goroutines (the HTTP
  handlers, the sweeper, a second controller on the same database) share the store; what they do
  to it before the n-th call of this reconciler is the function \<open>rc_others\<close>, so that every
  interleaving at the granularity of a store call is an instance of the model. The log lines and
  the cancellation of the context are not modelled.
\<close>

section \<open>The backend interface\<close>

record BackendRun =
  br_Resolved :: ResolvedAgentRun
  br_PreviousResolved :: "ResolvedAgentRun option"
  br_SnapshotDigest :: string
  br_DesiredDigest :: string
  br_ConfigurationRollout :: bool
  br_DeleteRequested :: bool
  br_LifecycleCursor :: string

record BackendObservation =
  obs_Ready :: bool
  obs_TerminalTarget :: State
  obs_LifecycleCursor :: string

text \<open>The errors that reach the reconciler: those of the store and the classes of backend errors.\<close>

datatype reconcile_error =
    StoreError store_error
  | ErrBackendRetryable
  | ErrBackendDesiredRunInvalid
  | BackendError string

record 'b LocalBackend =
  Ensure :: "BackendRun \<Rightarrow> 'b \<Rightarrow> (reconcile_error + BackendObservation) \<times> 'b"
  Inspect :: "BackendRun \<Rightarrow> 'b \<Rightarrow> (reconcile_error + BackendObservation) \<times> 'b"
  DeleteRun :: "BackendRun \<Rightarrow> 'b \<Rightarrow> reconcile_error option \<times> 'b"

record 'b Reconciler =
  rc_env :: store_env
  rc_backend :: "'b LocalBackend"
  rc_owner :: string
  rc_lease :: int
  rc_others :: "nat \<Rightarrow> store \<Rightarrow> store"

text \<open>The shared store, the backend, and the number of store calls made so far.\<close>

record 'b world =
  w_store :: store
  w_backend :: 'b
  w_calls :: nat

type_synonym ('b, 'a) act = "'b world \<Rightarrow> (reconcile_error + 'a) \<times> 'b world"

definition call_store :: "'b Reconciler \<Rightarrow> 'a store_op \<Rightarrow> ('b, 'a) act" where
  "call_store rc op w =
     (let (res, st) = op (rc_others rc (w_calls w) (w_store w))
      in (map_sum StoreError id res, w\<lparr>w_store := st, w_calls := Suc (w_calls w)\<rparr>))"

definition call_Ensure :: "'b Reconciler \<Rightarrow> BackendRun \<Rightarrow> ('b, BackendObservation) act" where
  "call_Ensure rc br w = (let (res, b) = Ensure (rc_backend rc) br (w_backend w) in (res, w\<lparr>w_backend := b\<rparr>))"

definition call_Inspect :: "'b Reconciler \<Rightarrow> BackendRun \<Rightarrow> ('b, BackendObservation) act" where
  "call_Inspect rc br w = (let (res, b) = Inspect (rc_backend rc) br (w_backend w) in (res, w\<lparr>w_backend := b\<rparr>))"

definition call_Delete :: "'b Reconciler \<Rightarrow> BackendRun \<Rightarrow> ('b, unit) act" where
  "call_Delete rc br w =
     (let (res, b) = DeleteRun (rc_backend rc) br (w_backend w)
      in (case res of None \<Rightarrow> Inr () | Some e \<Rightarrow> Inl e, w\<lparr>w_backend := b\<rparr>))"

text \<open>Sequencing with an early return on an error.\<close>

definition act_bind :: "('b, 'a) act \<Rightarrow> ('a \<Rightarrow> ('b, 'c) act) \<Rightarrow> ('b, 'c) act" where
  "act_bind m f w = (case m w of (Inl e, w1) \<Rightarrow> (Inl e, w1) | (Inr a, w1) \<Rightarrow> f a w1)"

definition act_return :: "reconcile_error + 'a \<Rightarrow> ('b, 'a) act" where
  "act_return res w = (res, w)"

definition discard :: "('b, 'a) act \<Rightarrow> ('b, unit) act" where
  "discard m w = (case m w of (res, w1) \<Rightarrow> (map_sum id (\<lambda>_. ()) res, w1))"

section \<open>Construction\<close>

text \<open>\<open>random\<close> is the result of reading twelve bytes of \<open>crypto/rand\<close>, or its failure.\<close>

definition NewProcessReconcileOwner :: "string option \<Rightarrow> string \<Rightarrow> store_error + string" where
  "NewProcessReconcileOwner random resourceOwner =
     (if \<not> validOwner resourceOwner \<or> 63 < len resourceOwner then Inl ErrInvalidRequest
      else case random of
          None \<Rightarrow> Inl ErrStoreUnavailable
        | Some bs \<Rightarrow>
            (let owner = resourceOwner @ ''-'' @ concat (map (hex_byte \<circ> byte) bs)
             in if \<not> validOwner owner then Inl ErrInvalidRequest else Inr owner))"

definition NewReconciler :: "store_env \<Rightarrow> 'b LocalBackend \<Rightarrow> string \<Rightarrow> int \<Rightarrow> (nat \<Rightarrow> store \<Rightarrow> store)
    \<Rightarrow> store_error + 'b Reconciler" where
  "NewReconciler env backend owner lease others =
     (if \<not> validOwner owner \<or> lease < 1000000000 \<or> maxClaimLease env < lease then Inl ErrInvalidRequest
      else Inr \<lparr>rc_env = env, rc_backend = backend, rc_owner = owner, rc_lease = lease, rc_others = others\<rparr>)"

section \<open>One run\<close>

definition terminalReason :: "State \<Rightarrow> string" where
  "terminalReason target =
     (if target = StateCompleted then ''backend-completed'' else ''backend-runtime-failed'')"

definition claim :: "'b Reconciler \<Rightarrow> Run \<Rightarrow> ('b, Run) act" where
  "claim rc run = call_store rc (Claim (rc_env rc) \<lparr>claim_RunID = v_RunID run, claim_Owner = rc_owner rc,
     claim_ExpectedRevision = v_Revision run, claim_Lease = rc_lease rc\<rparr>)"

text \<open>A status update of the reconciler under the revision of its claim.\<close>

definition report :: "'b Reconciler \<Rightarrow> Run \<Rightarrow> Run \<Rightarrow> State \<Rightarrow> State \<Rightarrow> string \<Rightarrow> string option \<Rightarrow> ('b, Run) act" where
  "report rc run claimed s target reason cursor =
     call_store rc (UpdateStatus (rc_env rc) \<lparr>st_RunID = v_RunID run, st_Owner = rc_owner rc,
       st_ExpectedRevision = v_Revision claimed, st_State = s, st_TerminalTarget = target,
       st_Reason = reason, st_LifecycleCursor = cursor\<rparr>)"

definition backendRun :: "'b Reconciler \<Rightarrow> Run \<Rightarrow> ('b, BackendRun) act" where
  "backendRun rc run =
     act_bind (call_store rc (backendSnapshot (v_RunID run))) (\<lambda>bs.
       case DecodeResolvedAgentRun (bs_snapshot bs) of
         None \<Rightarrow> act_return (Inl (StoreError ErrStoreUnavailable))
       | Some resolved \<Rightarrow>
           if bs_digest bs = [] \<or> bs_ownership bs = [] then act_return (Inl (StoreError ErrStoreUnavailable))
           else
             (let result = \<lparr>br_Resolved = resolved, br_PreviousResolved = None,
                    br_SnapshotDigest = bs_ownership bs, br_DesiredDigest = bs_digest bs,
                    br_ConfigurationRollout = bs_pending bs, br_DeleteRequested = v_DeleteRequested run,
                    br_LifecycleCursor = bs_cursor bs\<rparr>
              in if bs_pending bs then
                   act_bind (call_store rc (ResolvedSnapshot (v_RunID run))) (\<lambda>(active, _).
                     case DecodeResolvedAgentRun active of
                       None \<Rightarrow> act_return (Inl (StoreError ErrStoreUnavailable))
                     | Some previous \<Rightarrow> act_return (Inr (result\<lparr>br_PreviousResolved := Some previous\<rparr>)))
                 else act_return (Inr result)))"

definition reconcile_pending :: "'b Reconciler \<Rightarrow> Run \<Rightarrow> ('b, unit) act" where
  "reconcile_pending rc run =
     act_bind (claim rc run) (\<lambda>claimed.
       discard (report rc run claimed StatePreparing StateEmpty ''backend-preparing'' None))"

text \<open>The outcome of \<open>Ensure\<close> decides between a terminal observation, a retry, an abort and the running state.\<close>

definition ensured :: "'b Reconciler \<Rightarrow> Run \<Rightarrow> BackendRun \<Rightarrow> Run \<Rightarrow> BackendObservation \<Rightarrow> ('b, unit) act" where
  "ensured rc run br claimed obs =
     (if obs_TerminalTarget obs \<noteq> StateEmpty then
        (if obs_TerminalTarget obs \<noteq> StateCompleted \<and> obs_TerminalTarget obs \<noteq> StateFailed
         then act_return (Inl ErrBackendRetryable)
         else discard (report rc run claimed StateStopping (obs_TerminalTarget obs)
                (terminalReason (obs_TerminalTarget obs)) (Some (obs_LifecycleCursor obs))))
      else if \<not> obs_Ready obs then act_return (Inl ErrBackendRetryable)
      else
        (let reason = (if v_LastReason run = ''backend-recovery-requested'' then ''backend-recovered''
                       else if br_ConfigurationRollout br then ''configuration-applied'' else ''backend-ready'')
         in discard (report rc run claimed StateRunning StateEmpty reason (Some (obs_LifecycleCursor obs)))))"

definition ensure_failed :: "'b Reconciler \<Rightarrow> Run \<Rightarrow> BackendRun \<Rightarrow> Run \<Rightarrow> ('b, unit) act" where
  "ensure_failed rc run br claimed =
     (if br_ConfigurationRollout br
      then call_store rc (abortPendingConfiguration (rc_env rc) (v_RunID run) (rc_owner rc) (v_Revision claimed))
      else discard (report rc run claimed StateStopping StateFailed ''backend-prepare-failed'' None))"

definition reconcile_preparing :: "'b Reconciler \<Rightarrow> Run \<Rightarrow> BackendRun \<Rightarrow> ('b, unit) act" where
  "reconcile_preparing rc run br =
     act_bind (claim rc run) (\<lambda>claimed w.
       case call_Ensure rc br w of
         (Inr obs, w1) \<Rightarrow> ensured rc run br claimed obs w1
       | (Inl e, w1) \<Rightarrow>
           if e \<noteq> ErrBackendDesiredRunInvalid then (Inl e, w1)
           else ensure_failed rc run br claimed w1)"

definition reconcile_running :: "'b Reconciler \<Rightarrow> Run \<Rightarrow> BackendRun \<Rightarrow> ('b, unit) act" where
  "reconcile_running rc run br =
     act_bind (call_Inspect rc br) (\<lambda>obs.
       if obs_Ready obs \<and> obs_LifecycleCursor obs = br_LifecycleCursor br then act_return (Inr ())
       else if obs_TerminalTarget obs \<noteq> StateCompleted \<and> obs_TerminalTarget obs \<noteq> StateFailed then
         (if obs_LifecycleCursor obs \<noteq> br_LifecycleCursor br then
            act_bind (claim rc run) (\<lambda>claimed.
              discard (report rc run claimed StateRunning StateEmpty [] (Some (obs_LifecycleCursor obs))))
          else act_return (Inl ErrBackendRetryable))
       else
         act_bind (claim rc run) (\<lambda>claimed.
           discard (report rc run claimed StateStopping (obs_TerminalTarget obs)
             (terminalReason (obs_TerminalTarget obs)) (Some (obs_LifecycleCursor obs)))))"

definition reconcile_stopping :: "'b Reconciler \<Rightarrow> Run \<Rightarrow> BackendRun \<Rightarrow> ('b, unit) act" where
  "reconcile_stopping rc run br =
     act_bind (claim rc run) (\<lambda>claimed.
       act_bind (call_Delete rc br) (\<lambda>_.
         discard (report rc run claimed (v_TerminalTarget run) StateEmpty ''backend-cleanup-complete'' None)))"

definition reconcileRun :: "'b Reconciler \<Rightarrow> Run \<Rightarrow> ('b, unit) act" where
  "reconcileRun rc run =
     act_bind (backendRun rc run) (\<lambda>br.
       case v_State run of
         StatePending \<Rightarrow> reconcile_pending rc run
       | StatePreparing \<Rightarrow> reconcile_preparing rc run br
       | StateRunning \<Rightarrow> reconcile_running rc run br
       | StateStopping \<Rightarrow> reconcile_stopping rc run br
       | _ \<Rightarrow> act_return (Inr ()))"

section \<open>All runs\<close>

definition MaxListLimit :: int where
  "MaxListLimit = 500"

text \<open>
  The loop over the runs of a page; \<open>Reconcile\<close> goes on with the next run whatever happened to
  one.
\<close>

fun reconcile_page :: "'b Reconciler \<Rightarrow> bool \<Rightarrow> Run list \<Rightarrow> 'b world \<Rightarrow> 'b world" where
  "reconcile_page rc cleanup [] w = w"
| "reconcile_page rc cleanup (run # runs) w =
     (if state_terminal (v_State run) \<or> (v_State run = StateStopping) \<noteq> cleanup
      then reconcile_page rc cleanup runs w
      else reconcile_page rc cleanup runs (snd (reconcileRun rc run w)))"

text \<open>
  The loop over the pages. Other goroutines may insert runs while it goes on, so it has fuel, one
  unit per page; \<open>None\<close> says that the fuel ran out.
\<close>

fun reconcile_pass :: "nat \<Rightarrow> 'b Reconciler \<Rightarrow> bool \<Rightarrow> string \<Rightarrow> 'b world
    \<Rightarrow> ((reconcile_error + unit) \<times> 'b world) option" where
  "reconcile_pass 0 rc cleanup after w = None"
| "reconcile_pass (Suc fuel) rc cleanup after w =
     (case call_store rc (ListRuns (rc_env rc) MaxListLimit after) w of
        (Inl e, w1) \<Rightarrow> Some (Inl e, w1)
      | (Inr page, w1) \<Rightarrow>
          (let w2 = reconcile_page rc cleanup (list_Runs page) w1
           in if list_NextAfter page = [] then Some (Inr (), w2)
              else reconcile_pass fuel rc cleanup (list_NextAfter page) w2))"

definition cleanup_pending :: "'b Reconciler \<Rightarrow> ('b, bool) act" where
  "cleanup_pending rc =
     call_store rc (\<lambda>st. (Inr (replacementCleanupPending (rc_env rc) (local_runs st)), st))"

text \<open>Two passes: the stopping runs, then the others unless a replacement waits for cleanup.\<close>

definition Reconcile :: "nat \<Rightarrow> 'b Reconciler \<Rightarrow> 'b world \<Rightarrow> ((reconcile_error + unit) \<times> 'b world) option" where
  "Reconcile fuel rc w =
     (case reconcile_pass fuel rc True [] w of
        None \<Rightarrow> None
      | Some (Inl e, w1) \<Rightarrow> Some (Inl e, w1)
      | Some (Inr _, w1) \<Rightarrow>
          (case cleanup_pending rc w1 of
             (Inl e, w2) \<Rightarrow> Some (Inl e, w2)
           | (Inr blocked, w2) \<Rightarrow>
               if blocked then Some (Inr (), w2) else reconcile_pass fuel rc False [] w2))"

section \<open>Recovery\<close>

text \<open>
  One running record of a page: the result says whether another owner's lease is in the way, or
  which error ends the recovery.
\<close>

definition recover_run :: "'b Reconciler \<Rightarrow> Run \<Rightarrow> ('b, bool) act" where
  "recover_run rc run w =
     (case claim rc run w of
        (Inl e, w1) \<Rightarrow>
          if e = StoreError ErrOwnershipConflict then (Inr True, w1)
          else if e = StoreError ErrNotFound then (Inr False, w1)
          else (Inl e, w1)
      | (Inr claimed, w1) \<Rightarrow>
          (case report rc run claimed StatePreparing StateEmpty ''backend-recovery-requested'' None w1 of
             (Inl e, w2) \<Rightarrow>
               if e = StoreError ErrOwnershipConflict then (Inr True, w2)
               else if e = StoreError ErrNotFound then (Inr False, w2)
               else (Inl e, w2)
           | (Inr _, w2) \<Rightarrow> (Inr False, w2)))"

fun recover_page :: "'b Reconciler \<Rightarrow> Run list \<Rightarrow> bool \<Rightarrow> ('b, bool) act" where
  "recover_page rc [] pendingLease w = (Inr pendingLease, w)"
| "recover_page rc (run # runs) pendingLease w =
     (if v_State run \<noteq> StateRunning then recover_page rc runs pendingLease w
      else case recover_run rc run w of
          (Inl e, w1) \<Rightarrow> (Inl e, w1)
        | (Inr waits, w1) \<Rightarrow> recover_page rc runs (pendingLease \<or> waits) w1)"

fun recover_pages :: "nat \<Rightarrow> 'b Reconciler \<Rightarrow> string \<Rightarrow> bool \<Rightarrow> 'b world
    \<Rightarrow> ((reconcile_error + unit) \<times> 'b world) option" where
  "recover_pages 0 rc after pendingLease w = None"
| "recover_pages (Suc fuel) rc after pendingLease w =
     (case call_store rc (ListRuns (rc_env rc) MaxListLimit after) w of
        (Inl e, w1) \<Rightarrow> Some (Inl e, w1)
      | (Inr page, w1) \<Rightarrow>
          (case recover_page rc (list_Runs page) pendingLease w1 of
             (Inl e, w2) \<Rightarrow> Some (Inl e, w2)
           | (Inr pending, w2) \<Rightarrow>
               if list_NextAfter page = [] then
                 Some (if pending then Inl (StoreError ErrOwnershipConflict) else Inr (), w2)
               else recover_pages fuel rc (list_NextAfter page) pending w2))"

definition Recover :: "nat \<Rightarrow> 'b Reconciler \<Rightarrow> 'b world \<Rightarrow> ((reconcile_error + unit) \<times> 'b world) option" where
  "Recover fuel rc w = recover_pages fuel rc [] False w"

text \<open>One round of the loop of \<open>Run\<close>: the flag says that the recovery has been completed.\<close>

definition run_round :: "nat \<Rightarrow> 'b Reconciler \<Rightarrow> bool \<Rightarrow> 'b world \<Rightarrow> (bool \<times> 'b world) option" where
  "run_round fuel rc recovered w =
     (if recovered then map_option (\<lambda>(_, w1). (True, w1)) (Reconcile fuel rc w)
      else case Recover fuel rc w of
          None \<Rightarrow> None
        | Some (res, w1) \<Rightarrow> map_option (\<lambda>(_, w2). (res = Inr (), w2)) (Reconcile fuel rc w1))"

end
