(* ===== verification/Row_Invariant.thy ===== *)
theory Row_Invariant
  imports Run_Store
begin

text \<open>
  Every statement of the store, taken as a function on one row, keeps the row well formed
  (\<^verbatim>\<open>validateStoredRun\<close> accepts it) in the situations in which the store runs it. One lemma per
  statement; the only statement without such a lemma is the configuration rollback of
  \<^verbatim>\<open>createBatch\<close>, which breaks a row with a replacement pending.
\<close>

named_theorems row_update \<open>definitions of the row updates\<close>

lemma valid_row_iff:
  "valid_row r \<longleftrightarrow>
     row_fields_ok r \<and> snapshot_digest r = sha256_hex (snapshot r) \<and> request_digest r = sha256_hex (snapshot r)
     \<and> hex_digest (ownership_digest r)
     \<and> (\<exists>resolved. DecodeResolvedAgentRun (snapshot r) = Some resolved \<and> RunID resolved = run_id r
          \<and> row_pending_ok resolved r \<and> row_lifecycle_ok r)"
  by (auto simp: valid_row_def validateStoredRun_def split: option.splits)

lemma valid_rowE:
  assumes "valid_row r"
  obtains resolved where "DecodeResolvedAgentRun (snapshot r) = Some resolved" "RunID resolved = run_id r"
    "row_pending_ok resolved r" "row_lifecycle_ok r" "row_fields_ok r"
    "snapshot_digest r = sha256_hex (snapshot r)" "request_digest r = sha256_hex (snapshot r)"
    "hex_digest (ownership_digest r)"
  using assms by (auto simp: valid_row_iff)

lemma valid_row_view:
  "validateStoredRun r = Some view \<longleftrightarrow>
     valid_row r \<and> (\<exists>resolved. DecodeResolvedAgentRun (snapshot r) = Some resolved
       \<and> view = populateRunMetadata resolved (scanStoredRun r))"
  by (auto simp: valid_row_def validateStoredRun_def split: option.splits if_splits)

text \<open>The reasons the store writes are well formed.\<close>

lemma store_reasons [simp]:
  "validReason ''active-deadline-exceeded''" "validReason ''retention-expired''"
  "validReason ''immutable-replacement-cleanup-complete''" "validReason ''delete-requested''"
  "validReason ''cancel-requested''" "validReason ''configuration-rollout-rejected''"
  "validReason ''configuration-rollout-requested''" "validReason ''configuration-rollback-requested''"
  "validReason ''workstation-restart-requested''"
  "validReason ''workstation-restart-with-configuration-requested''"
  "validReason ''immutable-replacement-requested''" "validReason ''workstation-prune-requested''"
  "validReason []"
  by code_simp+

lemma validLifecycleCursor_Nil [simp]: "validLifecycleCursor []"
  by code_simp

lemma sha256_len [simp]: "len (sha256_hex s) = 64"
  by (simp add: len_def sha256_hex_length)

section \<open>Changing a row\<close>

text \<open>The columns that identify a run and its snapshot, and those that say where it is in its life.\<close>

definition same_identity :: "row \<Rightarrow> row \<Rightarrow> bool" where
  "same_identity r q \<longleftrightarrow>
     run_id q = run_id r \<and> idempotency_key q = idempotency_key r \<and> active_group q = active_group r
     \<and> created_at q = created_at r \<and> deadline_at q = deadline_at r"

definition same_snapshot :: "row \<Rightarrow> row \<Rightarrow> bool" where
  "same_snapshot r q \<longleftrightarrow>
     snapshot q = snapshot r \<and> snapshot_digest q = snapshot_digest r
     \<and> request_digest q = request_digest r \<and> ownership_digest q = ownership_digest r"

definition progress_ok :: "row \<Rightarrow> bool" where
  "progress_ok r \<longleftrightarrow>
     state_valid (state r) \<and> 1 \<le> revision r \<and> validReason (last_reason r)
     \<and> validLifecycleCursor (lifecycle_cursor r) \<and> created_at r \<le> updated_at r
     \<and> (\<forall>t. deleted_at r = Some t \<longrightarrow> created_at r \<le> t)"

definition identity_ok :: "row \<Rightarrow> bool" where
  "identity_ok r \<longleftrightarrow>
     validRunID (run_id r) \<and> validIdempotencyKey (idempotency_key r)
     \<and> (active_group r = [] \<or> validIdempotencyKey (active_group r))
     \<and> (\<forall>t. deadline_at r = Some t \<longrightarrow> created_at r \<le> t)"

definition no_pending :: "row \<Rightarrow> bool" where
  "no_pending r \<longleftrightarrow> pending_snapshot r = None \<and> pending_snapshot_digest r = []"

lemma valid_row_parts:
  "valid_row r \<longleftrightarrow>
     identity_ok r \<and> progress_ok r \<and> row_lifecycle_ok r
     \<and> snapshot_digest r = sha256_hex (snapshot r) \<and> request_digest r = sha256_hex (snapshot r)
     \<and> hex_digest (ownership_digest r)
     \<and> (\<exists>resolved. DecodeResolvedAgentRun (snapshot r) = Some resolved \<and> RunID resolved = run_id r
          \<and> row_pending_ok resolved r)"
proof -
  have "row_fields_ok r \<longleftrightarrow> identity_ok r \<and> progress_ok r"
    if "snapshot_digest r = sha256_hex (snapshot r)" "request_digest r = sha256_hex (snapshot r)"
      "hex_digest (ownership_digest r)" "DecodeResolvedAgentRun (snapshot r) = Some resolved" for resolved
    using that Decode_bounds [OF that(4)]
    by (auto simp: row_fields_ok_def identity_ok_def progress_ok_def hex_digest_def not_less
             split: option.splits)
  then show ?thesis by (auto simp: valid_row_iff)
qed

lemma valid_progress: "valid_row r \<Longrightarrow> progress_ok r"
  by (simp add: valid_row_parts)

lemma valid_lifecycle: "valid_row r \<Longrightarrow> row_lifecycle_ok r"
  by (simp add: valid_row_parts)

lemma row_pending_none: "no_pending r \<Longrightarrow> row_pending_ok resolved r"
  by (simp add: row_pending_ok_def no_pending_def pendingSnapshot_def)

text \<open>A row that is neither preparing nor being replaced has nothing pending.\<close>

lemma valid_pending_states:
  assumes "valid_row r" "pendingSnapshot r \<noteq> []"
  shows "state r = StatePreparing \<or> replacement_requested r"
  using assms by (auto simp: valid_row_parts row_pending_ok_def split: option.splits)

lemma valid_pending_digest: "valid_row r \<Longrightarrow> pendingSnapshot r = [] \<Longrightarrow> pending_snapshot_digest r = []"
  by (auto simp: valid_row_parts row_pending_ok_def)

lemma valid_terminal_pending:
  assumes "valid_row r" "state_terminal (state r)"
  shows "pendingSnapshot r = []"
proof (rule ccontr)
  assume "pendingSnapshot r \<noteq> []"
  from valid_pending_states [OF assms(1) this] assms(2) show False
    by (auto simp: replacement_requested_def)
qed

text \<open>
  The three ways a statement leaves the pending columns: cleared, untouched with nothing in
  them, or untouched together with the columns they depend on.
\<close>

definition pending_kept :: "row \<Rightarrow> row \<Rightarrow> bool" where
  "pending_kept r q \<longleftrightarrow>
     no_pending q
     \<or> pendingSnapshot q = [] \<and> pending_snapshot_digest q = []
     \<or> pending_snapshot q = pending_snapshot r \<and> pending_snapshot_digest q = pending_snapshot_digest r
        \<and> state q = state r \<and> delete_requested q = delete_requested r \<and> last_reason q = last_reason r"

lemma pending_kept_ok:
  assumes "row_pending_ok resolved r" "pending_kept r q"
  shows "row_pending_ok resolved q"
proof -
  consider "pendingSnapshot q = []" "pending_snapshot_digest q = []"
    | "pending_snapshot q = pending_snapshot r" "pending_snapshot_digest q = pending_snapshot_digest r"
      "state q = state r" "delete_requested q = delete_requested r" "last_reason q = last_reason r"
    using assms(2) by (auto simp: pending_kept_def no_pending_def pendingSnapshot_def)
  then show ?thesis
  proof cases
    case 2
    then have eq: "pendingSnapshot q = pendingSnapshot r" "replacement_requested q = replacement_requested r"
      by (simp_all add: pendingSnapshot_def replacement_requested_def)
    from assms(1) show ?thesis unfolding row_pending_ok_def eq 2 .
  qed (simp add: row_pending_ok_def)
qed

lemma valid_rowI:
  assumes "valid_row r" "same_identity r q" "same_snapshot r q" "progress_ok q" "row_lifecycle_ok q"
    "pending_kept r q"
  shows "valid_row q"
  using assms
  by (auto simp: valid_row_parts same_identity_def same_snapshot_def identity_ok_def intro: pending_kept_ok)

lemma valid_row_snapshotI:
  assumes "valid_row r" "same_identity r q" "progress_ok q" "row_lifecycle_ok q"
    "snapshot_digest q = sha256_hex (snapshot q)" "request_digest q = sha256_hex (snapshot q)"
    "hex_digest (ownership_digest q)" "DecodeResolvedAgentRun (snapshot q) = Some res"
    "RunID res = run_id r" "row_pending_ok res q"
  shows "valid_row q"
  using assms by (simp add: valid_row_parts same_identity_def identity_ok_def)

lemmas keep_defs = same_identity_def same_snapshot_def pending_kept_def no_pending_def

section \<open>Sweep\<close>

lemma valid_expire_active:
  assumes "valid_row r" "created_at r \<le> now" "deleted_at r = None"
    "state_active (state r)" "state r \<noteq> StateStopping"
  shows "valid_row (expire_active now r)"
  using assms valid_progress [OF assms(1)] valid_lifecycle [OF assms(1)]
  by (intro valid_rowI [OF assms(1)])
     (auto simp: keep_defs expire_active_def progress_ok_def row_lifecycle_ok_def reconcileOwner_def state_active_def)

lemma valid_expire_retention:
  assumes "valid_row r" "created_at r \<le> now" "deleted_at r = None" "state_terminal (state r)"
  shows "valid_row (expire_retention now r)"
  using assms valid_progress [OF assms(1)] valid_lifecycle [OF assms(1)]
    valid_terminal_pending [OF assms(1,4)] valid_pending_digest [OF assms(1)]
  by (intro valid_rowI [OF assms(1)])
     (auto simp: keep_defs expire_retention_def progress_ok_def row_lifecycle_ok_def reconcileOwner_def
        pendingSnapshot_def)

section \<open>Claims and status updates\<close>

lemma valid_claim_row:
  assumes "valid_row r" "created_at r \<le> now" "\<not> state_terminal (state r)" "validOwner (claim_Owner input)"
  shows "valid_row (claim_row input now r)"
  using assms valid_progress [OF assms(1)] valid_lifecycle [OF assms(1)]
  by (intro valid_rowI [OF assms(1)])
     (auto simp: keep_defs claim_row_def progress_ok_def row_lifecycle_ok_def reconcileOwner_def validOwner_def)

lemma valid_cursor_row:
  assumes "valid_row r" "created_at r \<le> now" "validLifecycleCursor c"
  shows "valid_row (cursor_row c now r)"
  using assms valid_progress [OF assms(1)] valid_lifecycle [OF assms(1)]
  by (intro valid_rowI [OF assms(1)])
     (auto simp: keep_defs cursor_row_def progress_ok_def row_lifecycle_ok_def reconcileOwner_def)

text \<open>The pending snapshot of a well-formed row is itself a well-formed snapshot of the same run.\<close>

lemma valid_pending_run:
  assumes "valid_row r" "pendingSnapshot r \<noteq> []"
  obtains pending where "DecodeResolvedAgentRun (pendingSnapshot r) = Some pending"
    "RunID pending = run_id r" "pending_snapshot_digest r = sha256_hex (pendingSnapshot r)"
proof -
  from assms(1) obtain resolved where "RunID resolved = run_id r" "row_pending_ok resolved r"
    by (auto simp: valid_row_parts)
  with assms(2) that show thesis
    by (cases "DecodeResolvedAgentRun (pendingSnapshot r)") (simp_all add: row_pending_ok_def)
qed

lemma valid_promote_row:
  assumes "valid_row r" "created_at r \<le> now" "pendingSnapshot r \<noteq> []" "state r = StatePreparing"
    "validReason reason" "validLifecycleCursor cursor"
  shows "valid_row (promote_row reason cursor now r)"
proof -
  obtain pending where "DecodeResolvedAgentRun (pendingSnapshot r) = Some pending"
    "RunID pending = run_id r" "pending_snapshot_digest r = sha256_hex (pendingSnapshot r)"
    using assms valid_pending_run by blast
  moreover have "row_pending_ok pending (promote_row reason cursor now r)"
    by (rule row_pending_none) (simp add: no_pending_def promote_row_def)
  ultimately show ?thesis
    using assms by (auto simp: valid_row_parts promote_row_def identity_ok_def progress_ok_def
        row_lifecycle_ok_def reconcileOwner_def)
qed

lemma valid_replace_row:
  assumes "valid_row r" "created_at r \<le> now" "pendingSnapshot r \<noteq> []"
  shows "valid_row (replace_row now r)"
proof -
  obtain pending where "DecodeResolvedAgentRun (pendingSnapshot r) = Some pending"
    "RunID pending = run_id r" "pending_snapshot_digest r = sha256_hex (pendingSnapshot r)"
    using assms valid_pending_run by blast
  moreover have "row_pending_ok pending (replace_row now r)"
    by (rule row_pending_none) (simp add: no_pending_def replace_row_def)
  ultimately show ?thesis
    using assms by (auto simp: valid_row_parts replace_row_def identity_ok_def progress_ok_def
        row_lifecycle_ok_def reconcileOwner_def)
qed

text \<open>
  The general transition: out of an active state along the transition graph, with a target only
  when stopping, and a deletion time exactly when a deleted run reaches its terminal state.
\<close>

lemma valid_status_row:
  assumes "valid_row r" "created_at r \<le> now" "deleted_at r = None"
    and tr: "transitionAllowed (state r) (st_State input)"
    and stop: "state r = StateStopping \<Longrightarrow> pendingSnapshot r = []"
    and prep: "state r = StatePreparing \<Longrightarrow> st_State input = StateRunning \<Longrightarrow> pendingSnapshot r = []"
    and ok: "validReason (st_Reason input)" "validLifecycleCursor cursor"
      "st_State input = StateStopping \<longleftrightarrow> target \<noteq> StateEmpty" "target \<noteq> StateEmpty \<Longrightarrow> state_terminal target"
      "\<not> state_terminal (st_State input) \<Longrightarrow> expiry = None"
      "deletedAt = (if state_terminal (st_State input) \<and> delete_requested r then Some now else None)"
  shows "valid_row (status_row input expiry deletedAt target cursor now r)"
proof (rule valid_rowI [OF assms(1)])
  let ?q = "status_row input expiry deletedAt target cursor now r"
  note prog = valid_progress [OF assms(1)] and life = valid_lifecycle [OF assms(1)]
  show "same_identity r ?q" "same_snapshot r ?q"
    by (simp_all add: keep_defs status_row_def)
  have "state_valid (st_State input)" using tr by (cases "state r") auto
  then show "progress_ok ?q"
    using prog ok assms(2) by (auto simp: progress_ok_def status_row_def)
  show "row_lifecycle_ok ?q"
    using tr life ok assms(3)
    by (cases "state r") (auto simp: row_lifecycle_ok_def status_row_def reconcileOwner_def)
  have "st_State input = StateStopping \<or> pendingSnapshot r = []"
    using tr stop prep valid_pending_states [OF assms(1)]
    by (cases "state r") (auto simp: replacement_requested_def)
  then show "pending_kept r ?q"
    using valid_pending_digest [OF assms(1)]
    by (auto simp: pending_kept_def no_pending_def status_row_def pendingSnapshot_def)
qed

lemma valid_abort_row:
  assumes "valid_row r" "created_at r \<le> now" "state r = StatePreparing"
  shows "valid_row (abort_row now r)"
  using assms valid_progress [OF assms(1)] valid_lifecycle [OF assms(1)]
  by (intro valid_rowI [OF assms(1)])
     (auto simp: keep_defs abort_row_def progress_ok_def row_lifecycle_ok_def reconcileOwner_def)

section \<open>Cancel and delete\<close>

lemma valid_stop_terminal_row:
  assumes "valid_row r" "created_at r \<le> now" "deleted_at r = None" "state_terminal (state r)"
  shows "valid_row (stop_terminal_row now r)"
  using assms valid_progress [OF assms(1)] valid_lifecycle [OF assms(1)]
    valid_terminal_pending [OF assms(1,4)] valid_pending_digest [OF assms(1)]
  by (intro valid_rowI [OF assms(1)])
     (auto simp: keep_defs stop_terminal_row_def progress_ok_def row_lifecycle_ok_def reconcileOwner_def
        pendingSnapshot_def)

lemma valid_stop_row:
  assumes "valid_row r" "created_at r \<le> now" "deleted_at r = None" "\<not> state_terminal (state r)"
    "validReason reason" "state_terminal target"
  shows "valid_row (stop_row deleting reason target now r)"
  using assms valid_progress [OF assms(1)] valid_lifecycle [OF assms(1)]
  by (intro valid_rowI [OF assms(1)])
     (auto simp: keep_defs stop_row_def progress_ok_def row_lifecycle_ok_def reconcileOwner_def)

section \<open>Creating, updating, restarting, replacing, pruning\<close>

text \<open>
  What \<open>createBatch\<close> relies on for a candidate: the columns come out of the input checks, and the
  canonical snapshot it stores decodes to the validated run again, up to the white space and the
  HTML escapes of the agent configuration.
\<close>

definition prepared_ok :: "preparedCreate \<Rightarrow> bool" where
  "prepared_ok c \<longleftrightarrow>
     validIdempotencyKey (prep_key c)
     \<and> (in_ActiveGroup (prep_input c) = [] \<or> validIdempotencyKey (in_ActiveGroup (prep_input c)))
     \<and> prep_digest c = sha256_hex (prep_snapshot c)
     \<and> ttl_ok (run_TTL (prep_resolved c)) \<and> validRunID (RunID (prep_resolved c))"

definition canonical_stable :: "preparedCreate \<Rightarrow> bool" where
  "canonical_stable c \<longleftrightarrow>
     (\<exists>res. DecodeResolvedAgentRun (prep_snapshot c) = Some res
        \<and> res\<lparr>AgentConfig := AgentConfig (prep_resolved c)\<rparr> = prep_resolved c)"

lemma canonical_stableE:
  assumes "canonical_stable c"
  obtains res where "DecodeResolvedAgentRun (prep_snapshot c) = Some res"
    "res = (prep_resolved c)\<lparr>AgentConfig := AgentConfig res\<rparr>" "RunID res = RunID (prep_resolved c)"
    "run_TTL res = run_TTL (prep_resolved c)"
proof -
  from assms obtain res where "DecodeResolvedAgentRun (prep_snapshot c) = Some res"
    and eq: "res\<lparr>AgentConfig := AgentConfig (prep_resolved c)\<rparr> = prep_resolved c"
    by (auto simp: canonical_stable_def)
  moreover have "res = (prep_resolved c)\<lparr>AgentConfig := AgentConfig res\<rparr>"
    by (subst eq [symmetric]) (cases res, simp)
  moreover have "RunID res = RunID (prep_resolved c)" "run_TTL res = run_TTL (prep_resolved c)"
    using arg_cong [OF eq, of RunID] arg_cong [OF eq, of run_TTL] by simp_all
  ultimately show thesis using that by blast
qed

lemma compatible_AgentConfig:
  assumes "workstationUpdateCompatible active d"
  shows "workstationUpdateCompatible active (d\<lparr>AgentConfig := x\<rparr>)"
  using assms
  by (cases active, cases d) (simp add: workstationUpdateCompatible_def fully_persistent_def split: if_splits)

lemma compatible_self: "workstationUpdateCompatible active d \<Longrightarrow> workstationUpdateCompatible active active"
  by (simp add: workstationUpdateCompatible_def split: if_splits)

lemma optionalDeadline_after: "ttl_ok t \<Longrightarrow> optionalDeadline now (ActiveSeconds t) = Some d \<Longrightarrow> now \<le> d"
  by (auto simp: optionalDeadline_def ttl_ok_def go_time split: if_splits)

lemma valid_new_row:
  assumes "prepared_ok c" "canonical_stable c"
  shows "valid_row (new_row now c)"
proof -
  obtain res where "DecodeResolvedAgentRun (prep_snapshot c) = Some res"
    "RunID res = RunID (prep_resolved c)"
    using assms(2) by (rule canonical_stableE)
  then show ?thesis
    using assms(1) optionalDeadline_after
    by (auto simp: valid_row_parts new_row_def identity_ok_def progress_ok_def prepared_ok_def
        row_lifecycle_ok_def reconcileOwner_def row_pending_ok_def pendingSnapshot_def)
qed

lemma valid_update_row:
  assumes "valid_row r" "created_at r \<le> now" "prepared_ok c" "canonical_stable c"
    "DecodeResolvedAgentRun (snapshot r) = Some active"
    "workstationUpdateCompatible active (prep_resolved c)" "run_id r = RunID (prep_resolved c)"
    "state r = StateRunning \<or> state r = StatePreparing"
  shows "valid_row (update_row now c r)"
proof -
  obtain res where res: "DecodeResolvedAgentRun (prep_snapshot c) = Some res"
    "res = (prep_resolved c)\<lparr>AgentConfig := AgentConfig res\<rparr>" "RunID res = RunID (prep_resolved c)"
    using assms(4) by (rule canonical_stableE)
  have compat: "workstationUpdateCompatible active res"
    using compatible_AgentConfig [OF assms(6), of "AgentConfig res"] by (subst res(2))
  have id: "RunID active = run_id r" using assms(1,5) by (auto simp: valid_row_parts)
  have "row_pending_ok active (update_row now c r)"
    using res(1,3) compat assms(3,7) id Decode_bounds [OF res(1)]
    by (simp add: row_pending_ok_def update_row_def pendingSnapshot_def prepared_ok_def)
  then show ?thesis
    using assms(1,2,5,8) id valid_progress [OF assms(1)] valid_lifecycle [OF assms(1)]
    by (intro valid_row_snapshotI [OF assms(1), of _ active])
       (auto simp: update_row_def same_identity_def progress_ok_def row_lifecycle_ok_def
          reconcileOwner_def valid_row_parts)
qed

lemma valid_restart_row:
  assumes "valid_row r" "created_at r \<le> now" "deleted_at r = None" "state_terminal (state r)"
  shows "valid_row (restart_row now r)"
  using assms valid_progress [OF assms(1)] valid_lifecycle [OF assms(1)]
    valid_terminal_pending [OF assms(1,4)] valid_pending_digest [OF assms(1)]
  by (intro valid_rowI [OF assms(1)])
     (auto simp: keep_defs restart_row_def progress_ok_def row_lifecycle_ok_def reconcileOwner_def
        pendingSnapshot_def)

lemma valid_restart_update_row:
  assumes "valid_row r" "created_at r \<le> now" "deleted_at r = None" "state_terminal (state r)"
    "prepared_ok c" "canonical_stable c" "run_id r = RunID (prep_resolved c)"
  shows "valid_row (restart_update_row now c r)"
proof -
  obtain res where "DecodeResolvedAgentRun (prep_snapshot c) = Some res"
    "RunID res = RunID (prep_resolved c)"
    using assms(6) by (rule canonical_stableE)
  then show ?thesis
    using assms valid_progress [OF assms(1)] valid_lifecycle [OF assms(1)]
    by (intro valid_row_snapshotI [OF assms(1), of _ res])
       (auto simp: restart_update_row_def same_identity_def progress_ok_def prepared_ok_def
          row_lifecycle_ok_def reconcileOwner_def row_pending_ok_def pendingSnapshot_def valid_row_parts)
qed

lemma valid_request_replacement_row:
  assumes "valid_row r" "created_at r \<le> now" "deleted_at r = None"
    "prepared_ok c" "canonical_stable c" "run_id r = RunID (prep_resolved c)"
  shows "valid_row (request_replacement_row now c r)"
proof -
  obtain res where res: "DecodeResolvedAgentRun (prep_snapshot c) = Some res"
    "RunID res = RunID (prep_resolved c)"
    using assms(5) by (rule canonical_stableE)
  obtain active where act: "DecodeResolvedAgentRun (snapshot r) = Some active" "RunID active = run_id r"
    using assms(1) by (auto simp: valid_row_parts)
  have "row_pending_ok active (request_replacement_row now c r)"
    using res act assms Decode_bounds [OF res(1)]
    by (auto simp: row_pending_ok_def request_replacement_row_def pendingSnapshot_def prepared_ok_def
        replacement_requested_def)
  then show ?thesis
    using assms(1-3) act valid_progress [OF assms(1)] valid_lifecycle [OF assms(1)]
    by (intro valid_row_snapshotI [OF assms(1), of _ active])
       (auto simp: request_replacement_row_def same_identity_def progress_ok_def row_lifecycle_ok_def
          reconcileOwner_def valid_row_parts)
qed

text \<open>A terminal row has an expiry only if the policy of its snapshot has a TTL.\<close>

definition expiry_sound :: "row \<Rightarrow> bool" where
  "expiry_sound r \<longleftrightarrow>
     (terminal_expires_at r \<noteq> None \<longrightarrow>
       (\<exists>resolved. DecodeResolvedAgentRun (snapshot r) = Some resolved \<and> run_TTL resolved \<noteq> zero_TTL))"

lemma valid_prune_row:
  assumes "valid_row r" "created_at r \<le> now" "deleted_at r = None" "expiry_sound r"
    "administratorWorkstation r"
  shows "valid_row (prune_row now r)"
proof -
  have "terminal_expires_at r = None"
    using assms(4,5) by (auto simp: expiry_sound_def administratorWorkstation_def split: option.splits if_splits)
  then show ?thesis
    using assms valid_progress [OF assms(1)] valid_lifecycle [OF assms(1)]
    by (intro valid_rowI [OF assms(1)])
       (auto simp: keep_defs prune_row_def progress_ok_def row_lifecycle_ok_def reconcileOwner_def)
qed

text \<open>
  The rollback statement is right for a configuration rollout and wrong for a replacement: it
  leaves the deletion request and the terminal target behind in a preparing row.
\<close>

lemma valid_cancel_row:
  assumes "valid_row r" "created_at r \<le> now" "pendingSnapshot r \<noteq> []" "\<not> replacement_requested r"
  shows "valid_row (cancel_row now r)"
proof -
  have prep: "state r = StatePreparing"
    using valid_pending_states [OF assms(1,3)] assms(4) by blast
  obtain active where act: "DecodeResolvedAgentRun (snapshot r) = Some active" "RunID active = run_id r"
    "row_pending_ok active r"
    using assms(1) by (auto simp: valid_row_parts)
  then have "workstationUpdateCompatible active active"
    using assms(3,4) by (auto simp: row_pending_ok_def dest: compatible_self split: option.splits)
  then have "row_pending_ok active (cancel_row now r)"
    using act assms(1) Decode_bounds [OF act(1)]
    by (auto simp: row_pending_ok_def cancel_row_def pendingSnapshot_def valid_row_parts)
  then show ?thesis
    using assms(1,2) act(1,2) prep valid_progress [OF assms(1)] valid_lifecycle [OF assms(1)]
    by (intro valid_row_snapshotI [OF assms(1), of _ active])
       (auto simp: cancel_row_def same_identity_def progress_ok_def row_lifecycle_ok_def
          reconcileOwner_def valid_row_parts)
qed

lemma invalid_cancel_row:
  assumes "valid_row r" "replacement_requested r"
  shows "\<not> valid_row (cancel_row now r)"
  using assms by (auto simp: valid_row_parts cancel_row_def row_lifecycle_ok_def replacement_requested_def)

end
