(* ===== verification/Table_Invariant.thy ===== *)
theory Table_Invariant
  imports Row_Invariant
begin

text \<open>
  The table as a whole: the invariant of the store (unique keys, every row well formed), the
  evolution order on tables (rows never disappear, their identity is fixed, a change raises the
  revision, a tombstone is final), and the interface of a statement that the transactions use.
\<close>

section \<open>Tables\<close>

definition table_ok :: "row list \<Rightarrow> bool" where
  "table_ok rs \<longleftrightarrow>
     distinct (map run_id rs) \<and> distinct (map idempotency_key rs)
     \<and> list_all valid_row rs \<and> list_all expiry_sound rs"

definition created_by :: "int \<Rightarrow> row list \<Rightarrow> bool" where
  "created_by now rs \<longleftrightarrow> list_all (\<lambda>r. created_at r \<le> now) rs"

definition row_evolves :: "row \<Rightarrow> row \<Rightarrow> bool" where
  "row_evolves r q \<longleftrightarrow> q = r \<or> same_identity r q \<and> deleted_at r = None \<and> revision r < revision q"

definition table_evolves :: "row list \<Rightarrow> row list \<Rightarrow> bool" where
  "table_evolves rs rs' \<longleftrightarrow> (\<forall>r \<in> set rs. \<exists>q \<in> set rs'. row_evolves r q)"

definition step_ok :: "int \<Rightarrow> row list \<Rightarrow> row list \<Rightarrow> bool" where
  "step_ok now rs rs' \<longleftrightarrow> table_ok rs' \<and> created_by now rs' \<and> table_evolves rs rs'"

lemma row_evolves_refl [simp]: "row_evolves r r"
  by (simp add: row_evolves_def)

lemma same_identity_trans: "same_identity r q \<Longrightarrow> same_identity q p \<Longrightarrow> same_identity r p"
  by (simp add: same_identity_def)

lemma row_evolves_trans: "row_evolves r q \<Longrightarrow> row_evolves q p \<Longrightarrow> row_evolves r p"
  by (auto simp: row_evolves_def intro: same_identity_trans)

lemma table_evolves_refl [simp]: "table_evolves rs rs"
  by (auto simp: table_evolves_def intro: row_evolves_refl)

lemma table_evolves_trans: "table_evolves rs ts \<Longrightarrow> table_evolves ts us \<Longrightarrow> table_evolves rs us"
  unfolding table_evolves_def by (meson row_evolves_trans)

lemma step_ok_refl: "table_ok rs \<Longrightarrow> created_by now rs \<Longrightarrow> step_ok now rs rs"
  by (simp add: step_ok_def)

lemma step_ok_trans: "step_ok now rs ts \<Longrightarrow> step_ok now' ts us \<Longrightarrow> step_ok now' rs us"
  by (auto simp: step_ok_def intro: table_evolves_trans)

lemma table_okD:
  assumes "table_ok rs" "r \<in> set rs"
  shows "valid_row r" "expiry_sound r"
  using assms by (auto simp: table_ok_def list_all_iff)

lemma table_unique_id: "table_ok rs \<Longrightarrow> r \<in> set rs \<Longrightarrow> q \<in> set rs \<Longrightarrow> run_id q = run_id r \<Longrightarrow> q = r"
  by (auto simp: table_ok_def intro: distinct_map_eq)

lemma table_unique_key:
  "table_ok rs \<Longrightarrow> r \<in> set rs \<Longrightarrow> q \<in> set rs \<Longrightarrow> idempotency_key q = idempotency_key r \<Longrightarrow> q = r"
  by (auto simp: table_ok_def intro: distinct_map_eq)

lemma created_byD: "created_by now rs \<Longrightarrow> r \<in> set rs \<Longrightarrow> created_at r \<le> now"
  by (simp add: created_by_def list_all_iff)

lemma created_by_mono: "created_by now rs \<Longrightarrow> now \<le> now' \<Longrightarrow> created_by now' rs"
  by (auto simp: created_by_def list_all_iff)

section \<open>Statements\<close>

definition change_ok :: "row \<Rightarrow> row \<Rightarrow> bool" where
  "change_ok r q \<longleftrightarrow>
     q = r \<or> same_identity r q \<and> deleted_at r = None \<and> revision r < revision q \<and> valid_row q \<and> expiry_sound q"

lemma map_step_ok:
  assumes "table_ok rs" "created_by now rs" "\<And>r. r \<in> set rs \<Longrightarrow> change_ok r (g r)"
  shows "step_ok now rs (map g rs)"
proof -
  have id: "same_identity r (g r)" if "r \<in> set rs" for r
    using assms(3) [OF that] by (auto simp: change_ok_def same_identity_def)
  have cols: "map run_id (map g rs) = map run_id rs" "map idempotency_key (map g rs) = map idempotency_key rs"
    using id by (simp_all add: same_identity_def)
  have "valid_row (g r) \<and> expiry_sound (g r)" if "r \<in> set rs" for r
    using assms(3) [OF that] table_okD [OF assms(1) that] by (auto simp: change_ok_def)
  then have "list_all valid_row (map g rs)" "list_all expiry_sound (map g rs)"
    unfolding list_all_iff set_map by blast+
  then have "table_ok (map g rs)" using assms(1) cols by (simp only: table_ok_def)
  moreover have "created_by now (map g rs)"
    using assms(2) id by (simp add: created_by_def list_all_iff same_identity_def)
  moreover have "row_evolves r (g r)" if "r \<in> set rs" for r
    using assms(3) [OF that] by (auto simp: row_evolves_def change_ok_def)
  then have "table_evolves rs (map g rs)" unfolding table_evolves_def set_map by blast
  ultimately show ?thesis by (simp add: step_ok_def)
qed

text \<open>
  The interface of an \<open>UPDATE\<close>: it keeps the identity columns, raises the revision by one, runs
  on live rows only, and keeps a row well formed when its condition holds.
\<close>

locale row_statement =
  fixes f :: "row \<Rightarrow> row"
    and pre :: "row \<Rightarrow> bool"
  assumes identity: "same_identity r (f r)"
    and next_revision: "revision (f r) = revision r + 1"
    and live: "pre r \<Longrightarrow> deleted_at r = None"
    and keeps: "valid_row r \<Longrightarrow> expiry_sound r \<Longrightarrow> pre r \<Longrightarrow> valid_row (f r) \<and> expiry_sound (f r)"
begin

lemma change: "valid_row r \<Longrightarrow> expiry_sound r \<Longrightarrow> pre r \<Longrightarrow> change_ok r (f r)"
  using identity [of r] next_revision [of r] live [of r] keeps [of r] by (simp add: change_ok_def)

lemma update_one_step_ok:
  assumes "update_one e p f rs = Inr rs'" "table_ok rs" "created_by now rs"
    "\<And>r. r \<in> set rs \<Longrightarrow> p r \<Longrightarrow> pre r"
  shows "step_ok now rs rs'"
proof -
  have "rs' = map (\<lambda>r. if p r then f r else r) rs"
    using assms(1) by (simp add: update_one_def exec_update_def split: if_splits)
  moreover have "change_ok r (if p r then f r else r)" if "r \<in> set rs" for r
    using that change table_okD [OF assms(2) that] assms(4) by (simp add: change_ok_def [of r r])
  ultimately show ?thesis using map_step_ok [OF assms(2,3)] by simp
qed

end

interpretation expire_active: row_statement "expire_active now"
    "\<lambda>r. created_at r \<le> now \<and> deleted_at r = None \<and> state_active (state r) \<and> state r \<noteq> StateStopping" for now
  by unfold_locales
     (use valid_expire_active in \<open>auto simp: expire_active_def same_identity_def expiry_sound_def\<close>)

interpretation expire_retention: row_statement "expire_retention now"
    "\<lambda>r. created_at r \<le> now \<and> deleted_at r = None \<and> state_terminal (state r)" for now
  by unfold_locales
     (use valid_expire_retention in \<open>auto simp: expire_retention_def same_identity_def expiry_sound_def\<close>)

interpretation claim_row: row_statement "claim_row input now"
    "\<lambda>r. created_at r \<le> now \<and> deleted_at r = None \<and> \<not> state_terminal (state r) \<and> validOwner (claim_Owner input)"
  for input now
  by unfold_locales
     (use valid_claim_row in \<open>auto simp: claim_row_def same_identity_def expiry_sound_def\<close>)

interpretation cursor_row: row_statement "cursor_row c now"
    "\<lambda>r. created_at r \<le> now \<and> deleted_at r = None \<and> validLifecycleCursor c" for c now
  by unfold_locales
     (use valid_cursor_row in \<open>auto simp: cursor_row_def same_identity_def expiry_sound_def\<close>)

text \<open>A statement of the shape of the status updates, with the transition it performs.\<close>

definition status_pre :: "StatusInput \<Rightarrow> int option \<Rightarrow> int option \<Rightarrow> State \<Rightarrow> string \<Rightarrow> int \<Rightarrow> row \<Rightarrow> bool" where
  "status_pre input expiry deletedAt target cursor now r \<longleftrightarrow>
     created_at r \<le> now \<and> deleted_at r = None \<and> transitionAllowed (state r) (st_State input)
     \<and> (state r = StateStopping \<longrightarrow> pendingSnapshot r = [])
     \<and> (state r = StatePreparing \<and> st_State input = StateRunning \<longrightarrow> pendingSnapshot r = [])
     \<and> validReason (st_Reason input) \<and> validLifecycleCursor cursor
     \<and> (st_State input = StateStopping \<longleftrightarrow> target \<noteq> StateEmpty)
     \<and> (target \<noteq> StateEmpty \<longrightarrow> state_terminal target)
     \<and> (\<exists>resolved. DecodeResolvedAgentRun (snapshot r) = Some resolved
          \<and> expiry = terminalExpiry now (st_State input) resolved)
     \<and> deletedAt = (if state_terminal (st_State input) \<and> delete_requested r then Some now else None)"

lemma terminalExpiry_TTL: "terminalExpiry now s resolved \<noteq> None \<Longrightarrow> state_terminal s \<and> run_TTL resolved \<noteq> zero_TTL"
  by (auto simp: terminalExpiry_def expiry_candidates_def zero_TTL_def Let_def split: if_splits list.splits)

interpretation status_row: row_statement "status_row input expiry deletedAt target cursor now"
    "status_pre input expiry deletedAt target cursor now" for input expiry deletedAt target cursor now
proof unfold_locales
  fix r
  let ?q = "status_row input expiry deletedAt target cursor now r"
  show "same_identity r ?q" "revision ?q = revision r + 1"
    by (simp_all add: status_row_def same_identity_def)
  show "deleted_at r = None" if "status_pre input expiry deletedAt target cursor now r"
    using that by (simp add: status_pre_def)
  assume v: "valid_row r" and pre: "status_pre input expiry deletedAt target cursor now r"
  from pre obtain resolved where res: "DecodeResolvedAgentRun (snapshot r) = Some resolved"
    "expiry = terminalExpiry now (st_State input) resolved" by (auto simp: status_pre_def)
  have ttl: "expiry \<noteq> None \<Longrightarrow> state_terminal (st_State input) \<and> run_TTL resolved \<noteq> zero_TTL"
    unfolding res(2) by (rule terminalExpiry_TTL)
  then have none: "\<not> state_terminal (st_State input) \<Longrightarrow> expiry = None" by (cases expiry) simp_all
  have "valid_row ?q"
    by (rule valid_status_row [OF v]) (use pre none in \<open>simp_all add: status_pre_def\<close>)
  moreover have "expiry_sound ?q"
    using ttl res(1) by (simp add: expiry_sound_def status_row_def)
  ultimately show "valid_row ?q \<and> expiry_sound ?q" ..
qed

interpretation promote_row: row_statement "promote_row reason cursor now"
    "\<lambda>r. created_at r \<le> now \<and> deleted_at r = None \<and> pendingSnapshot r \<noteq> [] \<and> state r = StatePreparing
         \<and> validReason reason \<and> validLifecycleCursor cursor" for reason cursor now
proof unfold_locales
  fix r
  assume v: "valid_row r" and pre: "created_at r \<le> now \<and> deleted_at r = None \<and> pendingSnapshot r \<noteq> []
    \<and> state r = StatePreparing \<and> validReason reason \<and> validLifecycleCursor cursor"
  have "terminal_expires_at r = None"
    using valid_lifecycle [OF v] pre by (auto simp: row_lifecycle_ok_def)
  then show "valid_row (promote_row reason cursor now r) \<and> expiry_sound (promote_row reason cursor now r)"
    using valid_promote_row [OF v] pre by (auto simp: expiry_sound_def promote_row_def)
qed (simp_all add: promote_row_def same_identity_def)

interpretation replace_row: row_statement "replace_row now"
    "\<lambda>r. created_at r \<le> now \<and> deleted_at r = None \<and> pendingSnapshot r \<noteq> []" for now
  by unfold_locales
     (use valid_replace_row in \<open>auto simp: replace_row_def same_identity_def expiry_sound_def\<close>)

interpretation abort_row: row_statement "abort_row now"
    "\<lambda>r. created_at r \<le> now \<and> deleted_at r = None \<and> state r = StatePreparing" for now
  by unfold_locales
     (use valid_abort_row in \<open>auto simp: abort_row_def same_identity_def expiry_sound_def\<close>)

interpretation stop_terminal_row: row_statement "stop_terminal_row now"
    "\<lambda>r. created_at r \<le> now \<and> deleted_at r = None \<and> state_terminal (state r)" for now
  by unfold_locales
     (use valid_stop_terminal_row in \<open>auto simp: stop_terminal_row_def same_identity_def expiry_sound_def\<close>)

interpretation stop_row: row_statement "stop_row deleting reason target now"
    "\<lambda>r. created_at r \<le> now \<and> deleted_at r = None \<and> \<not> state_terminal (state r)
         \<and> validReason reason \<and> state_terminal target" for deleting reason target now
  by unfold_locales
     (use valid_stop_row in \<open>auto simp: stop_row_def same_identity_def expiry_sound_def\<close>)

text \<open>The statements of \<open>createBatch\<close>.\<close>

definition candidate_pre :: "preparedCreate \<Rightarrow> int \<Rightarrow> row \<Rightarrow> bool" where
  "candidate_pre c now r \<longleftrightarrow>
     created_at r \<le> now \<and> deleted_at r = None \<and> prepared_ok c \<and> canonical_stable c
     \<and> run_id r = RunID (prep_resolved c)"

lemma expiry_sound_active: "valid_row r \<Longrightarrow> \<not> state_terminal (state r) \<Longrightarrow> terminal_expires_at r = None"
  using valid_lifecycle by (auto simp: row_lifecycle_ok_def)

interpretation update_row: row_statement "update_row now c"
    "\<lambda>r. candidate_pre c now r \<and> (state r = StateRunning \<or> state r = StatePreparing)
         \<and> (\<exists>active. DecodeResolvedAgentRun (snapshot r) = Some active
               \<and> workstationUpdateCompatible active (prep_resolved c))" for now c
proof unfold_locales
  fix r
  assume v: "valid_row r" and pre: "candidate_pre c now r \<and> (state r = StateRunning \<or> state r = StatePreparing)
    \<and> (\<exists>active. DecodeResolvedAgentRun (snapshot r) = Some active
          \<and> workstationUpdateCompatible active (prep_resolved c))"
  then have "valid_row (update_row now c r)"
    by (auto simp: candidate_pre_def intro: valid_update_row [OF v])
  moreover have "terminal_expires_at r = None" using expiry_sound_active [OF v] pre by auto
  ultimately show "valid_row (update_row now c r) \<and> expiry_sound (update_row now c r)"
    by (simp add: expiry_sound_def update_row_def)
qed (simp_all add: update_row_def same_identity_def candidate_pre_def)

interpretation cancel_row: row_statement "cancel_row now"
    "\<lambda>r. created_at r \<le> now \<and> deleted_at r = None \<and> pendingSnapshot r \<noteq> [] \<and> \<not> replacement_requested r"
  for now
  by unfold_locales
     (use valid_cancel_row in \<open>auto simp: cancel_row_def same_identity_def expiry_sound_def\<close>)

interpretation restart_row: row_statement "restart_row now"
    "\<lambda>r. created_at r \<le> now \<and> deleted_at r = None \<and> state_terminal (state r)" for now
  by unfold_locales
     (use valid_restart_row in \<open>auto simp: restart_row_def same_identity_def expiry_sound_def\<close>)

interpretation restart_update_row: row_statement "restart_update_row now c"
    "\<lambda>r. candidate_pre c now r \<and> state_terminal (state r)" for now c
  by unfold_locales
     (use valid_restart_update_row in \<open>auto simp: candidate_pre_def restart_update_row_def same_identity_def expiry_sound_def\<close>)

interpretation request_replacement_row: row_statement "request_replacement_row now c"
    "candidate_pre c now" for now c
  by unfold_locales
     (use valid_request_replacement_row in \<open>auto simp: candidate_pre_def request_replacement_row_def same_identity_def expiry_sound_def\<close>)

interpretation prune_row: row_statement "prune_row now"
    "\<lambda>r. created_at r \<le> now \<and> deleted_at r = None \<and> administratorWorkstation r" for now
  by unfold_locales
     (use valid_prune_row in \<open>auto simp: prune_row_def same_identity_def expiry_sound_def\<close>)

section \<open>Reading rows\<close>

lemma loadForUpdate_row:
  assumes "loadForUpdate rid rs = Inr (r, view)"
  shows "r \<in> set rs" "run_id r = rid" "deleted_at r = None" "valid_row r" "validateStoredRun r = Some view"
  using assms
  by (auto simp: loadForUpdate_def query_run_def valid_row_def dest!: find_Some_set split: option.splits if_splits)

lemma at_revision_unique:
  assumes "table_ok rs" "r \<in> set rs" "run_id r = rid" "q \<in> set rs" "at_revision rid n q"
  shows "q = r"
  using assms table_unique_id by (auto simp: at_revision_def)

lemma queryByIdempotency_row:
  "queryByIdempotency key rs = Some r \<Longrightarrow> r \<in> set rs \<and> idempotency_key r = key"
  by (auto simp: queryByIdempotency_def dest!: find_Some_set)

lemma queryByIdempotency_None:
  "queryByIdempotency key rs = None \<longleftrightarrow> key \<notin> idempotency_key ` set rs"
  by (auto simp: queryByIdempotency_def find_None_iff image_iff)

lemma select_live_set: "set (select_live rs) = {r \<in> set rs. deleted_at r = None}"
  by (auto simp: select_live_def)

text \<open>A unique row is found by its key: the statement touches it alone.\<close>

lemma filter_unique:
  assumes "distinct rs" "r \<in> set rs" "p r" "\<And>q. q \<in> set rs \<Longrightarrow> p q \<Longrightarrow> q = r"
  shows "filter p rs = [r]"
proof -
  have "filter p rs = filter (\<lambda>q. q = r) rs"
    using assms(3,4) by (intro filter_cong) blast+
  also have "\<dots> = [r]"
    using assms(1,2) by (induction rs) (auto simp: filter_empty_conv)
  finally show ?thesis .
qed

lemma update_one_unique:
  assumes "distinct rs" "r \<in> set rs" "p r" "\<And>q. q \<in> set rs \<Longrightarrow> p q \<Longrightarrow> q = r"
  shows "update_one e p f rs = Inr (map (\<lambda>q. if q = r then f q else q) rs)"
proof -
  have "filter p rs = [r]" using assms by (rule filter_unique)
  moreover have iff: "p q \<longleftrightarrow> q = r" if "q \<in> set rs" for q using that assms(3,4) by blast
  have "map (\<lambda>q. if p q then f q else q) rs = map (\<lambda>q. if q = r then f q else q) rs"
    by (intro map_cong refl) (simp add: iff)
  ultimately show ?thesis by (simp add: update_one_def exec_update_def len_def)
qed

lemma table_ok_distinct: "table_ok rs \<Longrightarrow> distinct rs"
  by (auto simp: table_ok_def distinct_map)

end
