(* ===== verification/Store_Invariant.thy ===== *)
theory Store_Invariant
  imports Table_Invariant
begin

text \<open>
  The operations of the store keep its invariant: the sweep, the transactions of \<^verbatim>\<open>Claim\<close>,
  \<^verbatim>\<open>UpdateStatus\<close>, \<^verbatim>\<open>requestStop\<close>, \<^verbatim>\<open>abortPendingConfiguration\<close> and \<^verbatim>\<open>createBatch\<close>, and the step
  relation of the whole store with its reachability invariant.
\<close>

section \<open>Sweep\<close>

definition sweep_row :: "int \<Rightarrow> row \<Rightarrow> row" where
  "sweep_row now r =
     (if deleted_at r = None then (case sweep_update now r of None \<Rightarrow> r | Some f \<Rightarrow> f r) else r)"

lemma sweep_update_identity:
  "sweep_update now r = Some f \<Longrightarrow> same_identity q (f q)"
  by (auto simp: sweep_update_def expire_active.identity expire_retention.identity split: if_splits)

lemma sweep_row_change:
  assumes "valid_row r" "expiry_sound r" "created_at r \<le> now"
  shows "change_ok r (sweep_row now r)"
  using assms expire_active.change [of r now] expire_retention.change [of r now]
  by (auto simp: sweep_row_def sweep_update_def change_ok_def [of r r])

lemma sweep_records_map:
  assumes "distinct (map run_id rs)" "distinct (map run_id qs)" "set qs \<subseteq> {r \<in> set rs. deleted_at r = None}"
  shows "\<exists>n. sweep_records now qs rs k = Inr (n, map (\<lambda>r. if r \<in> set qs then sweep_row now r else r) rs)"
  using assms
proof (induction qs arbitrary: rs k)
  case (Cons q qs)
  show ?case
  proof (cases "sweep_update now q")
    case None
    have "(\<lambda>r. if r \<in> set (q # qs) then sweep_row now r else r) = (\<lambda>r. if r \<in> set qs then sweep_row now r else r)"
      using None by (auto simp: sweep_row_def)
    with Cons None show ?thesis by simp
  next
    case (Some f)
    have q: "q \<in> set rs" "deleted_at q = None" using Cons.prems(3) by auto
    have upd: "update_one ErrStoreUnavailable (at_revision (run_id q) (revision q)) f rs
        = Inr (map (\<lambda>r. if r = q then f r else r) rs)"
      using Cons.prems(1) q
      by (intro update_one_unique) (auto simp: at_revision_def distinct_map dest: inj_onD)
    let ?rs = "map (\<lambda>r. if r = q then f r else r) rs"
    have id: "run_id (f q) = run_id q" using sweep_update_identity [OF Some] by (simp add: same_identity_def)
    have ids: "map run_id ?rs = map run_id rs" using id by auto
    have notin: "q \<notin> set qs" "f q \<notin> set qs"
      using Cons.prems(2) id by (auto simp: image_iff)
    have sub: "set qs \<subseteq> {r \<in> set ?rs. deleted_at r = None}"
      using Cons.prems(3) notin(1) by force
    have dist: "distinct (map run_id ?rs)" "distinct (map run_id qs)"
      using Cons.prems(1,2) by (simp_all only: ids) simp
    obtain n where n: "sweep_records now qs ?rs (k + 1) =
        Inr (n, map (\<lambda>r. if r \<in> set qs then sweep_row now r else r) ?rs)"
      using Cons.IH [OF dist sub] by blast
    have "map (\<lambda>r. if r \<in> set qs then sweep_row now r else r) ?rs
        = map (\<lambda>r. if r \<in> set (q # qs) then sweep_row now r else r) rs"
      using notin Some q(2) by (auto simp: sweep_row_def)
    with n upd Some show ?thesis by auto
  qed
qed simp

lemma sweepTx_map:
  assumes "table_ok rs"
  shows "\<exists>n. sweepTx now rs = Inr (n, map (sweep_row now) rs)"
proof -
  let ?live = "select_live rs"
  have valid: "\<forall>r \<in> set ?live. valid_row r"
    using assms by (auto simp: select_live_set table_okD)
  then have "filter valid_row ?live = ?live" by (simp add: filter_id_conv)
  moreover have "\<not> list_ex (\<lambda>r. \<not> valid_row r \<and> \<not> state_terminal (state r)) ?live"
    using valid by (auto simp: list_ex_iff)
  moreover have "distinct (map run_id rs)" using assms by (simp add: table_ok_def)
  moreover have "distinct (map run_id ?live)"
    using assms by (simp add: select_live_def table_ok_def distinct_map inj_on_def)
  ultimately obtain n where "sweepTx now rs =
      Inr (n, map (\<lambda>r. if r \<in> set ?live then sweep_row now r else r) rs)"
    using sweep_records_map [of rs ?live now 0] by (auto simp: sweepTx_def select_live_set)
  moreover have "map (\<lambda>r. if r \<in> set ?live then sweep_row now r else r) rs = map (sweep_row now) rs"
    by (auto simp: select_live_set sweep_row_def)
  ultimately show ?thesis by auto
qed

lemma sweepTx_step_ok:
  assumes "table_ok rs" "created_by now rs" "sweepTx now rs = Inr (n, rs')"
  shows "step_ok now rs rs'"
proof -
  have "rs' = map (sweep_row now) rs" using sweepTx_map [OF assms(1), of now] assms(3) by auto
  then show ?thesis
    using assms(1,2) by (auto intro!: map_step_ok sweep_row_change table_okD dest: created_byD)
qed

section \<open>Transactions\<close>

lemma claimTx_step_ok:
  assumes "table_ok rs" "created_by now rs" "validOwner (claim_Owner input)"
    "claimTx input now rs = (res, rs')"
  shows "step_ok now rs rs'"
proof (cases "rs' = rs")
  case False
  with assms(4) obtain r view where r: "loadForUpdate (claim_RunID input) rs = Inr (r, view)"
    "revision r = claim_ExpectedRevision input" "\<not> state_terminal (state r)"
    and upd: "update_one ErrOwnershipConflict (at_revision (claim_RunID input) (claim_ExpectedRevision input))
      (claim_row input now) rs = Inr rs'"
    by (auto simp: claimTx_def split: sum.splits if_splits)
  note row = loadForUpdate_row [OF r(1)]
  show ?thesis
    using upd assms(1,2)
  proof (rule claim_row.update_one_step_ok)
    fix q assume q: "q \<in> set rs" "at_revision (claim_RunID input) (claim_ExpectedRevision input) q"
    have "q = r" using at_revision_unique [OF assms(1) row(1,2) q] .
    then show "created_at q \<le> now \<and> deleted_at q = None \<and> \<not> state_terminal (state q) \<and> validOwner (claim_Owner input)"
      using row r assms(2,3) by (auto dest: created_byD)
  qed
qed (use assms step_ok_refl in auto)

text \<open>The inputs that \<open>UpdateStatus\<close> lets through.\<close>

definition status_input_ok :: "StatusInput \<Rightarrow> bool" where
  "status_input_ok input \<longleftrightarrow>
     state_valid (st_State input) \<and> validReason (st_Reason input)
     \<and> (st_State input = StateStopping \<longrightarrow> state_terminal (st_TerminalTarget input))
     \<and> (st_State input \<noteq> StateStopping \<longrightarrow> st_TerminalTarget input = StateEmpty)
     \<and> (\<forall>c. st_LifecycleCursor input = Some c \<longrightarrow> validLifecycleCursor c)"

lemma new_cursor_ok:
  "status_input_ok input \<Longrightarrow> valid_row r \<Longrightarrow> validLifecycleCursor (new_cursor input r)"
  by (auto simp: status_input_ok_def new_cursor_def dest!: valid_progress simp: progress_ok_def split: option.splits)

lemma updateStatusTx_step_ok:
  assumes ok: "table_ok rs" "created_by now rs" "status_input_ok input"
    and tx: "updateStatusTx input now rs = (res, rs')"
  shows "step_ok now rs rs'"
proof (cases "rs' = rs")
  case False
  with tx obtain r view where r: "loadForUpdate (st_RunID input) rs = Inr (r, view)"
    by (auto simp: updateStatusTx_def split: sum.splits)
  note row = loadForUpdate_row [OF r]
  have only: "q = r" if "q \<in> set rs" "input_row input q" for q
    using at_revision_unique [OF ok(1) row(1,2)] that by (simp add: input_row_def)
  have now: "created_at r \<le> now" using ok(2) row(1) by (rule created_byD)
  note cursor = new_cursor_ok [OF ok(3) row(4)]
  from tx r False consider
      (same) "same_state_tx input now r view rs = (res, rs')"
    | (promote) "promote_tx input now r view rs = (res, rs')" "state r = StatePreparing" "pendingSnapshot r \<noteq> []"
    | (replace) "replace_tx input now r view rs = (res, rs')" "pendingSnapshot r \<noteq> []"
    | (general) "transition_tx input now r view rs = (res, rs')" "transitionAllowed (state r) (st_State input)"
        "state r = StatePreparing \<Longrightarrow> st_State input = StateRunning \<Longrightarrow> pendingSnapshot r = []"
        "\<not> (state r = StateStopping \<and> state_terminal (st_State input) \<and> pendingSnapshot r \<noteq> []
            \<and> last_reason r = ''immutable-replacement-requested'')"
    by (simp add: updateStatusTx_def split: if_splits)
  then show ?thesis
  proof cases
    case same
    with False obtain c where c: "st_LifecycleCursor input = Some c"
      and upd: "update_one ErrOwnershipConflict (input_row input) (cursor_row c now) rs = Inr rs'"
      by (auto simp: same_state_tx_def split: option.splits sum.splits if_splits)
    show ?thesis
      using row now ok(3) c
      by (intro cursor_row.update_one_step_ok [OF upd ok(1,2)]) (auto simp: status_input_ok_def dest!: only)
  next
    case promote
    with False have upd: "update_one ErrOwnershipConflict (input_row input)
        (promote_row (st_Reason input) (new_cursor input r) now) rs = Inr rs'"
      by (auto simp: promote_tx_def split: option.splits sum.splits)
    show ?thesis
      using row now ok(3) cursor promote(2,3)
      by (intro promote_row.update_one_step_ok [OF upd ok(1,2)]) (auto simp: status_input_ok_def dest!: only)
  next
    case replace
    with False have upd: "update_one ErrOwnershipConflict (input_row input) (replace_row now) rs = Inr rs'"
      by (auto simp: replace_tx_def split: option.splits sum.splits)
    show ?thesis
      using row now replace(2)
      by (intro replace_row.update_one_step_ok [OF upd ok(1,2)]) (auto dest!: only)
  next
    case general
    with False obtain resolved where res: "DecodeResolvedAgentRun (snapshot r) = Some resolved"
      and upd: "update_one ErrOwnershipConflict (input_row input)
        (status_row input (terminalExpiry now (st_State input) resolved)
          (if state_terminal (st_State input) \<and> delete_requested r then Some now else None)
          (if st_State input = StateStopping then st_TerminalTarget input else StateEmpty)
          (new_cursor input r) now) rs = Inr rs'"
      by (auto simp: transition_tx_def Let_def split: option.splits sum.splits if_splits)
    have none: "state r = StateStopping \<Longrightarrow> pendingSnapshot r = []"
      using general(2,4) valid_pending_states [OF row(4)]
      by (auto simp: replacement_requested_def state_terminal_def)
    have "status_pre input (terminalExpiry now (st_State input) resolved)
        (if state_terminal (st_State input) \<and> delete_requested r then Some now else None)
        (if st_State input = StateStopping then st_TerminalTarget input else StateEmpty)
        (new_cursor input r) now r"
      using row now ok(3) cursor general(2,3) res none by (auto simp: status_pre_def status_input_ok_def)
    then show ?thesis
      by (intro status_row.update_one_step_ok [OF upd ok(1,2)]) (auto dest!: only)
  qed
qed (use ok step_ok_refl in auto)

lemma requestStopTx_step_ok:
  assumes ok: "table_ok rs" "created_by now rs"
    and tx: "requestStopTx rid deleteRequested now rs = (res, rs')"
  shows "step_ok now rs rs'"
proof (cases "rs' = rs")
  case False
  with tx obtain r view where r: "loadForUpdate rid rs = Inr (r, view)"
    by (auto simp: requestStopTx_def split: sum.splits)
  note row = loadForUpdate_row [OF r]
  have only: "q = r" if "q \<in> set rs" "at_revision rid n q" for q n
    using at_revision_unique [OF ok(1) row(1,2) that] .
  have now: "created_at r \<le> now" using ok(2) row(1) by (rule created_byD)
  show ?thesis
  proof (cases "state_terminal (state r)")
    case True
    with tx r False have upd: "update_one ErrConflict (at_revision rid (revision r)) (stop_terminal_row now) rs = Inr rs'"
      by (auto simp: requestStopTx_def stop_terminal_tx_def split: sum.splits if_splits)
    show ?thesis
      using row now True by (intro stop_terminal_row.update_one_step_ok [OF upd ok]) (auto dest!: only)
  next
    case active: False
    with tx r False obtain deleting reason target where
      upd: "update_one ErrConflict (at_revision rid (revision r)) (stop_row deleting reason target now) rs = Inr rs'"
      and "reason \<in> {''delete-requested'', ''cancel-requested''}"
      and "target = (if state r = StateStopping then terminal_target r
                     else if deleteRequested then StateCompleted else StateFailed)"
      by (auto simp: requestStopTx_def Let_def split: sum.splits if_splits)
    moreover have "state r = StateStopping \<Longrightarrow> state_terminal (terminal_target r)"
      using valid_lifecycle [OF row(4)] by (simp add: row_lifecycle_ok_def)
    ultimately show ?thesis
      using row now active
      by (intro stop_row.update_one_step_ok [OF upd ok]) (auto dest!: only split: if_splits)
  qed
qed (use ok step_ok_refl in auto)

lemma valid_active_live: "valid_row r \<Longrightarrow> \<not> state_terminal (state r) \<Longrightarrow> deleted_at r = None"
  using valid_lifecycle [of r] by (auto simp: row_lifecycle_ok_def)

text \<open>The abort statement is safe on a preparing row, which is where the reconciler runs it.\<close>

lemma abortTx_step_ok:
  assumes ok: "table_ok rs" "created_by now rs"
    and prep: "\<And>r. r \<in> set rs \<Longrightarrow> at_revision rid expected r \<Longrightarrow> state r = StatePreparing"
    and tx: "abortTx rid owner expected now rs = (res, rs')"
  shows "step_ok now rs rs'"
proof (cases "rs' = rs")
  case False
  have live: "deleted_at r = None" if "r \<in> set rs" "state r = StatePreparing" for r
    using valid_active_live table_okD(1) [OF ok(1) that(1)] that(2) by simp
  from tx False have upd: "update_one ErrOwnershipConflict
      (\<lambda>r. at_revision rid expected r \<and> reconcile_owner r = Some owner \<and> pending_snapshot r \<noteq> None)
      (abort_row now) rs = Inr rs'"
    by (auto simp: abortTx_def split: sum.splits)
  show ?thesis
    using prep live created_byD [OF ok(2)] by (intro abort_row.update_one_step_ok [OF upd ok]) blast
qed (use ok step_ok_refl in auto)

section \<open>Creating a batch\<close>

text \<open>What an action needs of the row of its key, and that the classification provides it.\<close>

fun action_pre :: "int \<Rightarrow> preparedCreate \<Rightarrow> batch_action \<Rightarrow> row \<Rightarrow> bool" where
  "action_pre now c ActUpdate r =
     (candidate_pre c now r \<and> (state r = StateRunning \<or> state r = StatePreparing)
      \<and> (\<exists>active. DecodeResolvedAgentRun (snapshot r) = Some active
            \<and> workstationUpdateCompatible active (prep_resolved c)))"
| "action_pre now c ActCancel r =
     (created_at r \<le> now \<and> deleted_at r = None \<and> pendingSnapshot r \<noteq> [] \<and> \<not> replacement_requested r)"
| "action_pre now c ActRestart r = (created_at r \<le> now \<and> deleted_at r = None \<and> state_terminal (state r))"
| "action_pre now c ActRestartUpdate r = (candidate_pre c now r \<and> state_terminal (state r))"
| "action_pre now c _ r = candidate_pre c now r"

text \<open>The case the rollback statement does not handle.\<close>

definition rolls_back_replacement :: "preparedCreate \<Rightarrow> row \<Rightarrow> bool" where
  "rolls_back_replacement c r \<longleftrightarrow>
     idempotency_key r = prep_key c \<and> replacement_requested r \<and> pendingSnapshot r \<noteq> []
     \<and> request_digest r = prep_digest c"

lemma classify_existing_pre:
  assumes "classify_existing now reclaim replace c e = Inr act" "act \<noteq> ActReplay"
    "created_at e \<le> now" "prepared_ok c" "canonical_stable c" "idempotency_key e = prep_key c"
    "\<not> rolls_back_replacement c e"
  shows "act \<noteq> ActNew \<and> action_pre now c act e"
  using assms
  by (auto simp: classify_existing_def candidate_pre_def rolls_back_replacement_def state_terminal_def
      split: if_splits option.splits)

definition item_ok :: "int \<Rightarrow> row list \<Rightarrow> batch_item \<Rightarrow> bool" where
  "item_ok now rs0 = (\<lambda>(c, act, res).
     prepared_ok c \<and> canonical_stable c
     \<and> (act \<noteq> ActNew \<longrightarrow> act \<noteq> ActReplay \<longrightarrow> (\<exists>e \<in> set rs0. idempotency_key e = prep_key c \<and> action_pre now c act e)))"

lemma load_existing_valid: "valid_row e \<Longrightarrow> load_existing c e rs = Inr (e, rs)"
  by (simp add: load_existing_def)

lemma classify_all_ok:
  assumes "classify_all now reclaim replace cs rs = Inr (items, rs')" "table_ok rs" "created_by now rs"
    "\<forall>c \<in> set cs. prepared_ok c \<and> canonical_stable c"
    "\<forall>c \<in> set cs. \<forall>r \<in> set rs. \<not> rolls_back_replacement c r"
  shows "rs' = rs \<and> map fst items = cs \<and> (\<forall>item \<in> set items. item_ok now rs item)"
  using assms
proof (induction cs arbitrary: items rs')
  case (Cons c cs)
  show ?case
  proof (cases "queryByIdempotency (prep_key c) rs")
    case None
    with Cons show ?thesis by (auto simp: result_bind_Inr item_ok_def)
  next
    case (Some e)
    have e: "e \<in> set rs" "idempotency_key e = prep_key c" using queryByIdempotency_row [OF Some] by auto
    note ve = table_okD(1) [OF Cons.prems(2) e(1)]
    from Cons.prems(1) Some obtain act items2 rs2 where
      act: "classify_existing now reclaim replace c e = Inr act"
      and rest: "classify_all now reclaim replace cs rs = Inr (items2, rs2)"
      and items: "items = (c, act, initial_result act e) # items2" "rs' = rs2"
      by (auto simp: result_bind_Inr load_existing_valid [OF ve])
    have "rs2 = rs \<and> map fst items2 = cs \<and> (\<forall>item \<in> set items2. item_ok now rs item)"
      using Cons.IH [OF rest] Cons.prems by simp
    moreover have "item_ok now rs (c, act, initial_result act e)"
      using classify_existing_pre [OF act] e Cons.prems(4,5) created_byD [OF Cons.prems(3) e(1)]
      by (auto simp: item_ok_def)
    ultimately show ?thesis using items by simp
  qed
qed simp

text \<open>Statements that select by key leave the rows of every other key alone.\<close>

definition same_except :: "string set \<Rightarrow> row list \<Rightarrow> row list \<Rightarrow> bool" where
  "same_except K rs rs' \<longleftrightarrow> (\<forall>r. idempotency_key r \<notin> K \<longrightarrow> (r \<in> set rs' \<longleftrightarrow> r \<in> set rs))"

lemma same_except_refl [simp]: "same_except K rs rs"
  by (simp add: same_except_def)

lemma same_except_trans: "same_except K rs ts \<Longrightarrow> same_except L ts us \<Longrightarrow> same_except (K \<union> L) rs us"
  by (auto simp: same_except_def)

lemma update_one_same_except:
  assumes "update_one e p f rs = Inr rs'" "\<And>r. p r \<Longrightarrow> idempotency_key r = k"
    "\<And>r. idempotency_key (f r) = idempotency_key r"
  shows "same_except {k} rs rs'"
proof -
  have "rs' = map (\<lambda>r. if p r then f r else r) rs"
    using assms(1) by (simp add: update_one_def exec_update_def split: if_splits)
  then show ?thesis using assms(2,3) by (auto simp: same_except_def image_iff)
qed

lemma action_update_key:
  "act \<noteq> ActNew \<Longrightarrow> action_update now c act = (p, f) \<Longrightarrow>
     (p r \<longrightarrow> idempotency_key r = prep_key c) \<and> idempotency_key (f r) = idempotency_key r"
  by (cases act)
     (auto simp: update_row_def cancel_row_def restart_row_def restart_update_row_def
        request_replacement_row_def)

lemma action_update_step_ok:
  assumes "act \<noteq> ActNew" "act \<noteq> ActReplay" "action_update now c act = (p, f)"
    "update_one err p f ts = Inr ts'" "table_ok ts" "created_by now ts"
    "e \<in> set ts" "idempotency_key e = prep_key c" "action_pre now c act e"
  shows "step_ok now ts ts'"
proof -
  have only: "q = e" if "q \<in> set ts" "p q" for q
    using that action_update_key [OF assms(1,3)] assms(8) table_unique_key [OF assms(5,7)] by metis
  note upd = assms(4-6) and pre = assms(9)
  consider "act = ActUpdate" | "act = ActCancel" | "act = ActRestart" | "act = ActRestartUpdate"
    | "act \<in> {ActReplace, ActTerminalReplace}"
    using assms(1,2) by (cases act) auto
  then show ?thesis
  proof cases
    case 1
    then have "f = update_row now c" using assms(3) by auto
    with upd pre only 1 show ?thesis by (auto intro!: update_row.update_one_step_ok)
  next
    case 2
    then have "f = cancel_row now" using assms(3) by auto
    with upd pre only 2 show ?thesis by (auto intro!: cancel_row.update_one_step_ok)
  next
    case 3
    then have "f = restart_row now" using assms(3) by auto
    with upd pre only 3 show ?thesis by (auto intro!: restart_row.update_one_step_ok)
  next
    case 4
    then have "f = restart_update_row now c" using assms(3) by auto
    with upd pre only 4 show ?thesis by (auto intro!: restart_update_row.update_one_step_ok)
  next
    case 5
    then have "f = request_replacement_row now c" using assms(3) by auto
    with upd pre only 5 show ?thesis by (auto intro!: request_replacement_row.update_one_step_ok)
  qed
qed

lemma insert_item_ok:
  assumes "insert_item now c ts = Inr (res, ts')" "table_ok ts" "created_by now ts"
    "prepared_ok c" "canonical_stable c"
  shows "step_ok now ts ts' \<and> same_except {prep_key c} ts ts'"
proof -
  have ts': "ts' = ts @ [new_row now c]"
    and fresh: "RunID (prep_resolved c) \<notin> run_id ` set ts" "prep_key c \<notin> idempotency_key ` set ts"
    using assms(1) by (auto simp: insert_item_def list_ex_iff split: if_splits)
  have "run_id (new_row now c) = RunID (prep_resolved c)" "idempotency_key (new_row now c) = prep_key c"
    "created_at (new_row now c) = now" "expiry_sound (new_row now c)"
    by (simp_all add: new_row_def expiry_sound_def)
  with assms(2,3) fresh valid_new_row [OF assms(4,5)] show ?thesis
    by (auto simp: ts' step_ok_def table_ok_def created_by_def table_evolves_def same_except_def
        intro: row_evolves_refl)
qed

definition item_key :: "batch_item \<Rightarrow> string" where
  "item_key item = prep_key (fst item)"

definition touched :: "batch_action list \<Rightarrow> batch_item list \<Rightarrow> string set" where
  "touched acts items = set (map item_key (filter (\<lambda>item. fst (snd item) \<in> set acts) items))"

lemma touched_Cons:
  "touched acts ((c, act, res) # items) = (if act \<in> set acts then {prep_key c} else {}) \<union> touched acts items"
  by (simp add: touched_def item_key_def)

text \<open>The row of a key is still the one the classification saw.\<close>

definition untouched :: "string set \<Rightarrow> row list \<Rightarrow> row list \<Rightarrow> bool" where
  "untouched K rs0 ts \<longleftrightarrow> (\<forall>r. idempotency_key r \<in> K \<longrightarrow> (r \<in> set ts \<longleftrightarrow> r \<in> set rs0))"

lemma untouched_except: "untouched K rs0 ts \<Longrightarrow> same_except L ts us \<Longrightarrow> K \<inter> L = {} \<Longrightarrow> untouched K rs0 us"
  unfolding untouched_def same_except_def by blast

lemma untouched_mono: "untouched K rs0 ts \<Longrightarrow> L \<subseteq> K \<Longrightarrow> untouched L rs0 ts"
  by (auto simp: untouched_def)

lemma apply_one_ok:
  assumes "item_ok now rs0 (c, act, res)" "table_ok ts" "created_by now ts" "act \<noteq> ActReplay"
    "untouched {prep_key c} rs0 ts"
    "(if act = ActNew then insert_item now c ts else apply_item now (c, act, res) ts) = Inr (res', ts')"
  shows "step_ok now ts ts' \<and> same_except {prep_key c} ts ts'"
proof (cases "act = ActNew")
  case True
  with assms show ?thesis by (intro insert_item_ok) (simp_all add: item_ok_def)
next
  case False
  obtain p f where pf: "action_update now c act = (p, f)" by fastforce
  from assms(6) False pf have upd: "update_one ErrStoreUnavailable p f ts = Inr ts'"
    by (auto simp: apply_item_def result_bind_Inr split: if_splits option.splits)
  from assms(1,4) False obtain e where e: "e \<in> set rs0" "idempotency_key e = prep_key c" "action_pre now c act e"
    by (auto simp: item_ok_def)
  then have "e \<in> set ts" using assms(5) by (auto simp: untouched_def)
  then have "step_ok now ts ts'"
    using action_update_step_ok [OF False assms(4) pf upd assms(2,3)] e by blast
  moreover have "same_except {prep_key c} ts ts'"
    using update_one_same_except [OF upd] action_update_key [OF False pf] by blast
  ultimately show ?thesis ..
qed

lemma apply_phase_ok:
  assumes "apply_phase now acts items ts = Inr (items', ts')" "ActReplay \<notin> set acts"
    "\<forall>item \<in> set items. item_ok now rs0 item" "distinct (map item_key items)"
    "table_ok ts" "created_by now ts" "untouched (touched acts items) rs0 ts"
  shows "step_ok now ts ts' \<and> same_except (touched acts items) ts ts'
    \<and> map (\<lambda>(c, act, _). (c, act)) items' = map (\<lambda>(c, act, _). (c, act)) items"
  using assms
proof (induction items arbitrary: items' ts ts')
  case Nil
  then show ?case by (auto intro: step_ok_refl)
next
  case (Cons item items)
  obtain c act res where item: "item = (c, act, res)" by (cases item)
  show ?case
  proof (cases "act \<in> set acts")
    case False
    with Cons item show ?thesis by (auto simp: result_bind_Inr touched_Cons)
  next
    case True
    with Cons.prems(1) item obtain res' ts1 items2 where
      one: "(if act = ActNew then insert_item now c ts else apply_item now (c, act, res) ts) = Inr (res', ts1)"
      and rest: "apply_phase now acts items ts1 = Inr (items2, ts')"
      and items': "items' = (c, act, res') # items2"
      by (auto simp: result_bind_Inr split: if_splits)
    have key: "prep_key c \<notin> touched acts items"
      using Cons.prems(4) item by (auto simp: touched_def item_key_def)
    have first: "step_ok now ts ts1 \<and> same_except {prep_key c} ts ts1"
      using apply_one_ok [OF _ Cons.prems(5,6) _ _ one] Cons.prems(2,3,7) item True
      by (auto simp: touched_Cons intro: untouched_mono)
    moreover have "untouched (touched acts items) rs0 ts1"
      using untouched_except [of "touched acts items" rs0 ts "{prep_key c}" ts1] untouched_mono [OF Cons.prems(7)]
        first key item by (auto simp: touched_Cons)
    then have "step_ok now ts1 ts' \<and> same_except (touched acts items) ts1 ts'
        \<and> map (\<lambda>(c, act, _). (c, act)) items2 = map (\<lambda>(c, act, _). (c, act)) items"
      using Cons.IH [OF rest] Cons.prems first by (auto simp: step_ok_def)
    ultimately show ?thesis
      using items' item True same_except_trans [of "{prep_key c}" ts ts1 "touched acts items" ts']
      by (auto simp: touched_Cons intro: step_ok_trans)
  qed
qed

lemma items_cong:
  assumes "map (\<lambda>(c, act, _). (c, act)) items' = map (\<lambda>(c, act, _). (c, act)) items"
  shows "map item_key items' = map item_key items" "touched acts items' = touched acts items"
    "(\<forall>item \<in> set items'. item_ok now rs0 item) \<longleftrightarrow> (\<forall>item \<in> set items. item_ok now rs0 item)"
proof -
  let ?p = "\<lambda>(c, act, _). (c, act)"
  have keys: "map item_key is = map (prep_key \<circ> fst) (map ?p is)" for "is" :: "batch_item list"
    by (simp add: item_key_def split_def)
  have acts: "touched acts is = set (map (prep_key \<circ> fst) (filter (\<lambda>q. snd q \<in> set acts) (map ?p is)))"
    for "is" :: "batch_item list"
    by (simp add: touched_def item_key_def filter_map comp_def split_def image_image)
  have oks: "(\<forall>item \<in> set is. item_ok now rs0 item) \<longleftrightarrow>
      (\<forall>q \<in> set (map ?p is). item_ok now rs0 (fst q, snd q, undefined))" for "is" :: "batch_item list"
    by (auto simp: item_ok_def split_def)
  show "map item_key items' = map item_key items" unfolding keys assms ..
  show "touched acts items' = touched acts items" unfolding acts assms ..
  show "(\<forall>item \<in> set items'. item_ok now rs0 item) \<longleftrightarrow> (\<forall>item \<in> set items. item_ok now rs0 item)"
    unfolding oks assms ..
qed

lemma touched_append: "touched (acts @ acts') items = touched acts items \<union> touched acts' items"
  by (auto simp: touched_def)

lemma touched_disjoint:
  assumes "distinct (map item_key items)" "set acts \<inter> set acts' = {}"
  shows "touched acts items \<inter> touched acts' items = {}"
  using assms(1)
proof (induction items)
  case (Cons item items)
  obtain c act res where item: "item = (c, act, res)" by (cases item)
  have "prep_key c \<notin> touched as items" for as
    using Cons.prems item by (auto simp: touched_def item_key_def)
  with Cons assms(2) item show ?case by (auto simp: touched_Cons)
qed (simp add: touched_def)

lemma apply_phases_ok:
  assumes "apply_phases now phases items ts = Inr (items', ts')" "ActReplay \<notin> set (concat phases)"
    "distinct (concat phases)"
    "\<forall>item \<in> set items. item_ok now rs0 item" "distinct (map item_key items)"
    "table_ok ts" "created_by now ts" "untouched (touched (concat phases) items) rs0 ts"
  shows "step_ok now ts ts' \<and> same_except (touched (concat phases) items) ts ts'"
  using assms
proof (induction phases arbitrary: items ts)
  case Nil
  then show ?case by (auto intro: step_ok_refl)
next
  case (Cons acts phases)
  let ?rest = "touched (concat phases) items"
  from Cons.prems(1) obtain items1 ts1 where
    phase: "apply_phase now acts items ts = Inr (items1, ts1)"
    and rest: "apply_phases now phases items1 ts1 = Inr (items', ts')"
    by (auto simp: result_bind_Inr)
  have all: "touched (concat (acts # phases)) items = touched acts items \<union> ?rest"
    by (simp add: touched_append)
  have first: "step_ok now ts ts1" "same_except (touched acts items) ts ts1"
    "map (\<lambda>(c, act, _). (c, act)) items1 = map (\<lambda>(c, act, _). (c, act)) items"
    using apply_phase_ok [OF phase _ Cons.prems(4-7)] Cons.prems(2,8) untouched_mono all by auto
  note cong = items_cong [OF first(3)]
  have "?rest \<inter> touched acts items = {}"
    using touched_disjoint [OF Cons.prems(5), of "concat phases" acts] Cons.prems(3) by auto
  then have "untouched ?rest rs0 ts1"
    using untouched_except [OF _ first(2)] untouched_mono [OF Cons.prems(8)] all by auto
  then have "step_ok now ts1 ts' \<and> same_except ?rest ts1 ts'"
    using Cons.IH [OF rest] Cons.prems first(1) cong by (auto simp: step_ok_def)
  then show ?case
    using first same_except_trans [OF first(2)] all by (auto intro: step_ok_trans)
qed

lemma apply_prune_ok:
  assumes "apply_prune now ids ts = Inr ts'" "distinct ids" "table_ok ts" "created_by now ts"
    "\<And>r. r \<in> set ts \<Longrightarrow> run_id r \<in> set ids \<Longrightarrow> deleted_at r = None \<Longrightarrow> administratorWorkstation r"
  shows "step_ok now ts ts'"
  using assms
proof (induction ids arbitrary: ts)
  case Nil
  then show ?case by (auto intro: step_ok_refl)
next
  case (Cons rid ids)
  from Cons.prems(1) obtain ts1 where
    upd: "update_one ErrStoreUnavailable (\<lambda>r. run_id r = rid \<and> deleted_at r = None) (prune_row now) ts = Inr ts1"
    and rest: "apply_prune now ids ts1 = Inr ts'"
    by (auto simp: result_bind_Inr)
  have step: "step_ok now ts ts1"
    using Cons.prems(4,5) by (intro prune_row.update_one_step_ok [OF upd Cons.prems(3,4)]) (auto dest: created_byD)
  have "ts1 = map (\<lambda>r. if run_id r = rid \<and> deleted_at r = None then prune_row now r else r) ts"
    using upd by (simp add: update_one_def exec_update_def split: if_splits)
  moreover have "run_id (prune_row now r) = run_id r" for r by (simp add: prune_row_def)
  ultimately have "administratorWorkstation r"
    if "r \<in> set ts1" "run_id r \<in> set ids" "deleted_at r = None" for r
    using that Cons.prems(2,5) by (auto split: if_splits)
  with Cons.IH [OF rest] Cons.prems(2) step have "step_ok now ts1 ts'" by (auto simp: step_ok_def)
  with step show ?case by (rule step_ok_trans)
qed

text \<open>The candidates that pass the input checks.\<close>

lemma canonicalSnapshot_ok:
  assumes "canonicalSnapshot raw = Some (snap, resolved, digest)"
  shows "digest = sha256_hex snap" "ttl_ok (run_TTL resolved)" "validRunID (RunID resolved)"
    "DecodeResolvedAgentRun raw = Some resolved"
  using assms Decode_TTL Decode_RunID
  by (auto simp: canonicalSnapshot_def split: option.splits if_splits)

lemma prepare_inputs_ok:
  assumes "prepare_inputs keys ids groups inputs = Inr cs"
  shows "list_all prepared_ok cs \<and> distinct (map prep_key cs) \<and> set (map prep_key cs) \<inter> set keys = {}
    \<and> map prep_input cs = inputs"
  using assms
proof (induction inputs arbitrary: keys ids groups cs)
  case (Cons i inputs)
  from Cons.prems obtain snap resolved digest cs2 ids2 groups2 where
    i: "validIdempotencyKey (in_IdempotencyKey i)" "in_ActiveGroup i = [] \<or> validIdempotencyKey (in_ActiveGroup i)"
      "canonicalSnapshot (in_ResolvedRun i) = Some (snap, resolved, digest)" "in_IdempotencyKey i \<notin> set keys"
    and rest: "prepare_inputs (in_IdempotencyKey i # keys) ids2 groups2 inputs = Inr cs2"
    and cs: "cs = \<lparr>prep_input = i, prep_snapshot = snap, prep_resolved = resolved, prep_digest = digest\<rparr> # cs2"
    by (auto simp: result_bind_Inr split: if_splits option.splits)
  show ?case
    using Cons.IH [OF rest] i canonicalSnapshot_ok [OF i(3)] cs by (auto simp: prepared_ok_def prep_key_def)
qed simp

lemma sweep_row_replacement: "replacement_requested (sweep_row now r) \<Longrightarrow> sweep_row now r = r"
proof -
  have "\<not> replacement_requested (expire_active now r)" "\<not> replacement_requested (expire_retention now r)"
    by (simp_all add: replacement_requested_def expire_active_def expire_retention_def)
  moreover have "sweep_row now r \<in> {r, expire_active now r, expire_retention now r}"
    by (simp add: sweep_row_def sweep_update_def)
  ultimately show "replacement_requested (sweep_row now r) \<Longrightarrow> sweep_row now r = r" by fastforce
qed

lemma prune_ids_ok:
  assumes "prune_ids desired rs = Inr ids" "table_ok rs"
  shows "distinct ids \<and> set ids \<subseteq> run_id ` set rs
    \<and> (\<forall>r \<in> set rs. run_id r \<in> set ids \<longrightarrow> administratorWorkstation r \<and> idempotency_key r \<notin> set desired)"
proof -
  let ?sel = "filter (\<lambda>r. valid_row r \<and> idempotency_key r \<notin> set desired \<and> administratorWorkstation r
    \<and> \<not> delete_requested r) (select_live rs)"
  have ids: "ids = map run_id ?sel" using assms(1) by (auto simp: prune_ids_def Let_def split: if_splits)
  have "distinct (map run_id (select_live rs))"
    using assms(2) by (simp add: select_live_def table_ok_def distinct_map inj_on_def)
  then have "distinct ids" by (simp add: ids distinct_map_filter)
  moreover have "set ids \<subseteq> run_id ` set rs" by (auto simp: ids select_live_set)
  moreover have "administratorWorkstation r \<and> idempotency_key r \<notin> set desired"
    if "r \<in> set rs" "run_id r \<in> set ids" for r
    using that table_unique_id [OF assms(2)] by (auto simp: ids select_live_set)
  ultimately show ?thesis by blast
qed

lemma batchTx_step_ok:
  assumes ok: "table_ok rs" "created_by now rs"
    and cs: "list_all prepared_ok cs" "distinct (map prep_key cs)" "\<forall>c \<in> set cs. canonical_stable c"
    and rb: "\<forall>c \<in> set cs. \<forall>r \<in> set rs. \<not> rolls_back_replacement c r"
    and tx: "batchTx env cs reclaim prune replace acknowledged now rs = (res, rs')"
  shows "step_ok now rs rs'"
proof (cases "rs' = rs")
  case False
  with tx obtain n rs0 items rs1 pruned items' rs2 where
    sweep: "sweepTx now rs = Inr (n, rs0)"
    and cls: "classify_all now reclaim replace cs rs0 = Inr (items, rs1)"
    and pru: "(if prune then prune_ids (map prep_key cs) rs1 else Inr []) = Inr pruned"
    and ph: "apply_phases now batch_phases items rs1 = Inr (items', rs2)"
    and last: "apply_prune now pruned rs2 = Inr rs'"
    by (auto simp: batchTx_def result_bind_Inr split: sum.splits option.splits)
  have s0: "step_ok now rs rs0" using sweepTx_step_ok [OF ok sweep] .
  then have ok0: "table_ok rs0" "created_by now rs0" by (simp_all add: step_ok_def)
  have rs0: "rs0 = map (sweep_row now) rs" using sweepTx_map [OF ok(1), of now] sweep by auto
  have "\<not> rolls_back_replacement c r" if "c \<in> set cs" "r \<in> set rs0" for c r
    using that rb sweep_row_replacement [of now] unfolding rs0 set_map
    by (metis imageE rolls_back_replacement_def)
  then have items: "rs1 = rs0" "map fst items = cs" "\<forall>item \<in> set items. item_ok now rs0 item"
    using classify_all_ok [OF cls ok0] cs by (auto simp: list_all_iff)
  have keys: "map item_key items = map prep_key cs"
    by (simp add: item_key_def flip: items(2))
  let ?t = "touched (concat batch_phases) items"
  have s1: "step_ok now rs0 rs2 \<and> same_except ?t rs0 rs2"
    using apply_phases_ok [OF ph _ _ items(3)] items(1) ok0 keys cs(2)
    by (auto simp: batch_phases_def untouched_def)
  have sub: "?t \<subseteq> set (map prep_key cs)"
    unfolding keys [symmetric] by (auto simp: touched_def)
  have pr: "distinct pruned \<and> set pruned \<subseteq> run_id ` set rs0 \<and> (\<forall>r \<in> set rs0. run_id r \<in> set pruned \<longrightarrow>
      administratorWorkstation r \<and> idempotency_key r \<notin> set (map prep_key cs))"
    using pru prune_ids_ok [of "map prep_key cs" rs0 pruned] ok0 items(1) by (simp split: if_splits)
  have "administratorWorkstation r" if r: "r \<in> set rs2" "run_id r \<in> set pruned" for r
  proof -
    obtain r0 where r0: "r0 \<in> set rs0" "run_id r0 = run_id r" using pr r(2) by (metis image_iff subsetD)
    then obtain q where q: "q \<in> set rs2" "same_identity r0 q"
      using s1 by (auto simp: step_ok_def table_evolves_def row_evolves_def same_identity_def)
    then have "q = r" using table_unique_id [of rs2 r q] s1 r(1) r0(2) by (simp add: step_ok_def same_identity_def)
    with q r0 r(2) pr sub have "idempotency_key r \<notin> ?t" by (auto simp: same_identity_def)
    with s1 r(1) have "r \<in> set rs0" by (simp add: same_except_def)
    with pr r(2) show ?thesis by blast
  qed
  then have "step_ok now rs2 rs'"
    using apply_prune_ok [OF last] pr s1 by (auto simp: step_ok_def)
  with s0 s1 show ?thesis by (blast intro: step_ok_trans)
qed (use ok step_ok_refl in auto)

end
