(* ===== verification/JSON_Strings.thy ===== *)
theory JSON_Strings
  imports Go_JSON
begin

text \<open>
  Round trips of \<^verbatim>\<open>encoding/json\<close> at the level of characters: a well-formed code point is decoded
  from its own bytes and encoded to them, and a string literal that the encoder writes is read
  back as the string.
\<close>

section \<open>UTF-8\<close>

lemma char_of_byte [simp]: "char_of (byte c) = c"
  by (simp add: byte_def)

lemma digit_div: "0 \<le> x \<Longrightarrow> x < n \<Longrightarrow> (a * n + x) div n = a" for a n x :: int
  by simp

lemma digit_mod: "0 \<le> x \<Longrightarrow> x < n \<Longrightarrow> (a * n + x) mod n = x" for a n x :: int
  by simp

text \<open>A well-formed code point is decoded from its own bytes, and encoded to them.\<close>

lemma decode_encode:
  assumes "decode_rune s = (r, w)" "\<not> (r = RuneError \<and> w = 1)" "s \<noteq> []"
  shows "encode_rune r = take w s \<and> decode_rune (take w s @ t) = (r, w) \<and> w \<le> length s"
proof -
  obtain c0 cs where s: "s = c0 # cs" using assms(3) by (cases s) auto
  consider "byte c0 < 128" | "194 \<le> byte c0" "byte c0 < 224" | "224 \<le> byte c0" "byte c0 < 240"
    | "240 \<le> byte c0" "byte c0 \<le> 244" | "128 \<le> byte c0" "byte c0 < 194 \<or> 244 < byte c0"
    by linarith
  then show ?thesis
  proof cases
    case 1
    then show ?thesis using assms s byte_nonneg [of c0]
      by (auto simp: decode_rune.simps encode_rune_def Let_def simp del: byte_nonneg)
  next
    case 2
    then obtain c1 cs1 where c1: "cs = c1 # cs1" "128 \<le> byte c1" "byte c1 \<le> 191"
      and rw: "r = (byte c0 mod 32) * 64 + byte c1 mod 64" "w = 2"
      using assms s by (auto simp: decode_rune.simps(2) Let_def split: list.splits if_splits)
    define a b where "a = byte c0 mod 32" and "b = byte c1 mod 64"
    have a: "byte c0 = 192 + a" "2 \<le> a" "a < 32" using 2 unfolding a_def by presburger+
    have b: "byte c1 = 128 + b" "0 \<le> b" "b < 64" using c1 unfolding b_def by presburger+
    have r: "r = a * 64 + b" using rw by (simp add: a_def b_def)
    have "char_of (192 + a) = c0" "char_of (128 + b) = c1" using a b by (metis char_of_byte)+
    with r a b have "encode_rune r = [c0, c1]"
      by (simp add: encode_rune_def Let_def)
    then show ?thesis using 2 c1 rw s by (auto simp: decode_rune.simps(2) Let_def not_less)
  next
    case 3
    then obtain c1 c2 cs2 where c1: "cs = c1 # c2 # cs2" "128 \<le> byte c1" "byte c1 \<le> 191"
        "128 \<le> byte c2" "byte c2 \<le> 191" "byte c0 = 224 \<Longrightarrow> 160 \<le> byte c1" "byte c0 = 237 \<Longrightarrow> byte c1 \<le> 159"
      and rw: "r = (byte c0 mod 16) * 4096 + (byte c1 mod 64) * 64 + byte c2 mod 64" "w = 3"
      using assms s by (auto simp: decode_rune.simps(2) Let_def split: list.splits if_splits)
    define a b c where "a = byte c0 mod 16" and "b = byte c1 mod 64" and "c = byte c2 mod 64"
    have a: "byte c0 = 224 + a" "0 \<le> a" "a < 16" using 3 unfolding a_def by presburger+
    have b: "byte c1 = 128 + b" "0 \<le> b" "b < 64" using c1 unfolding b_def by presburger+
    have c: "byte c2 = 128 + c" "0 \<le> c" "c < 64" using c1 unfolding c_def by presburger+
    have r: "r = a * 4096 + b * 64 + c" using rw by (simp add: a_def b_def c_def)
    have "a = 0 \<Longrightarrow> 32 \<le> b" "a = 13 \<Longrightarrow> b \<le> 31" using c1(6,7) a b by linarith+
    moreover have "a = 0 \<or> 1 \<le> a" "a \<le> 12 \<or> a = 13 \<or> 14 \<le> a" using a by linarith+
    ultimately have lim: "2048 \<le> r" "\<not> (55296 \<le> r \<and> r \<le> 57343)" "r < 65536"
      using a b c r by (elim disjE; simp)+
    have r1: "r = a * 4096 + (b * 64 + c)" and r2: "r = (a * 64 + b) * 64 + c" using r by (simp_all add: algebra_simps)
    have q1: "r div 4096 = a" unfolding r1 by (rule digit_div) (use b c in linarith)+
    have "r div 64 = a * 64 + b" unfolding r2 by (rule digit_div) (use c in linarith)+
    then have q2: "r div 64 mod 64 = b" using digit_mod [of b 64 a] b by simp
    have q3: "r mod 64 = c" unfolding r2 by (rule digit_mod) (use c in linarith)+
    have "char_of (224 + a) = c0" "char_of (128 + b) = c1" "char_of (128 + c) = c2"
      using a b c by (metis char_of_byte)+
    with lim have "encode_rune r = [c0, c1, c2]"
      by (auto simp: encode_rune_def Let_def q1 q2 q3)
    then show ?thesis using 3 c1 rw s by (auto simp: decode_rune.simps(2) Let_def not_less)
  next
    case 4
    then obtain c1 c2 c3 cs3 where c1: "cs = c1 # c2 # c3 # cs3" "128 \<le> byte c1" "byte c1 \<le> 191"
        "128 \<le> byte c2" "byte c2 \<le> 191" "128 \<le> byte c3" "byte c3 \<le> 191"
        "byte c0 = 240 \<Longrightarrow> 144 \<le> byte c1" "byte c0 = 244 \<Longrightarrow> byte c1 \<le> 143"
      and rw: "r = (byte c0 mod 8) * 262144 + (byte c1 mod 64) * 4096 + (byte c2 mod 64) * 64 + byte c3 mod 64"
        "w = 4"
      using assms s by (auto simp: decode_rune.simps(2) Let_def split: list.splits if_splits)
    define a b c d where "a = byte c0 mod 8" and "b = byte c1 mod 64" and "c = byte c2 mod 64"
      and "d = byte c3 mod 64"
    have a: "byte c0 = 240 + a" "0 \<le> a" "a \<le> 4" using 4 unfolding a_def by presburger+
    have b: "byte c1 = 128 + b" "0 \<le> b" "b < 64" using c1 unfolding b_def by presburger+
    have c: "byte c2 = 128 + c" "0 \<le> c" "c < 64" using c1 unfolding c_def by presburger+
    have e: "byte c3 = 128 + d" "0 \<le> d" "d < 64" using c1 unfolding d_def by presburger+
    have r: "r = a * 262144 + b * 4096 + c * 64 + d" using rw by (simp add: a_def b_def c_def d_def)
    have "a = 0 \<Longrightarrow> 16 \<le> b" "a = 4 \<Longrightarrow> b \<le> 15" using c1(8,9) a b by linarith+
    moreover have "a = 0 \<or> 1 \<le> a" "a \<le> 3 \<or> a = 4" using a by linarith+
    ultimately have lim: "65536 \<le> r" "r \<le> 1114111"
      using a b c e r by (elim disjE; simp)+
    have r1: "r = a * 262144 + (b * 4096 + c * 64 + d)" and r2: "r = (a * 64 + b) * 4096 + (c * 64 + d)"
      and r3: "r = ((a * 64 + b) * 64 + c) * 64 + d" using r by (simp_all add: algebra_simps)
    have q1: "r div 262144 = a" unfolding r1 by (rule digit_div) (use b c e in linarith)+
    have "r div 4096 = a * 64 + b" unfolding r2 by (rule digit_div) (use c e in linarith)+
    then have q2: "r div 4096 mod 64 = b" using digit_mod [of b 64 a] b by simp
    have "r div 64 = (a * 64 + b) * 64 + c" unfolding r3 by (rule digit_div) (use e in linarith)+
    then have q3: "r div 64 mod 64 = c" using digit_mod [of c 64 "a * 64 + b"] c by simp
    have q4: "r mod 64 = d" unfolding r3 by (rule digit_mod) (use e in linarith)+
    have "char_of (240 + a) = c0" "char_of (128 + b) = c1" "char_of (128 + c) = c2" "char_of (128 + d) = c3"
      using a b c e by (metis char_of_byte)+
    with lim have "encode_rune r = [c0, c1, c2, c3]"
      by (auto simp: encode_rune_def Let_def q1 q2 q3 q4)
    then show ?thesis using 4 c1 rw s by (auto simp: decode_rune.simps(2) Let_def not_less)
  next
    case 5
    then show ?thesis using assms s by (auto simp: decode_rune.simps(2) Let_def)
  qed
qed

section \<open>String literals\<close>

lemma decode_width_le: "decode_rune s = (r, w) \<Longrightarrow> s \<noteq> [] \<Longrightarrow> w \<le> length s"
  by (cases s) (auto simp: decode_rune.simps(2) Let_def split: list.splits if_splits)

lemma hex4_u_escape:
  assumes "0 \<le> r" "r < 65536"
  shows "hex4 (take 4 (drop 2 (u_escape r @ t))) = Some r"
proof -
  define a b c d where "a = r div 4096 mod 16" and "b = r div 256 mod 16" and "c = r div 16 mod 16" and "d = r mod 16"
  have rng: "a \<in> {0..15}" "b \<in> {0..15}" "c \<in> {0..15}" "d \<in> {0..15}"
    by (simp_all add: a_def b_def c_def d_def)
  have all: "\<forall>v \<in> set [0..15]. hex_digit (hex_char v) \<and> hex_val (hex_char v) = v" by code_simp
  then have hv: "hex_digit (hex_char v)" "hex_val (hex_char v) = v" if "v \<in> {0..15}" for v
    using that by auto
  have e: "r div 256 = r div 16 div 16" "r div 4096 = r div 16 div 16 div 16"
    using zdiv_zmult2_eq [of 16 r 16] zdiv_zmult2_eq [of 256 r 16] zdiv_zmult2_eq [of 16 "r div 16" 16]
    by (simp_all add: zdiv_zmult2_eq [of 16 r 16, symmetric])
  have "r div 4096 mod 16 = r div 4096" using assms by (intro mod_pos_pos_trivial) auto
  then have "a * 16 + b = r div 16 div 16" unfolding a_def b_def e by simp
  then have "(a * 16 + b) * 16 + c = r div 16" unfolding c_def by simp
  then have "((a * 16 + b) * 16 + c) * 16 + d = r" unfolding d_def by simp
  then show ?thesis
    using rng hv by (simp add: u_escape_def hex4_def flip: a_def b_def c_def d_def)
qed

lemma unquote_u_escape:
  assumes "0 \<le> r" "r < 65536" "\<not> is_surrogate r"
  shows "unquote (u_escape r @ t) = map_option ((@) (encode_rune r)) (unquote t)"
proof -
  have "surrogate_pair r u = None" for u
    using assms by (auto simp: surrogate_pair_def is_surrogate_def)
  then show ?thesis using hex4_u_escape [OF assms(1,2), of t]
    by (simp add: u_escape_def unquote.simps(2) numeral_eq_Suc)
qed

lemma encode_rune_ascii: "0 \<le> r \<Longrightarrow> r < 128 \<Longrightarrow> encode_rune r = [char_of r]"
  by (simp add: encode_rune_def)

lemma short_escape:
  assumes "r \<in> {34, 92, 8, 12, 10, 13, 9}"
  obtains e where "enc_rune (r, bs) = [CHR 0x5C, e]" "e \<noteq> CHR ''u''" "simple_escape e = Some (char_of r)"
proof -
  have "list_all (\<lambda>r. let e = enc_rune (r, []) in
      e = [CHR 0x5C, e ! 1] \<and> e ! 1 \<noteq> CHR ''u'' \<and> simple_escape (e ! 1) = Some (char_of r))
      [34, 92, 8, 12, 10, 13, 9]" by code_simp
  with assms have "enc_rune (r, []) = [CHR 0x5C, enc_rune (r, []) ! 1]" "enc_rune (r, []) ! 1 \<noteq> CHR ''u''"
    "simple_escape (enc_rune (r, []) ! 1) = Some (char_of r)"
    unfolding list_all_iff Let_def by auto
  moreover have "enc_rune (r, bs) = enc_rune (r, [])" using assms by (auto simp: enc_rune_def)
  ultimately show thesis by (intro that) simp_all
qed

text \<open>One code point: its escape is resolved to its bytes.\<close>

lemma unquote_enc_rune:
  assumes "decode_rune s = (r, w)" "\<not> (r = RuneError \<and> w = 1)" "s \<noteq> []"
  shows "unquote (enc_rune (r, take w s) @ t) = map_option ((@) (take w s)) (unquote t)"
proof -
  note de = decode_encode [OF assms, of t]
  have enc: "take w s = encode_rune r" and dec: "decode_rune (take w s @ t) = (r, w)"
    and len: "length (take w s) = w" using de by auto
  have w0: "0 < w" using assms(1,3) decode_rune_width by (metis list.exhaust snd_conv)
  have r0: "0 \<le> r" using assms by (cases s) (auto simp: decode_rune.simps(2) Let_def RuneError_def split: list.splits if_splits)
  consider "r \<in> {34, 92, 8, 12, 10, 13, 9}" | "r \<notin> {34, 92, 8, 12, 10, 13, 9}" "r < 32 \<or> r \<in> {60, 62, 38, 8232, 8233}"
    | "\<not> r < 32" "r \<notin> {34, 92, 60, 62, 38, 8232, 8233}" by auto
  then show ?thesis
  proof cases
    case 1
    then obtain e where e: "enc_rune (r, take w s) = [CHR 0x5C, e]" "e \<noteq> CHR ''u''"
      "simple_escape e = Some (char_of r)" by (rule short_escape)
    have "encode_rune r = [char_of r]" using 1 by (auto intro!: encode_rune_ascii)
    then show ?thesis unfolding enc using e by (cases "unquote t") (simp_all add: enc unquote.simps(2))
  next
    case 2
    then have "enc_rune (r, take w s) = u_escape r" "r < 65536" "\<not> is_surrogate r"
      by (auto simp: enc_rune_def is_surrogate_def)
    then show ?thesis using unquote_u_escape [OF r0] by (simp add: enc)
  next
    case 3
    then have bs: "enc_rune (r, take w s) = take w s" using assms(2) len
      by (auto simp: enc_rune_def)
    obtain c cs where c: "take w s = c # cs" using w0 assms(3) by (cases s; cases w) auto
    have "byte c = r \<or> 128 \<le> byte c"
      using dec c by (auto simp: decode_rune.simps(2) Let_def split: list.splits if_splits)
    then have "\<not> byte c < 32" "c \<noteq> CHR 0x22" "c \<noteq> CHR 0x5C"
      using 3 by (auto simp: byte_def)
    then have "unquote ((c # cs) @ t) = map_option ((@) (encode_rune r)) (unquote (drop w ((c # cs) @ t)))"
      using dec c by (simp add: unquote.simps(2))
    moreover have "drop w ((c # cs) @ t) = t" using c len by auto
    moreover have "encode_rune r = c # cs" using c enc by simp
    ultimately show ?thesis using bs unfolding c by simp
  qed
qed

lemma valid_utf8_step:
  assumes "s \<noteq> []" "decode_rune s = (r, w)"
  shows "valid_utf8 s \<longleftrightarrow> \<not> (r = RuneError \<and> w = 1) \<and> valid_utf8 (drop w s)"
  using assms decode_width_le [OF assms(2,1)] by (simp add: valid_utf8_def runes.simps [of s] min_absorb2)

theorem unquote_enc_string:
  assumes "valid_utf8 s"
  shows "unquote (concat (map enc_rune (runes s))) = Some s"
  using assms
proof (induction s rule: runes.induct)
  case (1 s)
  show ?case
  proof (cases "s = []")
    case False
    obtain r w where rw: "decode_rune s = (r, w)" by fastforce
    with 1(2) False have ok: "\<not> (r = RuneError \<and> w = 1)" "valid_utf8 (drop w s)"
      using valid_utf8_step by blast+
    have IH: "unquote (concat (map enc_rune (runes (drop w s)))) = Some (drop w s)"
      using 1(1) [OF False] rw ok(2) by simp
    show ?thesis
      using unquote_enc_rune [OF rw ok(1) False] IH False rw by (simp add: runes.simps [of s])
  qed (simp add: runes.simps)
qed

end
