(* ===== verification/JSON_Render.thy ===== *)
theory JSON_Render
  imports JSON_Strings
begin

text \<open>
  What \<^verbatim>\<open>json.Marshal\<close> writes, \<^verbatim>\<open>json.Unmarshal\<close> reads back. A text renders a value when the parser,
  in any context, reads the text as that value; the relation is closed under literals, numbers,
  arrays and objects.
\<close>

section \<open>Reading from a state of the parser\<close>

definition parse_from :: "pstate \<Rightarrow> string \<Rightarrow> json option" where
  "parse_from ps s = (case lex LexStart [] s of None \<Rightarrow> None | Some ts \<Rightarrow> parse_tokens ts ps)"

definition read_token :: "token \<Rightarrow> pstate \<Rightarrow> string \<Rightarrow> json option" where
  "read_token t ps rest =
     (case parse_token ([], t) ps of None \<Rightarrow> None | Some ps' \<Rightarrow> parse_from ps' rest)"

definition delimited :: "string \<Rightarrow> bool" where
  "delimited rest \<longleftrightarrow> rest = [] \<or> json_punct (hd rest)"

lemma json_value_parse_from: "json_value s = parse_from (EValue, []) s"
  by (simp add: json_value_def parse_from_def)

lemma punct_not_space: "json_punct c \<Longrightarrow> \<not> json_space c"
  by (auto simp: json_punct_def json_space_def)

lemma parse_from_punct: "json_punct c \<Longrightarrow> parse_from ps (c # cs) = read_token (TPunct c) ps cs"
  by (auto simp: parse_from_def read_token_def punct_not_space split: option.splits)

text \<open>A string literal ends at the first quote that no backslash escapes.\<close>

fun scan_ok :: "string \<Rightarrow> bool" where
  "scan_ok [] = True"
| "scan_ok (c # cs) =
     (if c = CHR 0x5C then (case cs of [] \<Rightarrow> False | e # es \<Rightarrow> scan_ok es)
      else c \<noteq> CHR 0x22 \<and> scan_ok cs)"

lemma lex_literal:
  "scan_ok b \<Longrightarrow> lex (LexString acc False) ws (b @ CHR 0x22 # cs)
     = map_option ((#) (rev ws, TString (rev acc @ b))) (lex LexStart [] cs)"
proof (induction b arbitrary: acc rule: scan_ok.induct)
  case (2 c cs)
  then show ?case by (cases cs) (auto split: if_splits)
qed simp

lemma parse_from_literal:
  assumes "scan_ok b"
  shows "parse_from ps (CHR 0x22 # b @ CHR 0x22 # cs) = read_token (TString b) ps cs"
proof -
  have "\<not> json_space (CHR 0x22)" "\<not> json_punct (CHR 0x22)" by code_simp+
  then show ?thesis
    using lex_literal [OF assms, of "[]" "[]" cs]
    by (auto simp: parse_from_def read_token_def split: option.splits)
qed

definition word_chars :: "string \<Rightarrow> bool" where
  "word_chars w \<longleftrightarrow> w \<noteq> [] \<and> list_all (\<lambda>c. \<not> json_space c \<and> \<not> json_punct c \<and> c \<noteq> CHR 0x22) w"

lemma lex_word:
  "list_all (\<lambda>c. \<not> json_space c \<and> \<not> json_punct c \<and> c \<noteq> CHR 0x22) w \<Longrightarrow> delimited rest \<Longrightarrow>
     lex (LexWord acc) [] (w @ rest) = map_option ((#) ([], TWord (rev acc @ w))) (lex LexStart [] rest)"
proof (induction w arbitrary: acc)
  case Nil
  then show ?case
    by (cases rest) (auto simp: delimited_def punct_not_space option.map_comp comp_def)
qed auto

lemma parse_from_word:
  assumes "word_chars w" "delimited rest"
  shows "parse_from ps (w @ rest) = read_token (TWord w) ps rest"
proof -
  obtain c cs where w: "w = c # cs" using assms(1) by (cases w) (auto simp: word_chars_def)
  have "lex LexStart [] (w @ rest) = map_option ((#) ([], TWord w)) (lex LexStart [] rest)"
    using assms lex_word [of cs rest "[c]"] by (simp add: w word_chars_def)
  then show ?thesis by (auto simp: parse_from_def read_token_def split: option.splits)
qed

section \<open>Texts that render a value\<close>

definition renders :: "string \<Rightarrow> json \<Rightarrow> bool" where
  "renders s v \<longleftrightarrow>
     (\<forall>e st rest. e \<in> {EValue, EFirst} \<longrightarrow> delimited rest \<longrightarrow>
        parse_from (e, st) (s @ rest) = parse_from (deliver [] s v st) rest)"

lemma rendersD:
  "renders s v \<Longrightarrow> e = EValue \<or> e = EFirst \<Longrightarrow> delimited rest \<Longrightarrow>
     parse_from (e, st) (s @ rest) = parse_from (deliver [] s v st) rest"
  by (auto simp: renders_def)

lemma renders_value: "renders s v \<Longrightarrow> json_value s = Some v"
  using rendersD [of s v EValue "[]" "[]"]
  by (simp add: json_value_parse_from delimited_def parse_from_def)

lemma scan_ok_plain: "list_all (\<lambda>c. c \<noteq> CHR 0x5C \<and> c \<noteq> CHR 0x22) p \<Longrightarrow> scan_ok (p @ q) = scan_ok q"
  by (induction p) auto

lemma hex4_plain:
  assumes "hex4 s = Some r"
  shows "list_all (\<lambda>c. c \<noteq> CHR 0x5C \<and> c \<noteq> CHR 0x22) s" "length s = 4"
proof -
  have "list_all hex_digit s" "length s = 4" using assms by (auto simp: hex4_def split: if_splits)
  moreover have "\<not> hex_digit (CHR 0x5C)" "\<not> hex_digit (CHR 0x22)" by code_simp+
  ultimately show "list_all (\<lambda>c. c \<noteq> CHR 0x5C \<and> c \<noteq> CHR 0x22) s" "length s = 4"
    by (auto simp: list_all_iff)
qed

lemma scan_ok_hex: "hex4 (take 4 es) = Some r \<Longrightarrow> scan_ok (drop 4 es) \<Longrightarrow> scan_ok es"
  using scan_ok_plain [of "take 4 es" "drop 4 es"] hex4_plain(1) by auto

lemma rune_bytes_plain:
  assumes "decode_rune (c # cs) = (r, w)" "c \<noteq> CHR 0x5C" "c \<noteq> CHR 0x22"
  shows "list_all (\<lambda>c. c \<noteq> CHR 0x5C \<and> c \<noteq> CHR 0x22) (take w (c # cs))"
  using assms by (auto simp: decode_rune.simps(2) Let_def byte_def split: list.splits if_splits)

text \<open>A literal that can be unquoted is scanned to its end.\<close>

lemma unquote_scan: "unquote b = Some x \<Longrightarrow> scan_ok b"
proof (induction b arbitrary: x rule: length_induct)
  case (1 b)
  have IH: "scan_ok b'" if "unquote b' = Some y" "length b' < length b" for b' y
    using 1 that by blast
  show ?case
  proof (cases b)
    case (Cons c cs)
    note un = 1(2) [unfolded Cons unquote.simps(2)]
    show ?thesis
    proof (cases "c = CHR 0x5C")
      case True
      then obtain e es where es: "cs = e # es" using un by (cases cs) auto
      consider r r2 y where "e = CHR ''u''" "hex4 (take 4 es) = Some r" "surrogate_pair r (drop 4 es) = Some r2"
          "unquote (drop 10 es) = Some y"
        | r y where "e = CHR ''u''" "hex4 (take 4 es) = Some r" "unquote (drop 4 es) = Some y"
        | y where "unquote es = Some y"
        using un True es by (auto split: if_splits option.splits)
      then have "scan_ok es"
      proof cases
        case 1
        then have p: "take 2 (drop 4 es) = [CHR 0x5C, CHR ''u'']" and r2: "hex4 (take 4 (drop 6 es)) \<noteq> None"
          by (auto simp: surrogate_pair_def add.commute split: if_splits option.splits)
        have "scan_ok (drop 10 es)" using IH [OF 1(4)] Cons es by simp
        then have "scan_ok (drop 6 es)" using r2 scan_ok_hex [of "drop 6 es"] by auto
        moreover have "drop 4 es = CHR 0x5C # CHR ''u'' # drop 6 es"
          using p append_take_drop_id [of 2 "drop 4 es"] by simp
        ultimately have "scan_ok (drop 4 es)" by simp
        then show ?thesis using scan_ok_hex [OF 1(2)] by simp
      next
        case 2
        then show ?thesis using IH [OF 2(3)] scan_ok_hex [OF 2(2)] Cons es by simp
      next
        case 3
        then show ?thesis using IH [OF 3] Cons es by simp
      qed
      then show ?thesis using True es Cons by simp
    next
      case False
      then have c: "c \<noteq> CHR 0x22" using un by (auto split: if_splits)
      obtain r w where rw: "decode_rune (c # cs) = (r, w)" by fastforce
      then obtain y where y: "unquote (drop w (c # cs)) = Some y"
        using un False by (auto split: if_splits)
      have "0 < w" using rw decode_rune_width by (metis snd_conv)
      then have "scan_ok (drop w (c # cs))" using IH [OF y] Cons by simp
      then show ?thesis
        using scan_ok_plain [OF rune_bytes_plain [OF rw False c], of "drop w (c # cs)"] Cons
        by (simp del: scan_ok.simps)
    qed
  qed simp
qed

lemma renders_literal: "unquote b = Some x \<Longrightarrow> renders (CHR 0x22 # b @ [CHR 0x22]) (JString x)"
  using parse_from_literal [OF unquote_scan]
  by (auto simp: renders_def read_token_def parse_token_def open_value_def)

lemma renders_string: "valid_utf8 s \<Longrightarrow> renders (enc_string s) (JString s)"
  unfolding enc_string_def by (rule renders_literal) (rule unquote_enc_string)

lemma renders_word: "word_chars w \<Longrightarrow> word_value w = Some v \<Longrightarrow> renders w v"
  using parse_from_word by (auto simp: renders_def read_token_def parse_token_def open_value_def)

section \<open>Arrays and objects\<close>

lemma join_commas: "join_with '','' (t # ts) = t @ concat (map (\<lambda>t. CHR '','' # t) ts)"
  by (induction ts arbitrary: t) auto

lemma puncts [simp]:
  "json_punct (CHR '','')" "json_punct (CHR '':'')" "json_punct (CHR ''['')" "json_punct (CHR '']'')"
  "json_punct (CHR ''{'')" "json_punct (CHR ''}'')"
  by code_simp+

lemma delimited_Cons [simp]: "delimited (c # cs) = json_punct c"
  by (simp add: delimited_def)

lemma delimited_commas: "delimited (concat (map (\<lambda>t. CHR '','' # f t) ts) @ CHR '']'' # rest)"
    "delimited (concat (map (\<lambda>t. CHR '','' # f t) ts) @ CHR ''}'' # rest)"
  by (cases ts; simp)+

lemma array_rest:
  assumes "list_all2 renders ts vs"
  shows "parse_from (ENext, FArray lead raw acc # st)
           (concat (map (\<lambda>t. CHR '','' # t) ts) @ CHR '']'' # rest)
       = parse_from (deliver lead (concat (rev raw) @ concat (map (\<lambda>t. CHR '','' # t) ts) @ '']'')
           (JArray (rev acc @ vs)) st) rest"
  using assms
proof (induction ts vs arbitrary: raw acc rule: list_all2_induct)
  case Nil
  then show ?case by (simp add: parse_from_punct read_token_def parse_token_def)
next
  case (Cons t ts v vs)
  have "parse_from (ENext, FArray lead raw acc # st)
      (CHR '','' # t @ concat (map (\<lambda>t. CHR '','' # t) ts) @ CHR '']'' # rest)
    = parse_from (EValue, FArray lead ('','' # [] # raw) acc # st)
        (t @ concat (map (\<lambda>t. CHR '','' # t) ts) @ CHR '']'' # rest)"
    by (simp add: parse_from_punct read_token_def parse_token_def)
  also have "\<dots> = parse_from (ENext, FArray lead (t # [] # '','' # [] # raw) (v # acc) # st)
      (concat (map (\<lambda>t. CHR '','' # t) ts) @ CHR '']'' # rest)"
    using rendersD [OF Cons(1)] delimited_commas [of "\<lambda>t. t"] by simp
  finally show ?case using Cons.IH by simp
qed

lemma renders_array:
  assumes "list_all2 renders ts vs"
  shows "renders (''['' @ join_with '','' ts @ '']'') (JArray vs)"
  unfolding renders_def
proof (intro allI impI)
  fix e st rest
  assume e: "e \<in> {EValue, EFirst}" and "delimited rest"
  have open_it: "parse_from (e, st) (CHR ''['' # x) = parse_from (EFirst, FArray [] [''[''] [] # st) x" for x
    using e by (auto simp: parse_from_punct read_token_def parse_token_def open_value_def)
  show "parse_from (e, st) ((''['' @ join_with '','' ts @ '']'') @ rest)
      = parse_from (deliver [] (''['' @ join_with '','' ts @ '']'') (JArray vs) st) rest"
  proof (cases ts)
    case Nil
    then show ?thesis using assms open_it by (simp add: parse_from_punct read_token_def parse_token_def)
  next
    case (Cons t ts')
    then obtain v vs' where vs: "vs = v # vs'" "renders t v" "list_all2 renders ts' vs'"
      using assms by (auto simp: list_all2_Cons1)
    show ?thesis
      using open_it rendersD [OF vs(2), of EFirst] delimited_commas [of "\<lambda>t. t"] array_rest [OF vs(3)]
      by (simp add: Cons vs(1) join_commas)
  qed
qed

text \<open>A member of an object is its key, the text of its value and the value.\<close>

definition member_text :: "string \<times> string \<times> json \<Rightarrow> string" where
  "member_text m = enc_string (fst m) @ '':'' @ fst (snd m)"

definition member_ok :: "string \<times> string \<times> json \<Rightarrow> bool" where
  "member_ok m \<longleftrightarrow> valid_utf8 (fst m) \<and> renders (fst (snd m)) (snd (snd m))"

lemma object_member:
  assumes "member_ok m" "delimited rest" "e = EFirstKey \<or> e = EKey"
  shows "parse_from (e, FObject lead raw ms k # st) (member_text m @ rest)
    = parse_from (ENext, FObject lead (fst (snd m) # [] # '':'' # [] # enc_string (fst m) # [] # raw)
        (m # ms) (fst m) # st) rest"
proof -
  obtain k' x v where m: "m = (k', x, v)" by (cases m)
  define b where "b = concat (map enc_rune (runes k'))"
  have k': "enc_string k' = CHR 0x22 # b @ [CHR 0x22]" and b: "unquote b = Some k'"
    using assms(1) unquote_enc_string by (auto simp: m member_ok_def enc_string_def b_def)
  have "parse_from (e, FObject lead raw ms k # st) (CHR 0x22 # b @ CHR 0x22 # CHR '':'' # x @ rest)
      = parse_from (EColon, FObject lead (enc_string k' # [] # raw) ms k' # st) (CHR '':'' # x @ rest)"
    using assms(3) b by (auto simp: parse_from_literal [OF unquote_scan [OF b]] read_token_def parse_token_def k')
  also have "\<dots> = parse_from (EValue, FObject lead ('':'' # [] # enc_string k' # [] # raw) ms k' # st) (x @ rest)"
    by (simp add: parse_from_punct read_token_def parse_token_def)
  finally show ?thesis
    using rendersD [of x v EValue rest] assms(1,2) by (simp add: m member_text_def member_ok_def k')
qed

lemma object_rest:
  assumes "list_all member_ok ns"
  shows "parse_from (ENext, FObject lead raw ms k # st)
           (concat (map (\<lambda>t. CHR '','' # member_text t) ns) @ CHR ''}'' # rest)
       = parse_from (deliver lead (concat (rev raw) @ concat (map (\<lambda>t. CHR '','' # member_text t) ns) @ ''}'')
           (JObject (rev ms @ ns)) st) rest"
  using assms
proof (induction ns arbitrary: raw ms k)
  case Nil
  then show ?case by (simp add: parse_from_punct read_token_def parse_token_def)
next
  case (Cons n ns)
  have "parse_from (ENext, FObject lead raw ms k # st)
      (CHR '','' # member_text n @ concat (map (\<lambda>t. CHR '','' # member_text t) ns) @ CHR ''}'' # rest)
    = parse_from (EKey, FObject lead ('','' # [] # raw) ms k # st)
        (member_text n @ concat (map (\<lambda>t. CHR '','' # member_text t) ns) @ CHR ''}'' # rest)"
    by (simp add: parse_from_punct read_token_def parse_token_def)
  also have "\<dots> = parse_from (ENext, FObject lead (fst (snd n) # [] # '':'' # [] # enc_string (fst n) # [] #
      '','' # [] # raw) (n # ms) (fst n) # st) (concat (map (\<lambda>t. CHR '','' # member_text t) ns) @ CHR ''}'' # rest)"
    by (rule object_member) (use Cons.prems delimited_commas(2) in simp_all)
  finally show ?case using Cons by (simp add: member_text_def)
qed

lemma renders_object:
  assumes "list_all member_ok ms"
  shows "renders (''{'' @ join_with '','' (map member_text ms) @ ''}'') (JObject ms)"
  unfolding renders_def
proof (intro allI impI)
  fix e st rest
  assume e: "e \<in> {EValue, EFirst}" and "delimited rest"
  have open_it: "parse_from (e, st) (CHR ''{'' # x) = parse_from (EFirstKey, FObject [] [''{''] [] [] # st) x" for x
    using e by (auto simp: parse_from_punct read_token_def parse_token_def open_value_def)
  show "parse_from (e, st) ((''{'' @ join_with '','' (map member_text ms) @ ''}'') @ rest)
      = parse_from (deliver [] (''{'' @ join_with '','' (map member_text ms) @ ''}'') (JObject ms) st) rest"
  proof (cases ms)
    case Nil
    then show ?thesis using open_it by (simp add: parse_from_punct read_token_def parse_token_def)
  next
    case (Cons m ms')
    then have "member_ok m" "list_all member_ok ms'" using assms by auto
    note ok = this
    let ?more = "concat (map (\<lambda>t. CHR '','' # member_text t) ms') @ CHR ''}'' # rest"
    have "parse_from (EFirstKey, FObject [] [''{''] [] [] # st) (member_text m @ ?more)
        = parse_from (ENext, FObject [] (fst (snd m) # [] # '':'' # [] # enc_string (fst m) # [] # [''{''])
            [m] (fst m) # st) ?more"
      by (rule object_member) (use ok delimited_commas(2) in simp_all)
    then show ?thesis
      using open_it object_rest [OF ok(2)]
      by (simp add: Cons join_commas comp_def member_text_def)
  qed
qed

section \<open>Numbers\<close>

lemma digit_char: "0 \<le> v \<Longrightarrow> v < 10 \<Longrightarrow> byte (char_of (48 + v)) = 48 + v" for v :: int
  by (simp add: byte_def of_char_of)

lemma digits_val_snoc: "digits_val (ds @ [c]) = digits_val ds * 10 + (byte c - 48)"
  by (simp add: digits_val_def)

text \<open>The digits of a number: no leading zero, and they read back as the number.\<close>

lemma dec_digits_ok:
  assumes "0 \<le> i" "i < 10 ^ Suc n"
  shows "\<exists>ds. dec_digits (Suc n) i acc = ds @ acc \<and> ds \<noteq> [] \<and> list_all digit ds \<and> digits_val ds = i
    \<and> (ds = ''0'' \<or> hd ds \<noteq> CHR ''0'')"
  using assms
proof (induction n arbitrary: i acc)
  case 0
  then have "digit (char_of (48 + i))" "digits_val [char_of (48 + i)] = i"
    using digit_char [of i] by (simp_all add: digit_def digits_val_def)
  moreover have "char_of (48 + i) = CHR ''0'' \<longleftrightarrow> i = 0"
    using 0 digit_char [of i] byte_inject [of "char_of (48 + i)" "CHR ''0''"] by (simp add: byte_def)
  ultimately show ?case using 0 by (intro exI [of _ "[char_of (48 + i)]"]) auto
next
  case (Suc n)
  show ?case
  proof (cases "i < 10")
    case True
    then have "digit (char_of (48 + i))" "digits_val [char_of (48 + i)] = i"
      using digit_char [of i] Suc.prems by (simp_all add: digit_def digits_val_def)
    moreover have "char_of (48 + i) = CHR ''0'' \<longleftrightarrow> i = 0"
      using True Suc.prems digit_char [of i] byte_inject [of "char_of (48 + i)" "CHR ''0''"] by (simp add: byte_def)
    ultimately show ?thesis using True by (intro exI [of _ "[char_of (48 + i)]"]) auto
  next
    case False
    have "0 \<le> i div 10" "i div 10 < 10 ^ Suc n" using Suc.prems by simp_all
    from Suc.IH [OF this, of "char_of (48 + i mod 10) # acc"] obtain ds where ds:
      "dec_digits (Suc n) (i div 10) (char_of (48 + i mod 10) # acc) = ds @ char_of (48 + i mod 10) # acc"
      "ds \<noteq> []" "list_all digit ds" "digits_val ds = i div 10" "ds = ''0'' \<or> hd ds \<noteq> CHR ''0''" by blast
    have c: "byte (char_of (48 + i mod 10)) = 48 + i mod 10" by (rule digit_char) simp_all
    have "ds \<noteq> ''0''" using ds(4) False Suc.prems by (auto simp: digits_val_def byte_def)
    moreover have "digits_val (ds @ [char_of (48 + i mod 10)]) = i"
      using ds(4) c by (simp add: digits_val_snoc)
    moreover have "digit (char_of (48 + i mod 10))" using c by (simp add: digit_def)
    ultimately show ?thesis
      using ds False by (intro exI [of _ "ds @ [char_of (48 + i mod 10)]"]) auto
  qed
qed

lemma lang_lit: "lang (RLit w) u \<longleftrightarrow> u = w"
  by (induction w arbitrary: u) (auto simp: RLit_def lang_seq_iff)

lemma digits_number:
  assumes "ds \<noteq> []" "list_all digit ds" "ds = ''0'' \<or> hd ds \<noteq> CHR ''0''" "sign = [] \<or> sign = ''-''"
  shows "matches number_rexp (sign @ ds)"
proof -
  define int_part where "int_part = RAlt (RLit ''0'') (RSeq (RClass (\<lambda>c. digit c \<and> c \<noteq> CHR ''0'')) (RStar (RClass digit)))"
  have "lang int_part ds"
  proof (cases "ds = ''0''")
    case False
    with assms obtain c cs where "ds = c # cs" "digit c" "c \<noteq> CHR ''0''" "list_all digit cs" by (cases ds) auto
    then show ?thesis
      using lang_seq [of "RClass (\<lambda>c. digit c \<and> c \<noteq> CHR ''0'')" "[c]" "RStar (RClass digit)" cs]
      by (auto simp: int_part_def lang_star_class)
  qed (simp add: int_part_def lang_lit)
  moreover have "lang (ROpt (RLit ''-'')) sign" using assms(4) by (auto simp: ROpt_def lang_lit)
  ultimately have "lang number_rexp (sign @ ds @ [] @ [])"
    unfolding number_rexp_def Let_def int_part_def by (intro lang_seq) (auto simp: ROpt_def)
  then show ?thesis by (simp add: matches_lang)
qed

lemma digit_word_char: "digit c \<Longrightarrow> \<not> json_space c \<and> \<not> json_punct c \<and> c \<noteq> CHR 0x22"
  by (auto simp: digit_def json_space_def json_punct_def byte_def)

lemma enc_int_ok:
  assumes "- (2 ^ 63) \<le> i" "i < 2 ^ 63"
  shows "renders (enc_int i) (JNumber (enc_int i))" "atoi (enc_int i) = Some i"
proof -
  define sign where "sign = (if i < 0 then ''-'' else '''')"
  have "\<bar>i\<bar> < 10 ^ Suc 19" using assms by simp
  then obtain ds where ds: "dec_digits 20 \<bar>i\<bar> [] = ds" "ds \<noteq> []" "list_all digit ds" "digits_val ds = \<bar>i\<bar>"
    "ds = ''0'' \<or> hd ds \<noteq> CHR ''0''" using dec_digits_ok [of "\<bar>i\<bar>" 19 "[]"] by auto
  then have e: "enc_int i = sign @ ds" by (auto simp: enc_int_def sign_def)
  have sign: "sign = [] \<or> sign = ''-''" by (simp add: sign_def)
  have "\<not> json_space (CHR ''-'')" "\<not> json_punct (CHR ''-'')" by code_simp+
  moreover have "list_all (\<lambda>c. \<not> json_space c \<and> \<not> json_punct c \<and> c \<noteq> CHR 0x22) ds"
    by (rule list.pred_mono_strong [OF ds(3)]) (rule digit_word_char)
  ultimately have wc: "word_chars (sign @ ds)"
    using sign ds(2) by (simp add: word_chars_def sign_def)
  have m: "matches number_rexp (sign @ ds)" by (rule digits_number [OF ds(2,3,5) sign])
  have "sign @ ds \<noteq> w" if "w \<in> {''null'', ''true'', ''false''}" for w
    using sign ds(2,3) that by (cases ds) (auto simp: digit_def byte_def)
  with m have "word_value (sign @ ds) = Some (JNumber (sign @ ds))" by (simp add: word_value_def)
  with wc show "renders (enc_int i) (JNumber (enc_int i))" unfolding e by (rule renders_word)
  have "hd ds \<noteq> CHR ''-''" "hd ds \<noteq> CHR ''+''" using ds(2,3) by (cases ds; auto simp: digit_def byte_def)+
  then show "atoi (enc_int i) = Some i"
    unfolding e using ds assms by (auto simp: atoi_def sign_def Let_def)
qed

lemma renders_bool: "renders (enc_bool b) (JBool b)"
proof -
  have "word_chars ''true''" "word_chars ''false''" by code_simp+
  then show ?thesis by (cases b) (auto simp: enc_bool_def word_value_def intro: renders_word)
qed

end
