(* ===== verification/JSON_Compact.thy ===== *)
theory JSON_Compact
  imports JSON_Render
begin

text \<open>
  What the compaction of a raw message keeps. The compact text parses to the same value, up to the
  raw texts the parser records, and compacting it again changes nothing. Every string the parser
  returns is valid UTF-8.
\<close>

section \<open>Strings of a document are valid UTF-8\<close>

lemma byte_char_of: "0 \<le> v \<Longrightarrow> v < 256 \<Longrightarrow> byte (char_of v) = v" for v :: int
  by (simp add: byte_def of_char_of)

lemma div_range: "a \<le> r \<Longrightarrow> r \<le> b \<Longrightarrow> 0 < n \<Longrightarrow> a div n \<le> r div n \<and> r div n \<le> b div n" for r a b n :: int
  by (simp add: zdiv_mono1)

lemma encode2:
  fixes r :: int
  assumes "128 \<le> r" "r < 2048"
  shows "\<exists>r'. decode_rune ([char_of (192 + r div 64), char_of (128 + r mod 64)] @ t) = (r', 2)"
proof -
  define a b where "a = r div 64" and "b = r mod 64"
  have m: "2 \<le> a" "a \<le> 31" "0 \<le> b" "b < 64"
    using div_range [of 128 r 2047 64] assms by (auto simp: a_def b_def)
  then have "byte (char_of (192 + a)) = 192 + a" "byte (char_of (128 + b)) = 128 + b"
    by (auto intro!: byte_char_of)
  then show ?thesis using m by (auto simp: decode_rune.simps(2) Let_def simp flip: a_def b_def)
qed

lemma encode3:
  fixes r :: int
  assumes "2048 \<le> r" "r < 65536" "r < 55296 \<or> 57343 < r"
  shows "\<exists>r'. decode_rune ([char_of (224 + r div 4096), char_of (128 + r div 64 mod 64), char_of (128 + r mod 64)] @ t) = (r', 3)"
proof -
  define a b c where "a = r div 4096" and "b = r div 64 mod 64" and "c = r mod 64"
  have a: "0 \<le> a" "a \<le> 15" using div_range [of 2048 r 65535 4096] assms by (auto simp: a_def)
  have m: "0 \<le> b" "b < 64" "0 \<le> c" "c < 64" by (simp_all add: b_def c_def)
  have q: "r div 64 = a * 64 + b"
    using zdiv_zmult2_eq [of 64 r 64] by (simp add: a_def b_def)
  have lo: "32 \<le> b" if "a = 0" using q that div_range [of 2048 r 65535 64] assms by auto
  have hi: "b \<le> 31" if "a = 13"
  proof (rule ccontr)
    assume "\<not> b \<le> 31"
    then have "864 \<le> r div 64" "r div 64 \<le> 895" using q that m by auto
    then have "55296 \<le> r" "r \<le> 57343"
      using div_mult_mod_eq [of r 64] m(3,4) unfolding c_def by linarith+
    with assms(3) show False by simp
  qed
  have "byte (char_of (224 + a)) = 224 + a" "byte (char_of (128 + b)) = 128 + b" "byte (char_of (128 + c)) = 128 + c"
    using a m by (auto intro!: byte_char_of)
  then show ?thesis using a m lo hi
    by (auto simp: decode_rune.simps(2) Let_def simp flip: a_def b_def c_def)
qed

lemma encode4:
  fixes r :: int
  assumes "65536 \<le> r" "r \<le> 1114111"
  shows "\<exists>r'. decode_rune ([char_of (240 + r div 262144), char_of (128 + r div 4096 mod 64),
     char_of (128 + r div 64 mod 64), char_of (128 + r mod 64)] @ t) = (r', 4)"
proof -
  define a b c d where "a = r div 262144" and "b = r div 4096 mod 64" and "c = r div 64 mod 64" and "d = r mod 64"
  have a: "0 \<le> a" "a \<le> 4" using div_range [of 65536 r 1114111 262144] assms by (auto simp: a_def)
  have m: "0 \<le> b" "b < 64" "0 \<le> c" "c < 64" "0 \<le> d" "d < 64" by (simp_all add: b_def c_def d_def)
  have q: "r div 4096 = a * 64 + b"
    using zdiv_zmult2_eq [of 64 r 4096] by (simp add: a_def b_def)
  have lo: "16 \<le> b" if "a = 0" using q that div_range [of 65536 r 1114111 4096] assms by auto
  have hi: "b \<le> 15" if "a = 4" using q that div_range [of 65536 r 1114111 4096] assms by auto
  have "byte (char_of (240 + a)) = 240 + a" "byte (char_of (128 + b)) = 128 + b" "byte (char_of (128 + c)) = 128 + c"
     "byte (char_of (128 + d)) = 128 + d"
    using a m by (auto intro!: byte_char_of)
  then show ?thesis using a m lo hi
    by (auto simp: decode_rune.simps(2) Let_def simp flip: a_def b_def c_def d_def)
qed

lemma valid_encode_rune: "valid_utf8 (encode_rune r @ t) = valid_utf8 t"
proof -
  define r' where "r' = (if r < 0 \<or> 1114111 < r \<or> 55296 \<le> r \<and> r \<le> 57343 then RuneError else r)"
  have r': "0 \<le> r'" "r' \<le> 1114111" "r' < 55296 \<or> 57343 < r'" by (auto simp: r'_def RuneError_def)
  have "encode_rune r = encode_rune r'" by (auto simp: encode_rune_def r'_def RuneError_def Let_def)
  moreover have "\<exists>q. decode_rune (encode_rune r' @ t) = (q, length (encode_rune r')) \<and> \<not> (q = RuneError \<and> length (encode_rune r') = 1)"
  proof -
    consider "r' < 128" | "128 \<le> r'" "r' < 2048" | "2048 \<le> r'" "r' < 65536" | "65536 \<le> r'" by linarith
    then show ?thesis
    proof cases
      case 1
      then show ?thesis using r' byte_char_of [of r'] by (simp add: encode_rune_def decode_rune_ascii RuneError_def)
    next
      case 2
      then show ?thesis using encode2 [of r' t] r' by (auto simp: encode_rune_def)
    next
      case 3
      then show ?thesis using encode3 [of r' t] r' by (auto simp: encode_rune_def)
    next
      case 4
      then show ?thesis using encode4 [of r' t] r' by (auto simp: encode_rune_def)
    qed
  qed
  moreover have "encode_rune r' \<noteq> []" by (simp add: encode_rune_def Let_def)
  ultimately show ?thesis using valid_utf8_step [of "encode_rune r' @ t"] by auto
qed

lemma valid_ascii_Cons: "byte c < 128 \<Longrightarrow> valid_utf8 (c # s) = valid_utf8 s"
  using valid_utf8_step [of "c # s" "byte c" 1] by (simp add: decode_rune_ascii RuneError_def)

lemma simple_escape_ascii: "simple_escape e = Some d \<Longrightarrow> byte d < 128"
  by (auto simp: simple_escape_def byte_def split: if_splits)

lemma unquote_valid: "unquote b = Some x \<Longrightarrow> valid_utf8 x"
proof (induction b arbitrary: x rule: unquote.induct)
  case 1
  then show ?case by (simp add: valid_utf8_def)
next
  case (2 c cs)
  show ?case
    using 2(5) 2(1-4)
    by (auto simp: unquote.simps(2) [of c cs] valid_encode_rune valid_ascii_Cons simple_escape_ascii
        split: if_splits list.splits option.splits prod.splits)
qed

section \<open>Compaction of a string literal\<close>

definition cont_byte :: "char \<Rightarrow> bool" where
  "cont_byte c \<longleftrightarrow> 128 \<le> byte c \<and> byte c \<le> 191"

definition stops :: "string \<Rightarrow> bool" where
  "stops rest \<longleftrightarrow> rest = [] \<or> \<not> cont_byte (hd rest)"

definition kept_byte :: "char \<Rightarrow> bool" where
  "kept_byte c \<longleftrightarrow> c \<notin> {CHR ''<'', CHR ''>'', CHR ''&'', CHR 0xE2}"

lemma compact_kept: "kept_byte c \<Longrightarrow> compact_bytes (c # cs) = c # compact_bytes cs"
  by (auto simp: kept_byte_def split: list.splits)

lemma stops_compact: "stops rest \<Longrightarrow> stops (compact_bytes rest)"
  by (cases rest) (auto simp: stops_def u_escape_def cont_byte_def byte_def split: list.splits)

declare compact_bytes.simps(2) [simp del]

lemma compact_kept_append: "list_all kept_byte p \<Longrightarrow> compact_bytes (p @ q) = p @ compact_bytes q"
  by (induction p) (simp_all add: compact_kept)

lemma cont_kept: "cont_byte c \<Longrightarrow> kept_byte c"
  by (auto simp: cont_byte_def kept_byte_def byte_def)

lemma decode_rest1: "stops rest \<Longrightarrow> decode_rune (c # rest) = decode_rune [c]"
  by (cases rest) (auto simp: decode_rune.simps(2) Let_def stops_def cont_byte_def)

lemma decode_rest2: "stops rest \<Longrightarrow> decode_rune (c # k # rest) = decode_rune [c, k]"
  by (cases rest) (simp_all add: decode_rune.simps(2) Let_def stops_def cont_byte_def)

lemma decode_rest3: "stops rest \<Longrightarrow> decode_rune (c # k # l # rest) = decode_rune [c, k, l]"
  by (cases rest) (simp_all add: decode_rune.simps(2) Let_def stops_def cont_byte_def)

lemma decode_rest4: "NO_MATCH [] rest \<Longrightarrow> decode_rune (c # k # l # m # rest) = decode_rune [c, k, l, m]"
  by (simp add: decode_rune.simps(2) Let_def)

lemma decode_stops:
  assumes "stops rest"
  shows "decode_rune (c # ks @ rest) = decode_rune (c # ks)"
proof -
  consider "ks = []" | k where "ks = [k]" | k l where "ks = [k, l]" | k l m ms where "ks = k # l # m # ms"
    by (cases ks; cases "tl ks"; cases "tl (tl ks)") auto
  then show ?thesis
    using assms by cases (auto simp: decode_rest1 decode_rest2 decode_rest3 decode_rest4)
qed

lemma decode_width_conts: "stops rest \<Longrightarrow> snd (decode_rune (c # ks @ rest)) \<le> Suc (length ks)"
  using decode_width_le [of "c # ks"] by (cases "decode_rune (c # ks)") (simp add: decode_stops)

lemma cont_split:
  obtains ks rest where "cs = ks @ rest" "list_all cont_byte ks" "stops rest"
proof
  show "cs = takeWhile cont_byte cs @ dropWhile cont_byte cs" by simp
  show "list_all cont_byte (takeWhile cont_byte cs)" by (auto simp: list_all_iff dest: set_takeWhileD)
  show "stops (dropWhile cont_byte cs)" by (metis hd_dropWhile stops_def)
qed

text \<open>A code point that compaction does not touch is read from the compact text as well.\<close>

lemma decode_compact:
  assumes "decode_rune (c # cs) = (r, w)" "compact_bytes (c # cs) = c # compact_bytes cs"
  shows "decode_rune (c # compact_bytes cs) = (r, w)"
    "drop w (c # compact_bytes cs) = compact_bytes (drop w (c # cs))"
proof -
  obtain ks rest where cs: "cs = ks @ rest" and ks: "list_all cont_byte ks" and rest: "stops rest"
    by (rule cont_split)
  have kept: "list_all kept_byte ks" using ks by (rule list.pred_mono_strong) (rule cont_kept)
  then have comp: "compact_bytes cs = ks @ compact_bytes rest" by (simp add: cs compact_kept_append)
  show "decode_rune (c # compact_bytes cs) = (r, w)"
    using assms(1) rest stops_compact [OF rest] unfolding comp unfolding cs by (simp add: decode_stops)
  have "0 < w" "w \<le> Suc (length ks)"
    using assms(1) decode_width_conts [OF rest, of c ks] decode_rune_width [of c cs] by (auto simp: cs)
  then obtain n where w: "w = Suc n" "n \<le> length ks" by (cases w) auto
  have "list_all kept_byte (drop n ks)" using kept by (auto simp: list_all_iff dest: in_set_dropD)
  then show "drop w (c # compact_bytes cs) = compact_bytes (drop w (c # cs))"
    using w comp by (simp add: cs compact_kept_append)
qed

lemma hex_kept: "hex_digit c \<Longrightarrow> kept_byte c"
  by (auto simp: hex_digit_def kept_byte_def digit_def byte_def)

lemma hex4_kept: "hex4 s = Some r \<Longrightarrow> list_all kept_byte s"
  by (auto simp: hex4_def list_all_iff hex_kept split: if_splits)

lemma escape_kept: "kept_byte (CHR 0x5C)" "kept_byte (CHR ''u'')" "simple_escape e \<noteq> None \<Longrightarrow> kept_byte e"
  by (auto simp: kept_byte_def simple_escape_def split: if_splits)

lemma hex4_compact:
  assumes "hex4 (take 4 es) = Some r"
  shows "compact_bytes es = take 4 es @ compact_bytes (drop 4 es)" "take 4 (compact_bytes es) = take 4 es"
    "drop 4 (compact_bytes es) = compact_bytes (drop 4 es)"
proof -
  show eq: "compact_bytes es = take 4 es @ compact_bytes (drop 4 es)"
    using compact_kept_append [OF hex4_kept [OF assms], of "drop 4 es"] by simp
  have "length (take 4 es) = 4" by (rule hex4_plain(2) [OF assms])
  then show "take 4 (compact_bytes es) = take 4 es" "drop 4 (compact_bytes es) = compact_bytes (drop 4 es)"
    unfolding eq by simp_all
qed

lemma compact_cases:
  obtains (html) "c \<in> {CHR ''<'', CHR ''>'', CHR ''&''}" "compact_bytes (c # cs) = u_escape (byte c) @ compact_bytes cs"
  | (line) e es where "c = CHR 0xE2" "cs = CHR 0x80 # e # es" "e = CHR 0xA8 \<or> e = CHR 0xA9"
      "compact_bytes (c # cs) = u_escape (if e = CHR 0xA8 then 8232 else 8233) @ compact_bytes es"
  | (kept) "compact_bytes (c # cs) = c # compact_bytes cs" "c \<notin> {CHR ''<'', CHR ''>'', CHR ''&''}"
proof (cases "c \<in> {CHR ''<'', CHR ''>'', CHR ''&''}")
  case True
  show thesis by (rule html) (use True in \<open>auto simp: compact_bytes.simps(2)\<close>)
next
  case html: False
  show thesis
  proof (cases "\<exists>e es. c = CHR 0xE2 \<and> cs = CHR 0x80 # e # es \<and> (e = CHR 0xA8 \<or> e = CHR 0xA9)")
    case True
    then obtain e es where e: "c = CHR 0xE2" "cs = CHR 0x80 # e # es" "e = CHR 0xA8 \<or> e = CHR 0xA9" by blast
    show thesis by (rule line [OF e]) (use e in \<open>simp add: compact_bytes.simps(2) [of "CHR 0xE2"]\<close>)
  next
    case False
    show thesis
      by (rule kept) (use html False in \<open>auto simp: compact_bytes.simps(2) [of c] split: list.splits\<close>)
  qed
qed

text \<open>Compaction does not make or unmake the second half of a surrogate pair.\<close>

lemma surrogate_escape: "0 \<le> r \<Longrightarrow> r < 56320 \<Longrightarrow> surrogate_pair r1 (u_escape r @ t) = None"
  using hex4_u_escape [of r t] by (simp add: surrogate_pair_def)

lemma surrogate_compact:
  assumes "unquote rest = Some y"
  shows "surrogate_pair r (compact_bytes rest) = surrogate_pair r rest"
proof (cases rest)
  case (Cons c cs)
  show ?thesis
  proof (cases c cs rule: compact_cases)
    case html
    then have "surrogate_pair r (c # cs) = None" by (auto simp: surrogate_pair_def)
    then show ?thesis using html surrogate_escape [of "byte c" r] by (auto simp: Cons byte_def)
  next
    case (line e es)
    then have "surrogate_pair r (c # cs) = None" by (auto simp: surrogate_pair_def)
    then show ?thesis using line(3) surrogate_escape by (auto simp: Cons line(4))
  next
    case kept
    show ?thesis
    proof (cases "c = CHR 0x5C")
      case True
      then obtain e es where cs: "cs = e # es" using assms by (cases cs) (auto simp: Cons unquote.simps(2))
      then have "kept_byte e" using assms True escape_kept(2,3)
        by (auto simp: Cons unquote.simps(2) split: if_splits option.splits)
      then have comp: "compact_bytes rest = CHR 0x5C # e # compact_bytes es"
        using kept True by (simp add: Cons cs compact_kept)
      show ?thesis
      proof (cases "e = CHR ''u''")
        case True
        then obtain q where q: "hex4 (take 4 es) = Some q"
          using assms \<open>c = CHR 0x5C\<close> by (auto simp: Cons cs unquote.simps(2) split: option.splits)
        then show ?thesis unfolding comp using hex4_compact(2) [OF q]
          by (simp add: surrogate_pair_def Cons cs \<open>c = CHR 0x5C\<close> True)
      qed (use comp in \<open>simp add: surrogate_pair_def Cons cs\<close>)
    qed (use kept in \<open>simp add: Cons surrogate_pair_def\<close>)
  qed
qed simp

lemma unquote_plain:
  "c \<noteq> CHR 0x5C \<Longrightarrow> \<not> byte c < 32 \<Longrightarrow> c \<noteq> CHR 0x22 \<Longrightarrow> decode_rune (c # cs) = (r, w) \<Longrightarrow>
     unquote (c # cs) = map_option ((@) (encode_rune r)) (unquote (drop w (c # cs)))"
  by (simp add: unquote.simps(2))

theorem unquote_compact: "unquote b = Some x \<Longrightarrow> unquote (compact_bytes b) = Some x"
proof (induction b arbitrary: x rule: length_induct)
  case (1 b)
  have IH: "unquote (compact_bytes b') = Some y" if "unquote b' = Some y" "length b' < length b" for b' y
    using 1 that by blast
  show ?case
  proof (cases b)
    case Nil
    then show ?thesis using 1(2) by simp
  next
    case (Cons c cs)
    show ?thesis
    proof (cases c cs rule: compact_cases)
      case html
      then have dec: "decode_rune (c # cs) = (byte c, 1)" by (auto simp: decode_rune_ascii byte_def)
      have "\<not> is_surrogate (byte c)" "0 \<le> byte c" "byte c < 65536" "\<not> byte c < 32" "c \<noteq> CHR 0x5C" "c \<noteq> CHR 0x22"
        using html(1) by (auto simp: is_surrogate_def byte_def)
      then show ?thesis
        using 1(2) IH unfolding Cons html(2) by (auto simp: unquote_u_escape unquote_plain [OF _ _ _ dec])
    next
      case (line e es)
      then have dec: "decode_rune (c # cs) = (if e = CHR 0xA8 then 8232 else 8233, 3)"
        by (auto simp: decode_rune.simps(2) byte_def)
      have "\<not> is_surrogate 8232" "\<not> is_surrogate 8233" by (simp_all add: is_surrogate_def)
      moreover have "drop 3 (c # cs) = es" "c \<noteq> CHR 0x5C" "\<not> byte c < 32" "c \<noteq> CHR 0x22"
        using line(1,2) by (auto simp: byte_def)
      then have "unquote b = map_option ((@) (encode_rune (if e = CHR 0xA8 then 8232 else 8233))) (unquote es)"
        unfolding Cons by (simp only: unquote_plain [OF _ _ _ dec] not_False_eq_True)
      ultimately show ?thesis
        using 1(2) IH [of es] line(2) unfolding Cons line(4) by (auto simp: unquote_u_escape)
    next
      case kept
      show ?thesis
      proof (cases "c = CHR 0x5C")
        case False
        obtain r w where dec: "decode_rune (c # cs) = (r, w)" by fastforce
        have c: "\<not> byte c < 32" "c \<noteq> CHR 0x22" using 1(2) False by (auto simp: Cons unquote.simps(2) split: if_splits)
        have "0 < w" using dec decode_rune_width by (metis snd_conv)
        then show ?thesis
          using 1(2) IH [of "drop w (c # cs)"] decode_compact(2) [OF dec kept(1)]
          unfolding Cons kept(1) unquote_plain [OF False c dec]
            unquote_plain [OF False c decode_compact(1) [OF dec kept(1)]] by auto
      next
        case True
        then obtain e es where cs: "cs = e # es" using 1(2) by (cases cs) (auto simp: Cons unquote.simps(2))
        then have "kept_byte e" using 1(2) True escape_kept(2,3)
          by (auto simp: Cons unquote.simps(2) split: if_splits option.splits)
        then have comp: "compact_bytes b = CHR 0x5C # e # compact_bytes es"
          using kept True by (simp add: Cons cs compact_kept)
        show ?thesis
        proof (cases "e = CHR ''u''")
          case False
          then show ?thesis unfolding comp using 1(2) IH [of es] True
            by (auto simp: Cons cs unquote.simps(2) split: option.splits)
        next
          case u: True
          then obtain r where r: "hex4 (take 4 es) = Some r"
            using 1(2) True by (auto simp: Cons cs unquote.simps(2) split: option.splits)
          note comp4 = hex4_compact [OF r]
          show ?thesis
          proof (cases "surrogate_pair r (drop 4 es)")
            case None
            then obtain y where y: "unquote (drop 4 es) = Some y"
              using 1(2) True u r by (auto simp: Cons cs unquote.simps(2))
            then show ?thesis unfolding comp
              using 1(2) True u r None IH [OF y] surrogate_compact [OF y, of r] comp4
              by (auto simp: Cons cs unquote.simps(2))
          next
            case (Some r2)
            then have p: "take 2 (drop 4 es) = [CHR 0x5C, CHR ''u'']" and "\<exists>q. hex4 (take 4 (drop 6 es)) = Some q"
              by (auto simp: surrogate_pair_def add.commute split: if_splits option.splits)
            then obtain q where q: "hex4 (take 4 (drop 6 es)) = Some q" by blast
            have d4: "drop 4 es = CHR 0x5C # CHR ''u'' # drop 6 es"
              using p append_take_drop_id [of 2 "drop 4 es"] by simp
            then have c4: "compact_bytes (drop 4 es) = CHR 0x5C # CHR ''u'' # compact_bytes (drop 6 es)"
              by (simp add: compact_kept escape_kept)
            have "surrogate_pair r (compact_bytes (drop 4 es)) = Some r2"
              unfolding c4 using Some [unfolded d4] hex4_compact(2) [OF q] by (simp add: surrogate_pair_def split: if_splits)
            moreover have "drop 10 (compact_bytes es) = compact_bytes (drop 10 es)"
            proof -
              have "drop 10 (compact_bytes es) = drop 6 (drop 4 (compact_bytes es))" by simp
              also have "\<dots> = drop 4 (compact_bytes (drop 6 es))" by (simp only: comp4(3) c4) simp
              finally show ?thesis using hex4_compact(3) [OF q] by simp
            qed
            ultimately show ?thesis unfolding comp
              using 1(2) True u r Some IH [of "drop 10 es"] comp4
              by (auto simp: Cons cs unquote.simps(2))
          qed
        qed
      qed
    qed
  qed
qed

section \<open>Compaction is idempotent\<close>

lemma u_escape_kept: "list_all kept_byte (u_escape r)"
proof -
  have "\<forall>v \<in> set [0..15]. kept_byte (hex_char v)" by code_simp
  moreover have "v mod 16 \<in> set [0..15]" for v :: int by simp
  ultimately have "kept_byte (hex_char (v mod 16))" for v by blast
  then show ?thesis unfolding u_escape_def list.pred_inject(2) by (intro conjI list.pred_inject(1) escape_kept(1,2))
qed

lemma compact_cont_hd:
  assumes "compact_bytes s = d # q" "cont_byte d"
  obtains p where "s = d # p" "q = compact_bytes p"
proof (cases s)
  case (Cons c cs)
  show thesis
  proof (cases c cs rule: compact_cases)
    case kept
    then show thesis using assms that by (auto simp: Cons)
  qed (use assms in \<open>auto simp: Cons u_escape_def cont_byte_def byte_def\<close>)
qed (use assms in simp)

lemma compact_idem: "compact_bytes (compact_bytes s) = compact_bytes s"
proof (induction s rule: length_induct)
  case (1 s)
  show ?case
  proof (cases s)
    case (Cons c cs)
    show ?thesis
    proof (cases c cs rule: compact_cases)
      case html
      then show ?thesis using 1 by (simp add: Cons compact_kept_append u_escape_kept)
    next
      case (line e es)
      have "compact_bytes (compact_bytes es) = compact_bytes es" using 1 by (simp add: Cons line(2))
      then show ?thesis unfolding Cons line(4) by (simp add: compact_kept_append u_escape_kept)
    next
      case kept
      have IH: "compact_bytes (compact_bytes cs) = compact_bytes cs" using 1 by (simp add: Cons)
      have "compact_bytes (c # compact_bytes cs) = c # compact_bytes (compact_bytes cs)"
      proof (cases c "compact_bytes cs" rule: compact_cases)
        case (line e es)
        have cont: "cont_byte (CHR 0x80)" "cont_byte e" using line(3) by (auto simp: cont_byte_def byte_def)
        obtain p where p: "cs = CHR 0x80 # p" "e # es = compact_bytes p" using compact_cont_hd [OF line(2) cont(1)] .
        obtain p' where "p = e # p'" using compact_cont_hd [OF p(2) [symmetric] cont(2)] .
        then have False using kept(1) line(1,3) by (auto simp: p compact_bytes.simps(2) [of "CHR 0xE2"] u_escape_def)
        then show ?thesis ..
      qed (use kept in auto)
      then show ?thesis using IH by (simp add: Cons kept(1))
    qed
  qed simp
qed

end
