(* ===== verification/JSON_Raw.thy ===== *)
theory JSON_Raw
  imports JSON_Compact
begin

text \<open>
  Raw messages. The compact text of a document renders the value of the document in any context,
  up to the raw texts the parser records; the parser's strings are valid UTF-8.
\<close>

section \<open>Values without their raw texts\<close>

fun strip :: "json \<Rightarrow> json" where
  "strip (JArray vs) = JArray (map strip vs)"
| "strip (JObject ms) = JObject (map (\<lambda>(k, t, v). (k, [], strip v)) ms)"
| "strip v = v"

definition strip_member :: "string \<times> string \<times> json \<Rightarrow> string \<times> string \<times> json" where
  "strip_member = (\<lambda>(k, t, v). (k, [], strip v))"

lemma strip_JObject [simp]: "strip (JObject ms) = JObject (map strip_member ms)"
  by (simp add: strip_member_def)

declare strip.simps(2) [simp del]

section \<open>Words\<close>

fun rexp_chars :: "rexp \<Rightarrow> char \<Rightarrow> bool" where
  "rexp_chars RZero c = False"
| "rexp_chars ROne c = False"
| "rexp_chars (RClass p) c = p c"
| "rexp_chars (RSeq r s) c = (rexp_chars r c \<or> rexp_chars s c)"
| "rexp_chars (RAlt r s) c = (rexp_chars r c \<or> rexp_chars s c)"
| "rexp_chars (RStar r) c = rexp_chars r c"

lemma lang_chars: "lang r w \<Longrightarrow> list_all (rexp_chars r) w"
  by (induction rule: lang.induct) (auto simp: list_all_iff)

lemma number_chars: "rexp_chars number_rexp c \<Longrightarrow> digit c \<or> c \<in> set ''-+.eE''"
proof -
  have "digit (CHR ''0'')" by code_simp
  then show "rexp_chars number_rexp c \<Longrightarrow> digit c \<or> c \<in> set ''-+.eE''"
    unfolding number_rexp_def Let_def ROpt_def RPlus_def RChars_def RLit_def by simp metis
qed

lemma number_char_ok:
  assumes "digit c \<or> c \<in> set ''-+.eE''"
  shows "\<not> json_space c \<and> \<not> json_punct c \<and> c \<noteq> CHR 0x22" "kept_byte c"
proof -
  have "\<forall>c \<in> set ''-+.eE''. \<not> json_space c \<and> \<not> json_punct c \<and> c \<noteq> CHR 0x22 \<and> kept_byte c" by code_simp
  moreover have "kept_byte c" if "digit c" using that by (auto simp: digit_def kept_byte_def byte_def)
  ultimately show "\<not> json_space c \<and> \<not> json_punct c \<and> c \<noteq> CHR 0x22" "kept_byte c"
    using assms digit_word_char by blast+
qed

lemma word_value_ok:
  assumes "word_value w = Some v"
  shows "word_chars w" "list_all kept_byte w"
proof -
  consider "w \<in> {''null'', ''true'', ''false''}" | "matches number_rexp w"
    using assms by (auto simp: word_value_def split: if_splits)
  then have "word_chars w \<and> list_all kept_byte w"
  proof cases
    case 1
    moreover have "\<forall>w \<in> set [''null'', ''true'', ''false'']. word_chars w \<and> list_all kept_byte w" by code_simp
    ultimately show ?thesis by auto
  next
    case 2
    then have "list_all (rexp_chars number_rexp) w" by (simp add: matches_lang lang_chars)
    then have w: "list_all (\<lambda>c. digit c \<or> c \<in> set ''-+.eE'') w" by (rule list.pred_mono_strong) (rule number_chars)
    have "\<not> nullable number_rexp" by code_simp
    then have "w \<noteq> []" using 2 by auto
    moreover have "list_all (\<lambda>c. \<not> json_space c \<and> \<not> json_punct c \<and> c \<noteq> CHR 0x22) w" "list_all kept_byte w"
      by (rule list.pred_mono_strong [OF w], erule number_char_ok)+
    ultimately show ?thesis by (simp add: word_chars_def)
  qed
  then show "word_chars w" "list_all kept_byte w" by simp_all
qed

section \<open>Compact tokens\<close>

fun compact_token :: "token \<Rightarrow> token" where
  "compact_token (TString b) = TString (compact_bytes b)"
| "compact_token t = t"

lemma compact_append_ascii:
  assumes "byte c < 128"
  shows "compact_bytes (p @ c # q) = compact_bytes p @ compact_bytes (c # q)"
proof (induction p rule: length_induct)
  case (1 p)
  have small: "c \<noteq> CHR 0x80" "c \<noteq> CHR 0xA8" "c \<noteq> CHR 0xA9" using assms by (auto simp: byte_def)
  consider "p = []" | d where "p = [d]" | d e where "p = [d, e]" | d e f fs where "p = d # e # f # fs"
    by (cases p; cases "tl p"; cases "tl (tl p)") auto
  then show ?case
  proof cases
    case 2
    then show ?thesis using small by (cases q) (simp_all add: compact_bytes.simps(2) [of d])
  next
    case 3
    then show ?thesis using 1 small
      by (cases q) (simp_all add: compact_bytes.simps(2) [of d] compact_bytes.simps(2) [of e])
  next
    case 4
    then have "compact_bytes ((e # f # fs) @ c # q) = compact_bytes (e # f # fs) @ compact_bytes (c # q)"
      "compact_bytes (fs @ c # q) = compact_bytes fs @ compact_bytes (c # q)"
      using 1 [rule_format, of "e # f # fs"] 1 [rule_format, of fs] by simp_all
    then show ?thesis using 4 by (auto simp: compact_bytes.simps(2) [of d])
  qed simp
qed

lemma token_text_compact:
  assumes "case t of TWord w \<Rightarrow> list_all kept_byte w | TPunct c \<Rightarrow> json_punct c | _ \<Rightarrow> True"
  shows "token_text (compact_token t) = compact_bytes (token_text t)"
proof (cases t)
  case (TPunct c)
  then have "kept_byte c" using assms by (auto simp: json_punct_def kept_byte_def)
  then show ?thesis by (simp add: TPunct compact_kept)
next
  case (TString b)
  have q: "kept_byte (CHR 0x22)" "byte (CHR 0x22) < 128" by (simp_all add: kept_byte_def byte_def)
  then show ?thesis by (simp add: TString compact_kept compact_append_ascii)
next
  case (TWord w)
  then show ?thesis using assms compact_kept_append [of w "[]"] by simp
qed

section \<open>Parsing the compact text\<close>

text \<open>
  The parser reads the compact tokens in step with the original ones. The frames of the two runs
  agree up to raw texts; below them the run over the compact text has an arbitrary context, and
  the frames hold exactly the text read so far.
\<close>

fun frame_sim :: "frame \<Rightarrow> frame \<Rightarrow> bool" where
  "frame_sim (FArray l raw vs) (FArray l' raw' vs') \<longleftrightarrow> map strip vs = map strip vs' \<and> l' = []"
| "frame_sim (FObject l raw ms k) (FObject l' raw' ms' k') \<longleftrightarrow>
     map strip_member ms = map strip_member ms' \<and> k = k' \<and> l' = []"
| "frame_sim _ _ \<longleftrightarrow> False"

fun frame_text :: "frame \<Rightarrow> string" where
  "frame_text (FArray l raw vs) = concat (rev raw)"
| "frame_text (FObject l raw ms k) = concat (rev raw)"

definition stack_text :: "frame list \<Rightarrow> string" where
  "stack_text fs = concat (map frame_text (rev fs))"

lemma stack_text_simps [simp]: "stack_text [] = []" "stack_text (f # fs) = stack_text fs @ frame_text f"
  by (simp_all add: stack_text_def)

definition step_sim :: "string \<Rightarrow> pstate \<Rightarrow> (frame list \<Rightarrow> pstate) \<Rightarrow> bool" where
  "step_sim t ps P \<longleftrightarrow>
     (\<exists>v v'. ps = (EDone v, []) \<and> strip v' = strip v \<and> (\<forall>st. P st = deliver [] t v' st))
     \<or> (\<exists>gs. snd ps \<noteq> [] \<and> (\<forall>v. fst ps \<noteq> EDone v) \<and> (\<forall>st. P st = (fst ps, gs @ st))
          \<and> list_all2 frame_sim (snd ps) gs \<and> stack_text gs = t)"

lemma frame_sim_Cons:
  assumes "list_all2 frame_sim (f # fs) gs"
  obtains g gs' where "gs = g # gs'" "frame_sim f g" "list_all2 frame_sim fs gs'"
  using assms by (auto simp: list_all2_Cons1)

lemma sim_FArray: "frame_sim (FArray l raw vs) g \<longleftrightarrow> (\<exists>raw' vs'. g = FArray [] raw' vs' \<and> map strip vs = map strip vs')"
  by (cases g) auto

lemma sim_FObject: "frame_sim (FObject l raw ms k) g
    \<longleftrightarrow> (\<exists>raw' ms'. g = FObject [] raw' ms' k \<and> map strip_member ms = map strip_member ms')"
  by (cases g) auto

lemma deliver_sim:
  assumes "list_all2 frame_sim fs gs" "strip v' = strip v"
  shows "step_sim (stack_text gs @ t') (deliver ws t v fs) (\<lambda>st. deliver [] t' v' (gs @ st))"
proof (cases fs)
  case Nil
  then show ?thesis using assms by (auto simp: step_sim_def)
next
  case (Cons f fs')
  then obtain g gs' where g: "gs = g # gs'" "frame_sim f g" "list_all2 frame_sim fs' gs'"
    using assms(1) frame_sim_Cons by blast
  show ?thesis
    by (cases f) (use g assms(2) in \<open>auto simp: Cons step_sim_def sim_FArray sim_FObject strip_member_def\<close>)
qed

lemma close_sim:
  assumes "list_all2 frame_sim fs gs" "close ws c fs = Some ps"
  shows "\<exists>P. (\<forall>st. close [] c (gs @ st) = Some (P st)) \<and> step_sim (stack_text gs @ [c]) ps P"
proof -
  obtain f fs' where fs: "fs = f # fs'" using assms(2) by (cases fs) auto
  then obtain g gs' where g: "gs = g # gs'" "frame_sim f g" "list_all2 frame_sim fs' gs'"
    using assms(1) frame_sim_Cons by blast
  show ?thesis
  proof (cases f)
    case (FArray l raw vs)
    then obtain raw' vs' where g': "g = FArray [] raw' vs'" "map strip vs = map strip vs'" using g by (auto simp: sim_FArray)
    have "strip (JArray (rev vs')) = strip (JArray (rev vs))" using g'(2) by (simp flip: rev_map)
    from deliver_sim [OF g(3) this, of "concat (rev ([c] # [] # raw'))"] show ?thesis
      using assms(2) by (auto simp: fs g g' FArray split: if_splits)
  next
    case (FObject l raw ms k)
    then obtain raw' ms' where g': "g = FObject [] raw' ms' k" "map strip_member ms = map strip_member ms'" using g by (auto simp: sim_FObject)
    have "strip (JObject (rev ms')) = strip (JObject (rev ms))" using g'(2) by (simp flip: rev_map)
    from deliver_sim [OF g(3) this, of "concat (rev ([c] # [] # raw'))"] show ?thesis
      using assms(2) by (auto simp: fs g g' FObject split: if_splits)
  qed
qed

lemma open_value_sim:
  assumes "list_all2 frame_sim fs gs" "open_value ws t fs = Some ps"
  shows "\<exists>P. (\<forall>st. open_value [] (compact_token t) (gs @ st) = Some (P st))
    \<and> step_sim (stack_text gs @ token_text (compact_token t)) ps P"
proof (cases t)
  case (TPunct c)
  then show ?thesis using assms by (auto simp: open_value_def step_sim_def split: if_splits)
next
  case (TString b)
  then obtain x where x: "unquote b = Some x" "ps = deliver ws (token_text t) (JString x) fs"
    using assms(2) by (auto simp: open_value_def)
  have "step_sim (stack_text gs @ token_text (compact_token t)) ps
      (\<lambda>st. deliver [] (token_text (compact_token t)) (JString x) (gs @ st))"
    unfolding x(2) by (rule deliver_sim [OF assms(1)]) simp
  then show ?thesis using unquote_compact [OF x(1)] by (auto simp: TString open_value_def)
next
  case (TWord w)
  then obtain x where x: "word_value w = Some x" "ps = deliver ws (token_text t) x fs"
    using assms(2) by (auto simp: open_value_def)
  have "step_sim (stack_text gs @ token_text (compact_token t)) ps
      (\<lambda>st. deliver [] (token_text (compact_token t)) x (gs @ st))"
    unfolding x(2) by (rule deliver_sim [OF assms(1)]) simp
  then show ?thesis using x(1) by (auto simp: TWord open_value_def)
qed

lemma open_key_sim:
  assumes "list_all2 frame_sim fs gs" "open_key ws t fs = Some ps"
  shows "\<exists>P. (\<forall>st. open_key [] (compact_token t) (gs @ st) = Some (P st))
    \<and> step_sim (stack_text gs @ token_text (compact_token t)) ps P"
proof -
  obtain b l raw ms k fs' x where t: "t = TString b" "fs = FObject l raw ms k # fs'" "unquote b = Some x"
    "ps = (EColon, FObject l (token_text (TString b) # ws # raw) ms x # fs')"
    using assms(2) by (cases "(ws, t, fs)" rule: open_key.cases) auto
  moreover obtain g gs' where g: "gs = g # gs'" "frame_sim (FObject l raw ms k) g" "list_all2 frame_sim fs' gs'"
    using assms(1) frame_sim_Cons t(2) by blast
  ultimately show ?thesis
    using unquote_compact [OF t(3)]
    by (intro exI [of _ "\<lambda>st. the (open_key [] (compact_token t) (gs @ st))"])
       (auto simp: step_sim_def sim_FObject)
qed

lemma separate_sim:
  assumes "list_all2 frame_sim fs gs" "separate ws fs = Some ps"
  shows "\<exists>P. (\<forall>st. separate [] (gs @ st) = Some (P st)) \<and> step_sim (stack_text gs @ '','') ps P"
proof -
  obtain f fs' where fs: "fs = f # fs'" using assms(2) by (cases fs) auto
  then obtain g gs' where g: "gs = g # gs'" "frame_sim f g" "list_all2 frame_sim fs' gs'"
    using assms(1) frame_sim_Cons by blast
  show ?thesis
    by (intro exI [of _ "\<lambda>st. the (separate [] (gs @ st))"], cases f)
       (use assms(2) g in \<open>auto simp: fs step_sim_def sim_FArray sim_FObject\<close>)
qed

lemma colon_sim:
  assumes "list_all2 frame_sim fs gs" "colon ws fs = Some ps"
  shows "\<exists>P. (\<forall>st. colon [] (gs @ st) = Some (P st)) \<and> step_sim (stack_text gs @ '':'') ps P"
proof -
  obtain l raw ms k fs' where fs: "fs = FObject l raw ms k # fs'"
    using assms(2) by (cases "(ws, fs)" rule: colon.cases) auto
  then obtain g gs' where g: "gs = g # gs'" "frame_sim (FObject l raw ms k) g" "list_all2 frame_sim fs' gs'"
    using assms(1) frame_sim_Cons by blast
  show ?thesis
    by (intro exI [of _ "\<lambda>st. the (colon [] (gs @ st))"])
       (use assms(2) g in \<open>auto simp: fs step_sim_def sim_FObject\<close>)
qed

lemma parse_token_sim:
  assumes "list_all2 frame_sim fs gs" "parse_token (ws, t) (e, fs) = Some ps"
    "e' = e \<or> e = EValue \<and> e' = EFirst"
  shows "\<exists>P. (\<forall>st. parse_token ([], compact_token t) (e', gs @ st) = Some (P st))
    \<and> step_sim (stack_text gs @ token_text (compact_token t)) ps P"
proof -
  note sims = open_value_sim [OF assms(1)] open_key_sim [OF assms(1)] close_sim [OF assms(1)]
    separate_sim [OF assms(1)] colon_sim [OF assms(1)]
  have ct: "compact_token t = TPunct c \<longleftrightarrow> t = TPunct c" for c by (cases t) auto
  show ?thesis
  proof (cases e)
    case EValue
    moreover from EValue have "t \<noteq> TPunct (CHR '']'')"
      using assms(2) by (auto simp: parse_token_def open_value_def split: if_splits)
    ultimately show ?thesis using assms(2,3) sims(1) [of ws t ps] by (auto simp: parse_token_def ct)
  next
    case EFirst
    then show ?thesis using assms(2,3) sims(1) [of ws t ps] sims(3) [of ws "CHR '']''" ps]
      by (auto simp: parse_token_def ct split: if_splits)
  next
    case EFirstKey
    then show ?thesis using assms(2,3) sims(2) [of ws t ps] sims(3) [of ws "CHR ''}''" ps]
      by (auto simp: parse_token_def ct split: if_splits)
  next
    case EKey
    then show ?thesis using assms(2,3) sims(2) [of ws t ps] by (auto simp: parse_token_def)
  next
    case EColon
    then show ?thesis using assms(2,3) sims(5) [of ws ps] by (auto simp: parse_token_def split: if_splits)
  next
    case ENext
    then obtain c where c: "t = TPunct c" using assms(2) by (cases t) (auto simp: parse_token_def)
    then show ?thesis using ENext assms(2,3) sims(3) [of ws c ps] sims(4) [of ws ps]
      by (auto simp: parse_token_def split: if_splits)
  next
    case (EDone v)
    then show ?thesis using assms(2) by (simp add: parse_token_def)
  qed
qed

text \<open>A token the parser accepts has a compact text from which the lexer reads the compact token.\<close>

lemma accepted_token:
  assumes "parse_token (ws, t) (e, fs) = Some ps"
  shows "case t of TPunct c \<Rightarrow> json_punct c | TString b \<Rightarrow> unquote b \<noteq> None | TWord w \<Rightarrow> word_value w \<noteq> None"
proof (cases t)
  case (TPunct c)
  then show ?thesis using assms
    by (cases e; cases "(ws, c, fs)" rule: close.cases)
       (auto simp: parse_token_def open_value_def split: if_splits)
next
  case (TString b)
  then show ?thesis using assms
    by (cases e; cases "(ws, t, fs)" rule: open_key.cases) (auto simp: parse_token_def open_value_def split: if_splits)
next
  case (TWord w)
  then show ?thesis using assms
    by (cases e) (auto simp: parse_token_def open_value_def split: if_splits)
qed

lemma word_state:
  assumes "parse_token (ws, TWord w) (e, fs) = Some ps"
  shows "fst ps = ENext \<or> (\<exists>v. fst ps = EDone v)"
proof -
  have "fst (deliver ws t v fs) = ENext \<or> (\<exists>u. fst (deliver ws t v fs) = EDone u)" for t v
    by (cases "(ws, t, v, fs)" rule: deliver.cases) auto
  moreover obtain z where "ps = deliver ws w z fs"
    using assms by (cases e) (auto simp: parse_token_def open_value_def split: if_splits)
  ultimately show ?thesis by blast
qed

definition compact_tokens :: "(string \<times> token) list \<Rightarrow> string" where
  "compact_tokens ts = concat (map (token_text \<circ> compact_token \<circ> snd) ts)"

lemma compact_tokens_simps [simp]:
  "compact_tokens [] = []" "compact_tokens ((ws, t) # ts) = token_text (compact_token t) @ compact_tokens ts"
  by (simp_all add: compact_tokens_def)

lemma compact_delimited:
  assumes "parse_tokens ts ps \<noteq> None" "fst ps = ENext \<or> (\<exists>v. fst ps = EDone v)" "delimited rest"
  shows "delimited (compact_tokens ts @ rest)"
proof (cases ts)
  case (Cons wt ts')
  obtain ws t e fs where wt: "wt = (ws, t)" "ps = (e, fs)" by (cases wt, cases ps)
  then obtain ps' where p: "parse_token (ws, t) (e, fs) = Some ps'"
    using assms(1) by (auto simp: Cons split: option.splits)
  then obtain c where "t = TPunct c"
    using assms(2) wt by (cases t) (auto simp: parse_token_def)
  then show ?thesis using accepted_token [OF p] by (simp add: Cons wt)
qed (simp add: assms(3))

lemma read_compact:
  assumes "parse_token (ws, t) (e, fs) = Some ps" "parse_tokens ts ps \<noteq> None" "delimited rest"
  shows "parse_from q (token_text (compact_token t) @ compact_tokens ts @ rest)
    = read_token (compact_token t) q (compact_tokens ts @ rest)"
proof (cases t)
  case (TPunct c)
  then show ?thesis using accepted_token [OF assms(1)] by (simp add: parse_from_punct)
next
  case (TString b)
  then have "scan_ok (compact_bytes b)"
    using accepted_token [OF assms(1)] unquote_compact unquote_scan by fastforce
  then show ?thesis by (simp add: TString parse_from_literal)
next
  case (TWord w)
  then have "word_chars w" using accepted_token [OF assms(1)] word_value_ok(1) by auto
  then show ?thesis
    using parse_from_word compact_delimited [OF assms(2) _ assms(3)] word_state assms(1) by (auto simp: TWord)
qed

lemma parse_tokens_sim:
  assumes "parse_tokens ts (e, fs) = Some v" "list_all2 frame_sim fs gs" "\<forall>v. e \<noteq> EDone v"
  shows "\<exists>v'. strip v' = strip v \<and> (\<forall>e' st rest. (e' = e \<or> e = EValue \<and> e' = EFirst) \<longrightarrow> delimited rest \<longrightarrow>
    parse_from (e', gs @ st) (compact_tokens ts @ rest)
      = parse_from (deliver [] (stack_text gs @ compact_tokens ts) v' st) rest)"
  using assms
proof (induction ts arbitrary: e fs gs)
  case Nil
  then show ?case by (cases e) auto
next
  case (Cons wt ts)
  obtain ws t where wt: "wt = (ws, t)" by (cases wt)
  obtain e1 fs1 where p: "parse_token (ws, t) (e, fs) = Some (e1, fs1)" "parse_tokens ts (e1, fs1) = Some v"
    using Cons.prems(1) by (auto simp: wt split: option.splits)
  have read: "parse_from q (token_text (compact_token t) @ compact_tokens ts @ rest)
      = read_token (compact_token t) q (compact_tokens ts @ rest)" if "delimited rest" for q rest
    using read_compact [OF p(1) _ that] p(2) by simp
  obtain P where P: "\<forall>st. parse_token ([], compact_token t) (e, gs @ st) = Some (P st)"
      "step_sim (stack_text gs @ token_text (compact_token t)) (e1, fs1) P"
    using parse_token_sim [OF Cons.prems(2) p(1), of e] by blast
  have P': "parse_token ([], compact_token t) (e', gs @ st) = Some (P st)" if "e' = e \<or> e = EValue \<and> e' = EFirst" for e' st
  proof (cases "e' = e")
    case False
    then have "e = EValue" "e' = EFirst" "compact_token t \<noteq> TPunct (CHR '']'')"
      using that P(1) by (auto simp: parse_token_def open_value_def split: token.splits)
    then show ?thesis using P(1) by (simp add: parse_token_def)
  qed (use P(1) in simp)
  show ?case
  proof (cases "\<exists>v. e1 = EDone v")
    case True
    then have ts: "ts = []" and e1: "e1 = EDone v"
      using p(2) by (cases ts; auto simp: parse_token_def split: option.splits)+
    obtain v' where v': "strip v' = strip v" "\<forall>st. P st = deliver [] (stack_text gs @ token_text (compact_token t)) v' st"
      using P(2) by (auto simp: step_sim_def e1)
    show ?thesis
      by (rule exI [of _ v']) (use v' P' read in \<open>auto simp: wt ts read_token_def\<close>)
  next
    case False
    then obtain gs1 where gs1: "\<forall>st. P st = (e1, gs1 @ st)" "list_all2 frame_sim fs1 gs1"
        "stack_text gs1 = stack_text gs @ token_text (compact_token t)"
      using P(2) by (auto simp: step_sim_def)
    obtain v' where v': "strip v' = strip v" "\<forall>st rest. delimited rest \<longrightarrow>
        parse_from (e1, gs1 @ st) (compact_tokens ts @ rest)
          = parse_from (deliver [] (stack_text gs1 @ compact_tokens ts) v' st) rest"
      using Cons.IH [OF p(2) gs1(2)] False by blast
    show ?thesis
      by (rule exI [of _ v']) (use v' P' read gs1 in \<open>auto simp: wt read_token_def\<close>)
  qed
qed

lemma accepted_tokens:
  "parse_tokens ts ps \<noteq> None \<Longrightarrow> (ws, t) \<in> set ts \<Longrightarrow>
     case t of TPunct c \<Rightarrow> json_punct c | TString b \<Rightarrow> unquote b \<noteq> None | TWord w \<Rightarrow> word_value w \<noteq> None"
proof (induction ts arbitrary: ps)
  case (Cons wt ts)
  obtain e fs where ps: "ps = (e, fs)" by (cases ps)
  obtain ps' where p: "parse_token wt ps = Some ps'" "parse_tokens ts ps' \<noteq> None"
    using Cons.prems(1) by (auto split: option.splits)
  show ?case
  proof (cases "(ws, t) = wt")
    case True
    show ?thesis by (rule accepted_token [of ws t e fs ps']) (use True p(1) ps in simp)
  qed (use Cons p in auto)
qed simp

theorem enc_raw_renders:
  assumes "json_value s = Some v" "s \<noteq> []"
  obtains t v' where "enc_raw s = Some t" "renders t v'" "strip v' = strip v"
proof -
  obtain ts where ts: "lex LexStart [] s = Some ts" "parse_tokens ts (EValue, []) = Some v"
    using assms(1) by (auto simp: json_value_def split: option.splits)
  obtain v' where v': "strip v' = strip v" "\<And>e' st rest. e' = EValue \<or> e' = EFirst \<Longrightarrow> delimited rest \<Longrightarrow>
      parse_from (e', st) (compact_tokens ts @ rest) = parse_from (deliver [] (compact_tokens ts) v' st) rest"
    using parse_tokens_sim [OF ts(2), of "[]"] by auto
  have "token_text (compact_token t) = compact_bytes (token_text t)" if "(ws, t) \<in> set ts" for ws t
    using accepted_tokens [of ts "(EValue, [])" ws t] that ts(2) word_value_ok(2)
    by (intro token_text_compact) (auto split: token.splits)
  then have "compact_tokens ts = concat (map (compact_bytes \<circ> token_text \<circ> snd) ts)"
    by (auto simp: compact_tokens_def intro!: arg_cong [where f = concat])
  then show thesis
    using that [of "compact_tokens ts" v'] v' assms ts by (auto simp: enc_raw_def renders_def)
qed

section \<open>Values with well-formed text\<close>

fun clean :: "json \<Rightarrow> bool" where
  "clean (JString s) = valid_utf8 s"
| "clean (JArray vs) = list_all clean vs"
| "clean (JObject ms) = list_all (\<lambda>m. valid_utf8 (fst m) \<and> clean (snd (snd m))) ms"
| "clean v = True"

fun clean_frame :: "frame \<Rightarrow> bool" where
  "clean_frame (FArray l raw vs) = clean (JArray vs)"
| "clean_frame (FObject l raw ms k) = (clean (JObject ms) \<and> valid_utf8 k)"

definition clean_state :: "pstate \<Rightarrow> bool" where
  "clean_state ps \<longleftrightarrow> list_all clean_frame (snd ps) \<and> (case fst ps of EDone v \<Rightarrow> clean v | _ \<Rightarrow> True)"

lemma deliver_clean: "list_all clean_frame fs \<Longrightarrow> clean v \<Longrightarrow> clean_state (deliver ws t v fs)"
  by (cases "(ws, t, v, fs)" rule: deliver.cases) (auto simp: clean_state_def)

lemma close_clean: "list_all clean_frame fs \<Longrightarrow> close ws c fs = Some ps \<Longrightarrow> clean_state ps"
  by (cases "(ws, c, fs)" rule: close.cases) (auto intro!: deliver_clean simp: list_all_iff split: if_splits)

lemma word_value_clean: "word_value w = Some v \<Longrightarrow> clean v"
  by (auto simp: word_value_def split: if_splits)

lemma valid_empty [simp]: "valid_utf8 []"
  by (simp add: valid_utf8_def)

lemma open_value_clean: "list_all clean_frame fs \<Longrightarrow> open_value ws t fs = Some ps \<Longrightarrow> clean_state ps"
  by (auto simp: open_value_def clean_state_def split: token.splits if_splits
      intro!: deliver_clean [unfolded clean_state_def] dest: unquote_valid word_value_clean)

lemma open_key_clean: "list_all clean_frame fs \<Longrightarrow> open_key ws t fs = Some ps \<Longrightarrow> clean_state ps"
  by (cases "(ws, t, fs)" rule: open_key.cases) (auto simp: clean_state_def dest: unquote_valid)

lemma separate_clean: "list_all clean_frame fs \<Longrightarrow> separate ws fs = Some ps \<Longrightarrow> clean_state ps"
  by (cases "(ws, fs)" rule: separate.cases) (auto simp: clean_state_def)

lemma colon_clean: "list_all clean_frame fs \<Longrightarrow> colon ws fs = Some ps \<Longrightarrow> clean_state ps"
  by (cases "(ws, fs)" rule: colon.cases) (auto simp: clean_state_def)

lemma parse_token_clean:
  assumes "clean_state ps" "parse_token wt ps = Some ps'"
  shows "clean_state ps'"
proof -
  obtain ws t e fs where p: "wt = (ws, t)" "ps = (e, fs)" by (cases wt, cases ps)
  have fs: "list_all clean_frame fs" using assms(1) by (simp add: p clean_state_def)
  note steps = open_value_clean [OF fs] open_key_clean [OF fs] close_clean [OF fs] separate_clean [OF fs] colon_clean [OF fs]
  show ?thesis using assms(2) steps
    by (cases e) (auto simp: p parse_token_def split: if_splits token.splits)
qed

theorem json_value_clean:
  assumes "json_value s = Some v"
  shows "clean v"
proof -
  have "clean v" if "parse_tokens ts ps = Some v" "clean_state ps" for ts ps
    using that
  proof (induction ts arbitrary: ps)
    case Nil
    then show ?case by (cases ps) (auto simp: clean_state_def split: expect.splits)
  next
    case (Cons wt ts)
    then show ?case using parse_token_clean by (auto split: option.splits)
  qed
  then show ?thesis using assms by (auto simp: json_value_def clean_state_def split: option.splits)
qed

end
