(* ===== verification/JSON_Codec.thy ===== *)
theory JSON_Codec
  imports JSON_Raw Run_Validation
begin

text \<open>
  An encoder and a decoder that fit together form a codec: the interface through which the
  contract types get their round trips, one interpretation per type. A field codec is the same
  for one member of a struct, which the encoder may omit when it has its zero value.
\<close>

section \<open>Depth\<close>

text \<open>The nesting a value adds, as the duplicate check of the strict decoder sees it.\<close>

definition nests :: "int \<Rightarrow> json \<Rightarrow> bool" where
  "nests n v \<longleftrightarrow> (\<forall>d. d + n \<le> 64 \<longrightarrow> consumeUniqueValue d v)"

lemma nests_mono: "nests n v \<Longrightarrow> n \<le> m \<Longrightarrow> nests m v"
  by (auto simp: nests_def)

lemma nests_scalar:
  "0 \<le> n \<Longrightarrow> nests n JNull" "0 \<le> n \<Longrightarrow> nests n (JBool b)" "0 \<le> n \<Longrightarrow> nests n (JNumber s)"
  "0 \<le> n \<Longrightarrow> nests n (JString s)"
  by (simp_all add: nests_def consumeUniqueValue.simps)

lemma nests_array: "0 \<le> n \<Longrightarrow> list_all (nests n) vs \<Longrightarrow> nests (n + 1) (JArray vs)"
  by (auto simp: nests_def consumeUniqueValue.simps [of _ "JArray vs"] list_all_iff)

lemma nests_object:
  "0 \<le> n \<Longrightarrow> distinct (map fst ms) \<Longrightarrow> list_all (\<lambda>m. nests n (snd (snd m))) ms \<Longrightarrow> nests (n + 1) (JObject ms)"
  by (auto simp: nests_def consumeUniqueValue.simps [of _ "JObject ms"] list_all_iff)

lemma consume_mono: "consumeUniqueValue d v \<Longrightarrow> d' \<le> d \<Longrightarrow> consumeUniqueValue d' v"
proof (induction d v arbitrary: d' rule: consumeUniqueValue.induct)
  case (1 d v)
  note body = consumeUniqueValue.simps [of d v] consumeUniqueValue.simps [of d' v]
  show ?case
  proof (cases v)
    case (JArray vs)
    then have "consumeUniqueValue (d' + 1) w" if "w \<in> set vs" for w
      using 1(1) [of vs w "d' + 1"] 1(3,4) that body(1) by (auto simp: list_all_iff)
    then show ?thesis using 1(3,4) body by (auto simp: JArray list_all_iff)
  next
    case (JObject ms)
    then have "consumeUniqueValue (d' + 1) (snd (snd m))" if "m \<in> set ms" for m
      using 1(2) [of ms m "d' + 1"] 1(3,4) that body(1) by (auto simp: list_all_iff)
    then show ?thesis using 1(3,4) body by (auto simp: JObject list_all_iff)
  qed (use 1(3,4) body in auto)
qed

lemma nests_consume: "consumeUniqueValue (64 - n) v \<Longrightarrow> nests n v"
  by (auto simp: nests_def intro: consume_mono)

section \<open>Codecs\<close>

locale field_codec =
  fixes opt :: "'a \<Rightarrow> string option"
    and dec :: "'a decoder"
    and zero :: 'a
    and ok :: "'a \<Rightarrow> bool"
    and n :: int
  assumes field_zero: "ok zero"
    and field_depth: "0 \<le> n"
    and field_none: "ok x \<Longrightarrow> opt x = None \<Longrightarrow> x = zero"
    and field_some: "ok x \<Longrightarrow> opt x = Some t \<Longrightarrow>
      \<exists>v. renders t v \<and> nests n v \<and> dec v t zero = Some x"
    and field_keeps: "ok y \<Longrightarrow> clean v \<Longrightarrow> dec v t y = Some x \<Longrightarrow> ok x"

locale codec =
  fixes enc :: "'a \<Rightarrow> string"
    and dec :: "'a decoder"
    and zero :: 'a
    and ok :: "'a \<Rightarrow> bool"
    and n :: int
  assumes ok_zero: "ok zero"
    and depth: "0 \<le> n"
    and reads: "ok x \<Longrightarrow> \<exists>v. renders (enc x) v \<and> v \<noteq> JNull \<and> nests n v \<and> (\<forall>t. dec v t zero = Some x)"
    and keeps: "ok y \<Longrightarrow> clean v \<Longrightarrow> dec v t y = Some x \<Longrightarrow> ok x"

sublocale codec \<subseteq> req: field_codec "\<lambda>x. Some (enc x)" dec zero ok n
proof
  show "\<exists>v. renders t v \<and> nests n v \<and> dec v t zero = Some x" if "ok x" "Some (enc x) = Some t" for x t
    using reads that by auto
qed (use ok_zero depth keeps in auto)

text \<open>What \<open>json.Marshal\<close> followed by \<open>json.Unmarshal\<close> makes of a value.\<close>

context codec
begin

lemma round_trip:
  assumes "ok x"
  obtains v where "json_value (enc x) = Some v" "dec v (enc x) zero = Some x" "consumeUniqueValue (64 - n) v"
proof -
  obtain v where v: "renders (enc x) v" "nests n v" "\<forall>t. dec v t zero = Some x"
    using reads [OF assms] by blast
  show thesis by (rule that [of v]) (use v renders_value in \<open>auto simp: nests_def\<close>)
qed

lemma enc_inject: "ok x \<Longrightarrow> ok y \<Longrightarrow> enc x = enc y \<Longrightarrow> x = y"
  by (metis option.inject round_trip)

end

section \<open>Scalars\<close>

interpretation string_codec: codec enc_string dec_string "[]" valid_utf8 0
proof
  fix x :: string
  show "\<exists>v. renders (enc_string x) v \<and> v \<noteq> JNull \<and> nests 0 v \<and> (\<forall>t. dec_string v t [] = Some x)" if "valid_utf8 x"
    using that by (intro exI [of _ "JString x"]) (simp add: renders_string nests_scalar)
  show "valid_utf8 x" if "valid_utf8 y" "clean v" "dec_string v t y = Some x" for y v t
    using that by (cases v) auto
qed simp_all

interpretation bool_codec: codec enc_bool dec_bool False "\<lambda>_. True" 0
proof
  fix x
  show "\<exists>v. renders (enc_bool x) v \<and> v \<noteq> JNull \<and> nests 0 v \<and> (\<forall>t. dec_bool v t False = Some x)"
    by (intro exI [of _ "JBool x"]) (simp add: renders_bool nests_scalar)
qed simp_all

definition fits :: "nat \<Rightarrow> int \<Rightarrow> bool" where
  "fits w i \<longleftrightarrow> - (2 ^ (w - 1)) \<le> i \<and> i < 2 ^ (w - 1)"

lemma int_codec:
  assumes "w \<in> {32, 64}"
  shows "codec enc_int (dec_int w) 0 (fits w) 0"
proof
  show "fits w 0" using assms by (auto simp: fits_def)
  fix x :: int
  show "\<exists>v. renders (enc_int x) v \<and> v \<noteq> JNull \<and> nests 0 v \<and> (\<forall>t. dec_int w v t 0 = Some x)" if "fits w x"
  proof (intro exI [of _ "JNumber (enc_int x)"] conjI allI)
    have "- (2 ^ 63) \<le> x" "x < 2 ^ 63" using that assms by (auto simp: fits_def)
    note e = enc_int_ok [OF this]
    show "renders (enc_int x) (JNumber (enc_int x))" by (rule e(1))
    show "dec_int w (JNumber (enc_int x)) t 0 = Some x" for t
      using e(2) that by (simp add: dec_int_def fits_def)
  qed (simp_all add: nests_scalar)
  show "fits w x" if "fits w y" "dec_int w v t y = Some x" for y v t
    using that by (auto simp: dec_int_def fits_def split: json.splits option.splits if_splits)
qed simp

interpretation int32_codec: codec enc_int "dec_int 32" 0 "fits 32" 0
  by (rule int_codec) simp

interpretation int64_codec: codec enc_int "dec_int 64" 0 "fits 64" 0
  by (rule int_codec) simp

section \<open>Slices and pointers\<close>

lemma elements_read:
  assumes "codec enc dec zero ok n" "list_all ok xs"
  shows "\<exists>vs. list_all2 renders (map enc xs) vs \<and> list_all (nests n) vs \<and> dec_elements zero dec vs [] = Some xs"
  using assms(2)
proof (induction xs)
  case Nil
  show ?case by (intro exI [of _ "[]"]) simp
next
  case (Cons x xs)
  then obtain vs v where "list_all2 renders (map enc xs) vs" "list_all (nests n) vs" "dec_elements zero dec vs [] = Some xs"
    "renders (enc x) v" "nests n v" "\<forall>t. dec v t zero = Some x"
    using codec.reads [OF assms(1), of x] by auto
  then show ?case by (intro exI [of _ "v # vs"]) simp
qed

lemma elements_keep:
  assumes "codec enc dec zero ok n"
  shows "dec_elements zero dec js ys = Some xs \<Longrightarrow> list_all clean js \<Longrightarrow> list_all ok ys \<Longrightarrow> list_all ok xs"
proof (induction js arbitrary: xs ys)
  case (Cons j js)
  obtain x xs' where x: "xs = x # xs'" "dec j [] (case ys of [] \<Rightarrow> zero | y # _ \<Rightarrow> y) = Some x"
      "dec_elements zero dec js (tl ys) = Some xs'"
    using Cons.prems(1) by (auto split: option.splits)
  have "ok (case ys of [] \<Rightarrow> zero | y # _ \<Rightarrow> y)" "list_all ok (tl ys)"
    using Cons.prems(3) codec.ok_zero [OF assms] by (cases ys; simp)+
  then show ?case using codec.keeps [OF assms _ _ x(2)] Cons.IH [OF x(3)] Cons.prems(2) by (simp add: x(1))
qed simp

lemma slice_codec:
  assumes "codec enc dec zero ok n"
  shows "codec (enc_array enc) (dec_slice zero dec) [] (list_all ok) (n + 1)"
proof
  show "0 \<le> n + 1" using codec.depth [OF assms] by simp
  fix xs
  show "\<exists>v. renders (enc_array enc xs) v \<and> v \<noteq> JNull \<and> nests (n + 1) v \<and> (\<forall>t. dec_slice zero dec v t [] = Some xs)"
    if xs: "list_all ok xs"
  proof -
    obtain vs where "list_all2 renders (map enc xs) vs" "list_all (nests n) vs" "dec_elements zero dec vs [] = Some xs"
      using elements_read [OF assms xs] by blast
    then show ?thesis
      using codec.depth [OF assms]
      by (intro exI [of _ "JArray vs"]) (auto simp: enc_array_def dec_slice_def intro!: renders_array [simplified] nests_array)
  qed
  show "list_all ok xs" if "list_all ok ys" "clean v" "dec_slice zero dec v t ys = Some xs" for ys v t
    using that elements_keep [OF assms] by (cases v) (auto simp: dec_slice_def)
qed simp

lemma omit_codec:
  assumes "codec enc dec zero ok n" "\<And>x. opt x = (if x = zero then None else Some (enc x))"
  shows "field_codec opt dec zero ok n"
proof
  fix x t
  assume "ok x" "opt x = Some t"
  then show "\<exists>v. renders t v \<and> nests n v \<and> dec v t zero = Some x"
    using codec.reads [OF assms(1), of x] assms(2) [of x] by (auto split: if_splits)
qed (use codec.ok_zero [OF assms(1)] codec.depth [OF assms(1)] codec.keeps [OF assms(1)] assms(2)
     in \<open>auto split: if_splits\<close>)

lemma omit_empty_codec: "codec enc dec zero ok n \<Longrightarrow> field_codec (omit_empty enc) (dec_slice zero dec) [] (list_all ok) (n + 1)"
  by (rule omit_codec [OF slice_codec]) (simp_all add: omit_empty_def)

interpretation omit_string: field_codec omit_string dec_string "[]" valid_utf8 0
  by (rule omit_codec [OF string_codec.codec_axioms]) (simp add: omit_string_def)

interpretation omit_false: field_codec omit_false dec_bool False "\<lambda>_. True" 0
  by (rule omit_codec [OF bool_codec.codec_axioms]) (simp add: omit_false_def enc_bool_def)

interpretation omit_zero32: field_codec omit_zero "dec_int 32" 0 "fits 32" 0
  by (rule omit_codec [OF int32_codec.codec_axioms]) (simp add: omit_zero_def)

interpretation omit_zero64: field_codec omit_zero "dec_int 64" 0 "fits 64" 0
  by (rule omit_codec [OF int64_codec.codec_axioms]) (simp add: omit_zero_def)

interpretation omit_strings: field_codec "omit_empty enc_string" "dec_slice [] dec_string" "[]" "list_all valid_utf8" 1
  using omit_empty_codec [OF string_codec.codec_axioms] by simp

lemma pointer_codec:
  assumes "codec enc dec zero ok n"
  shows "field_codec (map_option enc) (dec_pointer zero dec) None (pred_option ok) n"
proof
  fix x y :: "'a option" and t v
  show "\<exists>v. renders t v \<and> nests n v \<and> dec_pointer zero dec v t None = Some x"
    if x: "pred_option ok x" "map_option enc x = Some t"
  proof -
    obtain a where a: "x = Some a" "t = enc a" "ok a" using x by auto
    then obtain v where "renders t v" "v \<noteq> JNull" "nests n v" "dec v t zero = Some a"
      using codec.reads [OF assms] by blast
    then show ?thesis by (auto simp: dec_pointer_def a(1))
  qed
  show "pred_option ok x" if "pred_option ok y" "clean v" "dec_pointer zero dec v t y = Some x"
    using that codec.keeps [OF assms, of "case y of None \<Rightarrow> zero | Some a \<Rightarrow> a" v t] codec.ok_zero [OF assms]
    by (auto simp: dec_pointer_def split: if_splits option.splits)
qed (use codec.depth [OF assms] in auto)

section \<open>Maps\<close>

text \<open>The texts of the members an object writes.\<close>

fun present :: "(string \<times> string option) list \<Rightarrow> string list" where
  "present [] = []"
| "present ((k, None) # ts) = present ts"
| "present ((k, Some t) # ts) = (enc_string k @ '':'' @ t) # present ts"

lemma enc_object_present: "enc_object ts = ''{'' @ join_with '','' (present ts) @ ''}''"
proof -
  have "concat (map (\<lambda>(k, t). case t of None \<Rightarrow> [] | Some t \<Rightarrow> [enc_string k @ '':'' @ t]) ts) = present ts"
    by (induction ts rule: present.induct) simp_all
  then show ?thesis by (simp add: enc_object_def)
qed

lemma string_less_irrefl: "\<not> string_less s s"
  by (induction s) auto

lemma string_less_trans: "string_less a b \<Longrightarrow> string_less b c \<Longrightarrow> string_less a c"
proof (induction a b arbitrary: c rule: string_less.induct)
  case (3 x xs y ys)
  then show ?case by (cases c) auto
next
  case (2 y ys)
  then show ?case by (cases c) auto
qed simp

lemma string_less_asym: "string_less a b \<Longrightarrow> \<not> string_less b a \<and> a \<noteq> b"
  using string_less_trans string_less_irrefl by blast

lemma string_less_total: "a = b \<or> string_less a b \<or> string_less b a"
proof (induction a b rule: string_less.induct)
  case (1 s)
  then show ?case by (cases s) auto
next
  case (3 c cs d ds)
  then show ?case using byte_inject [of c d] by (auto simp: not_less)
qed simp

definition sorted_map :: "(string \<times> 'a) list \<Rightarrow> bool" where
  "sorted_map m \<longleftrightarrow> sorted_wrt string_less (map fst m)"

lemma sorted_map_simps [simp]:
  "sorted_map []" "sorted_map (q # m) \<longleftrightarrow> (\<forall>x \<in> set m. string_less (fst q) (fst x)) \<and> sorted_map m"
  by (auto simp: sorted_map_def)

lemma map_insert_first: "\<forall>q \<in> set m. string_less k (fst q) \<Longrightarrow> map_insert k x m = (k, x) # m"
  using string_less_asym by (cases m) auto

lemma map_insert_last: "\<forall>q \<in> set m. string_less (fst q) k \<Longrightarrow> map_insert k x m = m @ [(k, x)]"
  using string_less_asym by (induction m) auto

lemma set_map_insert: "set (map_insert k x m) \<subseteq> insert (k, x) (set m)"
  by (induction m) auto

lemma sorted_map_insert: "sorted_map m \<Longrightarrow> sorted_map (map_insert k x m)"
proof (induction m)
  case (Cons q m)
  show ?case
  proof (cases "k = fst q \<or> string_less k (fst q)")
    case True
    then show ?thesis using Cons.prems by (auto intro: string_less_trans)
  next
    case False
    then have "string_less (fst q) k" using string_less_total by blast
    then have "\<forall>y \<in> set (map_insert k x m). string_less (fst q) (fst y)"
      using set_map_insert [of k x m] Cons.prems by auto
    then show ?thesis using Cons False by auto
  qed
qed simp

lemma sorted_map_distinct: "sorted_map m \<Longrightarrow> distinct (map fst m)"
  using string_less_irrefl by (induction m) fastforce+

lemma sorted_map_fixed: "sorted_map m \<Longrightarrow> foldr (\<lambda>(k, v). map_insert k v) m [] = m"
  by (induction m) (auto simp: map_insert_first)

definition ok_map :: "(string \<times> string) list \<Rightarrow> bool" where
  "ok_map m \<longleftrightarrow> sorted_map m \<and> list_all (\<lambda>q. valid_utf8 (fst q) \<and> valid_utf8 (snd q)) m"

definition map_members :: "(string \<times> string) list \<Rightarrow> (string \<times> string \<times> json) list" where
  "map_members m = map (\<lambda>q. (fst q, enc_string (snd q), JString (snd q))) m"

lemma dec_map_members:
  "sorted_map (acc @ m) \<Longrightarrow> dec_members [] dec_string (map_members m) acc = Some (acc @ m)"
proof (induction m arbitrary: acc)
  case (Cons q m)
  have "\<forall>p \<in> set acc. string_less (fst p) (fst q)" using Cons.prems by (auto simp: sorted_map_def sorted_wrt_append)
  then show ?case using Cons by (simp add: map_members_def map_insert_last)
qed (simp add: map_members_def)

lemma dec_members_keep:
  "dec_members [] dec_string ms acc = Some m \<Longrightarrow> clean (JObject ms) \<Longrightarrow> ok_map acc \<Longrightarrow> ok_map m"
proof (induction ms arbitrary: acc)
  case (Cons q ms)
  obtain k t j where q: "q = (k, t, j)" by (cases q)
  obtain x where x: "dec_string j t [] = Some x" "dec_members [] dec_string ms (map_insert k x acc) = Some m"
    using Cons.prems(1) by (auto simp: q split: option.splits)
  have "valid_utf8 x" "valid_utf8 k"
    using string_codec.keeps [OF _ _ x(1)] Cons.prems(2) by (auto simp: q)
  then have "ok_map (map_insert k x acc)"
    using Cons.prems(3) sorted_map_insert set_map_insert [of k x acc] by (auto simp: ok_map_def list_all_iff)
  then show ?case using Cons.IH [OF x(2)] Cons.prems(2) by (simp add: q)
qed simp

interpretation omit_map: field_codec omit_map "dec_map [] dec_string" "[]" ok_map 1
proof
  fix x y :: "(string \<times> string) list" and t v
  show "\<exists>v. renders t v \<and> nests 1 v \<and> dec_map [] dec_string v t [] = Some x" if x: "ok_map x" "omit_map x = Some t"
  proof (intro exI [of _ "JObject (map_members x)"] conjI)
    have "t = enc_object (map (\<lambda>(k, v). (k, Some (enc_string v))) x)"
      using x by (auto simp: omit_map_def ok_map_def sorted_map_fixed split: if_splits)
    moreover have "present (map (\<lambda>(k, v). (k, Some (enc_string v))) m) = map member_text (map_members m)" for m
      by (induction m) (auto simp: map_members_def member_text_def)
    moreover have "list_all member_ok (map_members x)"
      using x(1) renders_string by (auto simp: ok_map_def map_members_def member_ok_def list_all_iff)
    ultimately show "renders t (JObject (map_members x))"
      using renders_object [of "map_members x"] by (simp add: enc_object_present)
    have "distinct (map fst (map_members x))"
      using x(1) sorted_map_distinct by (auto simp: ok_map_def map_members_def comp_def)
    then show "nests 1 (JObject (map_members x))"
      using nests_object [of 0 "map_members x"] by (auto simp: map_members_def list_all_iff nests_scalar)
    show "dec_map [] dec_string (JObject (map_members x)) t [] = Some x"
      using dec_map_members [of "[]" x] x(1) by (simp add: dec_map_def ok_map_def)
  qed
  show "ok_map x" if "ok_map y" "clean v" "dec_map [] dec_string v t y = Some x"
    using that dec_members_keep by (cases v) (auto simp: dec_map_def ok_map_def)
  show "x = []" if "omit_map x = None" using that by (simp add: omit_map_def split: if_splits)
qed (simp_all add: ok_map_def)

section \<open>Structs\<close>

text \<open>A key of a struct tag folds to itself.\<close>

definition plain_key :: "string \<Rightarrow> bool" where
  "plain_key k \<longleftrightarrow> list_all (\<lambda>c. lowerAlphaNumeric c \<or> c = CHR ''_'') k"

lemma plain_key_ok:
  assumes "plain_key k"
  shows "fold_name k = k" "valid_utf8 k"
proof -
  have b: "byte c < 128 \<and> \<not> (65 \<le> byte c \<and> byte c \<le> 90)" if "c \<in> set k" for c
    using assms that by (auto simp: plain_key_def list_all_iff lowerAlphaNumeric_def byte_def)
  then have "ascii k" by (auto simp: ascii_def list_all_iff)
  then have "runes k = map (\<lambda>c. (byte c, [c])) k" "valid_utf8 k" by (simp_all add: runes_ascii valid_utf8_ascii)
  moreover have "concat (map (\<lambda>(r, bs). if 65 \<le> r \<and> r \<le> 90 then [char_of (r + 32)]
       else if r = 383 then ''s'' else if r = 8490 then ''k'' else bs) (map (\<lambda>c. (byte c, [c])) l)) = l"
    if "set l \<subseteq> set k" for l using that b by (induction l) fastforce+
  ultimately show "fold_name k = k" "valid_utf8 k" by (simp_all add: fold_name_def)
qed

text \<open>
  The members an encoder writes, read one after the other into a record: each written member takes
  the record one step, an omitted one leaves it.
\<close>

fun field_run :: "int \<Rightarrow> 'r fields \<Rightarrow> (string \<times> string option) list \<Rightarrow> 'r \<Rightarrow> 'r \<Rightarrow> bool" where
  "field_run n F [] r r' \<longleftrightarrow> r = r'"
| "field_run n F ((k, None) # ts) r r' \<longleftrightarrow> field_run n F ts r r'"
| "field_run n F ((k, Some t) # ts) r r' \<longleftrightarrow>
     (\<exists>v d r1. renders t v \<and> nests n v \<and> map_of F k = Some d \<and> d v t r = Some r1 \<and> field_run n F ts r1 r')"

lemma field_step:
  assumes "field_codec opt dec zero ok m" "m \<le> n" "map_of F k = Some (snd (fld k get upd dec))"
    "ok x" "get r = zero" "upd (\<lambda>_. get r) r = r" "field_run n F ts (upd (\<lambda>_. x) r) r'"
  shows "field_run n F ((k, opt x) # ts) r r'"
proof (cases "opt x")
  case None
  then have "x = zero" using field_codec.field_none [OF assms(1,4)] by blast
  then show ?thesis using assms(5-7) None by simp
next
  case (Some t)
  then obtain v where v: "renders t v" "nests m v" "dec v t zero = Some x"
    using field_codec.field_some [OF assms(1,4)] by blast
  have "nests n v" using nests_mono [OF v(2) assms(2)] .
  then show ?thesis using v assms(3,5,7) Some by (auto simp: fld_def)
qed

lemma raw_step:
  assumes "renders t v" "nests n v" "map_of F k = Some (snd (fld k get upd dec_raw))"
    "field_run n F ts (upd (\<lambda>_. t) r) r'"
  shows "field_run n F ((k, Some t) # ts) r r'"
  using assms by (auto simp: fld_def dec_raw_def)

lemma field_run_members:
  assumes "field_run n F ts r r'" "list_all plain_key (map fst ts)" "distinct (map fst ts)"
  shows "\<exists>ms. list_all member_ok ms \<and> list_all (\<lambda>m. nests n (snd (snd m))) ms
    \<and> set (map fst ms) \<subseteq> set (map fst ts) \<and> distinct (map fst ms)
    \<and> dec_fields F ms r = Some r' \<and> present ts = map member_text ms"
  using assms
proof (induction n F ts r r' rule: field_run.induct)
  case (1 n F r r')
  show ?case by (rule exI [of _ "[]"]) (use 1 in simp)
next
  case (2 n F k ts r r')
  then obtain ms where "list_all member_ok ms" "list_all (\<lambda>m. nests n (snd (snd m))) ms"
    "set (map fst ms) \<subseteq> set (map fst ts)" "distinct (map fst ms)" "dec_fields F ms r = Some r'"
    "present ts = map member_text ms" by auto
  then show ?case by (intro exI [of _ ms]) auto
next
  case (3 n F k t ts r r')
  then obtain v d r1 where v: "renders t v" "nests n v" "map_of F k = Some d" "d v t r = Some r1" "field_run n F ts r1 r'"
    by auto
  have rest: "list_all plain_key (map fst ts)" "distinct (map fst ts)" using 3(3,4) by auto
  obtain ms where ms: "list_all member_ok ms" "list_all (\<lambda>m. nests n (snd (snd m))) ms"
    "set (map fst ms) \<subseteq> set (map fst ts)" "distinct (map fst ms)" "dec_fields F ms r1 = Some r'"
    "present ts = map member_text ms" using 3(1) [OF v(5) rest] by blast
  have k: "fold_name k = k" "valid_utf8 k" using 3(3) plain_key_ok by auto
  then have "member_ok (k, t, v)" using v(1) by (simp add: member_ok_def)
  then show ?case
    using v ms 3(4) k by (intro exI [of _ "(k, t, v) # ms"]) (auto simp: member_text_def)
qed

lemma field_run_object:
  assumes "field_run n F ts r r'" "list_all plain_key (map fst ts)" "distinct (map fst ts)" "0 \<le> n"
  shows "\<exists>v. renders (enc_object ts) v \<and> v \<noteq> JNull \<and> nests (n + 1) v \<and> (\<forall>t. dec_struct F v t r = Some r')"
proof -
  obtain ms where ms: "list_all member_ok ms" "list_all (\<lambda>m. nests n (snd (snd m))) ms"
    "distinct (map fst ms)" "dec_fields F ms r = Some r'" "present ts = map member_text ms"
    using field_run_members [OF assms(1,2,3)] by blast
  have "nests (n + 1) (JObject ms)" using nests_object assms(4) ms(2,3) by blast
  moreover have "renders (enc_object ts) (JObject ms)"
    using renders_object [OF ms(1)] ms(5) by (simp add: enc_object_present)
  ultimately show ?thesis using ms(4) by (intro exI [of _ "JObject ms"]) (simp add: dec_struct_def)
qed

text \<open>A field whose decoder keeps the record well formed.\<close>

definition field_ok :: "('r \<Rightarrow> bool) \<Rightarrow> string \<times> 'r decoder \<Rightarrow> bool" where
  "field_ok ok f \<longleftrightarrow> (\<forall>v t r r'. ok r \<longrightarrow> clean v \<longrightarrow> snd f v t r = Some r' \<longrightarrow> ok r')"

lemma fld_ok:
  assumes "field_codec opt dec zero okf n" "\<And>r. ok r \<Longrightarrow> okf (get r)" "\<And>r x. ok r \<Longrightarrow> okf x \<Longrightarrow> ok (upd (\<lambda>_. x) r)"
  shows "field_ok ok (fld k get upd dec)"
  unfolding field_ok_def
proof (intro allI impI)
  fix v t r r'
  assume r: "ok r" "clean v" "snd (fld k get upd dec) v t r = Some r'"
  then obtain x where x: "dec v t (get r) = Some x" "r' = upd (\<lambda>_. x) r" by (auto simp: fld_def)
  have "okf x" by (rule field_codec.field_keeps [OF assms(1) assms(2) [OF r(1)] r(2) x(1)])
  then show "ok r'" unfolding x(2) by (rule assms(3) [OF r(1)])
qed

lemma dec_fields_keep:
  assumes "list_all (field_ok ok) F"
  shows "dec_fields F ms r = Some r' \<Longrightarrow> clean (JObject ms) \<Longrightarrow> ok r \<Longrightarrow> ok r'"
proof (induction ms arbitrary: r)
  case (Cons q ms)
  obtain k raw j where q: "q = (k, raw, j)" by (cases q)
  obtain d r1 where d: "map_of F (fold_name k) = Some d" "d j raw r = Some r1" "dec_fields F ms r1 = Some r'"
    using Cons.prems(1) by (auto simp: q split: option.splits)
  have "field_ok ok (fold_name k, d)" using map_of_SomeD [OF d(1)] assms by (auto simp: list_all_iff)
  then have "ok r1" using Cons.prems d(2) by (auto simp: field_ok_def q)
  then show ?case using Cons.IH [OF d(3)] Cons.prems(2) by (simp add: q)
qed simp

lemma struct_keeps:
  "list_all (field_ok ok) F \<Longrightarrow> ok r \<Longrightarrow> clean v \<Longrightarrow> dec_struct F v t r = Some r' \<Longrightarrow> ok r'"
  using dec_fields_keep [of ok F] by (cases v) (auto simp: dec_struct_def)

lemma struct_codec:
  assumes "\<And>v. enc v = enc_object (ts v)" "ok zero" "0 \<le> n" "list_all (field_ok ok) F"
    "\<And>v. map fst (ts v) = keys" "distinct keys" "list_all plain_key keys"
    "\<And>v. ok v \<Longrightarrow> field_run n F (ts v) zero v"
  shows "codec enc (dec_struct F) zero ok (n + 1)"
proof
  show "\<exists>v. renders (enc x) v \<and> v \<noteq> JNull \<and> nests (n + 1) v \<and> (\<forall>t. dec_struct F v t zero = Some x)" if "ok x" for x
    using field_run_object [OF assms(8) [OF that]] assms(1,3,5,6,7) by simp
  show "ok x" if "ok y" "clean v" "dec_struct F v t y = Some x" for x y v t
    using struct_keeps [OF assms(4) that] .
qed (use assms(2,3) in auto)

end
