(* ===== verification/Run_Codec.thy ===== *)
theory Run_Codec
  imports JSON_Codec
begin

text \<open>
  The round trips of the run contract: for every type of \<^verbatim>\<open>protocol/resolvedrun/contract.go\<close> the
  encoder and the decoder form a codec on the values whose strings are valid UTF-8 and whose
  integers fit their fields, and decoding only yields such values.
\<close>

interpretation strings_codec: codec "enc_array enc_string" "dec_slice [] dec_string" "[]" "list_all valid_utf8" 1
  using slice_codec [OF string_codec.codec_axioms] by simp

named_theorems struct \<open>zero values and field tables\<close>

declare fld_def [struct]

definition ok_Principal :: "Principal \<Rightarrow> bool" where
  "ok_Principal v \<longleftrightarrow> valid_utf8 (Issuer v)
     \<and> valid_utf8 (Subject v)
     \<and> valid_utf8 (DisplayName v)"

declare zero_Principal_def [struct] Principal_fields_def [struct]

interpretation Principal_codec: codec enc_Principal "dec_struct Principal_fields" zero_Principal ok_Principal 1
proof -
  have "codec enc_Principal (dec_struct Principal_fields) zero_Principal ok_Principal (0 + 1)"
  proof (rule struct_codec [OF enc_Principal_def, where keys = "[''issuer'', ''subject'', ''display_name'']"])
    show "list_all (field_ok ok_Principal) Principal_fields"
      unfolding Principal_fields_def list.pred_inject
      by (intro conjI TrueI fld_ok [OF string_codec.req.field_codec_axioms]
          fld_ok [OF omit_string.field_codec_axioms]) (simp_all add: ok_Principal_def)
    show "field_run 0 Principal_fields [(''issuer'', Some (enc_string (Issuer v))),
        (''subject'', Some (enc_string (Subject v))),
        (''display_name'', omit_string (DisplayName v))] zero_Principal v" if "ok_Principal v" for v
      by (insert that, unfold ok_Principal_def,
          rule field_step [OF string_codec.req.field_codec_axioms, where get = Issuer and upd = Issuer_update], (simp_all add: struct)[5],
          rule field_step [OF string_codec.req.field_codec_axioms, where get = Subject and upd = Subject_update], (simp_all add: struct)[5],
          rule field_step [OF omit_string.field_codec_axioms, where get = DisplayName and upd = DisplayName_update], (simp_all add: struct)[5],
          cases v, simp add: struct)
    show "ok_Principal zero_Principal" by (simp add: ok_Principal_def zero_Principal_def )
  qed (code_simp | simp)+
  then show "codec enc_Principal (dec_struct Principal_fields) zero_Principal ok_Principal 1" by simp
qed

definition ok_DockerNetwork :: "DockerNetwork \<Rightarrow> bool" where
  "ok_DockerNetwork v \<longleftrightarrow> valid_utf8 (net_Name v)
     \<and> valid_utf8 (net_Subnet v)"

declare zero_DockerNetwork_def [struct] DockerNetwork_fields_def [struct]

interpretation DockerNetwork_codec: codec enc_DockerNetwork "dec_struct DockerNetwork_fields" zero_DockerNetwork ok_DockerNetwork 1
proof -
  have "codec enc_DockerNetwork (dec_struct DockerNetwork_fields) zero_DockerNetwork ok_DockerNetwork (0 + 1)"
  proof (rule struct_codec [OF enc_DockerNetwork_def, where keys = "[''name'', ''subnet'']"])
    show "list_all (field_ok ok_DockerNetwork) DockerNetwork_fields"
      unfolding DockerNetwork_fields_def list.pred_inject
      by (intro conjI TrueI fld_ok [OF string_codec.req.field_codec_axioms]) (simp_all add: ok_DockerNetwork_def)
    show "field_run 0 DockerNetwork_fields [(''name'', Some (enc_string (net_Name v))),
        (''subnet'', Some (enc_string (net_Subnet v)))] zero_DockerNetwork v" if "ok_DockerNetwork v" for v
      by (insert that, unfold ok_DockerNetwork_def,
          rule field_step [OF string_codec.req.field_codec_axioms, where get = net_Name and upd = net_Name_update], (simp_all add: struct)[5],
          rule field_step [OF string_codec.req.field_codec_axioms, where get = net_Subnet and upd = net_Subnet_update], (simp_all add: struct)[5],
          cases v, simp add: struct)
    show "ok_DockerNetwork zero_DockerNetwork" by (simp add: ok_DockerNetwork_def zero_DockerNetwork_def )
  qed (code_simp | simp)+
  then show "codec enc_DockerNetwork (dec_struct DockerNetwork_fields) zero_DockerNetwork ok_DockerNetwork 1" by simp
qed

definition ok_RuntimeDocker :: "RuntimeDocker \<Rightarrow> bool" where
  "ok_RuntimeDocker v \<longleftrightarrow> list_all ok_DockerNetwork (RequiredNetworks v)"

declare zero_RuntimeDocker_def [struct] RuntimeDocker_fields_def [struct]

interpretation RuntimeDocker_codec: codec enc_RuntimeDocker "dec_struct RuntimeDocker_fields" zero_RuntimeDocker ok_RuntimeDocker 3
proof -
  have "codec enc_RuntimeDocker (dec_struct RuntimeDocker_fields) zero_RuntimeDocker ok_RuntimeDocker (2 + 1)"
  proof (rule struct_codec [OF enc_RuntimeDocker_def, where keys = "[''kernel_log_device'', ''required_networks'']"])
    show "list_all (field_ok ok_RuntimeDocker) RuntimeDocker_fields"
      unfolding RuntimeDocker_fields_def list.pred_inject
      by (intro conjI TrueI fld_ok [OF omit_false.field_codec_axioms]
          fld_ok [OF omit_empty_codec [OF DockerNetwork_codec.codec_axioms]]) (simp_all add: ok_RuntimeDocker_def)
    show "field_run 2 RuntimeDocker_fields [(''kernel_log_device'', omit_false (KernelLogDevice v)),
        (''required_networks'', omit_empty enc_DockerNetwork (RequiredNetworks v))] zero_RuntimeDocker v" if "ok_RuntimeDocker v" for v
      by (insert that, unfold ok_RuntimeDocker_def,
          rule field_step [OF omit_false.field_codec_axioms, where get = KernelLogDevice and upd = KernelLogDevice_update], (simp_all add: struct)[5],
          rule field_step [OF omit_empty_codec [OF DockerNetwork_codec.codec_axioms], where get = RequiredNetworks and upd = RequiredNetworks_update], (simp_all add: struct)[5],
          cases v, simp add: struct)
    show "ok_RuntimeDocker zero_RuntimeDocker" by (simp add: ok_RuntimeDocker_def zero_RuntimeDocker_def )
  qed (code_simp | simp)+
  then show "codec enc_RuntimeDocker (dec_struct RuntimeDocker_fields) zero_RuntimeDocker ok_RuntimeDocker 3" by simp
qed

definition ok_RuntimeContainer :: "RuntimeContainer \<Rightarrow> bool" where
  "ok_RuntimeContainer v \<longleftrightarrow> list_all valid_utf8 (container_Capabilities v)"

declare zero_RuntimeContainer_def [struct] RuntimeContainer_fields_def [struct]

interpretation RuntimeContainer_codec: codec enc_RuntimeContainer "dec_struct RuntimeContainer_fields" zero_RuntimeContainer ok_RuntimeContainer 2
proof -
  have "codec enc_RuntimeContainer (dec_struct RuntimeContainer_fields) zero_RuntimeContainer ok_RuntimeContainer (1 + 1)"
  proof (rule struct_codec [OF enc_RuntimeContainer_def, where keys = "[''capabilities'']"])
    show "list_all (field_ok ok_RuntimeContainer) RuntimeContainer_fields"
      unfolding RuntimeContainer_fields_def list.pred_inject
      by (intro conjI TrueI fld_ok [OF omit_strings.field_codec_axioms]) (simp_all add: ok_RuntimeContainer_def)
    show "field_run 1 RuntimeContainer_fields [(''capabilities'', omit_empty enc_string (container_Capabilities v))] zero_RuntimeContainer v" if "ok_RuntimeContainer v" for v
      by (insert that, unfold ok_RuntimeContainer_def,
          rule field_step [OF omit_strings.field_codec_axioms, where get = container_Capabilities and upd = container_Capabilities_update], (simp_all add: struct)[5],
          cases v, simp add: struct)
    show "ok_RuntimeContainer zero_RuntimeContainer" by (simp add: ok_RuntimeContainer_def zero_RuntimeContainer_def )
  qed (code_simp | simp)+
  then show "codec enc_RuntimeContainer (dec_struct RuntimeContainer_fields) zero_RuntimeContainer ok_RuntimeContainer 2" by simp
qed

definition ok_Runtime :: "Runtime \<Rightarrow> bool" where
  "ok_Runtime v \<longleftrightarrow> valid_utf8 (rt_Type v)
     \<and> valid_utf8 (Autonomy v)
     \<and> valid_utf8 (Model v)
     \<and> valid_utf8 (Effort v)
     \<and> valid_utf8 (rt_User v)
     \<and> pred_option ok_RuntimeContainer (Container v)
     \<and> pred_option ok_RuntimeDocker (Docker v)"

declare zero_Runtime_def [struct] Runtime_fields_def [struct]

interpretation Runtime_codec: codec enc_Runtime "dec_struct Runtime_fields" zero_Runtime ok_Runtime 4
proof -
  have "codec enc_Runtime (dec_struct Runtime_fields) zero_Runtime ok_Runtime (3 + 1)"
  proof (rule struct_codec [OF enc_Runtime_def, where keys = "[''type'', ''autonomy'', ''model'', ''effort'', ''user'', ''container'', ''docker'']"])
    show "list_all (field_ok ok_Runtime) Runtime_fields"
      unfolding Runtime_fields_def list.pred_inject
      by (intro conjI TrueI fld_ok [OF string_codec.req.field_codec_axioms]
          fld_ok [OF omit_string.field_codec_axioms]
          fld_ok [OF pointer_codec [OF RuntimeContainer_codec.codec_axioms]]
          fld_ok [OF pointer_codec [OF RuntimeDocker_codec.codec_axioms]]) (simp_all add: ok_Runtime_def)
    show "field_run 3 Runtime_fields [(''type'', Some (enc_string (rt_Type v))),
        (''autonomy'', Some (enc_string (Autonomy v))),
        (''model'', omit_string (Model v)),
        (''effort'', omit_string (Effort v)),
        (''user'', Some (enc_string (rt_User v))),
        (''container'', map_option enc_RuntimeContainer (Container v)),
        (''docker'', map_option enc_RuntimeDocker (Docker v))] zero_Runtime v" if "ok_Runtime v" for v
      by (insert that, unfold ok_Runtime_def,
          rule field_step [OF string_codec.req.field_codec_axioms, where get = rt_Type and upd = rt_Type_update], (simp_all add: struct)[5],
          rule field_step [OF string_codec.req.field_codec_axioms, where get = Autonomy and upd = Autonomy_update], (simp_all add: struct)[5],
          rule field_step [OF omit_string.field_codec_axioms, where get = Model and upd = Model_update], (simp_all add: struct)[5],
          rule field_step [OF omit_string.field_codec_axioms, where get = Effort and upd = Effort_update], (simp_all add: struct)[5],
          rule field_step [OF string_codec.req.field_codec_axioms, where get = rt_User and upd = rt_User_update], (simp_all add: struct)[5],
          rule field_step [OF pointer_codec [OF RuntimeContainer_codec.codec_axioms], where get = Container and upd = Container_update], (simp_all add: struct)[5],
          rule field_step [OF pointer_codec [OF RuntimeDocker_codec.codec_axioms], where get = Docker and upd = Docker_update], (simp_all add: struct)[5],
          cases v, simp add: struct)
    show "ok_Runtime zero_Runtime" by (simp add: ok_Runtime_def zero_Runtime_def )
  qed (code_simp | simp)+
  then show "codec enc_Runtime (dec_struct Runtime_fields) zero_Runtime ok_Runtime 4" by simp
qed

definition ok_RepositoryIdentity :: "RepositoryIdentity \<Rightarrow> bool" where
  "ok_RepositoryIdentity v \<longleftrightarrow> valid_utf8 (id_Mode v)
     \<and> valid_utf8 (id_Name v)
     \<and> valid_utf8 (id_Email v)"

declare zero_RepositoryIdentity_def [struct] RepositoryIdentity_fields_def [struct]

interpretation RepositoryIdentity_codec: codec enc_RepositoryIdentity "dec_struct RepositoryIdentity_fields" zero_RepositoryIdentity ok_RepositoryIdentity 1
proof -
  have "codec enc_RepositoryIdentity (dec_struct RepositoryIdentity_fields) zero_RepositoryIdentity ok_RepositoryIdentity (0 + 1)"
  proof (rule struct_codec [OF enc_RepositoryIdentity_def, where keys = "[''mode'', ''name'', ''email'']"])
    show "list_all (field_ok ok_RepositoryIdentity) RepositoryIdentity_fields"
      unfolding RepositoryIdentity_fields_def list.pred_inject
      by (intro conjI TrueI fld_ok [OF string_codec.req.field_codec_axioms]
          fld_ok [OF omit_string.field_codec_axioms]) (simp_all add: ok_RepositoryIdentity_def)
    show "field_run 0 RepositoryIdentity_fields [(''mode'', Some (enc_string (id_Mode v))),
        (''name'', omit_string (id_Name v)),
        (''email'', omit_string (id_Email v))] zero_RepositoryIdentity v" if "ok_RepositoryIdentity v" for v
      by (insert that, unfold ok_RepositoryIdentity_def,
          rule field_step [OF string_codec.req.field_codec_axioms, where get = id_Mode and upd = id_Mode_update], (simp_all add: struct)[5],
          rule field_step [OF omit_string.field_codec_axioms, where get = id_Name and upd = id_Name_update], (simp_all add: struct)[5],
          rule field_step [OF omit_string.field_codec_axioms, where get = id_Email and upd = id_Email_update], (simp_all add: struct)[5],
          cases v, simp add: struct)
    show "ok_RepositoryIdentity zero_RepositoryIdentity" by (simp add: ok_RepositoryIdentity_def zero_RepositoryIdentity_def )
  qed (code_simp | simp)+
  then show "codec enc_RepositoryIdentity (dec_struct RepositoryIdentity_fields) zero_RepositoryIdentity ok_RepositoryIdentity 1" by simp
qed

definition ok_Repository :: "Repository \<Rightarrow> bool" where
  "ok_Repository v \<longleftrightarrow> valid_utf8 (CheckoutTarget v)
     \<and> valid_utf8 (BrokerRepository v)
     \<and> valid_utf8 (repo_URL v)
     \<and> valid_utf8 (repo_Path v)
     \<and> valid_utf8 (Upstream v)
     \<and> valid_utf8 (CredentialProvider v)
     \<and> valid_utf8 (CredentialUsername v)
     \<and> pred_option ok_RepositoryIdentity (Identity v)"

declare zero_Repository_def [struct] Repository_fields_def [struct]

interpretation Repository_codec: codec enc_Repository "dec_struct Repository_fields" zero_Repository ok_Repository 2
proof -
  have "codec enc_Repository (dec_struct Repository_fields) zero_Repository ok_Repository (1 + 1)"
  proof (rule struct_codec [OF enc_Repository_def, where keys = "[''checkout_target'', ''broker_repository'', ''url'', ''path'', ''upstream'', ''credential_provider'', ''credential_username'', ''identity'']"])
    show "list_all (field_ok ok_Repository) Repository_fields"
      unfolding Repository_fields_def list.pred_inject
      by (intro conjI TrueI fld_ok [OF string_codec.req.field_codec_axioms]
          fld_ok [OF omit_string.field_codec_axioms]
          fld_ok [OF pointer_codec [OF RepositoryIdentity_codec.codec_axioms]]) (simp_all add: ok_Repository_def)
    show "field_run 1 Repository_fields [(''checkout_target'', Some (enc_string (CheckoutTarget v))),
        (''broker_repository'', Some (enc_string (BrokerRepository v))),
        (''url'', Some (enc_string (repo_URL v))),
        (''path'', omit_string (repo_Path v)),
        (''upstream'', omit_string (Upstream v)),
        (''credential_provider'', omit_string (CredentialProvider v)),
        (''credential_username'', omit_string (CredentialUsername v)),
        (''identity'', map_option enc_RepositoryIdentity (Identity v))] zero_Repository v" if "ok_Repository v" for v
      by (insert that, unfold ok_Repository_def,
          rule field_step [OF string_codec.req.field_codec_axioms, where get = CheckoutTarget and upd = CheckoutTarget_update], (simp_all add: struct)[5],
          rule field_step [OF string_codec.req.field_codec_axioms, where get = BrokerRepository and upd = BrokerRepository_update], (simp_all add: struct)[5],
          rule field_step [OF string_codec.req.field_codec_axioms, where get = repo_URL and upd = repo_URL_update], (simp_all add: struct)[5],
          rule field_step [OF omit_string.field_codec_axioms, where get = repo_Path and upd = repo_Path_update], (simp_all add: struct)[5],
          rule field_step [OF omit_string.field_codec_axioms, where get = Upstream and upd = Upstream_update], (simp_all add: struct)[5],
          rule field_step [OF omit_string.field_codec_axioms, where get = CredentialProvider and upd = CredentialProvider_update], (simp_all add: struct)[5],
          rule field_step [OF omit_string.field_codec_axioms, where get = CredentialUsername and upd = CredentialUsername_update], (simp_all add: struct)[5],
          rule field_step [OF pointer_codec [OF RepositoryIdentity_codec.codec_axioms], where get = Identity and upd = Identity_update], (simp_all add: struct)[5],
          cases v, simp add: struct)
    show "ok_Repository zero_Repository" by (simp add: ok_Repository_def zero_Repository_def )
  qed (code_simp | simp)+
  then show "codec enc_Repository (dec_struct Repository_fields) zero_Repository ok_Repository 2" by simp
qed

definition ok_CredentialProviderMapping :: "CredentialProviderMapping \<Rightarrow> bool" where
  "ok_CredentialProviderMapping v \<longleftrightarrow> valid_utf8 (map_Name v)
     \<and> valid_utf8 (BrokerProvider v)
     \<and> valid_utf8 (CredentialKind v)
     \<and> list_all valid_utf8 (MatchTargets v)"

declare zero_CredentialProviderMapping_def [struct] CredentialProviderMapping_fields_def [struct]

interpretation CredentialProviderMapping_codec: codec enc_CredentialProviderMapping "dec_struct CredentialProviderMapping_fields" zero_CredentialProviderMapping ok_CredentialProviderMapping 2
proof -
  have "codec enc_CredentialProviderMapping (dec_struct CredentialProviderMapping_fields) zero_CredentialProviderMapping ok_CredentialProviderMapping (1 + 1)"
  proof (rule struct_codec [OF enc_CredentialProviderMapping_def, where keys = "[''name'', ''broker_provider'', ''credential_kind'', ''match_targets'']"])
    show "list_all (field_ok ok_CredentialProviderMapping) CredentialProviderMapping_fields"
      unfolding CredentialProviderMapping_fields_def list.pred_inject
      by (intro conjI TrueI fld_ok [OF string_codec.req.field_codec_axioms]
          fld_ok [OF omit_string.field_codec_axioms]
          fld_ok [OF omit_strings.field_codec_axioms]) (simp_all add: ok_CredentialProviderMapping_def)
    show "field_run 1 CredentialProviderMapping_fields [(''name'', Some (enc_string (map_Name v))),
        (''broker_provider'', Some (enc_string (BrokerProvider v))),
        (''credential_kind'', omit_string (CredentialKind v)),
        (''match_targets'', omit_empty enc_string (MatchTargets v))] zero_CredentialProviderMapping v" if "ok_CredentialProviderMapping v" for v
      by (insert that, unfold ok_CredentialProviderMapping_def,
          rule field_step [OF string_codec.req.field_codec_axioms, where get = map_Name and upd = map_Name_update], (simp_all add: struct)[5],
          rule field_step [OF string_codec.req.field_codec_axioms, where get = BrokerProvider and upd = BrokerProvider_update], (simp_all add: struct)[5],
          rule field_step [OF omit_string.field_codec_axioms, where get = CredentialKind and upd = CredentialKind_update], (simp_all add: struct)[5],
          rule field_step [OF omit_strings.field_codec_axioms, where get = MatchTargets and upd = MatchTargets_update], (simp_all add: struct)[5],
          cases v, simp add: struct)
    show "ok_CredentialProviderMapping zero_CredentialProviderMapping" by (simp add: ok_CredentialProviderMapping_def zero_CredentialProviderMapping_def )
  qed (code_simp | simp)+
  then show "codec enc_CredentialProviderMapping (dec_struct CredentialProviderMapping_fields) zero_CredentialProviderMapping ok_CredentialProviderMapping 2" by simp
qed

definition ok_BrokerGrantAuthorizationRule :: "BrokerGrantAuthorizationRule \<Rightarrow> bool" where
  "ok_BrokerGrantAuthorizationRule v \<longleftrightarrow> valid_utf8 (Operation v)
     \<and> valid_utf8 (Resource v)"

declare zero_BrokerGrantAuthorizationRule_def [struct] BrokerGrantAuthorizationRule_fields_def [struct]

interpretation BrokerGrantAuthorizationRule_codec: codec enc_BrokerGrantAuthorizationRule "dec_struct BrokerGrantAuthorizationRule_fields" zero_BrokerGrantAuthorizationRule ok_BrokerGrantAuthorizationRule 1
proof -
  have "codec enc_BrokerGrantAuthorizationRule (dec_struct BrokerGrantAuthorizationRule_fields) zero_BrokerGrantAuthorizationRule ok_BrokerGrantAuthorizationRule (0 + 1)"
  proof (rule struct_codec [OF enc_BrokerGrantAuthorizationRule_def, where keys = "[''operation'', ''resource'']"])
    show "list_all (field_ok ok_BrokerGrantAuthorizationRule) BrokerGrantAuthorizationRule_fields"
      unfolding BrokerGrantAuthorizationRule_fields_def list.pred_inject
      by (intro conjI TrueI fld_ok [OF string_codec.req.field_codec_axioms]) (simp_all add: ok_BrokerGrantAuthorizationRule_def)
    show "field_run 0 BrokerGrantAuthorizationRule_fields [(''operation'', Some (enc_string (Operation v))),
        (''resource'', Some (enc_string (Resource v)))] zero_BrokerGrantAuthorizationRule v" if "ok_BrokerGrantAuthorizationRule v" for v
      by (insert that, unfold ok_BrokerGrantAuthorizationRule_def,
          rule field_step [OF string_codec.req.field_codec_axioms, where get = Operation and upd = Operation_update], (simp_all add: struct)[5],
          rule field_step [OF string_codec.req.field_codec_axioms, where get = Resource and upd = Resource_update], (simp_all add: struct)[5],
          cases v, simp add: struct)
    show "ok_BrokerGrantAuthorizationRule zero_BrokerGrantAuthorizationRule" by (simp add: ok_BrokerGrantAuthorizationRule_def zero_BrokerGrantAuthorizationRule_def )
  qed (code_simp | simp)+
  then show "codec enc_BrokerGrantAuthorizationRule (dec_struct BrokerGrantAuthorizationRule_fields) zero_BrokerGrantAuthorizationRule ok_BrokerGrantAuthorizationRule 1" by simp
qed

definition ok_BrokerGrantAuthorization :: "BrokerGrantAuthorization \<Rightarrow> bool" where
  "ok_BrokerGrantAuthorization v \<longleftrightarrow> valid_utf8 (auth_DefaultAction v)
     \<and> list_all ok_BrokerGrantAuthorizationRule (Rules v)"

declare zero_BrokerGrantAuthorization_def [struct] BrokerGrantAuthorization_fields_def [struct]

interpretation BrokerGrantAuthorization_codec: codec enc_BrokerGrantAuthorization "dec_struct BrokerGrantAuthorization_fields" zero_BrokerGrantAuthorization ok_BrokerGrantAuthorization 3
proof -
  have "codec enc_BrokerGrantAuthorization (dec_struct BrokerGrantAuthorization_fields) zero_BrokerGrantAuthorization ok_BrokerGrantAuthorization (2 + 1)"
  proof (rule struct_codec [OF enc_BrokerGrantAuthorization_def, where keys = "[''default_action'', ''rules'']"])
    show "list_all (field_ok ok_BrokerGrantAuthorization) BrokerGrantAuthorization_fields"
      unfolding BrokerGrantAuthorization_fields_def list.pred_inject
      by (intro conjI TrueI fld_ok [OF string_codec.req.field_codec_axioms]
          fld_ok [OF omit_empty_codec [OF BrokerGrantAuthorizationRule_codec.codec_axioms]]) (simp_all add: ok_BrokerGrantAuthorization_def)
    show "field_run 2 BrokerGrantAuthorization_fields [(''default_action'', Some (enc_string (auth_DefaultAction v))),
        (''rules'', omit_empty enc_BrokerGrantAuthorizationRule (Rules v))] zero_BrokerGrantAuthorization v" if "ok_BrokerGrantAuthorization v" for v
      by (insert that, unfold ok_BrokerGrantAuthorization_def,
          rule field_step [OF string_codec.req.field_codec_axioms, where get = auth_DefaultAction and upd = auth_DefaultAction_update], (simp_all add: struct)[5],
          rule field_step [OF omit_empty_codec [OF BrokerGrantAuthorizationRule_codec.codec_axioms], where get = Rules and upd = Rules_update], (simp_all add: struct)[5],
          cases v, simp add: struct)
    show "ok_BrokerGrantAuthorization zero_BrokerGrantAuthorization" by (simp add: ok_BrokerGrantAuthorization_def zero_BrokerGrantAuthorization_def )
  qed (code_simp | simp)+
  then show "codec enc_BrokerGrantAuthorization (dec_struct BrokerGrantAuthorization_fields) zero_BrokerGrantAuthorization ok_BrokerGrantAuthorization 3" by simp
qed

definition ok_BrokerGrantQuota :: "BrokerGrantQuota \<Rightarrow> bool" where
  "ok_BrokerGrantQuota v \<longleftrightarrow> fits 64 (Requests v)"

declare zero_BrokerGrantQuota_def [struct] BrokerGrantQuota_fields_def [struct]

interpretation BrokerGrantQuota_codec: codec enc_BrokerGrantQuota "dec_struct BrokerGrantQuota_fields" zero_BrokerGrantQuota ok_BrokerGrantQuota 1
proof -
  have "codec enc_BrokerGrantQuota (dec_struct BrokerGrantQuota_fields) zero_BrokerGrantQuota ok_BrokerGrantQuota (0 + 1)"
  proof (rule struct_codec [OF enc_BrokerGrantQuota_def, where keys = "[''requests'']"])
    show "list_all (field_ok ok_BrokerGrantQuota) BrokerGrantQuota_fields"
      unfolding BrokerGrantQuota_fields_def list.pred_inject
      by (intro conjI TrueI fld_ok [OF int64_codec.req.field_codec_axioms]) (simp_all add: ok_BrokerGrantQuota_def)
    show "field_run 0 BrokerGrantQuota_fields [(''requests'', Some (enc_int (Requests v)))] zero_BrokerGrantQuota v" if "ok_BrokerGrantQuota v" for v
      by (insert that, unfold ok_BrokerGrantQuota_def,
          rule field_step [OF int64_codec.req.field_codec_axioms, where get = Requests and upd = Requests_update], (simp_all add: struct)[5],
          cases v, simp add: struct)
    show "ok_BrokerGrantQuota zero_BrokerGrantQuota" by (simp add: ok_BrokerGrantQuota_def zero_BrokerGrantQuota_def fits_def)
  qed (code_simp | simp)+
  then show "codec enc_BrokerGrantQuota (dec_struct BrokerGrantQuota_fields) zero_BrokerGrantQuota ok_BrokerGrantQuota 1" by simp
qed

definition ok_BrokerGrant :: "BrokerGrant \<Rightarrow> bool" where
  "ok_BrokerGrant v \<longleftrightarrow> valid_utf8 (Provider v)
     \<and> list_all valid_utf8 (grant_Repositories v)
     \<and> list_all valid_utf8 (grant_Resources v)
     \<and> list_all valid_utf8 (grant_Capabilities v)
     \<and> list_all valid_utf8 (Preparations v)
     \<and> valid_utf8 (Materialization v)
     \<and> list_all valid_utf8 (EgressHosts v)
     \<and> ok_map (Permissions v)
     \<and> pred_option ok_BrokerGrantAuthorization (Authorization v)
     \<and> pred_option ok_BrokerGrantQuota (Quota v)"

declare zero_BrokerGrant_def [struct] BrokerGrant_fields_def [struct]

interpretation BrokerGrant_codec: codec enc_BrokerGrant "dec_struct BrokerGrant_fields" zero_BrokerGrant ok_BrokerGrant 4
proof -
  have "codec enc_BrokerGrant (dec_struct BrokerGrant_fields) zero_BrokerGrant ok_BrokerGrant (3 + 1)"
  proof (rule struct_codec [OF enc_BrokerGrant_def, where keys = "[''provider'', ''repositories'', ''resources'', ''capabilities'', ''preparations'', ''materialization'', ''egress_hosts'', ''git'', ''permissions'', ''authorization'', ''quota'', ''allow_insecure_upstream'']"])
    show "list_all (field_ok ok_BrokerGrant) BrokerGrant_fields"
      unfolding BrokerGrant_fields_def list.pred_inject
      by (intro conjI TrueI fld_ok [OF string_codec.req.field_codec_axioms]
          fld_ok [OF omit_strings.field_codec_axioms]
          fld_ok [OF omit_string.field_codec_axioms]
          fld_ok [OF omit_false.field_codec_axioms]
          fld_ok [OF omit_map.field_codec_axioms]
          fld_ok [OF pointer_codec [OF BrokerGrantAuthorization_codec.codec_axioms]]
          fld_ok [OF pointer_codec [OF BrokerGrantQuota_codec.codec_axioms]]) (simp_all add: ok_BrokerGrant_def)
    show "field_run 3 BrokerGrant_fields [(''provider'', Some (enc_string (Provider v))),
        (''repositories'', omit_empty enc_string (grant_Repositories v)),
        (''resources'', omit_empty enc_string (grant_Resources v)),
        (''capabilities'', omit_empty enc_string (grant_Capabilities v)),
        (''preparations'', omit_empty enc_string (Preparations v)),
        (''materialization'', omit_string (Materialization v)),
        (''egress_hosts'', omit_empty enc_string (EgressHosts v)),
        (''git'', omit_false (Git v)),
        (''permissions'', omit_map (Permissions v)),
        (''authorization'', map_option enc_BrokerGrantAuthorization (Authorization v)),
        (''quota'', map_option enc_BrokerGrantQuota (Quota v)),
        (''allow_insecure_upstream'', omit_false (AllowInsecureUpstream v))] zero_BrokerGrant v" if "ok_BrokerGrant v" for v
      by (insert that, unfold ok_BrokerGrant_def,
          rule field_step [OF string_codec.req.field_codec_axioms, where get = Provider and upd = Provider_update], (simp_all add: struct)[5],
          rule field_step [OF omit_strings.field_codec_axioms, where get = grant_Repositories and upd = grant_Repositories_update], (simp_all add: struct)[5],
          rule field_step [OF omit_strings.field_codec_axioms, where get = grant_Resources and upd = grant_Resources_update], (simp_all add: struct)[5],
          rule field_step [OF omit_strings.field_codec_axioms, where get = grant_Capabilities and upd = grant_Capabilities_update], (simp_all add: struct)[5],
          rule field_step [OF omit_strings.field_codec_axioms, where get = Preparations and upd = Preparations_update], (simp_all add: struct)[5],
          rule field_step [OF omit_string.field_codec_axioms, where get = Materialization and upd = Materialization_update], (simp_all add: struct)[5],
          rule field_step [OF omit_strings.field_codec_axioms, where get = EgressHosts and upd = EgressHosts_update], (simp_all add: struct)[5],
          rule field_step [OF omit_false.field_codec_axioms, where get = Git and upd = Git_update], (simp_all add: struct)[5],
          rule field_step [OF omit_map.field_codec_axioms, where get = Permissions and upd = Permissions_update], (simp_all add: struct)[5],
          rule field_step [OF pointer_codec [OF BrokerGrantAuthorization_codec.codec_axioms], where get = Authorization and upd = Authorization_update], (simp_all add: struct)[5],
          rule field_step [OF pointer_codec [OF BrokerGrantQuota_codec.codec_axioms], where get = Quota and upd = Quota_update], (simp_all add: struct)[5],
          rule field_step [OF omit_false.field_codec_axioms, where get = AllowInsecureUpstream and upd = AllowInsecureUpstream_update], (simp_all add: struct)[5],
          cases v, simp add: struct)
    show "ok_BrokerGrant zero_BrokerGrant" by (simp add: ok_BrokerGrant_def zero_BrokerGrant_def ok_map_def)
  qed (code_simp | simp)+
  then show "codec enc_BrokerGrant (dec_struct BrokerGrant_fields) zero_BrokerGrant ok_BrokerGrant 4" by simp
qed

definition ok_Broker :: "Broker \<Rightarrow> bool" where
  "ok_Broker v \<longleftrightarrow> list_all ok_BrokerGrant (Grants v)"

declare zero_Broker_def [struct] Broker_fields_def [struct]

interpretation Broker_codec: codec enc_Broker "dec_struct Broker_fields" zero_Broker ok_Broker 6
proof -
  have "codec enc_Broker (dec_struct Broker_fields) zero_Broker ok_Broker (5 + 1)"
  proof (rule struct_codec [OF enc_Broker_def, where keys = "[''grants'']"])
    show "list_all (field_ok ok_Broker) Broker_fields"
      unfolding Broker_fields_def list.pred_inject
      by (intro conjI TrueI fld_ok [OF omit_empty_codec [OF BrokerGrant_codec.codec_axioms]]) (simp_all add: ok_Broker_def)
    show "field_run 5 Broker_fields [(''grants'', omit_empty enc_BrokerGrant (Grants v))] zero_Broker v" if "ok_Broker v" for v
      by (insert that, unfold ok_Broker_def,
          rule field_step [OF omit_empty_codec [OF BrokerGrant_codec.codec_axioms], where get = Grants and upd = Grants_update], (simp_all add: struct)[5],
          cases v, simp add: struct)
    show "ok_Broker zero_Broker" by (simp add: ok_Broker_def zero_Broker_def )
  qed (code_simp | simp)+
  then show "codec enc_Broker (dec_struct Broker_fields) zero_Broker ok_Broker 6" by simp
qed

definition ok_DomainPolicy :: "DomainPolicy \<Rightarrow> bool" where
  "ok_DomainPolicy v \<longleftrightarrow> valid_utf8 (DefaultAction v)
     \<and> list_all valid_utf8 (Allow v)
     \<and> list_all valid_utf8 (Deny v)"

declare zero_DomainPolicy_def [struct] DomainPolicy_fields_def [struct]

interpretation DomainPolicy_codec: codec enc_DomainPolicy "dec_struct DomainPolicy_fields" zero_DomainPolicy ok_DomainPolicy 2
proof -
  have "codec enc_DomainPolicy (dec_struct DomainPolicy_fields) zero_DomainPolicy ok_DomainPolicy (1 + 1)"
  proof (rule struct_codec [OF enc_DomainPolicy_def, where keys = "[''default_action'', ''allow'', ''deny'']"])
    show "list_all (field_ok ok_DomainPolicy) DomainPolicy_fields"
      unfolding DomainPolicy_fields_def list.pred_inject
      by (intro conjI TrueI fld_ok [OF string_codec.req.field_codec_axioms]
          fld_ok [OF omit_strings.field_codec_axioms]) (simp_all add: ok_DomainPolicy_def)
    show "field_run 1 DomainPolicy_fields [(''default_action'', Some (enc_string (DefaultAction v))),
        (''allow'', omit_empty enc_string (Allow v)),
        (''deny'', omit_empty enc_string (Deny v))] zero_DomainPolicy v" if "ok_DomainPolicy v" for v
      by (insert that, unfold ok_DomainPolicy_def,
          rule field_step [OF string_codec.req.field_codec_axioms, where get = DefaultAction and upd = DefaultAction_update], (simp_all add: struct)[5],
          rule field_step [OF omit_strings.field_codec_axioms, where get = Allow and upd = Allow_update], (simp_all add: struct)[5],
          rule field_step [OF omit_strings.field_codec_axioms, where get = Deny and upd = Deny_update], (simp_all add: struct)[5],
          cases v, simp add: struct)
    show "ok_DomainPolicy zero_DomainPolicy" by (simp add: ok_DomainPolicy_def zero_DomainPolicy_def )
  qed (code_simp | simp)+
  then show "codec enc_DomainPolicy (dec_struct DomainPolicy_fields) zero_DomainPolicy ok_DomainPolicy 2" by simp
qed

definition ok_Egress :: "Egress \<Rightarrow> bool" where
  "ok_Egress v \<longleftrightarrow> valid_utf8 (egress_Mode v)
     \<and> valid_utf8 (Transport v)
     \<and> valid_utf8 (ProxyProvider v)
     \<and> fits 32 (MaxConcurrentTunnels v)
     \<and> pred_option ok_DomainPolicy (egress_DomainPolicy v)"

declare zero_Egress_def [struct] Egress_fields_def [struct]

interpretation Egress_codec: codec enc_Egress "dec_struct Egress_fields" zero_Egress ok_Egress 3
proof -
  have "codec enc_Egress (dec_struct Egress_fields) zero_Egress ok_Egress (2 + 1)"
  proof (rule struct_codec [OF enc_Egress_def, where keys = "[''mode'', ''transport'', ''enforced'', ''proxy_provider'', ''paired_egress_required'', ''allow_insecure_broker'', ''max_concurrent_tunnels'', ''domain_policy'']"])
    show "list_all (field_ok ok_Egress) Egress_fields"
      unfolding Egress_fields_def list.pred_inject
      by (intro conjI TrueI fld_ok [OF string_codec.req.field_codec_axioms]
          fld_ok [OF omit_string.field_codec_axioms]
          fld_ok [OF omit_false.field_codec_axioms]
          fld_ok [OF omit_zero32.field_codec_axioms]
          fld_ok [OF pointer_codec [OF DomainPolicy_codec.codec_axioms]]) (simp_all add: ok_Egress_def)
    show "field_run 2 Egress_fields [(''mode'', Some (enc_string (egress_Mode v))),
        (''transport'', omit_string (Transport v)),
        (''enforced'', omit_false (Enforced v)),
        (''proxy_provider'', omit_string (ProxyProvider v)),
        (''paired_egress_required'', omit_false (PairedEgressRequired v)),
        (''allow_insecure_broker'', omit_false (AllowInsecureBroker v)),
        (''max_concurrent_tunnels'', omit_zero (MaxConcurrentTunnels v)),
        (''domain_policy'', map_option enc_DomainPolicy (egress_DomainPolicy v))] zero_Egress v" if "ok_Egress v" for v
      by (insert that, unfold ok_Egress_def,
          rule field_step [OF string_codec.req.field_codec_axioms, where get = egress_Mode and upd = egress_Mode_update], (simp_all add: struct)[5],
          rule field_step [OF omit_string.field_codec_axioms, where get = Transport and upd = Transport_update], (simp_all add: struct)[5],
          rule field_step [OF omit_false.field_codec_axioms, where get = Enforced and upd = Enforced_update], (simp_all add: struct)[5],
          rule field_step [OF omit_string.field_codec_axioms, where get = ProxyProvider and upd = ProxyProvider_update], (simp_all add: struct)[5],
          rule field_step [OF omit_false.field_codec_axioms, where get = PairedEgressRequired and upd = PairedEgressRequired_update], (simp_all add: struct)[5],
          rule field_step [OF omit_false.field_codec_axioms, where get = AllowInsecureBroker and upd = AllowInsecureBroker_update], (simp_all add: struct)[5],
          rule field_step [OF omit_zero32.field_codec_axioms, where get = MaxConcurrentTunnels and upd = MaxConcurrentTunnels_update], (simp_all add: struct)[5],
          rule field_step [OF pointer_codec [OF DomainPolicy_codec.codec_axioms], where get = egress_DomainPolicy and upd = egress_DomainPolicy_update], (simp_all add: struct)[5],
          cases v, simp add: struct)
    show "ok_Egress zero_Egress" by (simp add: ok_Egress_def zero_Egress_def fits_def)
  qed (code_simp | simp)+
  then show "codec enc_Egress (dec_struct Egress_fields) zero_Egress ok_Egress 3" by simp
qed

definition ok_Resources :: "Resources \<Rightarrow> bool" where
  "ok_Resources v \<longleftrightarrow> valid_utf8 (CPURequest v)
     \<and> valid_utf8 (CPULimit v)
     \<and> valid_utf8 (MemoryRequest v)
     \<and> valid_utf8 (MemoryLimit v)"

declare zero_Resources_def [struct] Resources_fields_def [struct]

interpretation Resources_codec: codec enc_Resources "dec_struct Resources_fields" zero_Resources ok_Resources 1
proof -
  have "codec enc_Resources (dec_struct Resources_fields) zero_Resources ok_Resources (0 + 1)"
  proof (rule struct_codec [OF enc_Resources_def, where keys = "[''cpu_request'', ''cpu_limit'', ''memory_request'', ''memory_limit'']"])
    show "list_all (field_ok ok_Resources) Resources_fields"
      unfolding Resources_fields_def list.pred_inject
      by (intro conjI TrueI fld_ok [OF omit_string.field_codec_axioms]) (simp_all add: ok_Resources_def)
    show "field_run 0 Resources_fields [(''cpu_request'', omit_string (CPURequest v)),
        (''cpu_limit'', omit_string (CPULimit v)),
        (''memory_request'', omit_string (MemoryRequest v)),
        (''memory_limit'', omit_string (MemoryLimit v))] zero_Resources v" if "ok_Resources v" for v
      by (insert that, unfold ok_Resources_def,
          rule field_step [OF omit_string.field_codec_axioms, where get = CPURequest and upd = CPURequest_update], (simp_all add: struct)[5],
          rule field_step [OF omit_string.field_codec_axioms, where get = CPULimit and upd = CPULimit_update], (simp_all add: struct)[5],
          rule field_step [OF omit_string.field_codec_axioms, where get = MemoryRequest and upd = MemoryRequest_update], (simp_all add: struct)[5],
          rule field_step [OF omit_string.field_codec_axioms, where get = MemoryLimit and upd = MemoryLimit_update], (simp_all add: struct)[5],
          cases v, simp add: struct)
    show "ok_Resources zero_Resources" by (simp add: ok_Resources_def zero_Resources_def )
  qed (code_simp | simp)+
  then show "codec enc_Resources (dec_struct Resources_fields) zero_Resources ok_Resources 1" by simp
qed

definition ok_WorkspaceInstructions :: "WorkspaceInstructions \<Rightarrow> bool" where
  "ok_WorkspaceInstructions v \<longleftrightarrow> valid_utf8 (wi_Profile v)
     \<and> valid_utf8 (wi_Workflow v)"

declare zero_WorkspaceInstructions_def [struct] WorkspaceInstructions_fields_def [struct]

interpretation WorkspaceInstructions_codec: codec enc_WorkspaceInstructions "dec_struct WorkspaceInstructions_fields" zero_WorkspaceInstructions ok_WorkspaceInstructions 1
proof -
  have "codec enc_WorkspaceInstructions (dec_struct WorkspaceInstructions_fields) zero_WorkspaceInstructions ok_WorkspaceInstructions (0 + 1)"
  proof (rule struct_codec [OF enc_WorkspaceInstructions_def, where keys = "[''profile'', ''workflow'']"])
    show "list_all (field_ok ok_WorkspaceInstructions) WorkspaceInstructions_fields"
      unfolding WorkspaceInstructions_fields_def list.pred_inject
      by (intro conjI TrueI fld_ok [OF omit_string.field_codec_axioms]) (simp_all add: ok_WorkspaceInstructions_def)
    show "field_run 0 WorkspaceInstructions_fields [(''profile'', omit_string (wi_Profile v)),
        (''workflow'', omit_string (wi_Workflow v))] zero_WorkspaceInstructions v" if "ok_WorkspaceInstructions v" for v
      by (insert that, unfold ok_WorkspaceInstructions_def,
          rule field_step [OF omit_string.field_codec_axioms, where get = wi_Profile and upd = wi_Profile_update], (simp_all add: struct)[5],
          rule field_step [OF omit_string.field_codec_axioms, where get = wi_Workflow and upd = wi_Workflow_update], (simp_all add: struct)[5],
          cases v, simp add: struct)
    show "ok_WorkspaceInstructions zero_WorkspaceInstructions" by (simp add: ok_WorkspaceInstructions_def zero_WorkspaceInstructions_def )
  qed (code_simp | simp)+
  then show "codec enc_WorkspaceInstructions (dec_struct WorkspaceInstructions_fields) zero_WorkspaceInstructions ok_WorkspaceInstructions 1" by simp
qed

definition ok_Persistence :: "Persistence \<Rightarrow> bool" where
  "ok_Persistence v \<longleftrightarrow> True"

declare zero_Persistence_def [struct] Persistence_fields_def [struct]

interpretation Persistence_codec: codec enc_Persistence "dec_struct Persistence_fields" zero_Persistence ok_Persistence 1
proof -
  have "codec enc_Persistence (dec_struct Persistence_fields) zero_Persistence ok_Persistence (0 + 1)"
  proof (rule struct_codec [OF enc_Persistence_def, where keys = "[''workspace'', ''runtime_state'', ''docker_data'']"])
    show "list_all (field_ok ok_Persistence) Persistence_fields"
      unfolding Persistence_fields_def list.pred_inject
      by (intro conjI TrueI fld_ok [OF bool_codec.req.field_codec_axioms]
          fld_ok [OF omit_false.field_codec_axioms]) (simp_all add: ok_Persistence_def)
    show "field_run 0 Persistence_fields [(''workspace'', Some (enc_bool (Workspace v))),
        (''runtime_state'', Some (enc_bool (RuntimeState v))),
        (''docker_data'', omit_false (DockerData v))] zero_Persistence v" if "ok_Persistence v" for v
      by (insert that, unfold ok_Persistence_def,
          rule field_step [OF bool_codec.req.field_codec_axioms, where get = Workspace and upd = Workspace_update], (simp_all add: struct)[5],
          rule field_step [OF bool_codec.req.field_codec_axioms, where get = RuntimeState and upd = RuntimeState_update], (simp_all add: struct)[5],
          rule field_step [OF omit_false.field_codec_axioms, where get = DockerData and upd = DockerData_update], (simp_all add: struct)[5],
          cases v, simp add: struct)
    show "ok_Persistence zero_Persistence" by (simp add: ok_Persistence_def zero_Persistence_def )
  qed (code_simp | simp)+
  then show "codec enc_Persistence (dec_struct Persistence_fields) zero_Persistence ok_Persistence 1" by simp
qed

definition ok_TTL :: "TTL \<Rightarrow> bool" where
  "ok_TTL v \<longleftrightarrow> fits 64 (ActiveSeconds v)
     \<and> fits 64 (CompletedSeconds v)
     \<and> fits 64 (FailedSeconds v)
     \<and> fits 64 (RunRetentionSeconds v)"

declare zero_TTL_def [struct] TTL_fields_def [struct]

interpretation TTL_codec: codec enc_TTL "dec_struct TTL_fields" zero_TTL ok_TTL 1
proof -
  have "codec enc_TTL (dec_struct TTL_fields) zero_TTL ok_TTL (0 + 1)"
  proof (rule struct_codec [OF enc_TTL_def, where keys = "[''active_seconds'', ''completed_seconds'', ''failed_seconds'', ''run_retention_seconds'']"])
    show "list_all (field_ok ok_TTL) TTL_fields"
      unfolding TTL_fields_def list.pred_inject
      by (intro conjI TrueI fld_ok [OF omit_zero64.field_codec_axioms]) (simp_all add: ok_TTL_def)
    show "field_run 0 TTL_fields [(''active_seconds'', omit_zero (ActiveSeconds v)),
        (''completed_seconds'', omit_zero (CompletedSeconds v)),
        (''failed_seconds'', omit_zero (FailedSeconds v)),
        (''run_retention_seconds'', omit_zero (RunRetentionSeconds v))] zero_TTL v" if "ok_TTL v" for v
      by (insert that, unfold ok_TTL_def,
          rule field_step [OF omit_zero64.field_codec_axioms, where get = ActiveSeconds and upd = ActiveSeconds_update], (simp_all add: struct)[5],
          rule field_step [OF omit_zero64.field_codec_axioms, where get = CompletedSeconds and upd = CompletedSeconds_update], (simp_all add: struct)[5],
          rule field_step [OF omit_zero64.field_codec_axioms, where get = FailedSeconds and upd = FailedSeconds_update], (simp_all add: struct)[5],
          rule field_step [OF omit_zero64.field_codec_axioms, where get = RunRetentionSeconds and upd = RunRetentionSeconds_update], (simp_all add: struct)[5],
          cases v, simp add: struct)
    show "ok_TTL zero_TTL" by (simp add: ok_TTL_def zero_TTL_def fits_def)
  qed (code_simp | simp)+
  then show "codec enc_TTL (dec_struct TTL_fields) zero_TTL ok_TTL 1" by simp
qed

definition ok_Lifecycle :: "Lifecycle \<Rightarrow> bool" where
  "ok_Lifecycle v \<longleftrightarrow> list_all valid_utf8 (CompleteOn v)
     \<and> list_all valid_utf8 (FailOn v)"

declare zero_Lifecycle_def [struct] Lifecycle_fields_def [struct]

interpretation Lifecycle_codec: codec enc_Lifecycle "dec_struct Lifecycle_fields" zero_Lifecycle ok_Lifecycle 2
proof -
  have "codec enc_Lifecycle (dec_struct Lifecycle_fields) zero_Lifecycle ok_Lifecycle (1 + 1)"
  proof (rule struct_codec [OF enc_Lifecycle_def, where keys = "[''complete_on'', ''fail_on'']"])
    show "list_all (field_ok ok_Lifecycle) Lifecycle_fields"
      unfolding Lifecycle_fields_def list.pred_inject
      by (intro conjI TrueI fld_ok [OF omit_strings.field_codec_axioms]) (simp_all add: ok_Lifecycle_def)
    show "field_run 1 Lifecycle_fields [(''complete_on'', omit_empty enc_string (CompleteOn v)),
        (''fail_on'', omit_empty enc_string (FailOn v))] zero_Lifecycle v" if "ok_Lifecycle v" for v
      by (insert that, unfold ok_Lifecycle_def,
          rule field_step [OF omit_strings.field_codec_axioms, where get = CompleteOn and upd = CompleteOn_update], (simp_all add: struct)[5],
          rule field_step [OF omit_strings.field_codec_axioms, where get = FailOn and upd = FailOn_update], (simp_all add: struct)[5],
          cases v, simp add: struct)
    show "ok_Lifecycle zero_Lifecycle" by (simp add: ok_Lifecycle_def zero_Lifecycle_def )
  qed (code_simp | simp)+
  then show "codec enc_Lifecycle (dec_struct Lifecycle_fields) zero_Lifecycle ok_Lifecycle 2" by simp
qed

definition ok_ExecutionBackend :: "ExecutionBackend \<Rightarrow> bool" where
  "ok_ExecutionBackend v \<longleftrightarrow> valid_utf8 (be_Name v)
     \<and> valid_utf8 (be_Kind v)"

declare zero_ExecutionBackend_def [struct] ExecutionBackend_fields_def [struct]

interpretation ExecutionBackend_codec: codec enc_ExecutionBackend "dec_struct ExecutionBackend_fields" zero_ExecutionBackend ok_ExecutionBackend 1
proof -
  have "codec enc_ExecutionBackend (dec_struct ExecutionBackend_fields) zero_ExecutionBackend ok_ExecutionBackend (0 + 1)"
  proof (rule struct_codec [OF enc_ExecutionBackend_def, where keys = "[''name'', ''kind'']"])
    show "list_all (field_ok ok_ExecutionBackend) ExecutionBackend_fields"
      unfolding ExecutionBackend_fields_def list.pred_inject
      by (intro conjI TrueI fld_ok [OF string_codec.req.field_codec_axioms]) (simp_all add: ok_ExecutionBackend_def)
    show "field_run 0 ExecutionBackend_fields [(''name'', Some (enc_string (be_Name v))),
        (''kind'', Some (enc_string (be_Kind v)))] zero_ExecutionBackend v" if "ok_ExecutionBackend v" for v
      by (insert that, unfold ok_ExecutionBackend_def,
          rule field_step [OF string_codec.req.field_codec_axioms, where get = be_Name and upd = be_Name_update], (simp_all add: struct)[5],
          rule field_step [OF string_codec.req.field_codec_axioms, where get = be_Kind and upd = be_Kind_update], (simp_all add: struct)[5],
          cases v, simp add: struct)
    show "ok_ExecutionBackend zero_ExecutionBackend" by (simp add: ok_ExecutionBackend_def zero_ExecutionBackend_def )
  qed (code_simp | simp)+
  then show "codec enc_ExecutionBackend (dec_struct ExecutionBackend_fields) zero_ExecutionBackend ok_ExecutionBackend 1" by simp
qed

definition ok_Workflow :: "Workflow \<Rightarrow> bool" where
  "ok_Workflow v \<longleftrightarrow> valid_utf8 (wf_Name v)
     \<and> list_all ok_Repository (wf_Repositories v)
     \<and> valid_utf8 (wf_WorkspaceInstructions v)
     \<and> pred_option ok_Lifecycle (wf_Lifecycle v)"

declare zero_Workflow_def [struct] Workflow_fields_def [struct]

interpretation Workflow_codec: codec enc_Workflow "dec_struct Workflow_fields" zero_Workflow ok_Workflow 4
proof -
  have "codec enc_Workflow (dec_struct Workflow_fields) zero_Workflow ok_Workflow (3 + 1)"
  proof (rule struct_codec [OF enc_Workflow_def, where keys = "[''name'', ''repositories'', ''workspace_instructions'', ''lifecycle'']"])
    show "list_all (field_ok ok_Workflow) Workflow_fields"
      unfolding Workflow_fields_def list.pred_inject
      by (intro conjI TrueI fld_ok [OF string_codec.req.field_codec_axioms]
          fld_ok [OF omit_empty_codec [OF Repository_codec.codec_axioms]]
          fld_ok [OF omit_string.field_codec_axioms]
          fld_ok [OF pointer_codec [OF Lifecycle_codec.codec_axioms]]) (simp_all add: ok_Workflow_def)
    show "field_run 3 Workflow_fields [(''name'', Some (enc_string (wf_Name v))),
        (''repositories'', omit_empty enc_Repository (wf_Repositories v)),
        (''workspace_instructions'', omit_string (wf_WorkspaceInstructions v)),
        (''lifecycle'', map_option enc_Lifecycle (wf_Lifecycle v))] zero_Workflow v" if "ok_Workflow v" for v
      by (insert that, unfold ok_Workflow_def,
          rule field_step [OF string_codec.req.field_codec_axioms, where get = wf_Name and upd = wf_Name_update], (simp_all add: struct)[5],
          rule field_step [OF omit_empty_codec [OF Repository_codec.codec_axioms], where get = wf_Repositories and upd = wf_Repositories_update], (simp_all add: struct)[5],
          rule field_step [OF omit_string.field_codec_axioms, where get = wf_WorkspaceInstructions and upd = wf_WorkspaceInstructions_update], (simp_all add: struct)[5],
          rule field_step [OF pointer_codec [OF Lifecycle_codec.codec_axioms], where get = wf_Lifecycle and upd = wf_Lifecycle_update], (simp_all add: struct)[5],
          cases v, simp add: struct)
    show "ok_Workflow zero_Workflow" by (simp add: ok_Workflow_def zero_Workflow_def )
  qed (code_simp | simp)+
  then show "codec enc_Workflow (dec_struct Workflow_fields) zero_Workflow ok_Workflow 4" by simp
qed

end
