(* ===== verification/JSON_Member.thy ===== *)
theory JSON_Member
  imports JSON_Raw
begin

text \<open>
  The raw text that the parser records for a member of a document is itself a document with the
  value of the member: what a \<^verbatim>\<open>json.RawMessage\<close> field receives can be decoded again.
\<close>

section \<open>Running tokens\<close>

fun run_tokens :: "(string \<times> token) list \<Rightarrow> pstate \<Rightarrow> pstate option" where
  "run_tokens [] ps = Some ps"
| "run_tokens (t # ts) ps = (case parse_token t ps of None \<Rightarrow> None | Some ps' \<Rightarrow> run_tokens ts ps')"

definition text_of :: "(string \<times> token) list \<Rightarrow> string" where
  "text_of ts = concat (map (\<lambda>(ws, t). ws @ token_text t) ts)"

lemma text_of_simps [simp]:
  "text_of [] = []" "text_of ((ws, t) # ts) = ws @ token_text t @ text_of ts" "text_of (us @ ts) = text_of us @ text_of ts"
  by (simp_all add: text_of_def)

lemma run_append: "run_tokens (us @ ts) ps = (case run_tokens us ps of None \<Rightarrow> None | Some ps' \<Rightarrow> run_tokens ts ps')"
  by (induction us arbitrary: ps) (auto split: option.splits)

lemma parse_tokens_run: "parse_tokens ts ps = (case run_tokens ts ps of Some (EDone v, _) \<Rightarrow> Some v | _ \<Rightarrow> None)"
proof (induction ts arbitrary: ps)
  case Nil
  show ?case by (cases ps) (auto split: expect.splits)
qed (auto split: option.splits)

section \<open>Lexing the text of accepted tokens\<close>

definition spaced :: "(string \<times> token) list \<Rightarrow> bool" where
  "spaced ts \<longleftrightarrow> list_all (\<lambda>(ws, t). list_all json_space ws) ts"

lemma spaced_simps [simp]:
  "spaced []" "spaced ((ws, t) # ts) \<longleftrightarrow> list_all json_space ws \<and> spaced ts" "spaced (us @ ts) \<longleftrightarrow> spaced us \<and> spaced ts"
  by (simp_all add: spaced_def)

lemma lex_spaces: "list_all json_space ws \<Longrightarrow> lex LexStart acc (ws @ s) = lex LexStart (rev ws @ acc) s"
  by (induction ws arbitrary: acc) auto

lemma lex_spaced: "lex m acc s = Some ts \<Longrightarrow> list_all json_space acc \<Longrightarrow> spaced ts"
  by (induction m acc s arbitrary: ts rule: lex.induct) (auto split: if_splits)

definition word_end :: "string \<Rightarrow> bool" where
  "word_end s \<longleftrightarrow> s = [] \<or> json_punct (hd s) \<or> json_space (hd s)"

lemma lex_word_end:
  "list_all (\<lambda>c. \<not> json_space c \<and> \<not> json_punct c \<and> c \<noteq> CHR 0x22) w \<Longrightarrow> word_end rest \<Longrightarrow>
     lex (LexWord acc) ws (w @ rest) = map_option ((#) (rev ws, TWord (rev acc @ w))) (lex LexStart [] rest)"
proof (induction w arbitrary: acc)
  case Nil
  then show ?case
    by (cases rest) (auto simp: word_end_def punct_not_space option.map_comp comp_def)
qed auto

lemma lex_token:
  assumes "case t of TPunct c \<Rightarrow> json_punct c | TString b \<Rightarrow> unquote b \<noteq> None | TWord w \<Rightarrow> word_value w \<noteq> None \<and> word_end rest"
  shows "lex LexStart acc (token_text t @ rest) = map_option ((#) (rev acc, t)) (lex LexStart [] rest)"
proof (cases t)
  case (TPunct c)
  then show ?thesis using assms by (simp add: punct_not_space)
next
  case (TString b)
  have q: "\<not> json_space (CHR 0x22)" "\<not> json_punct (CHR 0x22)" by code_simp+
  have "scan_ok b" using assms TString unquote_scan by auto
  then show ?thesis using lex_literal [of b "[]" acc rest] q by (simp add: TString)
next
  case (TWord w)
  then have w: "word_chars w" "word_end rest" using assms word_value_ok(1) by auto
  then obtain c cs where c: "w = c # cs" by (cases w) (auto simp: word_chars_def)
  then show ?thesis using lex_word_end [of cs rest "[c]" acc] w by (simp add: TWord word_chars_def)
qed

lemma relex:
  assumes "run_tokens ts ps \<noteq> None" "spaced ts"
  shows "lex LexStart [] (text_of ts) = Some ts"
  using assms
proof (induction ts arbitrary: ps)
  case (Cons wt ts)
  obtain ws t e fs where wt: "wt = (ws, t)" "ps = (e, fs)" by (cases wt, cases ps)
  obtain ps' where p: "parse_token (ws, t) (e, fs) = Some ps'" "run_tokens ts ps' \<noteq> None"
    using Cons.prems(1) by (auto simp: wt split: option.splits)
  have "word_end (text_of ts)" if "t = TWord w" for w
  proof (cases ts)
    case (Cons u us)
    obtain vs u' e' fs' where u: "u = (vs, u')" "ps' = (e', fs')" by (cases u, cases ps')
    then have "parse_token (vs, u') (e', fs') \<noteq> None" using p(2) Cons by (auto split: option.splits)
    moreover have "e' = ENext \<or> (\<exists>v. e' = EDone v)" using word_state p(1) that u by force
    ultimately obtain c where "u' = TPunct c" by (cases u') (auto simp: parse_token_def)
    then have "json_punct c" using accepted_token \<open>parse_token (vs, u') (e', fs') \<noteq> None\<close> by fastforce
    then show ?thesis using Cons.prems(2) \<open>u' = TPunct c\<close>
      by (cases vs) (auto simp: word_end_def wt Cons u)
  qed (simp add: word_end_def)
  then have "lex LexStart (rev ws) (token_text t @ text_of ts) = map_option ((#) (ws, t)) (lex LexStart [] (text_of ts))"
    using accepted_token [OF p(1)] lex_token [where t = t and rest = "text_of ts" and acc = "rev ws"] by (cases t) auto
  then show ?case using Cons.IH [OF p(2)] Cons.prems(2) lex_spaces [of ws "[]"] by (simp add: wt)
qed simp

section \<open>Frames and values that can be replayed\<close>

text \<open>
  A value is replayable when the tokens of its text, read with any white space before them where a
  value is expected, deliver it; a frame when the tokens of its text so far lead to the frame.
\<close>

definition starts_value :: "expect \<Rightarrow> bool" where
  "starts_value e \<longleftrightarrow> e = EValue \<or> e = EFirst"

definition value_replays :: "string \<Rightarrow> json \<Rightarrow> bool" where
  "value_replays x v \<longleftrightarrow> (\<exists>t ts. x = token_text t @ text_of ts \<and> spaced ts
     \<and> (\<forall>ws e st. starts_value e \<longrightarrow> run_tokens ((ws, t) # ts) (e, st) = Some (deliver ws x v st)))"

fun with_lead :: "string \<Rightarrow> frame \<Rightarrow> frame" where
  "with_lead ws (FArray l raw vs) = FArray ws raw vs"
| "with_lead ws (FObject l raw ms k) = FObject ws raw ms k"

fun frame_lead :: "frame \<Rightarrow> string" where
  "frame_lead (FArray l raw vs) = l"
| "frame_lead (FObject l raw ms k) = l"

lemma with_own_lead: "with_lead (frame_lead f) f = f"
  by (cases f) simp_all

fun frame_members :: "frame \<Rightarrow> (string \<times> string \<times> json) list" where
  "frame_members (FArray l raw vs) = []"
| "frame_members (FObject l raw ms k) = ms"

definition members_replay :: "(string \<times> string \<times> json) list \<Rightarrow> bool" where
  "members_replay ms \<longleftrightarrow> list_all (\<lambda>(k, x, v). value_replays x v) ms"

definition frame_replays :: "expect \<Rightarrow> frame \<Rightarrow> bool" where
  "frame_replays e f \<longleftrightarrow> members_replay (frame_members f) \<and> list_all json_space (frame_lead f)
     \<and> (\<exists>t ts. frame_text f = token_text t @ text_of ts \<and> spaced ts
     \<and> (\<forall>ws e' st. starts_value e' \<longrightarrow> run_tokens ((ws, t) # ts) (e', st) = Some (e, with_lead ws f # st)))"

definition waiting :: "frame \<Rightarrow> bool" where
  "waiting f \<longleftrightarrow> (\<exists>e. starts_value e \<and> frame_replays e f)"

definition state_replays :: "pstate \<Rightarrow> bool" where
  "state_replays ps \<longleftrightarrow> (case ps of
       (EDone v, fs) \<Rightarrow> (case v of JObject ms \<Rightarrow> members_replay ms | _ \<Rightarrow> True)
     | (e, []) \<Rightarrow> e = EValue
     | (e, f # fs) \<Rightarrow> frame_replays e f \<and> list_all waiting fs)"

text \<open>One more token of an open frame.\<close>

lemma frame_replays_step:
  assumes "frame_replays e f" "list_all json_space ws"
    "\<And>lead st. parse_token (ws, t) (e, with_lead lead f # st) = Some (e', with_lead lead f' # st)"
    "frame_text f' = frame_text f @ ws @ token_text t" "members_replay (frame_members f')"
    "frame_lead f' = frame_lead f"
  shows "frame_replays e' f'"
proof -
  obtain u us where u: "frame_text f = token_text u @ text_of us" "spaced us"
      "\<forall>ws e' st. starts_value e' \<longrightarrow> run_tokens ((ws, u) # us) (e', st) = Some (e, with_lead ws f # st)"
      and lead: "list_all json_space (frame_lead f)"
    using assms(1) by (auto simp: frame_replays_def)
  have "run_tokens ((vs, u) # us @ [(ws, t)]) (e0, st) = Some (e', with_lead vs f' # st)" if "starts_value e0" for vs e0 st
    using u(3) that assms(3) run_append [of "(vs, u) # us" "[(ws, t)]"] by simp
  then show ?thesis
    unfolding frame_replays_def using u(1,2) assms(2,4,5,6) lead
    by (intro conjI exI [of _ u] exI [of _ "us @ [(ws, t)]"]) auto
qed

lemma deliver_replays:
  assumes "value_replays x v" "list_all waiting fs" "list_all json_space ws"
    "case v of JObject ms \<Rightarrow> members_replay ms | _ \<Rightarrow> True"
  shows "state_replays (deliver ws x v fs)"
proof (cases fs)
  case Nil
  then show ?thesis using assms(4) by (simp add: state_replays_def)
next
  case (Cons f fs')
  then obtain e where e: "starts_value e" "frame_replays e f" using assms(2) by (auto simp: waiting_def)
  define f' where "f' = hd (snd (deliver ws x v [f]))"
  have f': "deliver ws x v (with_lead lead f # st) = (ENext, with_lead lead f' # st)"
      "deliver ws x v (f # fs') = (ENext, f' # fs')" "frame_text f' = frame_text f @ ws @ x"
      "frame_members f' = frame_members f \<or> (\<exists>k. frame_members f' = (k, x, v) # frame_members f)"
      "frame_lead f' = frame_lead f" for lead st
    by (cases f; simp add: f'_def)+
  obtain t ts where t: "x = token_text t @ text_of ts" "spaced ts"
      "\<forall>ws e st. starts_value e \<longrightarrow> run_tokens ((ws, t) # ts) (e, st) = Some (deliver ws x v st)"
    using assms(1) by (auto simp: value_replays_def)
  obtain u us where u: "frame_text f = token_text u @ text_of us" "spaced us"
      "\<forall>ws e' st. starts_value e' \<longrightarrow> run_tokens ((ws, u) # us) (e', st) = Some (e, with_lead ws f # st)"
    using e(2) by (auto simp: frame_replays_def)
  have "run_tokens ((vs, u) # us @ (ws, t) # ts) (e0, st) = Some (ENext, with_lead vs f' # st)" if "starts_value e0" for vs e0 st
    using u(3) t(3) e(1) that f'(1) run_append [of "(vs, u) # us" "(ws, t) # ts"] by simp
  moreover have "members_replay (frame_members f')"
    using f'(4) e(2) assms(1) by (auto simp: frame_replays_def members_replay_def)
  ultimately have "frame_replays ENext f'"
    unfolding frame_replays_def using u(1,2) t(1,2) assms(3) f'(3,5) e(2) [unfolded frame_replays_def]
    by (intro conjI exI [of _ u] exI [of _ "us @ (ws, t) # ts"]) auto
  then show ?thesis using assms(2) by (simp add: Cons f'(2) state_replays_def)
qed

lemma close_replays:
  assumes "close ws c fs = Some ps" "state_replays (e, fs)" "fs \<noteq> []" "list_all json_space ws"
    "\<And>st. parse_token (ws, TPunct c) (e, st) = close ws c st" "\<forall>v. e \<noteq> EDone v"
  shows "state_replays ps"
proof -
  obtain f fs' where fs: "fs = f # fs'" using assms(3) by (cases fs) auto
  then have f: "frame_replays e f" "list_all waiting fs'"
    using assms(2,6) by (cases e; simp add: state_replays_def)+
  define x v where "x = frame_text f @ ws @ [c]"
    and "v = (case f of FArray l raw vs \<Rightarrow> JArray (rev vs) | FObject l raw ms k \<Rightarrow> JObject (rev ms))"
  have cl: "close ws c (with_lead lead f # st) = Some (deliver lead x v st)" for lead st
    using assms(1) by (cases f) (auto simp: fs x_def v_def split: if_splits)
  have lead: "ps = deliver (frame_lead f) x v fs'" "list_all json_space (frame_lead f)"
    using assms(1) cl [of "frame_lead f" fs'] f(1) by (simp_all add: fs with_own_lead frame_replays_def)
  obtain u us where u: "frame_text f = token_text u @ text_of us" "spaced us"
      "\<forall>ws e' st. starts_value e' \<longrightarrow> run_tokens ((ws, u) # us) (e', st) = Some (e, with_lead ws f # st)"
    using f(1) by (auto simp: frame_replays_def)
  have "run_tokens ((vs, u) # us @ [(ws, TPunct c)]) (e0, st) = Some (deliver vs x v st)" if "starts_value e0" for vs e0 st
    using u(3) that assms(5) cl run_append [of "(vs, u) # us" "[(ws, TPunct c)]"] by simp
  then have "value_replays x v"
    unfolding value_replays_def using u(1,2) assms(4)
    by (intro exI [of _ u] exI [of _ "us @ [(ws, TPunct c)]"]) (auto simp: x_def)
  moreover have "case v of JObject ms \<Rightarrow> members_replay ms | _ \<Rightarrow> True"
    using f(1) by (cases f) (auto simp: v_def frame_replays_def members_replay_def list_all_iff)
  ultimately show ?thesis unfolding lead(1) using f(2) lead(2) by (intro deliver_replays)
qed

lemma open_value_replays:
  assumes "open_value ws t fs = Some ps" "list_all waiting fs" "list_all json_space ws"
  shows "state_replays ps"
proof -
  have starts: "parse_token (vs, t) (e, st) = open_value vs t st" if "starts_value e" for vs e st
    using that assms(1) by (auto simp: starts_value_def parse_token_def open_value_def)
  have scalar: "state_replays (deliver ws (token_text t) v fs)"
    if "\<And>vs st. open_value vs t st = Some (deliver vs (token_text t) v st)" "\<forall>ms. v \<noteq> JObject ms" for v
  proof (rule deliver_replays [OF _ assms(2,3)])
    show "value_replays (token_text t) v"
      unfolding value_replays_def using that(1) starts by (intro exI [of _ t] exI [of _ "[]"]) auto
    show "case v of JObject ms \<Rightarrow> members_replay ms | _ \<Rightarrow> True" using that(2) by (cases v) auto
  qed
  show ?thesis
  proof (cases t)
    case (TPunct c)
    then obtain e f where ps: "ps = (e, f # fs)" "c = CHR ''{'' \<and> e = EFirstKey \<and> f = FObject ws [[c]] [] []
        \<or> c = CHR ''['' \<and> e = EFirst \<and> f = FArray ws [[c]] []"
      using assms(1) by (auto simp: open_value_def split: if_splits)
    have "run_tokens [(vs, t)] (e', st) = Some (e, with_lead vs f # st)" if "starts_value e'" for vs e' st
      using ps(2) starts [OF that] by (auto simp: TPunct open_value_def)
    then have "frame_replays e f"
      unfolding frame_replays_def using ps(2) assms(3) TPunct
      by (intro conjI exI [of _ t] exI [of _ "[]"]) (auto simp: members_replay_def)
    then show ?thesis using ps assms(2) by (auto simp: state_replays_def)
  next
    case (TString b)
    then obtain x where "unquote b = Some x" "ps = deliver ws (token_text t) (JString x) fs"
      using assms(1) by (auto simp: open_value_def)
    then show ?thesis using scalar [of "JString x"] by (auto simp: open_value_def TString)
  next
    case (TWord w)
    then obtain x where x: "word_value w = Some x" "ps = deliver ws (token_text t) x fs"
      using assms(1) by (auto simp: open_value_def)
    moreover from x(1) have "\<forall>ms. x \<noteq> JObject ms" by (auto simp: word_value_def split: if_splits)
    ultimately show ?thesis using scalar [of x] by (auto simp: open_value_def TWord)
  qed
qed

lemma step_replays:
  assumes "frame_replays e f" "list_all waiting fs" "list_all json_space ws" "\<forall>v. e' \<noteq> EDone v"
    "parse_token (ws, t) (e, f # fs) = Some (e', f' # fs)"
    "\<And>lead st. parse_token (ws, t) (e, with_lead lead f # st) = Some (e', with_lead lead f' # st)"
    "frame_text f' = frame_text f @ ws @ token_text t" "frame_members f' = frame_members f" "frame_lead f' = frame_lead f"
  shows "state_replays (e', f' # fs)"
proof -
  have "frame_replays e' f'"
    by (rule frame_replays_step [OF assms(1,3,6,7)]) (use assms(1,8,9) in \<open>auto simp: frame_replays_def\<close>)
  then show ?thesis using assms(2,4) by (cases e') (auto simp: state_replays_def)
qed

lemma parse_token_replays:
  assumes "parse_token (ws, t) (e, fs) = Some ps" "state_replays (e, fs)" "list_all json_space ws"
  shows "state_replays ps"
proof -
  have opens: "state_replays ps" if "starts_value e" "open_value ws t fs = Some ps"
    using that assms(2,3)
    by (intro open_value_replays [OF that(2) _ assms(3)], cases fs)
       (auto simp: state_replays_def starts_value_def waiting_def)
  have closes: "state_replays ps" if "close ws c fs = Some ps" "t = TPunct c" "\<forall>v. e \<noteq> EDone v"
    "\<And>st. parse_token (ws, TPunct c) (e, st) = close ws c st" for c
    using close_replays [OF that(1) assms(2) _ assms(3) that(4,3)] that(1) by (cases fs) auto
  have frame: "frame_replays e f \<and> list_all waiting fs'" if "fs = f # fs'" "\<forall>v. e \<noteq> EDone v" for f fs'
    using assms(2) that by (cases e) (auto simp: state_replays_def)
  have keys: "state_replays ps" if key: "open_key ws t fs = Some ps" "e = EFirstKey \<or> e = EKey"
  proof -
    obtain b l raw ms k fs' x where t: "t = TString b" "fs = FObject l raw ms k # fs'" "unquote b = Some x"
      "ps = (EColon, FObject l (token_text (TString b) # ws # raw) ms x # fs')"
      using key(1) by (cases "(ws, t, fs)" rule: open_key.cases) auto
    show ?thesis unfolding t(4)
      by (rule step_replays [where e = e and t = t and ws = ws and f = "FObject l raw ms k"])
         (use frame [OF t(2)] key(2) t assms(1,3) in \<open>auto simp: parse_token_def\<close>)
  qed
  show ?thesis
  proof (cases e)
    case EValue
    then show ?thesis using assms(1) opens by (simp add: parse_token_def starts_value_def)
  next
    case EFirst
    then show ?thesis using assms(1) opens closes [of "CHR '']''"]
      by (auto simp: parse_token_def starts_value_def split: if_splits)
  next
    case EFirstKey
    then show ?thesis using assms(1) keys closes [of "CHR ''}''"]
      by (auto simp: parse_token_def split: if_splits)
  next
    case EKey
    then show ?thesis using assms(1) keys by (simp add: parse_token_def)
  next
    case EColon
    then have c: "colon ws fs = Some ps" "t = TPunct (CHR '':'')" using assms(1) by (auto simp: parse_token_def split: if_splits)
    then obtain l raw ms k fs' where f: "fs = FObject l raw ms k # fs'"
        "ps = (EValue, FObject l ('':'' # ws # raw) ms k # fs')"
      by (cases "(ws, fs)" rule: colon.cases) auto
    show ?thesis unfolding f(2)
      by (rule step_replays [where e = e and t = t and ws = ws and f = "FObject l raw ms k"])
         (use frame [OF f(1)] EColon c f assms(1,3) in \<open>auto simp: parse_token_def\<close>)
  next
    case ENext
    then obtain c where c: "t = TPunct c" using assms(1) by (cases t) (auto simp: parse_token_def)
    show ?thesis
    proof (cases "c = CHR '',''")
      case True
      then have sep: "separate ws fs = Some ps" using assms(1) ENext c by (simp add: parse_token_def)
      then obtain f fs' where fs: "fs = f # fs'" by (cases fs) auto
      define f' where "f' = (case f of FArray l raw vs \<Rightarrow> FArray l ('','' # ws # raw) vs
          | FObject l raw ms k \<Rightarrow> FObject l ('','' # ws # raw) ms k)"
      define e' where "e' = fst ps"
      have ps: "ps = (e', f' # fs')" "e' = EValue \<or> e' = EKey"
        using sep by (cases f; simp add: fs f'_def e'_def; auto)+
      show ?thesis unfolding ps(1)
        by (rule step_replays [where e = e and t = t and ws = ws and f = f], cases f)
           (use frame [OF fs] ENext c True ps fs sep assms(1,3) in \<open>auto simp: parse_token_def f'_def split: frame.splits\<close>)
    next
      case False
      then show ?thesis using assms(1) ENext c closes [of c] by (auto simp: parse_token_def)
    qed
  next
    case (EDone v)
    then show ?thesis using assms(1) by (simp add: parse_token_def)
  qed
qed

theorem raw_member:
  assumes "json_value s = Some (JObject ms)" "(k, x, v) \<in> set ms"
  shows "json_value x = Some v"
proof -
  obtain ts where ts: "lex LexStart [] s = Some ts" "parse_tokens ts (EValue, []) = Some (JObject ms)"
    using assms(1) by (auto simp: json_value_def split: option.splits)
  have "state_replays ps'" if "run_tokens us ps = Some ps'" "state_replays ps" "spaced us" for us ps ps'
    using that
  proof (induction us arbitrary: ps)
    case (Cons wt us)
    then show ?case using parse_token_replays by (cases wt, cases ps) (auto split: option.splits)
  qed simp
  moreover have "spaced ts" using lex_spaced [OF ts(1)] by simp
  moreover obtain fs where "run_tokens ts (EValue, []) = Some (EDone (JObject ms), fs)"
    using ts(2) by (auto simp: parse_tokens_run split: option.splits prod.splits expect.splits)
  ultimately have "state_replays (EDone (JObject ms), fs)" by (fastforce simp: state_replays_def)
  then have "value_replays x v" using assms(2) by (auto simp: state_replays_def members_replay_def list_all_iff)
  then obtain t us where u: "x = token_text t @ text_of us" "spaced us" "run_tokens (([], t) # us) (EValue, []) = Some (EDone v, [])"
    by (auto simp: value_replays_def starts_value_def)
  have "lex LexStart [] (text_of (([], t) # us)) = Some (([], t) # us)"
    by (rule relex [where ps = "(EValue, [])"]) (use u in auto)
  then show ?thesis using u by (simp add: json_value_def parse_tokens_run del: run_tokens.simps)
qed

section \<open>The compact text of a compact text\<close>

lemma run_compact:
  assumes "run_tokens ts (e, fs) = Some (EDone v, [])" "list_all2 frame_sim fs gs" "\<forall>v. e \<noteq> EDone v"
  shows "\<exists>v'. run_tokens (map (\<lambda>(ws, t). ([], compact_token t)) ts) (e, gs) = Some (EDone v', [])"
  using assms
proof (induction ts arbitrary: e fs gs)
  case (Cons wt ts)
  obtain ws t where wt: "wt = (ws, t)" by (cases wt)
  obtain e1 fs1 where p: "parse_token (ws, t) (e, fs) = Some (e1, fs1)" "run_tokens ts (e1, fs1) = Some (EDone v, [])"
    using Cons.prems(1) by (auto simp: wt split: option.splits)
  obtain P where P: "parse_token ([], compact_token t) (e, gs) = Some (P [])"
      "step_sim (stack_text gs @ token_text (compact_token t)) (e1, fs1) P"
    using parse_token_sim [OF Cons.prems(2) p(1), of e] append_Nil2 by metis
  show ?case
  proof (cases "\<exists>v. e1 = EDone v")
    case True
    then have "ts = []" using p(2) by (cases ts) (auto simp: parse_token_def split: option.splits)
    then show ?thesis using P p(2) True by (auto simp: wt step_sim_def)
  next
    case False
    then obtain gs1 where gs1: "P [] = (e1, gs1)" "list_all2 frame_sim fs1 gs1" using P(2) by (auto simp: step_sim_def)
    show ?thesis using Cons.IH [OF p(2) gs1(2)] False P(1) gs1(1) by (auto simp: wt)
  qed
qed (use assms in simp)

lemma deliver_done: "deliver ws x v fs = (EDone u, gs) \<Longrightarrow> gs = []"
  by (cases "(ws, x, v, fs)" rule: deliver.cases) auto

lemma token_done: "parse_token (ws, t) (e, fs) = Some (EDone v, gs) \<Longrightarrow> gs = []"
  by (cases e; cases "(ws, fs)" rule: separate.cases; cases t)
     (auto simp: parse_token_def open_value_def split: if_splits token.splits dest: deliver_done)

lemma run_done: "run_tokens ts ps = Some (EDone v, gs) \<Longrightarrow> (\<forall>v. fst ps \<noteq> EDone v) \<Longrightarrow> gs = []"
proof (induction ts arbitrary: ps)
  case (Cons wt ts)
  obtain ps' where p: "parse_token wt ps = Some ps'" "run_tokens ts ps' = Some (EDone v, gs)"
    using Cons.prems(1) by (auto split: option.splits)
  show ?case
  proof (cases "\<exists>u. fst ps' = EDone u")
    case True
    then obtain u hs where ps': "ps' = (EDone u, hs)" by (cases ps') auto
    moreover have "hs = []" using token_done [of "fst wt" "snd wt" "fst ps" "snd ps" u hs] p(1) ps' by simp
    ultimately show ?thesis using p(2) by (cases ts) (auto simp: parse_token_def split: option.splits)
  next
    case False
    then show ?thesis using Cons.IH p(2) by simp
  qed
qed auto

theorem enc_raw_idem:
  assumes "enc_raw s = Some t"
  shows "enc_raw t = Some t"
proof (cases "s = []")
  case True
  then have "t = ''null''" using assms by (simp add: enc_raw_def)
  moreover have "enc_raw ''null'' = Some ''null''" by code_simp
  ultimately show ?thesis by simp
next
  case False
  then obtain v ts where ts: "json_value s = Some v" "lex LexStart [] s = Some ts"
      "t = concat (map (compact_bytes \<circ> token_text \<circ> snd) ts)"
    using assms by (auto simp: enc_raw_def split: option.splits)
  have run: "run_tokens ts (EValue, []) = Some (EDone v, [])"
    using ts(1,2) run_done [of ts "(EValue, [])" v]
    by (auto simp: json_value_def parse_tokens_run split: option.splits prod.splits expect.splits)
  define us :: "(string \<times> token) list" where "us = map (\<lambda>(ws, t). ([], compact_token t)) ts"
  obtain v' where us: "run_tokens us (EValue, []) = Some (EDone v', [])"
    using run_compact [OF run, of "[]"] by (auto simp: us_def)
  have tok: "token_text (compact_token u) = compact_bytes (token_text u)" if "(ws, u) \<in> set ts" for ws u
    using accepted_tokens [of ts "(EValue, [])" ws u] that run word_value_ok(2)
    by (intro token_text_compact) (auto simp: parse_tokens_run split: token.splits)
  have t: "t = text_of us"
    unfolding ts(3) us_def text_of_def using tok by (auto simp: case_prod_beta intro!: arg_cong [where f = concat])
  have "spaced us" by (auto simp: us_def spaced_def list_all_iff)
  then have lex: "lex LexStart [] t = Some us" using relex [of us "(EValue, [])"] us by (simp add: t)
  have "concat (map (compact_bytes \<circ> token_text \<circ> snd) us) = t"
    unfolding ts(3) us_def using tok by (auto simp: case_prod_beta compact_idem intro!: arg_cong [where f = concat])
  moreover have "json_value t = Some v'" using us by (simp add: json_value_def lex parse_tokens_run)
  ultimately show ?thesis using lex by (auto simp: enc_raw_def json_value_def)
qed

end
