(* ===== verification/Run_Snapshot.thy ===== *)
theory Run_Snapshot
  imports Run_Codec JSON_Member
begin

text \<open>
  The canonical snapshot of a resolved run: encoding a decoded run and decoding the result gives
  the run again, with the white space of its agent configuration removed and the HTML characters
  escaped.
\<close>

section \<open>Validation does not see raw texts\<close>

lemma consume_strip: "consumeUniqueValue d (strip v) = consumeUniqueValue d v"
proof (induction d v rule: consumeUniqueValue.induct)
  case (1 d v)
  show ?case
  proof (cases v)
    case (JArray vs)
    then show ?thesis using 1(1)
      by (subst (1 2) consumeUniqueValue.simps) (auto simp: list_all_iff)
  next
    case (JObject ms)
    then show ?thesis using 1(2)
      by (subst (1 2) consumeUniqueValue.simps)
         (auto simp: list_all_iff strip_member_def comp_def case_prod_beta)
  qed simp_all
qed

lemma consume_similar: "strip v = strip v' \<Longrightarrow> consumeUniqueValue d v = consumeUniqueValue d v'"
  by (metis consume_strip)

lemma member_strip: "member (map strip_member ms) k = map_option strip (member ms k)"
  by (induction ms) (auto simp: member_def strip_member_def)

lemma as_strip [simp]:
  "as_string (map_option strip j) = as_string j"
  "as_object (map_option strip j) = map_option (map strip_member) (as_object j)"
  "as_array (map_option strip j) = map_option (map strip) (as_array j)"
  by (cases j; cases "the j"; simp)+

lemma as_strip_Some [simp]:
  "as_string (Some (strip j)) = as_string (Some j)"
  "as_object (Some (strip j)) = map_option (map strip_member) (as_object (Some j))"
  "as_array (Some (strip j)) = map_option (map strip) (as_array (Some j))"
  using as_strip [of "Some j"] by simp_all

lemma optionalAnySlice_strip: "optionalAnySlice (map strip_member ms) k = map_option (map strip) (optionalAnySlice ms k)"
  by (simp add: optionalAnySlice_def member_strip split: option.splits)

lemma validateCommand_strip: "validateCommand c (map strip args) = validateCommand c args"
  by (simp add: validateCommand_def len_def list.pred_map comp_def)

lemma command_ok_strip: "command_ok (map strip_member ms) = command_ok ms"
  by (simp add: command_ok_def member_strip optionalAnySlice_strip validateCommand_strip split: option.splits)

lemma environment_ok_strip: "environment_ok (strip j) = environment_ok j"
  by (simp add: environment_ok_def len_def list.pred_map comp_def strip_member_def split_def split: option.splits)

lemma validate_runtime_strip: "validate_runtime_object (map strip_member ms) = validate_runtime_object ms"
  by (simp add: validate_runtime_object_def member_strip command_ok_strip environment_ok_strip split: option.splits)

lemma validate_plugins_strip: "validate_plugins (map strip vs) = validate_plugins vs"
  by (induction vs rule: validate_plugins.induct) (simp add: member_strip split: option.splits)+

lemma strip_JNull: "strip j = JNull \<longleftrightarrow> j = JNull"
  by (cases j) simp_all

lemma validate_config_strip: "validate_config_root (map strip_member ms) = validate_config_root ms"
proof -
  have "(case map_option strip p of None \<Rightarrow> None | Some JNull \<Rightarrow> None
       | Some raw \<Rightarrow> (case as_array (Some raw) of None \<Rightarrow> Some e | Some plugins \<Rightarrow> validate_plugins plugins))
     = (case p of None \<Rightarrow> None | Some JNull \<Rightarrow> None
       | Some raw \<Rightarrow> (case as_array (Some raw) of None \<Rightarrow> Some e | Some plugins \<Rightarrow> validate_plugins plugins))" for p e
    by (cases p; cases "the p"; simp add: validate_plugins_strip)
  then show ?thesis
    by (simp add: validate_config_root_def member_strip validate_runtime_strip split: option.splits)
qed

lemma as_object_strip:
  assumes "as_object (Some v) = Some root" "strip v' = strip v"
  obtains root' where "as_object (Some v') = Some root'" "validate_config_root root' = validate_config_root root"
proof -
  obtain root' where "v' = JObject root'" "map strip_member root' = map strip_member root"
    using assms by (cases v; cases v') auto
  then show thesis using that [of root'] validate_config_strip by (metis as_object.simps(1))
qed

text \<open>The compact agent configuration is valid when it fits.\<close>

lemma validateAgentConfig_ok:
  assumes "validateAgentConfig s = None"
  obtains v root where "s \<noteq> []" "json_value s = Some v" "consumeUniqueValue 0 v" "as_object (Some v) = Some root"
    "validate_config_root root = None"
  using assms
  by (auto simp: validateAgentConfig_def rejectDuplicateKeys_def split: if_splits option.splits)

lemma validate_compact:
  assumes "validateAgentConfig s = None" "json_value s = Some v" "json_value t = Some v'" "strip v' = strip v"
    "t \<noteq> []" "len t \<le> MaxAgentConfigBytes"
  shows "validateAgentConfig t = None"
proof -
  obtain root where root: "consumeUniqueValue 0 v" "as_object (Some v) = Some root" "validate_config_root root = None"
    using assms(1,2) by (auto elim!: validateAgentConfig_ok)
  obtain root' where "as_object (Some v') = Some root'" "validate_config_root root' = None"
    using as_object_strip [OF root(2) assms(4)] root(3) by metis
  moreover have "consumeUniqueValue 0 v'" using consume_similar [OF assms(4)] root(1) by simp
  ultimately show ?thesis
    using assms(3,5,6) by (simp add: validateAgentConfig_def rejectDuplicateKeys_def)
qed

section \<open>The resolved run\<close>

lemma raw_fld_ok:
  "(\<And>r x. ok r \<Longrightarrow> ok (upd (\<lambda>_. x) r)) \<Longrightarrow> field_ok ok (fld k get upd dec_raw)"
  by (auto simp: field_ok_def fld_def dec_raw_def)

definition ok_ResolvedAgentRun :: "ResolvedAgentRun \<Rightarrow> bool" where
  "ok_ResolvedAgentRun v \<longleftrightarrow> valid_utf8 (ContractVersion v)
     \<and> valid_utf8 (RunID v)
     \<and> ok_Principal (run_Principal v)
     \<and> valid_utf8 (SourceURL v)
     \<and> valid_utf8 (run_Profile v)
     \<and> valid_utf8 (run_Workflow v)
     \<and> valid_utf8 (Image v)
     \<and> ok_Runtime (run_Runtime v)
     \<and> valid_utf8 (Prompt v)
     \<and> list_all ok_Repository (Repositories v)
     \<and> list_all ok_CredentialProviderMapping (CredentialProviders v)
     \<and> valid_utf8 (DefaultCredentialProvider v)
     \<and> ok_Broker (run_Broker v)
     \<and> ok_Egress (run_Egress v)
     \<and> ok_WorkspaceInstructions (run_WorkspaceInstructions v)
     \<and> ok_Resources (run_Resources v)
     \<and> ok_Persistence (run_Persistence v)
     \<and> valid_utf8 (Retention v)
     \<and> ok_TTL (run_TTL v)
     \<and> ok_Lifecycle (run_Lifecycle v)
     \<and> ok_ExecutionBackend (Execution v)"

declare zero_ResolvedAgentRun_def [struct] ResolvedAgentRun_fields_def [struct]

lemma ResolvedAgentRun_fields_ok: "list_all (field_ok ok_ResolvedAgentRun) ResolvedAgentRun_fields"
  unfolding ResolvedAgentRun_fields_def list.pred_inject
  by (intro conjI TrueI fld_ok [OF string_codec.req.field_codec_axioms]
      fld_ok [OF Principal_codec.req.field_codec_axioms]
      fld_ok [OF omit_string.field_codec_axioms]
      fld_ok [OF Runtime_codec.req.field_codec_axioms]
      raw_fld_ok
      fld_ok [OF omit_empty_codec [OF Repository_codec.codec_axioms]]
      fld_ok [OF omit_empty_codec [OF CredentialProviderMapping_codec.codec_axioms]]
      fld_ok [OF Broker_codec.req.field_codec_axioms]
      fld_ok [OF Egress_codec.req.field_codec_axioms]
      fld_ok [OF WorkspaceInstructions_codec.req.field_codec_axioms]
      fld_ok [OF Resources_codec.req.field_codec_axioms]
      fld_ok [OF Persistence_codec.req.field_codec_axioms]
      fld_ok [OF TTL_codec.req.field_codec_axioms]
      fld_ok [OF Lifecycle_codec.req.field_codec_axioms]
      fld_ok [OF ExecutionBackend_codec.req.field_codec_axioms]) (simp_all add: ok_ResolvedAgentRun_def)

lemma run_fields:
  assumes "ok_ResolvedAgentRun v" "renders config j" "nests n j" "63 \<le> n"
  shows "field_run n ResolvedAgentRun_fields [(''contract_version'', Some (enc_string (ContractVersion v))),
        (''run_id'', Some (enc_string (RunID v))),
        (''principal'', Some (enc_Principal (run_Principal v))),
        (''source_url'', omit_string (SourceURL v)),
        (''profile'', Some (enc_string (run_Profile v))),
        (''workflow'', Some (enc_string (run_Workflow v))),
        (''image'', Some (enc_string (Image v))),
        (''runtime'', Some (enc_Runtime (run_Runtime v))),
        (''agent_config'', Some config),
        (''prompt'', omit_string (Prompt v)),
        (''repositories'', omit_empty enc_Repository (Repositories v)),
        (''credential_providers'', omit_empty enc_CredentialProviderMapping (CredentialProviders v)),
        (''default_credential_provider'', omit_string (DefaultCredentialProvider v)),
        (''broker'', Some (enc_Broker (run_Broker v))),
        (''egress'', Some (enc_Egress (run_Egress v))),
        (''workspace_instructions'', Some (enc_WorkspaceInstructions (run_WorkspaceInstructions v))),
        (''resources'', Some (enc_Resources (run_Resources v))),
        (''persistence'', Some (enc_Persistence (run_Persistence v))),
        (''retention'', Some (enc_string (Retention v))),
        (''ttl'', Some (enc_TTL (run_TTL v))),
        (''lifecycle'', Some (enc_Lifecycle (run_Lifecycle v))),
        (''execution'', Some (enc_ExecutionBackend (Execution v)))] zero_ResolvedAgentRun (v\<lparr>AgentConfig := config\<rparr>)"
  by (insert assms(1,4), unfold ok_ResolvedAgentRun_def,
      rule field_step [OF string_codec.req.field_codec_axioms, where get = ContractVersion and upd = ContractVersion_update], (simp_all add: struct)[5],
      rule field_step [OF string_codec.req.field_codec_axioms, where get = RunID and upd = RunID_update], (simp_all add: struct)[5],
      rule field_step [OF Principal_codec.req.field_codec_axioms, where get = run_Principal and upd = run_Principal_update], (simp_all add: struct)[5],
      rule field_step [OF omit_string.field_codec_axioms, where get = SourceURL and upd = SourceURL_update], (simp_all add: struct)[5],
      rule field_step [OF string_codec.req.field_codec_axioms, where get = run_Profile and upd = run_Profile_update], (simp_all add: struct)[5],
      rule field_step [OF string_codec.req.field_codec_axioms, where get = run_Workflow and upd = run_Workflow_update], (simp_all add: struct)[5],
      rule field_step [OF string_codec.req.field_codec_axioms, where get = Image and upd = Image_update], (simp_all add: struct)[5],
      rule field_step [OF Runtime_codec.req.field_codec_axioms, where get = run_Runtime and upd = run_Runtime_update], (simp_all add: struct)[5],
      rule raw_step [OF assms(2,3), where get = AgentConfig and upd = AgentConfig_update], (simp add: struct)[1],
      rule field_step [OF omit_string.field_codec_axioms, where get = Prompt and upd = Prompt_update], (simp_all add: struct)[5],
      rule field_step [OF omit_empty_codec [OF Repository_codec.codec_axioms], where get = Repositories and upd = Repositories_update], (simp_all add: struct)[5],
      rule field_step [OF omit_empty_codec [OF CredentialProviderMapping_codec.codec_axioms], where get = CredentialProviders and upd = CredentialProviders_update], (simp_all add: struct)[5],
      rule field_step [OF omit_string.field_codec_axioms, where get = DefaultCredentialProvider and upd = DefaultCredentialProvider_update], (simp_all add: struct)[5],
      rule field_step [OF Broker_codec.req.field_codec_axioms, where get = run_Broker and upd = run_Broker_update], (simp_all add: struct)[5],
      rule field_step [OF Egress_codec.req.field_codec_axioms, where get = run_Egress and upd = run_Egress_update], (simp_all add: struct)[5],
      rule field_step [OF WorkspaceInstructions_codec.req.field_codec_axioms, where get = run_WorkspaceInstructions and upd = run_WorkspaceInstructions_update], (simp_all add: struct)[5],
      rule field_step [OF Resources_codec.req.field_codec_axioms, where get = run_Resources and upd = run_Resources_update], (simp_all add: struct)[5],
      rule field_step [OF Persistence_codec.req.field_codec_axioms, where get = run_Persistence and upd = run_Persistence_update], (simp_all add: struct)[5],
      rule field_step [OF string_codec.req.field_codec_axioms, where get = Retention and upd = Retention_update], (simp_all add: struct)[5],
      rule field_step [OF TTL_codec.req.field_codec_axioms, where get = run_TTL and upd = run_TTL_update], (simp_all add: struct)[5],
      rule field_step [OF Lifecycle_codec.req.field_codec_axioms, where get = run_Lifecycle and upd = run_Lifecycle_update], (simp_all add: struct)[5],
      rule field_step [OF ExecutionBackend_codec.req.field_codec_axioms, where get = Execution and upd = Execution_update], (simp_all add: struct)[5],
      cases v, simp add: struct)

text \<open>A decoded run holds well-formed values, and its configuration is a member of the document.\<close>

lemma run_field_config:
  "(k, d) \<in> set ResolvedAgentRun_fields \<Longrightarrow> d v t r = Some r' \<Longrightarrow> AgentConfig r' \<in> {AgentConfig r, t}"
  by (auto simp: ResolvedAgentRun_fields_def fld_def dec_raw_def)

lemma run_fields_config:
  "dec_fields ResolvedAgentRun_fields ms r = Some r' \<Longrightarrow> AgentConfig r' \<in> insert (AgentConfig r) ((fst \<circ> snd) ` set ms)"
proof (induction ms arbitrary: r)
  case (Cons m ms)
  obtain k t v where m: "m = (k, t, v)" by (cases m)
  obtain d r1 where d: "map_of ResolvedAgentRun_fields (fold_name k) = Some d" "d v t r = Some r1"
      "dec_fields ResolvedAgentRun_fields ms r1 = Some r'"
    using Cons.prems by (auto simp: m split: option.splits)
  then have "AgentConfig r1 \<in> {AgentConfig r, t}" using run_field_config map_of_SomeD by fastforce
  then show ?case using Cons.IH [OF d(3)] by (auto simp: m)
qed simp

lemma decoded_run:
  assumes "decodeStrict zero_ResolvedAgentRun ResolvedAgentRun_fields data = Some r"
  shows "ok_ResolvedAgentRun r" "AgentConfig r \<noteq> [] \<Longrightarrow> \<exists>v. json_value (AgentConfig r) = Some v \<and> consumeUniqueValue 1 v"
proof -
  obtain j where j: "json_value data = Some j" "consumeUniqueValue 0 j"
      "dec_struct ResolvedAgentRun_fields j data zero_ResolvedAgentRun = Some r"
    using assms by (auto simp: decodeStrict_def rejectDuplicateKeys_def split: if_splits option.splits)
  have "ok_ResolvedAgentRun zero_ResolvedAgentRun"
    by (simp add: ok_ResolvedAgentRun_def zero_ResolvedAgentRun_def Principal_codec.ok_zero Runtime_codec.ok_zero
        Broker_codec.ok_zero Egress_codec.ok_zero WorkspaceInstructions_codec.ok_zero Resources_codec.ok_zero
        Persistence_codec.ok_zero TTL_codec.ok_zero Lifecycle_codec.ok_zero ExecutionBackend_codec.ok_zero)
  then show "ok_ResolvedAgentRun r"
    using struct_keeps [OF ResolvedAgentRun_fields_ok _ json_value_clean [OF j(1)] j(3)] by simp
  show "\<exists>v. json_value (AgentConfig r) = Some v \<and> consumeUniqueValue 1 v" if config: "AgentConfig r \<noteq> []"
  proof -
    obtain ms where ms: "j = JObject ms" "dec_fields ResolvedAgentRun_fields ms zero_ResolvedAgentRun = Some r"
      using j(3) config by (cases j) (auto simp: dec_struct_def zero_ResolvedAgentRun_def)
    then obtain k v where m: "(k, AgentConfig r, v) \<in> set ms"
      using run_fields_config [OF ms(2)] config by (auto simp: zero_ResolvedAgentRun_def)
    have "consumeUniqueValue 1 v"
      using j(2) m consumeUniqueValue.simps [of 0 j] by (auto simp: ms list_all_iff)
    then show ?thesis using raw_member [of data ms] j(1) m ms(1) by auto
  qed
qed

text \<open>The canonical document of a run whose configuration has at most \<open>n\<close> levels.\<close>

lemma canonical_document:
  assumes "ok_ResolvedAgentRun r" "json_value (AgentConfig r) = Some v" "consumeUniqueValue (64 - n) v" "AgentConfig r \<noteq> []" "63 \<le> n"
  obtains config v' doc j where "enc_raw (AgentConfig r) = Some config" "json_value config = Some v'" "strip v' = strip v"
    "enc_ResolvedAgentRun r = Some doc" "json_value doc = Some j" "nests (n + 1) j"
    "\<And>raw. dec_struct ResolvedAgentRun_fields j raw zero_ResolvedAgentRun = Some (r\<lparr>AgentConfig := config\<rparr>)"
proof -
  obtain config v' where c: "enc_raw (AgentConfig r) = Some config" "renders config v'" "strip v' = strip v"
    using enc_raw_renders [OF assms(2,4)] by blast
  have "nests n v'" using consume_similar [OF c(3)] assms(3) by (intro nests_consume) simp
  note fr = run_fields [OF assms(1) c(2) this assms(5)]
  obtain doc where doc: "enc_ResolvedAgentRun r = Some doc"
    and obj: "\<exists>v. renders doc v \<and> v \<noteq> JNull \<and> nests (n + 1) v
      \<and> (\<forall>t. dec_struct ResolvedAgentRun_fields v t zero_ResolvedAgentRun = Some (r\<lparr>AgentConfig := config\<rparr>))"
  proof
    show "enc_ResolvedAgentRun r = Some (the (enc_ResolvedAgentRun r))" by (simp add: enc_ResolvedAgentRun_def c(1))
    show "\<exists>v. renders (the (enc_ResolvedAgentRun r)) v \<and> v \<noteq> JNull \<and> nests (n + 1) v
      \<and> (\<forall>t. dec_struct ResolvedAgentRun_fields v t zero_ResolvedAgentRun = Some (r\<lparr>AgentConfig := config\<rparr>))"
      unfolding enc_ResolvedAgentRun_def c(1) option.case option.sel
      by (rule field_run_object [OF fr]) (use assms(5) in simp_all, code_simp)
  qed
  then obtain j where "renders doc j" "nests (n + 1) j"
      "\<forall>t. dec_struct ResolvedAgentRun_fields j t zero_ResolvedAgentRun = Some (r\<lparr>AgentConfig := config\<rparr>)" by auto
  then show thesis using that [OF c(1) _ c(3) doc] c(2) by (auto simp: renders_value)
qed

lemma canonical_run:
  assumes "ok_ResolvedAgentRun r" "json_value (AgentConfig r) = Some v" "consumeUniqueValue 1 v" "AgentConfig r \<noteq> []"
  obtains config v' doc j where "enc_raw (AgentConfig r) = Some config" "json_value config = Some v'" "strip v' = strip v"
    "enc_ResolvedAgentRun r = Some doc" "json_value doc = Some j" "consumeUniqueValue 0 j"
    "\<And>raw. dec_struct ResolvedAgentRun_fields j raw zero_ResolvedAgentRun = Some (r\<lparr>AgentConfig := config\<rparr>)"
proof -
  have d: "consumeUniqueValue (64 - 63) v" "63 \<le> (63 :: int)" using assms(3) by simp_all
  show thesis
  proof (rule canonical_document [OF assms(1,2) d(1) assms(4) d(2)])
    fix config v' doc j
    assume c: "enc_raw (AgentConfig r) = Some config" "json_value config = Some v'" "strip v' = strip v"
      "enc_ResolvedAgentRun r = Some doc" "json_value doc = Some j" "nests (63 + 1) j"
      "\<And>raw. dec_struct ResolvedAgentRun_fields j raw zero_ResolvedAgentRun = Some (r\<lparr>AgentConfig := config\<rparr>)"
    have "consumeUniqueValue 0 j" using c(6) by (simp add: nests_def)
    then show thesis by (rule that [OF c(1-5) _ c(7)])
  qed
qed

theorem canonical_decodes:
  assumes "DecodeResolvedAgentRun data = Some r" "enc_ResolvedAgentRun r = Some doc" "len doc \<le> MaxDocumentBytes"
    "enc_raw (AgentConfig r) = Some config" "len config \<le> MaxAgentConfigBytes"
  shows "DecodeResolvedAgentRun doc = Some (r\<lparr>AgentConfig := config\<rparr>)"
proof -
  have dec: "decodeStrict zero_ResolvedAgentRun ResolvedAgentRun_fields data = Some r" and valid: "ValidateResolvedAgentRun r = None"
    using assms(1) by (auto simp: DecodeResolvedAgentRun_def split: option.splits if_splits)
  have cfg: "validateAgentConfig (AgentConfig r) = None"
    using valid by (auto simp: ValidateResolvedAgentRun_def validateEffective_def first_error_None)
  then have "AgentConfig r \<noteq> []" by (auto simp: validateAgentConfig_def)
  then obtain v where v: "json_value (AgentConfig r) = Some v" "consumeUniqueValue 1 v"
    using decoded_run(2) [OF dec] by blast
  obtain config' v' doc' j where c: "enc_raw (AgentConfig r) = Some config'" "json_value config' = Some v'" "strip v' = strip v"
    "enc_ResolvedAgentRun r = Some doc'" "json_value doc' = Some j" "consumeUniqueValue 0 j"
    "\<And>raw. dec_struct ResolvedAgentRun_fields j raw zero_ResolvedAgentRun = Some (r\<lparr>AgentConfig := config'\<rparr>)"
    using canonical_run [OF decoded_run(1) [OF dec] v \<open>AgentConfig r \<noteq> []\<close>] by metis
  have eqs: "config' = config" "doc' = doc" using c(1,4) assms(2,4) by simp_all
  have ne: "config \<noteq> []" "doc \<noteq> []" using c(2,5) by (auto simp: eqs json_value_def)
  have "validateAgentConfig config = None"
    using validate_compact [OF cfg v(1)] c(2,3) assms(5) ne(1) by (simp add: eqs)
  then have "ValidateResolvedAgentRun (r\<lparr>AgentConfig := config\<rparr>) = None"
    using valid by (auto simp: ValidateResolvedAgentRun_def validateEffective_def first_error_None)
  then show ?thesis
    using c(5-7) assms(3) ne(2) by (simp add: DecodeResolvedAgentRun_def decodeStrict_def rejectDuplicateKeys_def eqs)
qed

end
