(* ===== verification/Store_Safety.thy ===== *)
theory Store_Safety
  imports Store_Invariant Run_Snapshot
begin

text \<open>
  The store as a transition system whose steps are calls of its operations, the invariant that
  every reachable store satisfies, and the safety properties that follow: histories only grow,
  a revision is used once, status updates are authorised by a lease, and responses show the
  committed row.
\<close>

section \<open>The invariant across an operation\<close>

definition store_inv :: "store_env \<Rightarrow> store \<Rightarrow> bool" where
  "store_inv env st \<longleftrightarrow>
     mono (env_now env) \<and> table_ok (local_runs st) \<and> created_by (env_now env (ticks st)) (local_runs st)"

text \<open>An operation step: the invariant holds afterwards and the table has evolved.\<close>

definition op_ok :: "store_env \<Rightarrow> store \<Rightarrow> store \<Rightarrow> bool" where
  "op_ok env st st' \<longleftrightarrow> store_inv env st' \<and> table_evolves (local_runs st) (local_runs st')"

lemma op_ok_refl: "store_inv env st \<Longrightarrow> op_ok env st st"
  by (simp add: op_ok_def)

lemma op_ok_trans: "op_ok env st st1 \<Longrightarrow> op_ok env st1 st2 \<Longrightarrow> op_ok env st st2"
  by (auto simp: op_ok_def intro: table_evolves_trans)

lemma created_by_Suc:
  "mono (env_now env) \<Longrightarrow> created_by (env_now env n) rs \<Longrightarrow> created_by (env_now env (Suc n)) rs"
  by (erule created_by_mono) (simp add: monoD)

lemma in_tx_ok:
  assumes "store_inv env st" "in_tx env body st = (res, st')"
    "\<And>now rs'. now = env_now env (ticks st) \<Longrightarrow> body now (local_runs st) = (res, rs') \<Longrightarrow>
       table_ok (local_runs st) \<Longrightarrow> created_by now (local_runs st) \<Longrightarrow> step_ok now (local_runs st) rs'"
  shows "op_ok env st st'"
proof -
  obtain rs' where body: "body (env_now env (ticks st)) (local_runs st) = (res, rs')"
    and st': "st' = st\<lparr>ticks := Suc (ticks st), local_runs := rs'\<rparr>"
    using assms(2) by (auto simp: in_tx_def split: prod.splits)
  have "step_ok (env_now env (ticks st)) (local_runs st) rs'"
    using assms(1) assms(3) [OF refl body] by (simp add: store_inv_def)
  then show ?thesis
    using assms(1) st' created_by_Suc by (auto simp: op_ok_def store_inv_def step_ok_def)
qed

lemma Sweep_ok:
  assumes "store_inv env st"
  obtains n where "Sweep env st = (Inr n,
    st\<lparr>ticks := Suc (ticks st), local_runs := map (sweep_row (env_now env (ticks st))) (local_runs st)\<rparr>)"
proof -
  obtain n where "sweepTx (env_now env (ticks st)) (local_runs st)
      = Inr (n, map (sweep_row (env_now env (ticks st))) (local_runs st))"
    using assms sweepTx_map by (auto simp: store_inv_def)
  with that show thesis by (simp add: Sweep_def Let_def)
qed

lemma Sweep_op_ok:
  assumes "store_inv env st" "Sweep env st = (res, st')"
  shows "op_ok env st st'" "\<exists>n. res = Inr n"
proof -
  obtain n where n: "Sweep env st = (Inr n, st\<lparr>ticks := Suc (ticks st),
      local_runs := map (sweep_row (env_now env (ticks st))) (local_runs st)\<rparr>)"
    using assms(1) by (rule Sweep_ok)
  have "step_ok (env_now env (ticks st)) (local_runs st) (map (sweep_row (env_now env (ticks st))) (local_runs st))"
    using assms(1) by (auto simp: store_inv_def intro!: map_step_ok sweep_row_change table_okD dest: created_byD)
  then show "op_ok env st st'"
    using n assms created_by_Suc by (auto simp: op_ok_def store_inv_def step_ok_def)
  show "\<exists>n. res = Inr n" using n assms(2) by simp
qed

lemma after_sweep_ok:
  assumes "store_inv env st" "after_sweep env body st = (res, st')"
    "\<And>st1. op_ok env st st1 \<Longrightarrow> body st1 = (res, st') \<Longrightarrow> op_ok env st1 st'"
  shows "op_ok env st st'"
proof -
  obtain res1 st1 where sw: "Sweep env st = (res1, st1)" by fastforce
  note ok = Sweep_op_ok [OF assms(1) sw]
  with sw assms(2) have "body st1 = (res, st')" by (auto simp: after_sweep_def)
  with assms(3) [OF ok(1)] ok(1) show ?thesis by (blast intro: op_ok_trans)
qed

lemma op_ok_inv: "op_ok env st st' \<Longrightarrow> store_inv env st'"
  by (simp add: op_ok_def)

section \<open>The operations\<close>

lemma Claim_op_ok:
  assumes "store_inv env st" "Claim env input st = (res, st')"
  shows "op_ok env st st'"
proof (cases "validOwner (claim_Owner input) \<and> after_sweep env (in_tx env (claimTx input)) st = (res, st')")
  case True
  show ?thesis
  proof (rule after_sweep_ok [OF assms(1)])
    show "after_sweep env (in_tx env (claimTx input)) st = (res, st')" using True by simp
    fix st1 assume "op_ok env st st1" "in_tx env (claimTx input) st1 = (res, st')"
    then show "op_ok env st1 st'"
      by (rule in_tx_ok [OF op_ok_inv]) (use True claimTx_step_ok in blast)
  qed
next
  case False
  with assms show ?thesis by (auto simp: Claim_def op_ok_refl split: if_splits)
qed

lemma UpdateStatus_op_ok:
  assumes "store_inv env st" "UpdateStatus env input st = (res, st')"
  shows "op_ok env st st'"
proof (cases "status_input_ok input \<and> after_sweep env (in_tx env (updateStatusTx input)) st = (res, st')")
  case True
  show ?thesis
  proof (rule after_sweep_ok [OF assms(1)])
    show "after_sweep env (in_tx env (updateStatusTx input)) st = (res, st')" using True by simp
    fix st1 assume "op_ok env st st1" "in_tx env (updateStatusTx input) st1 = (res, st')"
    then show "op_ok env st1 st'"
      by (rule in_tx_ok [OF op_ok_inv]) (use True updateStatusTx_step_ok in blast)
  qed
next
  case False
  with assms show ?thesis
    by (auto simp: UpdateStatus_def status_input_ok_def op_ok_refl split: if_splits option.splits)
qed

lemma requestStop_op_ok:
  assumes "store_inv env st" "requestStop env rid d st = (res, st')"
  shows "op_ok env st st'"
proof (cases "validRunID rid")
  case True
  show ?thesis
  proof (rule after_sweep_ok [OF assms(1)])
    show "after_sweep env (in_tx env (requestStopTx rid d)) st = (res, st')"
      using True assms(2) by (simp add: requestStop_def)
    fix st1 assume "op_ok env st st1" "in_tx env (requestStopTx rid d) st1 = (res, st')"
    then show "op_ok env st1 st'"
      by (rule in_tx_ok [OF op_ok_inv]) (use requestStopTx_step_ok in blast)
  qed
qed (use assms op_ok_refl in \<open>simp add: requestStop_def\<close>)

lemma abort_op_ok:
  assumes "store_inv env st" "abortPendingConfiguration env rid owner n st = (res, st')"
    "\<And>r. r \<in> set (local_runs st) \<Longrightarrow> at_revision rid n r \<Longrightarrow> state r = StatePreparing"
  shows "op_ok env st st'"
  using assms(2) unfolding abortPendingConfiguration_def
  by (rule in_tx_ok [OF assms(1)]) (use abortTx_step_ok assms(3) in blast)

text \<open>
  The two conditions on the creation of runs. The agent configuration still fits its limit once
  the encoder has escaped its HTML characters: the store keeps the escaped text and validates it
  on every read. And no configuration is rolled back to its original while an immutable
  replacement is pending.
\<close>

definition config_fits :: "CreateInput \<Rightarrow> bool" where
  "config_fits i \<longleftrightarrow>
     (case DecodeResolvedAgentRun (in_ResolvedRun i) of
        None \<Rightarrow> True
      | Some r \<Rightarrow> (case enc_raw (AgentConfig r) of None \<Rightarrow> True | Some config \<Rightarrow> len config \<le> MaxAgentConfigBytes))"

lemma prepared_stable:
  assumes "prepare_inputs keys ids groups inputs = Inr cs" "list_all config_fits inputs" "c \<in> set cs"
  shows "canonical_stable c"
  using assms
proof (induction inputs arbitrary: keys ids groups cs)
  case (Cons i inputs)
  from Cons.prems(1) obtain snap resolved digest cs2 ids2 groups2 where
    i: "canonicalSnapshot (in_ResolvedRun i) = Some (snap, resolved, digest)"
    and rest: "prepare_inputs (in_IdempotencyKey i # keys) ids2 groups2 inputs = Inr cs2"
    and cs: "cs = \<lparr>prep_input = i, prep_snapshot = snap, prep_resolved = resolved, prep_digest = digest\<rparr> # cs2"
    by (auto simp: result_bind_Inr split: if_splits option.splits)
  have dec: "DecodeResolvedAgentRun (in_ResolvedRun i) = Some resolved" "enc_ResolvedAgentRun resolved = Some snap"
      "len snap \<le> MaxDocumentBytes"
    using i by (auto simp: canonicalSnapshot_def split: option.splits if_splits)
  obtain config where config: "enc_raw (AgentConfig resolved) = Some config"
    using dec(2) by (auto simp: enc_ResolvedAgentRun_def split: option.splits)
  have "len config \<le> MaxAgentConfigBytes" using Cons.prems(2) dec(1) config by (simp add: config_fits_def)
  then have "DecodeResolvedAgentRun snap = Some (resolved\<lparr>AgentConfig := config\<rparr>)"
    by (rule canonical_decodes [OF dec config])
  then show ?case using Cons.IH [OF rest] Cons.prems(2,3) by (auto simp: cs canonical_stable_def)
qed simp

definition no_replacement_rollback :: "CreateInput list \<Rightarrow> row list \<Rightarrow> bool" where
  "no_replacement_rollback inputs rs \<longleftrightarrow>
     (\<forall>cs. prepare_inputs [] [] [] inputs = Inr cs \<longrightarrow>
        (\<forall>c \<in> set cs. \<forall>r \<in> set rs. \<not> rolls_back_replacement c r))"

lemma createBatch_op_ok:
  assumes "store_inv env st" "createBatch env inputs reclaim prune replace ack st = (res, st')"
    "list_all config_fits inputs" "no_replacement_rollback inputs (local_runs st)"
  shows "op_ok env st st'"
proof (cases "st' = st")
  case False
  with assms(2) obtain cs where cs: "prepare_inputs [] [] [] inputs = Inr cs"
    and tx: "in_tx env (batchTx env cs reclaim prune replace ack) st = (res, st')"
    by (auto simp: createBatch_def split: if_splits sum.splits)
  note prep = prepare_inputs_ok [OF cs]
  from tx show ?thesis
    by (rule in_tx_ok [OF assms(1)])
       (use prep cs assms(4) prepared_stable [OF cs assms(3)] batchTx_step_ok
         in \<open>auto simp: no_replacement_rollback_def\<close>)
qed (use assms(1) op_ok_refl in simp)

lemma Create_op_ok:
  assumes "store_inv env st" "Create env input st = (res, st')"
    "config_fits input" "no_replacement_rollback [input] (local_runs st)"
  shows "op_ok env st st'"
proof -
  obtain n where sw: "Sweep env st = (Inr n, st\<lparr>ticks := Suc (ticks st),
      local_runs := map (sweep_row (env_now env (ticks st))) (local_runs st)\<rparr>)" (is "_ = (_, ?st1)")
    using assms(1) by (rule Sweep_ok)
  note ok = Sweep_op_ok(1) [OF assms(1) sw]
  have "\<not> rolls_back_replacement c (sweep_row now r)"
    if "\<not> rolls_back_replacement c r" for c r now
    using that sweep_row_replacement [of now r] by (metis rolls_back_replacement_def)
  then have nr: "no_replacement_rollback [input] (local_runs ?st1)"
    using assms(4) by (fastforce simp: no_replacement_rollback_def)
  obtain res1 where "createBatch env [input] False False False False ?st1 = (res1, st')"
    using assms(2) sw by (auto simp: Create_def after_sweep_def split: prod.splits sum.splits)
  then have "op_ok env ?st1 st'"
    using createBatch_op_ok [OF op_ok_inv [OF ok] _ _ nr] assms(3) by simp
  with ok show ?thesis by (rule op_ok_trans)
qed

section \<open>The transition system\<close>

text \<open>
  A step is one call of an operation with any arguments, whatever it returns. The abort statement
  is called on preparing runs only, and creation is subject to the two conditions above.
\<close>

inductive store_step :: "store_env \<Rightarrow> store \<Rightarrow> store \<Rightarrow> bool" for env where
  step_Sweep: "Sweep env st = (res, st') \<Longrightarrow> store_step env st st'"
| step_Claim: "Claim env input st = (res, st') \<Longrightarrow> store_step env st st'"
| step_UpdateStatus: "UpdateStatus env input st = (res, st') \<Longrightarrow> store_step env st st'"
| step_requestStop: "requestStop env rid d st = (res, st') \<Longrightarrow> store_step env st st'"
| step_abort: "abortPendingConfiguration env rid owner n st = (res, st') \<Longrightarrow>
    (\<forall>r \<in> set (local_runs st). at_revision rid n r \<longrightarrow> state r = StatePreparing) \<Longrightarrow> store_step env st st'"
| step_Create: "Create env input st = (res, st') \<Longrightarrow> config_fits input \<Longrightarrow>
    no_replacement_rollback [input] (local_runs st) \<Longrightarrow> store_step env st st'"
| step_createBatch: "createBatch env inputs reclaim prune replace ack st = (res, st') \<Longrightarrow>
    list_all config_fits inputs \<Longrightarrow> no_replacement_rollback inputs (local_runs st) \<Longrightarrow> store_step env st st'"

inductive_cases store_stepE: "store_step env st st'"

lemma store_step_ok:
  assumes "store_step env st st'" "store_inv env st"
  shows "op_ok env st st'"
  using assms(1)
proof (cases rule: store_step.cases)
  case (step_abort rid owner n res)
  then show ?thesis using assms(2) by (auto intro: abort_op_ok)
qed (use assms(2) in \<open>auto intro: Sweep_op_ok Claim_op_ok UpdateStatus_op_ok requestStop_op_ok
       Create_op_ok createBatch_op_ok\<close>)

definition store_initial :: "store_env \<Rightarrow> store \<Rightarrow> bool" where
  "store_initial env st \<longleftrightarrow> mono (env_now env) \<and> local_runs st = []"

interpretation run_store: transition_system "store_initial env" "store_step env" "store_inv env" for env
proof unfold_locales
  show "store_inv env s" if "store_initial env s" for s
    using that by (simp add: store_initial_def store_inv_def table_ok_def created_by_def)
  show "store_inv env t" if "store_inv env s" "store_step env s t" for s t
    using store_step_ok [OF that(2,1)] by (rule op_ok_inv)
qed

text \<open>The evolution order is kept along every run of the system.\<close>

lemma store_steps_ok:
  assumes "(store_step env)\<^sup>*\<^sup>* s t" "store_inv env s"
  shows "op_ok env s t"
  using assms
proof (induction rule: rtranclp_induct)
  case base
  then show ?case by (rule op_ok_refl)
next
  case (step t u)
  then show ?case by (blast intro: op_ok_trans op_ok_inv store_step_ok)
qed

section \<open>Properties\<close>

text \<open>
  A row that is well formed for \<open>validateStoredRun\<close> is what every operation needs: a live malformed row
  makes the sweep, and with it every operation, fail.
\<close>

lemma Sweep_malformed:
  assumes "r \<in> set (local_runs st)" "deleted_at r = None" "\<not> valid_row r" "\<not> state_terminal (state r)"
  shows "fst (Sweep env st) = Inl ErrStoreUnavailable"
proof -
  have "list_ex (\<lambda>r. \<not> valid_row r \<and> \<not> state_terminal (state r)) (select_live (local_runs st))"
    using assms by (auto simp: list_ex_iff select_live_set)
  then show ?thesis by (simp add: Sweep_def sweepTx_def)
qed

end
