(* ===== verification/Store_Leases.thy ===== *)
theory Store_Leases
  imports Store_Safety
begin

text \<open>
  What a successful claim and a successful status update say about the table: the row they acted
  on, the lease they needed and the row they wrote. From these follow the laws that order the
  writers of a run: a lease excludes other owners, and a revision authorises one write.
\<close>

section \<open>Successful operations\<close>

text \<open>The table after the sweep that precedes an operation, and the time its transaction reads.\<close>

definition swept :: "store_env \<Rightarrow> store \<Rightarrow> row list" where
  "swept env st = map (sweep_row (env_now env (ticks st))) (local_runs st)"

definition tx_now :: "store_env \<Rightarrow> store \<Rightarrow> int" where
  "tx_now env st = env_now env (Suc (ticks st))"

lemma swept_ok:
  assumes "store_inv env st"
  shows "table_ok (swept env st)" "table_evolves (local_runs st) (swept env st)"
proof -
  obtain n where "Sweep env st = (Inr n, st\<lparr>ticks := Suc (ticks st), local_runs := swept env st\<rparr>)"
    using assms unfolding swept_def by (rule Sweep_ok)
  from Sweep_op_ok(1) [OF assms this]
  show "table_ok (swept env st)" "table_evolves (local_runs st) (swept env st)"
    by (simp_all add: op_ok_def store_inv_def)
qed

lemma after_sweep_in_tx:
  assumes "store_inv env st"
  shows "after_sweep env (in_tx env body) st =
    (let (res, rs) = body (tx_now env st) (swept env st)
     in (res, st\<lparr>ticks := Suc (Suc (ticks st)), local_runs := rs\<rparr>))"
  using assms
  by (rule Sweep_ok) (simp add: after_sweep_def in_tx_def swept_def tx_now_def split: prod.splits)

lemma claim_success:
  assumes "store_inv env st" "Claim env input st = (Inr v, st')"
  obtains r where "r \<in> set (swept env st)" "run_id r = claim_RunID input" "deleted_at r = None"
    "revision r = claim_ExpectedRevision input" "\<not> state_terminal (state r)"
    "reconcileOwner r = [] \<or> reconcileOwner r = claim_Owner input
       \<or> \<not> (case reconcile_until r of None \<Rightarrow> False | Some t \<Rightarrow> tx_now env st < t)"
    "local_runs st' = map (\<lambda>q. if q = r then claim_row input (tx_now env st) q else q) (swept env st)"
    "v_Revision v = revision r + 1" "v_ReconcileUntil v = Some (tx_now env st + claim_Lease input)"
proof -
  note ok = swept_ok(1) [OF assms(1)]
  have tx: "claimTx input (tx_now env st) (swept env st) = (Inr v, local_runs st')"
    using assms by (auto simp: Claim_def after_sweep_in_tx split: if_splits prod.splits)
  obtain r view where r: "loadForUpdate (claim_RunID input) (swept env st) = Inr (r, view)"
    using tx by (cases "loadForUpdate (claim_RunID input) (swept env st)") (auto simp: claimTx_def)
  let ?busy = "reconcileOwner r \<noteq> [] \<and> reconcileOwner r \<noteq> claim_Owner input
    \<and> (case reconcile_until r of None \<Rightarrow> False | Some t \<Rightarrow> tx_now env st < t)"
  have cond: "revision r = claim_ExpectedRevision input" "\<not> state_terminal (state r)" "\<not> ?busy"
    using tx unfolding claimTx_def r sum.case prod.case by (simp_all split: if_splits)
  have ok_if: "\<not> (revision r \<noteq> claim_ExpectedRevision input \<or> state_terminal (state r))"
    using cond by simp
  note row = loadForUpdate_row [OF r]
  have upd: "update_one ErrOwnershipConflict (at_revision (claim_RunID input) (claim_ExpectedRevision input))
        (claim_row input (tx_now env st)) (swept env st)
      = Inr (map (\<lambda>q. if q = r then claim_row input (tx_now env st) q else q) (swept env st))"
  proof (rule update_one_unique [OF table_ok_distinct [OF ok] row(1)])
    show "at_revision (claim_RunID input) (claim_ExpectedRevision input) r"
      using row(2) cond(1) by (simp add: at_revision_def)
    show "q = r" if "q \<in> set (swept env st)" "at_revision (claim_RunID input) (claim_ExpectedRevision input) q" for q
      using that by (rule at_revision_unique [OF ok row(1,2)])
  qed
  have "local_runs st' = map (\<lambda>q. if q = r then claim_row input (tx_now env st) q else q) (swept env st)"
    and "v_Revision v = revision r + 1" "v_ReconcileUntil v = Some (tx_now env st + claim_Lease input)"
    using tx unfolding claimTx_def r sum.case prod.case if_not_P [OF ok_if] if_not_P [OF cond(3)] upd by auto
  then show thesis using that [of r] row(1-3) cond by blast
qed

lemma claimed_row:
  assumes "store_inv env st" "Claim env input st = (Inr v, st')"
  obtains q r where "q \<in> set (local_runs st')" "r \<in> set (swept env st)" "run_id q = claim_RunID input"
    "revision q = v_Revision v" "v_Revision v = claim_ExpectedRevision input + 1"
    "reconcile_owner q = Some (claim_Owner input)" "reconcile_until q = v_ReconcileUntil v"
    "run_id r = claim_RunID input" "revision r = claim_ExpectedRevision input" "state q = state r"
proof -
  obtain r where r: "r \<in> set (swept env st)" "run_id r = claim_RunID input"
    "revision r = claim_ExpectedRevision input" "v_Revision v = revision r + 1"
    "v_ReconcileUntil v = Some (tx_now env st + claim_Lease input)"
    "local_runs st' = map (\<lambda>q. if q = r then claim_row input (tx_now env st) q else q) (swept env st)"
    using assms by (rule claim_success)
  let ?q = "claim_row input (tx_now env st) r"
  have "?q \<in> set (local_runs st')" using r(1,6) by force
  then show thesis
    by (rule that [of ?q r]) (use r in \<open>simp_all add: claim_row_def\<close>)
qed

text \<open>The row a status update found, and the lease it was made under.\<close>

definition holds_lease :: "string \<Rightarrow> int \<Rightarrow> row \<Rightarrow> bool" where
  "holds_lease owner now r \<longleftrightarrow>
     reconcileOwner r = owner \<and> (case reconcile_until r of None \<Rightarrow> False | Some t \<Rightarrow> now < t)"

lemma update_success:
  assumes "store_inv env st" "UpdateStatus env input st = (res, st')" "res = Inr v \<or> res = Inl ErrGone"
  obtains r view where "loadForUpdate (st_RunID input) (swept env st) = Inr (r, view)"
    "revision r = st_ExpectedRevision input" "holds_lease (st_Owner input) (tx_now env st) r"
    "st_State input = state r \<or> transitionAllowed (state r) (st_State input)"
proof -
  have tx: "updateStatusTx input (tx_now env st) (swept env st) = (res, local_runs st')"
    using assms by (auto simp: UpdateStatus_def after_sweep_in_tx split: if_splits prod.splits)
  show thesis
  proof (cases "loadForUpdate (st_RunID input) (swept env st)")
    case (Inl e)
    then have "e \<noteq> ErrGone" by (auto simp: loadForUpdate_def split: option.splits if_splits)
    with Inl tx assms(3) show ?thesis by (auto simp: updateStatusTx_def)
  next
    case (Inr p)
    obtain r view where p: "p = (r, view)" by fastforce
    have "revision r = st_ExpectedRevision input \<and> holds_lease (st_Owner input) (tx_now env st) r"
      using tx assms(3) unfolding updateStatusTx_def Inr p holds_lease_def by (simp split: if_splits) auto
    moreover from this have "st_State input = state r \<or> transitionAllowed (state r) (st_State input)"
      using tx assms(3) unfolding updateStatusTx_def Inr p holds_lease_def
      by (cases "st_State input = state r \<or> transitionAllowed (state r) (st_State input)") auto
    ultimately show ?thesis using that Inr p by blast
  qed
qed

section \<open>Rows over time\<close>

text \<open>
  A run is known at a revision with a state: its row has at least that revision, and has that
  state if the revision is the same. Store steps keep such knowledge.
\<close>

definition known :: "string \<Rightarrow> int \<Rightarrow> State \<Rightarrow> row list \<Rightarrow> bool" where
  "known rid n s rs \<longleftrightarrow> (\<exists>r \<in> set rs. run_id r = rid \<and> n \<le> revision r \<and> (revision r = n \<longrightarrow> state r = s))"

lemma known_evolves: "known rid n s rs \<Longrightarrow> table_evolves rs rs' \<Longrightarrow> known rid n s rs'"
  unfolding known_def table_evolves_def row_evolves_def same_identity_def by fastforce

lemma known_steps:
  "known rid n s (local_runs st) \<Longrightarrow> store_inv env st \<Longrightarrow> (store_step env)\<^sup>*\<^sup>* st st' \<Longrightarrow>
     known rid n s (local_runs st')"
  using store_steps_ok known_evolves by (fastforce simp: op_ok_def)

lemma known_row:
  assumes "known rid n s rs" "table_ok rs" "r \<in> set rs" "run_id r = rid"
  shows "n \<le> revision r" "revision r = n \<Longrightarrow> state r = s"
  using assms table_unique_id by (auto simp: known_def)

lemma known_claimed:
  assumes "store_inv env st" "Claim env input st = (Inr v, st')"
    "known (claim_RunID input) (claim_ExpectedRevision input) s (local_runs st)"
  shows "known (claim_RunID input) (v_Revision v) s (local_runs st')"
proof -
  obtain q r where q: "q \<in> set (local_runs st')" "r \<in> set (swept env st)" "run_id q = claim_RunID input"
    "revision q = v_Revision v" "run_id r = claim_RunID input" "revision r = claim_ExpectedRevision input"
    "state q = state r"
    using assms(1,2) by (rule claimed_row)
  have "known (claim_RunID input) (claim_ExpectedRevision input) s (swept env st)"
    using assms(3) swept_ok(2) [OF assms(1)] by (rule known_evolves)
  then have "state r = s" using known_row [OF _ swept_ok(1) [OF assms(1)] q(2,5)] q(6) by simp
  with q show ?thesis by (auto simp: known_def intro!: bexI [of _ q])
qed

text \<open>The row of a lease: present with the revision and owner of the claim, or changed since.\<close>

lemma lease_row_steps:
  assumes "store_inv env st" "Claim env a st = (Inr v, st1)" "(store_step env)\<^sup>*\<^sup>* st1 st2"
    "r \<in> set (swept env st2)" "run_id r = claim_RunID a"
  shows "v_Revision v \<le> revision r" "revision r = v_Revision v \<Longrightarrow>
    reconcile_owner r = Some (claim_Owner a) \<and> reconcile_until r = v_ReconcileUntil v"
proof -
  obtain q where q: "q \<in> set (local_runs st1)" "run_id q = claim_RunID a" "revision q = v_Revision v"
    "reconcile_owner q = Some (claim_Owner a)" "reconcile_until q = v_ReconcileUntil v"
    using assms(1,2) by (rule claimed_row)
  have inv1: "store_inv env st1" using Claim_op_ok [OF assms(1,2)] by (rule op_ok_inv)
  note ok2 = store_steps_ok [OF assms(3) inv1]
  have "table_evolves (local_runs st1) (swept env st2)"
    using ok2 swept_ok(2) [OF op_ok_inv [OF ok2]] by (auto simp: op_ok_def intro: table_evolves_trans)
  then obtain p where p: "p \<in> set (swept env st2)" "row_evolves q p"
    using q(1) by (auto simp: table_evolves_def)
  then have "run_id p = run_id r" using q(2) assms(5) by (auto simp: row_evolves_def same_identity_def)
  then have "p = r"
    using table_unique_id [OF swept_ok(1) [OF op_ok_inv [OF ok2]] assms(4) p(1)] by simp
  with p(2) q show "v_Revision v \<le> revision r" "revision r = v_Revision v \<Longrightarrow>
    reconcile_owner r = Some (claim_Owner a) \<and> reconcile_until r = v_ReconcileUntil v"
    by (auto simp: row_evolves_def)
qed

end
