(* ===== verification/Store_Listing.thy ===== *)
theory Store_Listing
  imports Store_Safety
begin

text \<open>
  What a listing returns: the first runs after the cursor in the order of their identifiers,
  malformed terminal rows left out. The loop over the pages of the query ends, and the cursor of
  a page continues exactly where the page stopped.
\<close>

definition views :: "row list \<Rightarrow> Run list" where
  "views rs = List.map_filter validateStoredRun rs"

definition listable :: "row list \<Rightarrow> bool" where
  "listable rs \<longleftrightarrow> list_all (\<lambda>r. valid_row r \<or> state_terminal (state r)) rs"

lemma views_simps [simp]:
  "views [] = []"
  "views (r # rs) = (case validateStoredRun r of None \<Rightarrow> views rs | Some v \<Rightarrow> v # views rs)"
  by (simp_all add: views_def map_filter_simps split: option.splits)

lemma views_append: "views (xs @ ys) = views xs @ views ys"
  by (induction xs) (simp_all split: option.splits)

lemma views_valid: "list_all valid_row rs \<Longrightarrow> views rs = map (the \<circ> validateStoredRun) rs"
  by (induction rs) (auto simp: valid_row_def)

section \<open>One page\<close>

lemma list_page_reads:
  assumes "listable xs" "len runs \<le> limit"
  shows "\<exists>n \<le> length xs.
     list_page limit xs runs raw cursor
       = Some (runs @ views (take n xs), raw + int n, if n = 0 then cursor else run_id (xs ! (n - 1)))
     \<and> (n = length xs \<and> len (runs @ views xs) \<le> limit \<or> len (runs @ views (take n xs)) = limit + 1)"
  using assms
proof (induction xs arbitrary: runs raw cursor)
  case Nil
  then show ?case by simp
next
  case (Cons r xs)
  show ?case
  proof (cases "validateStoredRun r")
    case None
    then have "state_terminal (state r)" using Cons.prems(1) by (simp add: listable_def valid_row_def)
    moreover obtain n where n: "n \<le> length xs" "list_page limit xs runs (raw + 1) (run_id r)
        = Some (runs @ views (take n xs), raw + 1 + int n, if n = 0 then run_id r else run_id (xs ! (n - 1)))"
      "n = length xs \<and> len (runs @ views xs) \<le> limit \<or> len (runs @ views (take n xs)) = limit + 1"
      using Cons.IH [OF _ Cons.prems(2), of "raw + 1" "run_id r"] Cons.prems(1) by (auto simp: listable_def)
    ultimately show ?thesis using None by (intro exI [of _ "Suc n"]) auto
  next
    case (Some v)
    show ?thesis
    proof (cases "limit < len (runs @ [v])")
      case True
      then have "len (runs @ [v]) = limit + 1" using Cons.prems(2) by (simp add: len_def)
      with True Some show ?thesis by (intro exI [of _ 1]) auto
    next
      case False
      obtain n where n: "n \<le> length xs" "list_page limit xs (runs @ [v]) (raw + 1) (run_id r)
          = Some ((runs @ [v]) @ views (take n xs), raw + 1 + int n, if n = 0 then run_id r else run_id (xs ! (n - 1)))"
        "n = length xs \<and> len ((runs @ [v]) @ views xs) \<le> limit
         \<or> len ((runs @ [v]) @ views (take n xs)) = limit + 1"
        using Cons.IH [of "runs @ [v]" "raw + 1" "run_id r"] Cons.prems(1) False by (auto simp: listable_def)
      with False Some show ?thesis by (intro exI [of _ "Suc n"]) auto
    qed
  qed
qed

section \<open>The query\<close>

lemma list_query_sorted:
  assumes "distinct (map run_id rs)"
  shows "sorted_wrt (<) (map run_id (list_query act cursor rs))"
proof -
  have "sorted (map run_id (select_live rs))" "distinct (map run_id (select_live rs))"
  proof -
    show "sorted (map run_id (select_live rs))" by (simp add: select_live_def)
    have "distinct (map run_id (filter (\<lambda>r. deleted_at r = None) rs))"
      using assms by (rule distinct_map_filter)
    then show "distinct (map run_id (select_live rs))"
      unfolding select_live_def by (metis distinct_sort distinct_map set_sort)
  qed
  then have "sorted_wrt (<) (map run_id (select_live rs))" by (simp add: strict_sorted_iff)
  then show ?thesis by (simp add: list_query_def sorted_wrt_map sorted_wrt_filter)
qed

lemma filter_after:
  assumes "sorted_wrt (<) (map f xs)" "n < length xs"
  shows "filter (\<lambda>x. f (xs ! n) < (f x :: 'k :: linorder)) xs = drop (Suc n) xs"
proof -
  have "f x \<le> f (xs ! n)" if "x \<in> set (take (Suc n) xs)" for x
  proof -
    from that obtain i where "i < Suc n" "x = xs ! i"
      using assms(2) by (auto simp: in_set_conv_nth)
    then have "i \<le> n" by simp
    note i = this \<open>x = xs ! i\<close>
    then show ?thesis using assms sorted_wrt_nth_less [OF assms(1), of i n] by (cases "i = n") auto
  qed
  then have "filter (\<lambda>x. f (xs ! n) < f x) (take (Suc n) xs) = []"
    by (auto simp: filter_empty_conv not_less)
  moreover have "f (xs ! n) < f x" if "x \<in> set (drop (Suc n) xs)" for x
  proof -
    from that obtain i where i: "i < length (drop (Suc n) xs)" "x = drop (Suc n) xs ! i"
      by (metis in_set_conv_nth)
    then have "x = xs ! (Suc n + i)" "Suc n + i < length xs" by auto
    then show ?thesis using sorted_wrt_nth_less [OF assms(1), of n "Suc n + i"] assms(2) by simp
  qed
  then have "filter (\<lambda>x. f (xs ! n) < f x) (drop (Suc n) xs) = drop (Suc n) xs"
    by (simp add: filter_id_conv)
  ultimately show ?thesis by (metis append_Nil append_take_drop_id filter_append)
qed

lemma list_query_next:
  assumes "distinct (map run_id rs)" "n < length (list_query act cursor rs)"
  shows "list_query act (run_id (list_query act cursor rs ! n)) rs = drop (Suc n) (list_query act cursor rs)"
proof -
  let ?q = "list_query act cursor rs"
  have "cursor < run_id (?q ! n)" using nth_mem [OF assms(2)] by (simp add: list_query_def)
  then have "list_query act (run_id (?q ! n)) rs = filter (\<lambda>x. run_id (?q ! n) < run_id x) ?q"
    unfolding list_query_def filter_filter by (intro filter_cong refl) auto
  then show ?thesis using filter_after [OF list_query_sorted [OF assms(1)] assms(2)] by simp
qed

lemma list_query_length: "length (list_query act cursor rs) \<le> length rs"
  by (simp add: list_query_def select_live_def le_trans [OF length_filter_le])

lemma listable_query: "listable rs \<Longrightarrow> listable (list_query act cursor rs)"
  by (auto simp: listable_def list_all_iff list_query_def select_live_def)

section \<open>All pages\<close>

lemma list_loop_result:
  assumes "distinct (map run_id rs)" "listable rs" "0 \<le> limit" "len runs \<le> limit"
    "length (list_query act cursor rs) < fuel"
  shows "list_loop fuel limit act rs runs cursor = Some (take (nat limit + 1) (runs @ views (list_query act cursor rs)))"
  using assms(4,5)
proof (induction fuel arbitrary: runs cursor)
  case (Suc fuel)
  define q k where "q = list_query act cursor rs" and "k = nat limit + 1"
  have k: "int k = limit + 1" using assms(3) by (simp add: k_def)
  have "listable (take k q)"
    using listable_query [OF assms(2)] by (auto simp: q_def listable_def list_all_iff dest: in_set_takeD)
  then obtain n where n: "n \<le> length (take k q)" "list_page limit (take k q) runs 0 cursor
        = Some (runs @ views (take n (take k q)), int n, if n = 0 then cursor else run_id (take k q ! (n - 1)))"
      "n = length (take k q) \<and> len (runs @ views (take k q)) \<le> limit
       \<or> len (runs @ views (take n (take k q))) = limit + 1"
    using list_page_reads [OF _ Suc.prems(1), of "take k q" 0 cursor] by auto
  define found where "found = runs @ views (take n q)"
  have tk: "take n (take k q) = take n q" using n(1) by (simp add: min_absorb1)
  have split: "runs @ views q = found @ views (drop n q)"
    by (simp add: found_def flip: views_append)
  have step: "list_loop (Suc fuel) limit act rs runs cursor =
      (if limit < len found \<or> int n < limit + 1 then Some found
       else list_loop fuel limit act rs found (if n = 0 then cursor else run_id (take k q ! (n - 1))))"
    using Suc.prems(1) n(2) by (simp only: list_loop.simps tk flip: q_def k_def found_def) simp
  show ?case unfolding step
  proof (cases "len found = limit + 1")
    case True
    then have "take k (runs @ views q) = found" unfolding split using k by (simp add: len_def)
    with True show "(if limit < len found \<or> int n < limit + 1 then Some found
       else list_loop fuel limit act rs found (if n = 0 then cursor else run_id (take k q ! (n - 1))))
      = Some (take (nat limit + 1) (runs @ views (list_query act cursor rs)))"
      by (simp only: q_def k_def) simp
  next
    case False
    with n(3) have n': "n = length (take k q)" and page: "len (runs @ views (take k q)) \<le> limit"
      unfolding tk found_def by blast+
    have "take n q = take k q" using n' tk by (metis order_refl take_all)
    with page have short: "len found \<le> limit" by (simp add: found_def)
    show "(if limit < len found \<or> int n < limit + 1 then Some found
       else list_loop fuel limit act rs found (if n = 0 then cursor else run_id (take k q ! (n - 1))))
      = Some (take (nat limit + 1) (runs @ views (list_query act cursor rs)))"
    proof (cases "length q < k")
      case True
      then have all: "take n q = q" "int n < limit + 1" using n' k by auto
      then have "take k (runs @ views q) = found" using short k by (simp add: found_def len_def)
      with all show ?thesis by (simp only: q_def k_def) simp
    next
      case full: False
      then have nk: "n = k" and last: "take k q ! (n - 1) = q ! nat limit" "nat limit < length q"
        using n' by (auto simp: k_def)
      have nxt: "list_query act (run_id (q ! nat limit)) rs = drop n q"
        using list_query_next [OF assms(1) last(2) [unfolded q_def]] by (simp add: nk k_def q_def)
      have "length (drop n q) < fuel" using Suc.prems(2) full by (simp add: nk k_def q_def)
      then have "list_loop fuel limit act rs found (run_id (q ! nat limit))
          = Some (take (nat limit + 1) (found @ views (drop n q)))"
        using Suc.IH [of found "run_id (q ! nat limit)"] short by (simp only: nxt)
      then show ?thesis
        using short nk k last(1) split by (simp only: q_def [symmetric]) (simp add: k_def)
    qed
  qed
qed simp

text \<open>Every invariant-satisfying store answers a listing, whatever its size.\<close>

lemma table_ok_listable: "table_ok rs \<Longrightarrow> listable rs"
  by (auto simp: table_ok_def listable_def list_all_iff)

definition page_of :: "int \<Rightarrow> row list \<Rightarrow> ListResult" where
  "page_of limit rows =
     (let page = take (nat limit) (views rows)
      in \<lparr>list_APIVersion = api_version, list_Runs = page,
          list_NextAfter = (if limit < len (views rows) then v_RunID (last page) else [])\<rparr>)"

lemma list_runs_page:
  assumes "store_inv env st" "1 \<le> limit" "limit \<le> 500" "after = [] \<or> validRunID after"
  shows "list_runs env limit after act st = (let st1 = snd (Sweep env st)
     in (Inr (page_of limit (list_query act after (local_runs st1))), st1))"
proof -
  obtain res st1 where sw: "Sweep env st = (res, st1)" by fastforce
  then obtain n where res: "res = Inr n" and ok: "table_ok (local_runs st1)"
    using Sweep_op_ok [OF assms(1) sw] by (auto simp: op_ok_def store_inv_def)
  let ?q = "list_query act after (local_runs st1)"
  have "list_loop (Suc (length (local_runs st1))) limit act (local_runs st1) [] after
      = Some (take (nat limit + 1) ([] @ views ?q))"
    by (rule list_loop_result)
       (use ok assms(2) table_ok_listable list_query_length in \<open>auto simp: table_ok_def len_def less_Suc_eq_le\<close>)
  moreover have "limit < len (take (nat limit + 1) (views ?q)) \<longleftrightarrow> limit < len (views ?q)"
    using assms(2) by (auto simp: len_def min_def)
  moreover have "take (nat limit + 1) (views ?q) = take (nat limit) (views ?q)" if "\<not> limit < len (views ?q)"
    using that by (simp add: len_def)
  moreover have "take (nat limit) (take (nat limit + 1) (views ?q)) = take (nat limit) (views ?q)"
    by simp
  ultimately show ?thesis
    using assms by (auto simp: list_runs_def after_sweep_def sw res page_of_def Let_def simp del: list_loop.simps)
qed

end
