(* ===== verification/Reconciler_Safety.thy ===== *)
theory Reconciler_Safety
  imports Run_Reconciler Store_Leases Store_Listing
begin

text \<open>
  The reconciler refines the store: whatever the backend answers and whatever other goroutines do
  between its calls, a round is a sequence of store steps, so that the invariant of the store
  survives it. Its loops over the pages end when nobody inserts runs meanwhile.
\<close>

section \<open>Actions on a shared store\<close>

text \<open>The other goroutines use the operations of the store.\<close>

definition others_ok :: "'b Reconciler \<Rightarrow> bool" where
  "others_ok rc \<longleftrightarrow> (\<forall>n st. (store_step (rc_env rc))\<^sup>*\<^sup>* st (rc_others rc n st))"

text \<open>
  From a store that satisfies the invariant and \<open>P\<close>, the action makes store steps only, and \<open>Q\<close> holds
  of a successful result and the store it leaves.
\<close>

definition safe_act :: "'b Reconciler \<Rightarrow> (store \<Rightarrow> bool) \<Rightarrow> ('b, 'a) act \<Rightarrow> ('a \<Rightarrow> store \<Rightarrow> bool) \<Rightarrow> bool" where
  "safe_act rc P m Q \<longleftrightarrow> (\<forall>w res w'. store_inv (rc_env rc) (w_store w) \<longrightarrow> P (w_store w) \<longrightarrow> m w = (res, w') \<longrightarrow>
     (store_step (rc_env rc))\<^sup>*\<^sup>* (w_store w) (w_store w') \<and> (\<forall>a. res = Inr a \<longrightarrow> Q a (w_store w')))"

definition stable :: "'b Reconciler \<Rightarrow> (store \<Rightarrow> bool) \<Rightarrow> bool" where
  "stable rc P \<longleftrightarrow> (\<forall>s t. store_inv (rc_env rc) s \<longrightarrow> P s \<longrightarrow> (store_step (rc_env rc))\<^sup>*\<^sup>* s t \<longrightarrow> P t)"

definition safe_op :: "'b Reconciler \<Rightarrow> (store \<Rightarrow> bool) \<Rightarrow> 'a store_op \<Rightarrow> ('a \<Rightarrow> store \<Rightarrow> bool) \<Rightarrow> bool" where
  "safe_op rc P op Q \<longleftrightarrow> (\<forall>s res t. store_inv (rc_env rc) s \<longrightarrow> P s \<longrightarrow> op s = (res, t) \<longrightarrow>
     (store_step (rc_env rc))\<^sup>*\<^sup>* s t \<and> (\<forall>a. res = Inr a \<longrightarrow> Q a t))"

lemma inv_steps: "store_inv env s \<Longrightarrow> (store_step env)\<^sup>*\<^sup>* s t \<Longrightarrow> store_inv env t"
  by (meson op_ok_inv store_steps_ok)

lemma stableD: "stable rc P \<Longrightarrow> store_inv (rc_env rc) s \<Longrightarrow> P s \<Longrightarrow> (store_step (rc_env rc))\<^sup>*\<^sup>* s t \<Longrightarrow> P t"
  unfolding stable_def by blast

lemma safe_opD:
  assumes "safe_op rc P op Q" "store_inv (rc_env rc) s" "P s" "op s = (res, t)"
  shows "(store_step (rc_env rc))\<^sup>*\<^sup>* s t" "\<And>a. res = Inr a \<Longrightarrow> Q a t"
  using assms unfolding safe_op_def by blast+

lemma safe_actD:
  assumes "safe_act rc P m Q" "store_inv (rc_env rc) (w_store w)" "P (w_store w)" "m w = (res, w')"
  shows "(store_step (rc_env rc))\<^sup>*\<^sup>* (w_store w) (w_store w')" "\<And>a. res = Inr a \<Longrightarrow> Q a (w_store w')"
  using assms unfolding safe_act_def by blast+

lemma stable_known [intro]: "stable rc (\<lambda>st. known rid n s (local_runs st))"
  using known_steps by (auto simp: stable_def)

lemma stable_True [intro, simp]: "stable rc (\<lambda>st. True)"
  by (simp add: stable_def)

lemma safe_call_store:
  assumes "others_ok rc" "stable rc P" "safe_op rc P op Q"
  shows "safe_act rc P (call_store rc op) Q"
  unfolding safe_act_def
proof (intro allI impI)
  fix w res w' assume w: "store_inv (rc_env rc) (w_store w)" "P (w_store w)" "call_store rc op w = (res, w')"
  let ?s = "rc_others rc (w_calls w) (w_store w)"
  have o: "(store_step (rc_env rc))\<^sup>*\<^sup>* (w_store w) ?s" using assms(1) by (simp add: others_ok_def)
  note inv = inv_steps [OF w(1) o] and P = stableD [OF assms(2) w(1,2) o]
  obtain r where op: "op ?s = (r, w_store w')" "res = map_sum StoreError id r"
    using w(3) by (auto simp: call_store_def split: prod.splits)
  note res = safe_opD [OF assms(3) inv P op(1)]
  have "(store_step (rc_env rc))\<^sup>*\<^sup>* (w_store w) (w_store w')" using o res(1) by (rule rtranclp_trans)
  with op(2) res(2) show "(store_step (rc_env rc))\<^sup>*\<^sup>* (w_store w) (w_store w') \<and> (\<forall>a. res = Inr a \<longrightarrow> Q a (w_store w'))"
    by (cases r) auto
qed

lemma safe_bind:
  assumes "safe_act rc P m Q" "\<And>a. safe_act rc (Q a) (f a) R"
  shows "safe_act rc P (act_bind m f) R"
  unfolding safe_act_def
proof (intro allI impI)
  fix w res w' assume w: "store_inv (rc_env rc) (w_store w)" "P (w_store w)" "act_bind m f w = (res, w')"
  obtain r w1 where m: "m w = (r, w1)" by fastforce
  note st = safe_actD(1) [OF assms(1) w(1,2) m] and q = safe_actD(2) [OF assms(1) w(1,2) m]
  show "(store_step (rc_env rc))\<^sup>*\<^sup>* (w_store w) (w_store w') \<and> (\<forall>a. res = Inr a \<longrightarrow> R a (w_store w'))"
  proof (cases r)
    case (Inl e)
    then show ?thesis using w(3) st m by (auto simp: act_bind_def)
  next
    case (Inr a)
    then have "f a w1 = (res, w')" using w(3) m by (simp add: act_bind_def)
    note r = safe_actD [OF assms(2) inv_steps [OF w(1) st] q [OF Inr] this]
    show ?thesis using rtranclp_trans [OF st r(1)] r(2) by blast
  qed
qed

lemma safe_conseq:
  "safe_act rc P m Q \<Longrightarrow> (\<And>s. P' s \<Longrightarrow> P s) \<Longrightarrow> (\<And>a s. Q a s \<Longrightarrow> Q' a s) \<Longrightarrow> safe_act rc P' m Q'"
  unfolding safe_act_def by blast

lemma safe_return: "(\<And>a s. res = Inr a \<Longrightarrow> P s \<Longrightarrow> Q a s) \<Longrightarrow> safe_act rc P (act_return res) Q"
  by (simp add: safe_act_def act_return_def)

lemma safe_discard: "safe_act rc P m Q \<Longrightarrow> safe_act rc P (discard m) (\<lambda>_ _. True)"
  unfolding safe_act_def discard_def by (metis (no_types, lifting) case_prod_conv prod.exhaust prod.inject)

lemma safe_backend:
  "safe_act rc P (call_Inspect rc br) (\<lambda>_. P)" "safe_act rc P (call_Delete rc br) (\<lambda>_. P)"
  by (auto simp: safe_act_def call_Inspect_def call_Delete_def split: prod.splits)

section \<open>The store calls\<close>

lemma safe_readonly:
  assumes "\<And>s. snd (op s) = s"
  shows "safe_op rc P op (\<lambda>_. P)"
  unfolding safe_op_def using assms by (metis rtranclp.rtrancl_refl snd_conv)

lemma snapshot_readonly: "snd (backendSnapshot rid s) = s" "snd (ResolvedSnapshot rid s) = s"
  by (simp_all add: backendSnapshot_def ResolvedSnapshot_def)

lemma safe_UpdateStatus: "safe_op rc P (UpdateStatus (rc_env rc) input) (\<lambda>_ _. True)"
  by (auto simp: safe_op_def intro: step_UpdateStatus)

lemma safe_Claim:
  "safe_op rc (\<lambda>st. known (claim_RunID input) (claim_ExpectedRevision input) s (local_runs st))
     (Claim (rc_env rc) input) (\<lambda>v st. known (claim_RunID input) (v_Revision v) s (local_runs st))"
  by (auto simp: safe_op_def intro: step_Claim known_claimed)

lemma safe_abort:
  "safe_op rc (\<lambda>st. known rid n StatePreparing (local_runs st))
     (abortPendingConfiguration (rc_env rc) rid owner n) (\<lambda>_ _. True)"
  unfolding safe_op_def
proof (intro allI impI conjI)
  fix s res t
  assume inv: "store_inv (rc_env rc) s" and k: "known rid n StatePreparing (local_runs s)"
    and op: "abortPendingConfiguration (rc_env rc) rid owner n s = (res, t)"
  have ok: "table_ok (local_runs s)" using inv by (simp add: store_inv_def)
  have "state r = StatePreparing" if "r \<in> set (local_runs s)" "at_revision rid n r" for r
    using known_row [OF k ok that(1)] that(2) by (simp add: at_revision_def)
  then show "(store_step (rc_env rc))\<^sup>*\<^sup>* s t" using step_abort [OF op] by blast
qed simp

lemma known_view:
  assumes "table_ok rs" "run \<in> set (views xs)" "set xs \<subseteq> set rs"
  shows "known (v_RunID run) (v_Revision run) (v_State run) rs" "v_RunID run \<in> run_id ` set xs"
proof -
  obtain r where r: "r \<in> set xs" "validateStoredRun r = Some run"
    using assms(2) by (auto simp: views_def map_filter_def)
  then have "v_RunID run = run_id r" "v_Revision run = revision r" "v_State run = state r"
    by (auto simp: valid_row_view populateRunMetadata_def scanStoredRun_def)
  with r assms(3) show "known (v_RunID run) (v_Revision run) (v_State run) rs" "v_RunID run \<in> run_id ` set xs"
    by (auto simp: known_def)
qed

definition page_known :: "Run list \<Rightarrow> store \<Rightarrow> bool" where
  "page_known runs st \<longleftrightarrow>
     (\<forall>run \<in> set runs. known (v_RunID run) (v_Revision run) (v_State run) (local_runs st))"

lemma list_query_set: "set (list_query act after rs) \<subseteq> set rs"
  by (auto simp: list_query_def select_live_def)

lemma safe_ListRuns: "safe_op rc P (ListRuns (rc_env rc) limit after) (\<lambda>page. page_known (list_Runs page))"
  unfolding safe_op_def
proof (intro allI impI)
  fix s res t assume inv: "store_inv (rc_env rc) s" and op: "ListRuns (rc_env rc) limit after s = (res, t)"
  show "(store_step (rc_env rc))\<^sup>*\<^sup>* s t \<and> (\<forall>page. res = Inr page \<longrightarrow> page_known (list_Runs page) t)"
  proof (cases "1 \<le> limit \<and> limit \<le> 500 \<and> (after = [] \<or> validRunID after)")
    case True
    define t1 where "t1 = snd (Sweep (rc_env rc) s)"
    have eq: "res = Inr (page_of limit (list_query False after (local_runs t1)))" "t = t1"
      using op True list_runs_page [OF inv, of limit after False] by (auto simp: ListRuns_def Let_def t1_def)
    have st: "store_step (rc_env rc) s t1"
      unfolding t1_def by (rule step_Sweep [of _ _ "fst (Sweep (rc_env rc) s)"]) simp
    then have "table_ok (local_runs t1)" using inv_steps [OF inv, of t1] by (auto simp: store_inv_def)
    then have "page_known (list_Runs (page_of limit (list_query False after (local_runs t1)))) t1"
      using known_view(1) [OF _ _ list_query_set] by (auto simp: page_known_def page_of_def Let_def dest: in_set_takeD)
    with eq st show ?thesis by auto
  next
    case False
    then show ?thesis using op by (auto simp: ListRuns_def list_runs_def split: if_splits)
  qed
qed

section \<open>One run\<close>

text \<open>What the reconciler knows of a run it has listed, or claimed.\<close>

abbreviation run_known :: "Run \<Rightarrow> int \<Rightarrow> store \<Rightarrow> bool" where
  "run_known run n st \<equiv> known (v_RunID run) n (v_State run) (local_runs st)"

lemma safe_claim:
  assumes "others_ok rc"
  shows "safe_act rc (run_known run (v_Revision run)) (claim rc run) (\<lambda>v. run_known run (v_Revision v))"
  unfolding claim_def
  by (rule safe_call_store [OF assms stable_known])
     (use safe_Claim [where input = "\<lparr>claim_RunID = v_RunID run, claim_Owner = rc_owner rc,
        claim_ExpectedRevision = v_Revision run, claim_Lease = rc_lease rc\<rparr>"] in simp)

lemma safe_report:
  assumes "others_ok rc"
  shows "safe_act rc P (discard (report rc run claimed s target reason cursor)) (\<lambda>_ _. True)"
proof -
  have "safe_act rc (\<lambda>_. True) (report rc run claimed s target reason cursor) (\<lambda>_ _. True)"
    unfolding report_def by (rule safe_call_store [OF assms stable_True safe_UpdateStatus])
  then show ?thesis by (rule safe_conseq [OF safe_discard]) simp_all
qed

lemma safe_backendRun:
  assumes "others_ok rc" "stable rc P"
  shows "safe_act rc P (backendRun rc run) (\<lambda>_. P)"
proof -
  note read = safe_call_store [OF assms safe_readonly [OF snapshot_readonly(1)]]
    safe_call_store [OF assms safe_readonly [OF snapshot_readonly(2)]]
  have "safe_act rc P (act_bind (call_store rc (ResolvedSnapshot rid)) (\<lambda>(active, _).
      case DecodeResolvedAgentRun active of
        None \<Rightarrow> act_return (Inl (StoreError ErrStoreUnavailable))
      | Some previous \<Rightarrow> act_return (Inr (result\<lparr>br_PreviousResolved := Some previous\<rparr>)))) (\<lambda>_. P)" for rid result
    by (rule safe_bind [OF read(2)]) (auto split: option.splits prod.splits intro: safe_return)
  then show ?thesis
    unfolding backendRun_def Let_def
    by (intro safe_bind [OF read(1)]) (auto split: option.splits intro: safe_return)
qed

lemma safe_preparing:
  assumes "others_ok rc" "v_State run = StatePreparing"
  shows "safe_act rc (run_known run (v_Revision run)) (reconcile_preparing rc run br) (\<lambda>_ _. True)"
proof -
  have ensured: "safe_act rc P (ensured rc run br claimed obs) (\<lambda>_ _. True)" for P claimed obs
    unfolding ensured_def Let_def by (simp add: safe_return safe_report [OF assms(1)])
  have abort: "safe_act rc (run_known run (v_Revision claimed)) (ensure_failed rc run br claimed) (\<lambda>_ _. True)" for claimed
    unfolding ensure_failed_def assms(2)
    using safe_call_store [OF assms(1) stable_known safe_abort] safe_report [OF assms(1)] by auto
  have "safe_act rc (run_known run (v_Revision claimed)) (\<lambda>w.
       case call_Ensure rc br w of
         (Inr obs, w1) \<Rightarrow> ensured rc run br claimed obs w1
       | (Inl e, w1) \<Rightarrow>
           if e \<noteq> ErrBackendDesiredRunInvalid then (Inl e, w1)
           else ensure_failed rc run br claimed w1) (\<lambda>_ _. True)" (is "safe_act rc ?P ?m _") for claimed
    unfolding safe_act_def
  proof (intro allI impI conjI)
    fix w res w' assume w: "store_inv (rc_env rc) (w_store w)" "?P (w_store w)" "?m w = (res, w')"
    obtain r w1 where e: "call_Ensure rc br w = (r, w1)" by fastforce
    then have st: "w_store w1 = w_store w" by (auto simp: call_Ensure_def split: prod.splits)
    show "(store_step (rc_env rc))\<^sup>*\<^sup>* (w_store w) (w_store w')"
    proof (cases r)
      case (Inr obs)
      with e w(3) have "ensured rc run br claimed obs w1 = (res, w')" by simp
      from safe_actD(1) [OF ensured _ _ this, of "\<lambda>_. True"] w(1) show ?thesis by (simp add: st)
    next
      case (Inl e')
      show ?thesis
      proof (cases "e' = ErrBackendDesiredRunInvalid")
        case True
        with Inl e w(3) have "ensure_failed rc run br claimed w1 = (res, w')" by simp
        from safe_actD(1) [OF abort _ _ this] w(1,2) show ?thesis by (simp add: st)
      next
        case False
        with Inl e w(3) have "w' = w1" by auto
        then show ?thesis by (simp add: st)
      qed
    qed
  qed simp
  then show ?thesis unfolding reconcile_preparing_def by (rule safe_bind [OF safe_claim [OF assms(1)]])
qed

lemma safe_running:
  assumes "others_ok rc"
  shows "safe_act rc (run_known run (v_Revision run)) (reconcile_running rc run br) (\<lambda>_ _. True)"
proof -
  have "safe_act rc (run_known run (v_Revision run)) (act_bind (claim rc run) (\<lambda>claimed.
      discard (report rc run claimed s target reason cursor))) (\<lambda>_ _. True)" for s target reason cursor
    by (rule safe_bind [OF safe_claim [OF assms] safe_report [OF assms]])
  then show ?thesis
    unfolding reconcile_running_def by (intro safe_bind [OF safe_backend(1)]) (simp add: safe_return)
qed

lemma safe_reconcileRun:
  assumes "others_ok rc"
  shows "safe_act rc (run_known run (v_Revision run)) (reconcileRun rc run) (\<lambda>_ _. True)"
  unfolding reconcileRun_def
proof (rule safe_bind [OF safe_backendRun [OF assms stable_known]])
  fix br
  have "safe_act rc (run_known run (v_Revision run)) (reconcile_pending rc run) (\<lambda>_ _. True)"
    unfolding reconcile_pending_def by (rule safe_bind [OF safe_claim [OF assms] safe_report [OF assms]])
  moreover have "safe_act rc (run_known run (v_Revision run)) (reconcile_stopping rc run br) (\<lambda>_ _. True)"
    unfolding reconcile_stopping_def
    by (intro safe_bind [OF safe_claim [OF assms]] safe_bind [OF safe_backend(2)] safe_report [OF assms])
  ultimately show "safe_act rc (run_known run (v_Revision run)) (case v_State run of
         StatePending \<Rightarrow> reconcile_pending rc run
       | StatePreparing \<Rightarrow> reconcile_preparing rc run br
       | StateRunning \<Rightarrow> reconcile_running rc run br
       | StateStopping \<Rightarrow> reconcile_stopping rc run br
       | _ \<Rightarrow> act_return (Inr ())) (\<lambda>_ _. True)"
    using safe_preparing [OF assms, of run br] safe_running [OF assms, of run br]
    by (cases "v_State run") (simp_all add: safe_return)
qed

section \<open>All runs\<close>

lemma page_known_steps:
  "page_known runs s \<Longrightarrow> store_inv env s \<Longrightarrow> (store_step env)\<^sup>*\<^sup>* s t \<Longrightarrow> page_known runs t"
  using known_steps by (auto simp: page_known_def)

lemma reconcile_page_steps:
  assumes "others_ok rc" "store_inv (rc_env rc) (w_store w)" "page_known runs (w_store w)"
  shows "(store_step (rc_env rc))\<^sup>*\<^sup>* (w_store w) (w_store (reconcile_page rc cleanup runs w))"
  using assms(2,3)
proof (induction runs arbitrary: w)
  case (Cons run runs)
  obtain res w1 where r: "reconcileRun rc run w = (res, w1)" by fastforce
  have run: "run_known run (v_Revision run) (w_store w)" and rest: "page_known runs (w_store w)"
    using Cons.prems(2) by (simp_all add: page_known_def)
  note st = safe_actD(1) [OF safe_reconcileRun [OF assms(1)] Cons.prems(1) run r]
  note later = Cons.IH [OF inv_steps [OF Cons.prems(1) st] page_known_steps [OF rest Cons.prems(1) st]]
  then show ?case using Cons.IH [OF Cons.prems(1) rest] rtranclp_trans [OF st later] r by simp
qed simp

lemma list_call:
  assumes "others_ok rc" "store_inv (rc_env rc) (w_store w)"
    "call_store rc (ListRuns (rc_env rc) limit after) w = (res, w1)"
  shows "(store_step (rc_env rc))\<^sup>*\<^sup>* (w_store w) (w_store w1)" "store_inv (rc_env rc) (w_store w1)"
    "\<And>page. res = Inr page \<Longrightarrow> page_known (list_Runs page) (w_store w1)"
proof -
  note safe = safe_actD [OF safe_call_store [OF assms(1) stable_True safe_ListRuns] assms(2) TrueI assms(3)]
  show "(store_step (rc_env rc))\<^sup>*\<^sup>* (w_store w) (w_store w1)"
    "\<And>page. res = Inr page \<Longrightarrow> page_known (list_Runs page) (w_store w1)" using safe by blast+
  then show "store_inv (rc_env rc) (w_store w1)" using inv_steps [OF assms(2)] by blast
qed

lemma reconcile_pass_steps:
  assumes "others_ok rc" "store_inv (rc_env rc) (w_store w)"
    "reconcile_pass fuel rc cleanup after w = Some (res, w')"
  shows "(store_step (rc_env rc))\<^sup>*\<^sup>* (w_store w) (w_store w')"
  using assms(2,3)
proof (induction fuel arbitrary: after w)
  case (Suc fuel)
  obtain r w1 where l: "call_store rc (ListRuns (rc_env rc) MaxListLimit after) w = (r, w1)" by fastforce
  note lc = list_call [OF assms(1) Suc.prems(1) l]
  show ?case
  proof (cases r)
    case (Inl e)
    then show ?thesis using Suc.prems(2) l lc(1) by simp
  next
    case (Inr page)
    let ?w2 = "reconcile_page rc cleanup (list_Runs page) w1"
    have st: "(store_step (rc_env rc))\<^sup>*\<^sup>* (w_store w) (w_store ?w2)"
      using lc(1) reconcile_page_steps [OF assms(1) lc(2) lc(3) [OF Inr]] by (rule rtranclp_trans)
    show ?thesis
    proof (cases "list_NextAfter page = []")
      case True
      then show ?thesis using Suc.prems(2) l Inr st by (simp add: Let_def)
    next
      case False
      then have "reconcile_pass fuel rc cleanup (list_NextAfter page) ?w2 = Some (res, w')"
        using Suc.prems(2) l Inr by (simp add: Let_def)
      from Suc.IH [OF inv_steps [OF Suc.prems(1) st] this] st show ?thesis by simp
    qed
  qed
qed simp

lemma Reconcile_steps:
  assumes "others_ok rc" "store_inv (rc_env rc) (w_store w)" "Reconcile fuel rc w = Some (res, w')"
  shows "(store_step (rc_env rc))\<^sup>*\<^sup>* (w_store w) (w_store w')"
proof -
  obtain r w1 where p: "reconcile_pass fuel rc True [] w = Some (r, w1)"
    using assms(3) by (auto simp: Reconcile_def split: option.splits)
  note st1 = reconcile_pass_steps [OF assms(1,2) p]
  note inv1 = inv_steps [OF assms(2) st1]
  obtain b w2 where c: "cleanup_pending rc w1 = (b, w2)" by fastforce
  have "safe_act rc (\<lambda>_. True) (cleanup_pending rc) (\<lambda>_ _. True)"
    unfolding cleanup_pending_def by (rule safe_call_store [OF assms(1) stable_True safe_readonly]) simp
  from safe_actD(1) [OF this inv1 TrueI c] have st2: "(store_step (rc_env rc))\<^sup>*\<^sup>* (w_store w) (w_store w2)"
    using st1 by simp
  show ?thesis
  proof (cases r)
    case (Inl e)
    then show ?thesis using assms(3) p st1 by (simp add: Reconcile_def)
  next
    case (Inr u)
    have "w' = w2 \<or> reconcile_pass fuel rc False [] w2 = Some (res, w')"
      using assms(3) p Inr c by (auto simp: Reconcile_def split: sum.splits if_splits)
    then show ?thesis
      using st2 reconcile_pass_steps [OF assms(1) inv_steps [OF assms(2) st2]] by (auto intro: rtranclp_trans)
  qed
qed

section \<open>Recovery\<close>

lemma safe_recover_run:
  assumes "others_ok rc"
  shows "safe_act rc (run_known run (v_Revision run)) (recover_run rc run) (\<lambda>_ _. True)"
  unfolding safe_act_def
proof (intro allI impI conjI)
  fix w res w'
  assume w: "store_inv (rc_env rc) (w_store w)" "run_known run (v_Revision run) (w_store w)"
    "recover_run rc run w = (res, w')"
  obtain r w1 where c: "claim rc run w = (r, w1)" by fastforce
  note st = safe_actD(1) [OF safe_claim [OF assms] w(1,2) c]
  show "(store_step (rc_env rc))\<^sup>*\<^sup>* (w_store w) (w_store w')"
  proof (cases r)
    case (Inl e)
    then show ?thesis using w(3) c st by (auto simp: recover_run_def split: if_splits)
  next
    case (Inr claimed)
    let ?m = "report rc run claimed StatePreparing StateEmpty ''backend-recovery-requested'' None"
    obtain r2 w2 where m: "?m w1 = (r2, w2)" by fastforce
    then have "discard ?m w1 = (map_sum id (\<lambda>_. ()) r2, w2)" by (simp add: discard_def)
    from safe_actD(1) [OF safe_report [OF assms] inv_steps [OF w(1) st] TrueI this] st
    have "(store_step (rc_env rc))\<^sup>*\<^sup>* (w_store w) (w_store w2)" by simp
    then show ?thesis using w(3) c Inr m by (auto simp: recover_run_def split: sum.splits if_splits)
  qed
qed simp

lemma recover_page_steps:
  assumes "others_ok rc" "store_inv (rc_env rc) (w_store w)" "page_known runs (w_store w)"
    "recover_page rc runs pending w = (res, w')"
  shows "(store_step (rc_env rc))\<^sup>*\<^sup>* (w_store w) (w_store w')"
  using assms(2-4)
proof (induction runs arbitrary: w pending)
  case (Cons run runs)
  have run: "run_known run (v_Revision run) (w_store w)" and rest: "page_known runs (w_store w)"
    using Cons.prems(2) by (simp_all add: page_known_def)
  obtain r w1 where r: "recover_run rc run w = (r, w1)" by fastforce
  note st = safe_actD(1) [OF safe_recover_run [OF assms(1)] Cons.prems(1) run r]
  show ?case
  proof (cases "v_State run = StateRunning")
    case True
    show ?thesis
    proof (cases r)
      case (Inl e)
      then show ?thesis using Cons.prems(3) True r st by simp
    next
      case (Inr waits)
      then have "recover_page rc runs (pending \<or> waits) w1 = (res, w')" using Cons.prems(3) True r by simp
      from Cons.IH [OF inv_steps [OF Cons.prems(1) st] page_known_steps [OF rest Cons.prems(1) st] this] st
      show ?thesis by simp
    qed
  next
    case False
    then show ?thesis using Cons.IH [OF Cons.prems(1) rest] Cons.prems(3) by simp
  qed
qed simp

lemma recover_pages_steps:
  assumes "others_ok rc" "store_inv (rc_env rc) (w_store w)" "recover_pages fuel rc after pending w = Some (res, w')"
  shows "(store_step (rc_env rc))\<^sup>*\<^sup>* (w_store w) (w_store w')"
  using assms(2,3)
proof (induction fuel arbitrary: after pending w)
  case (Suc fuel)
  obtain r w1 where l: "call_store rc (ListRuns (rc_env rc) MaxListLimit after) w = (r, w1)" by fastforce
  note lc = list_call [OF assms(1) Suc.prems(1) l]
  show ?case
  proof (cases r)
    case (Inl e)
    then show ?thesis using Suc.prems(2) l lc(1) by simp
  next
    case (Inr page)
    obtain r2 w2 where p: "recover_page rc (list_Runs page) pending w1 = (r2, w2)" by fastforce
    have st: "(store_step (rc_env rc))\<^sup>*\<^sup>* (w_store w) (w_store w2)"
      using lc(1) recover_page_steps [OF assms(1) lc(2) lc(3) [OF Inr] p] by (rule rtranclp_trans)
    have "w' = w2 \<or> (\<exists>b. recover_pages fuel rc (list_NextAfter page) b w2 = Some (res, w'))"
      using Suc.prems(2) l Inr p by (auto split: sum.splits if_splits)
    then show ?thesis
      using st Suc.IH [OF inv_steps [OF Suc.prems(1) st]] by (auto intro: rtranclp_trans)
  qed
qed simp

lemma run_round_steps:
  assumes "others_ok rc" "store_inv (rc_env rc) (w_store w)" "run_round fuel rc recovered w = Some (flag, w')"
  shows "(store_step (rc_env rc))\<^sup>*\<^sup>* (w_store w) (w_store w')"
proof (cases recovered)
  case True
  then show ?thesis using assms(3) Reconcile_steps [OF assms(1,2)] by (auto simp: run_round_def)
next
  case False
  then obtain r w1 r2 where r: "Recover fuel rc w = Some (r, w1)" "Reconcile fuel rc w1 = Some (r2, w')"
    using assms(3) by (auto simp: run_round_def split: option.splits)
  note st = recover_pages_steps [OF assms(1,2) r(1) [unfolded Recover_def]]
  show ?thesis using st Reconcile_steps [OF assms(1) inv_steps [OF assms(2) st] r(2)] by (rule rtranclp_trans)
qed

end
