(* ===== verification/Reconciler_Progress.thy ===== *)
theory Reconciler_Progress
  imports Reconciler_Safety
begin

text \<open>
  That the reconciler gets somewhere: its loops over the pages of the store end, the cleanup of
  stopping runs comes before any other work, and a run that nobody else touches moves on to its
  next state when the backend does its part.
\<close>

section \<open>Operations that insert no rows\<close>

definition ids :: "store \<Rightarrow> string list" where
  "ids st = map run_id (local_runs st)"

definition keeps_ids :: "'a store_op \<Rightarrow> bool" where
  "keeps_ids op \<longleftrightarrow> (\<forall>st. ids (snd (op st)) = ids st)"

lemma update_one_ids:
  "update_one e p f rs = Inr rs' \<Longrightarrow> (\<And>r. run_id (f r) = run_id r) \<Longrightarrow> map run_id rs' = map run_id rs"
  by (auto simp: update_one_def exec_update_def split: if_splits)

lemma sweep_records_ids: "sweep_records now qs rs k = Inr (n, rs') \<Longrightarrow> map run_id rs' = map run_id rs"
proof (induction qs arbitrary: rs k)
  case (Cons q qs)
  have keep: "run_id (f r) = run_id r" if "sweep_update now q = Some f" for f r
    using that by (auto simp: sweep_update_def expire_active_def expire_retention_def split: if_splits)
  show ?case
  proof (cases "sweep_update now q")
    case None
    then show ?thesis using Cons by simp
  next
    case (Some f)
    then obtain rs1 where "update_one ErrStoreUnavailable (at_revision (run_id q) (revision q)) f rs = Inr rs1"
      "sweep_records now qs rs1 (k + 1) = Inr (n, rs')"
      using Cons.prems by (auto split: sum.splits)
    then show ?thesis using update_one_ids keep [OF Some] Cons.IH by metis
  qed
qed simp

lemma Sweep_ids: "keeps_ids (Sweep env)"
  by (auto simp: keeps_ids_def ids_def Sweep_def sweepTx_def Let_def
      dest: sweep_records_ids split: sum.splits if_splits)

lemma after_sweep_ids: "keeps_ids body \<Longrightarrow> keeps_ids (after_sweep env body)"
  using Sweep_ids [of env] unfolding keeps_ids_def after_sweep_def
  by (metis (mono_tags, lifting) case_prod_beta old.sum.simps(5,6) snd_conv sumE prod.collapse)

lemma in_tx_ids:
  "(\<And>now rs. map run_id (snd (body now rs)) = map run_id rs) \<Longrightarrow> keeps_ids (in_tx env body)"
  by (simp add: keeps_ids_def in_tx_def ids_def split_beta)

lemmas row_ids = claim_row_def cursor_row_def promote_row_def replace_row_def status_row_def abort_row_def

lemma claimTx_ids: "map run_id (snd (claimTx input now rs)) = map run_id rs"
  by (auto simp: claimTx_def claim_row_def dest: update_one_ids split: sum.splits)

lemma updateStatusTx_ids: "map run_id (snd (updateStatusTx input now rs)) = map run_id rs"
proof -
  have "map run_id (snd (same_state_tx input now r view rs)) = map run_id rs" for r view
    by (auto simp: same_state_tx_def cursor_row_def dest: update_one_ids split: sum.splits option.splits)
  moreover have "map run_id (snd (promote_tx input now r view rs)) = map run_id rs" for r view
    by (auto simp: promote_tx_def promote_row_def dest: update_one_ids split: sum.splits option.splits)
  moreover have "map run_id (snd (replace_tx input now r view rs)) = map run_id rs" for r view
    by (auto simp: replace_tx_def replace_row_def dest: update_one_ids split: sum.splits option.splits)
  moreover have "map run_id (snd (transition_tx input now r view rs)) = map run_id rs" for r view
    by (auto simp: transition_tx_def status_row_def Let_def dest: update_one_ids split: sum.splits option.splits)
  ultimately show ?thesis by (simp add: updateStatusTx_def split: sum.split)
qed

lemma abortTx_ids: "map run_id (snd (abortTx rid owner n now rs)) = map run_id rs"
  by (auto simp: abortTx_def abort_row_def dest: update_one_ids split: sum.splits)

lemma id_keeps_ids: "keeps_ids (\<lambda>st. (res st, st))"
  by (simp add: keeps_ids_def)

lemma ops_keep_ids:
  "keeps_ids (Claim env ci)" "keeps_ids (UpdateStatus env si)" "keeps_ids (abortPendingConfiguration env rid owner n)"
  "keeps_ids (backendSnapshot rid)" "keeps_ids (ResolvedSnapshot rid)" "keeps_ids (ListRuns env limit after)"
proof -
  have "keeps_ids (after_sweep env (in_tx env (claimTx ci)))"
    "keeps_ids (after_sweep env (in_tx env (updateStatusTx si)))"
    by (intro after_sweep_ids in_tx_ids claimTx_ids updateStatusTx_ids)+
  then show "keeps_ids (Claim env ci)" "keeps_ids (UpdateStatus env si)"
    by (auto simp: keeps_ids_def Claim_def UpdateStatus_def)
  show "keeps_ids (abortPendingConfiguration env rid owner n)"
    unfolding abortPendingConfiguration_def by (intro in_tx_ids abortTx_ids)
  show "keeps_ids (backendSnapshot rid)" "keeps_ids (ResolvedSnapshot rid)"
    by (simp_all add: keeps_ids_def snapshot_readonly)
  have "keeps_ids (\<lambda>st. if limit < 1 \<or> 500 < limit \<or> after \<noteq> [] \<and> \<not> validRunID after
      then (Inl ErrInvalidRequest, st) else after_sweep env (\<lambda>st1. (res st1, st1)) st)" for res :: "store \<Rightarrow> store_error + ListResult"
    using after_sweep_ids [OF id_keeps_ids [of res], of env] by (simp add: keeps_ids_def)
  then show "keeps_ids (ListRuns env limit after)" unfolding ListRuns_def list_runs_def .
qed

section \<open>Termination\<close>

text \<open>Nobody else inserts rows.\<close>

definition quiet :: "'b Reconciler \<Rightarrow> bool" where
  "quiet rc \<longleftrightarrow> (\<forall>n st. ids (rc_others rc n st) = ids st)"

definition act_keeps :: "('b, 'a) act \<Rightarrow> bool" where
  "act_keeps m \<longleftrightarrow> (\<forall>w. ids (w_store (snd (m w))) = ids (w_store w))"

lemma call_keeps: "quiet rc \<Longrightarrow> keeps_ids op \<Longrightarrow> act_keeps (call_store rc op)"
  by (simp add: act_keeps_def call_store_def quiet_def keeps_ids_def split_beta)

lemma bind_keeps: "act_keeps m \<Longrightarrow> (\<And>a. act_keeps (f a)) \<Longrightarrow> act_keeps (act_bind m f)"
  unfolding act_keeps_def act_bind_def
  by (metis (mono_tags, lifting) case_prod_beta old.sum.simps(5,6) snd_conv sumE prod.collapse)

lemma return_keeps: "act_keeps (act_return res)"
  by (simp add: act_keeps_def act_return_def)

lemma discard_keeps: "act_keeps m \<Longrightarrow> act_keeps (discard m)"
  by (simp add: act_keeps_def discard_def split_beta)

lemma backend_keeps:
  "act_keeps (call_Ensure rc br)" "act_keeps (call_Inspect rc br)" "act_keeps (call_Delete rc br)"
  by (simp_all add: act_keeps_def call_Ensure_def call_Inspect_def call_Delete_def split_beta)

lemma calls_keep:
  assumes "quiet rc"
  shows "act_keeps (claim rc run)" "act_keeps (report rc run claimed s target reason cursor)"
  unfolding claim_def report_def by (rule call_keeps [OF assms ops_keep_ids(1)], rule call_keeps [OF assms ops_keep_ids(2)])

lemma backendRun_keeps: "quiet rc \<Longrightarrow> act_keeps (backendRun rc run)"
  unfolding backendRun_def Let_def
  by (intro bind_keeps call_keeps ops_keep_ids)
     (auto split: option.splits prod.splits intro!: bind_keeps call_keeps ops_keep_ids return_keeps)

lemma reconcileRun_keeps:
  assumes "quiet rc"
  shows "act_keeps (reconcileRun rc run)"
proof -
  note keeps = return_keeps discard_keeps backend_keeps calls_keep [OF assms]
  have ensured: "act_keeps (ensured rc run br claimed obs)" for br claimed obs
    by (simp add: ensured_def Let_def keeps)
  have failed: "act_keeps (ensure_failed rc run br claimed)" for br claimed
    by (simp add: ensure_failed_def keeps call_keeps [OF assms] ops_keep_ids)
  have "act_keeps (\<lambda>w. case call_Ensure rc br w of
         (Inr obs, w1) \<Rightarrow> ensured rc run br claimed obs w1
       | (Inl e, w1) \<Rightarrow>
           if e \<noteq> ErrBackendDesiredRunInvalid then (Inl e, w1)
           else ensure_failed rc run br claimed w1)" for br claimed
    using keeps(3) [of rc br] ensured failed unfolding act_keeps_def
    by (auto split: prod.split sum.split) (metis snd_conv)+
  then have "act_keeps (reconcile_preparing rc run br)" for br
    unfolding reconcile_preparing_def by (intro bind_keeps keeps) simp
  moreover have "act_keeps (reconcile_running rc run br)" for br
    unfolding reconcile_running_def by (intro bind_keeps keeps) (simp add: bind_keeps keeps)
  moreover have "act_keeps (reconcile_pending rc run)" "act_keeps (reconcile_stopping rc run br)" for br
    unfolding reconcile_pending_def reconcile_stopping_def by (intro bind_keeps keeps)+
  ultimately show ?thesis
    unfolding reconcileRun_def
    by (intro bind_keeps backendRun_keeps [OF assms]) (simp split: State.split add: keeps)
qed

lemma reconcile_page_keeps:
  assumes "quiet rc"
  shows "ids (w_store (reconcile_page rc cleanup runs w)) = ids (w_store w)"
proof (induction runs arbitrary: w)
  case (Cons run runs)
  then show ?case using reconcileRun_keeps [OF assms, of run] by (simp add: act_keeps_def)
qed simp

lemma recover_run_keeps: "quiet rc \<Longrightarrow> act_keeps (recover_run rc run)"
  using calls_keep [of rc] unfolding act_keeps_def recover_run_def
  by (auto split: prod.split sum.split) (metis snd_conv)+

lemma recover_page_keeps: "quiet rc \<Longrightarrow> act_keeps (recover_page rc runs pending)"
proof (induction runs arbitrary: pending)
  case (Cons run runs)
  then show ?case using recover_run_keeps [OF Cons.prems, of run] unfolding act_keeps_def
    by (auto split: prod.split sum.split) (metis snd_conv)+
qed (simp add: act_keeps_def)

text \<open>Every page but the last moves the cursor to a later identifier.\<close>

lemma list_call_next:
  assumes "others_ok rc" "store_inv (rc_env rc) (w_store w)"
    "call_store rc (ListRuns (rc_env rc) limit after) w = (Inr page, w1)" "list_NextAfter page \<noteq> []"
  shows "after < list_NextAfter page" "list_NextAfter page \<in> set (ids (w_store w1))"
proof -
  let ?s = "rc_others rc (w_calls w) (w_store w)"
  have inv: "store_inv (rc_env rc) ?s"
    using inv_steps [OF assms(2)] assms(1) by (simp add: others_ok_def)
  obtain r where r: "ListRuns (rc_env rc) limit after ?s = (Inr page, w_store w1)"
    using assms(3) by (auto simp: call_store_def split: prod.splits sum.splits) (metis map_sum.simps sum.exhaust sum.inject(2) id_apply sum.distinct(1))
  then have ok: "1 \<le> limit \<and> limit \<le> 500 \<and> (after = [] \<or> validRunID after)"
    by (auto simp: ListRuns_def list_runs_def split: if_splits)
  define q where "q = list_query False after (local_runs (w_store w1))"
  have page: "page = page_of limit q"
    using r ok list_runs_page [OF inv, of limit after False] by (auto simp: ListRuns_def Let_def q_def)
  have tab: "table_ok (local_runs (w_store w1))"
    using list_call(2) [OF assms(1-3)] by (simp add: store_inv_def)
  have "limit < len (views q)" "list_NextAfter page = v_RunID (last (take (nat limit) (views q)))"
    using assms(4) by (auto simp: page page_of_def Let_def split: if_splits)
  moreover from this ok have "take (nat limit) (views q) \<noteq> []" by (auto simp: len_def)
  then have "last (take (nat limit) (views q)) \<in> set (views q)" by (meson in_set_takeD last_in_set)
  ultimately have "list_NextAfter page \<in> run_id ` set q"
    using known_view(2) [OF tab, of "last (take (nat limit) (views q))" q] list_query_set by (auto simp: q_def)
  then show "after < list_NextAfter page" "list_NextAfter page \<in> set (ids (w_store w1))"
    using list_query_set by (auto simp: q_def list_query_def ids_def select_live_def)
qed

definition later :: "string \<Rightarrow> store \<Rightarrow> nat" where
  "later after st = length (filter (\<lambda>i. after < i) (ids st))"

lemma later_decreases:
  assumes "ids s = ids t" "after < i" "i \<in> set (ids t)"
  shows "later i t < later after s"
proof -
  have "filter (\<lambda>j. i < j) (ids t) = filter (\<lambda>j. i < j) (filter (\<lambda>j. after < j) (ids t))"
    unfolding filter_filter using assms(2) by (intro filter_cong refl) auto
  moreover have "length (filter (\<lambda>j. i < j) (filter (\<lambda>j. after < j) (ids t))) < length (filter (\<lambda>j. after < j) (ids t))"
    by (rule length_filter_less [of i]) (use assms in auto)
  ultimately show ?thesis by (simp add: later_def assms(1))
qed

lemma reconcile_pass_returns:
  assumes "others_ok rc" "quiet rc" "store_inv (rc_env rc) (w_store w)" "later after (w_store w) < fuel"
  shows "\<exists>res w'. reconcile_pass fuel rc cleanup after w = Some (res, w') \<and> ids (w_store w') = ids (w_store w)"
  using assms(3,4)
proof (induction fuel arbitrary: after w)
  case (Suc fuel)
  obtain r w1 where l: "call_store rc (ListRuns (rc_env rc) MaxListLimit after) w = (r, w1)" by fastforce
  note lc = list_call [OF assms(1) Suc.prems(1) l]
  have ids1: "ids (w_store w1) = ids (w_store w)"
    using call_keeps [OF assms(2) ops_keep_ids(6)] l by (metis act_keeps_def snd_conv)
  show ?case
  proof (cases r)
    case (Inr page)
    let ?w2 = "reconcile_page rc cleanup (list_Runs page) w1"
    have ids2: "ids (w_store ?w2) = ids (w_store w)" using ids1 reconcile_page_keeps [OF assms(2)] by simp
    show ?thesis
    proof (cases "list_NextAfter page = []")
      case False
      note nxt = list_call_next [OF assms(1) Suc.prems(1) l [unfolded Inr] False]
      have "later (list_NextAfter page) (w_store ?w2) < later after (w_store w)"
        by (rule later_decreases) (use ids1 ids2 nxt in simp_all)
      moreover have "store_inv (rc_env rc) (w_store ?w2)"
        using inv_steps [OF lc(2) reconcile_page_steps [OF assms(1) lc(2) lc(3) [OF Inr]]] .
      ultimately show ?thesis using Suc.IH [of ?w2 "list_NextAfter page"] Suc.prems(2) False l Inr ids2
        by (simp add: Let_def)
    qed (use l Inr ids2 in \<open>simp add: Let_def\<close>)
  qed (use l ids1 in simp)
qed simp

lemma recover_pages_returns:
  assumes "others_ok rc" "quiet rc" "store_inv (rc_env rc) (w_store w)" "later after (w_store w) < fuel"
  shows "\<exists>res w'. recover_pages fuel rc after pending w = Some (res, w') \<and> ids (w_store w') = ids (w_store w)"
  using assms(3,4)
proof (induction fuel arbitrary: after pending w)
  case (Suc fuel)
  obtain r w1 where l: "call_store rc (ListRuns (rc_env rc) MaxListLimit after) w = (r, w1)" by fastforce
  note lc = list_call [OF assms(1) Suc.prems(1) l]
  have ids1: "ids (w_store w1) = ids (w_store w)"
    using call_keeps [OF assms(2) ops_keep_ids(6)] l by (metis act_keeps_def snd_conv)
  show ?case
  proof (cases r)
    case (Inr page)
    obtain r2 w2 where p: "recover_page rc (list_Runs page) pending w1 = (r2, w2)" by fastforce
    have ids2: "ids (w_store w2) = ids (w_store w)"
      using ids1 recover_page_keeps [OF assms(2)] p by (metis act_keeps_def snd_conv)
    show ?thesis
    proof (cases "list_NextAfter page = [] \<or> (\<exists>e. r2 = Inl e)")
      case False
      then obtain b where b: "r2 = Inr b" "list_NextAfter page \<noteq> []" by (cases r2) auto
      note nxt = list_call_next [OF assms(1) Suc.prems(1) l [unfolded Inr] b(2)]
      have "later (list_NextAfter page) (w_store w2) < later after (w_store w)"
        by (rule later_decreases) (use ids1 ids2 nxt in simp_all)
      moreover have "store_inv (rc_env rc) (w_store w2)"
        using inv_steps [OF lc(2) recover_page_steps [OF assms(1) lc(2) lc(3) [OF Inr] p]] .
      ultimately show ?thesis using Suc.IH [of w2 "list_NextAfter page" b] Suc.prems(2) b l Inr p ids2
        by simp
    qed (use l Inr p ids2 in \<open>cases r2; simp\<close>)
  qed (use l ids1 in simp)
qed simp

lemma later_length: "later after st \<le> length (local_runs st)"
  using length_filter_le [of "\<lambda>i. after < i" "ids st"] by (simp add: later_def ids_def)

lemma ids_length: "ids s = ids t \<Longrightarrow> length (local_runs s) = length (local_runs t)"
  by (metis ids_def length_map)

lemma Reconcile_returns:
  assumes "others_ok rc" "quiet rc" "store_inv (rc_env rc) (w_store w)" "length (local_runs (w_store w)) < fuel"
  shows "\<exists>res w'. Reconcile fuel rc w = Some (res, w')"
proof -
  have enough: "later [] (w_store v) < fuel" if "ids (w_store v) = ids (w_store w)" for v :: "'a world"
    using later_length [of "[]" "w_store v"] ids_length [OF that] assms(4) by simp
  obtain r w1 where p: "reconcile_pass fuel rc True [] w = Some (r, w1)" "ids (w_store w1) = ids (w_store w)"
    using reconcile_pass_returns [OF assms(1-3) enough] by blast
  obtain b w2 where c: "cleanup_pending rc w1 = (b, w2)" by fastforce
  have safe: "safe_act rc (\<lambda>_. True) (cleanup_pending rc) (\<lambda>_ _. True)"
    unfolding cleanup_pending_def by (rule safe_call_store [OF assms(1) stable_True safe_readonly]) simp
  note inv1 = inv_steps [OF assms(3) reconcile_pass_steps [OF assms(1,3) p(1)]]
  note inv2 = inv_steps [OF inv1 safe_actD(1) [OF safe inv1 TrueI c]]
  have "act_keeps (cleanup_pending rc)"
    unfolding cleanup_pending_def by (rule call_keeps [OF assms(2) id_keeps_ids])
  then have "ids (w_store w2) = ids (w_store w)" using c p(2) by (metis act_keeps_def snd_conv)
  then obtain r2 w3 where "reconcile_pass fuel rc False [] w2 = Some (r2, w3)"
    using reconcile_pass_returns [OF assms(1,2) inv2 enough] by blast
  then show ?thesis using p(1) c by (cases r; cases b) (auto simp: Reconcile_def)
qed

lemma run_round_returns:
  assumes "others_ok rc" "quiet rc" "store_inv (rc_env rc) (w_store w)" "length (local_runs (w_store w)) < fuel"
  shows "\<exists>flag w'. run_round fuel rc recovered w = Some (flag, w')"
proof (cases recovered)
  case True
  then show ?thesis using Reconcile_returns [OF assms] by (auto simp: run_round_def)
next
  case False
  have "later [] (w_store w) < fuel" using later_length [of "[]" "w_store w"] assms(4) by simp
  then obtain r w1 where r: "Recover fuel rc w = Some (r, w1)" "ids (w_store w1) = ids (w_store w)"
    using recover_pages_returns [OF assms(1-3), of "[]" fuel False] unfolding Recover_def by blast
  have "store_inv (rc_env rc) (w_store w1)"
    using inv_steps [OF assms(3) recover_pages_steps [OF assms(1,3) r(1) [unfolded Recover_def]]] .
  then show ?thesis
    using Reconcile_returns [OF assms(1,2), of w1 fuel] assms(4) ids_length [OF r(2)] r(1) False
    by (auto simp: run_round_def)
qed

section \<open>Cleanup comes first\<close>

text \<open>The first pass calls neither \<open>Ensure\<close> nor \<open>Inspect\<close>: it does not depend on them.\<close>

definition other_backend :: "(BackendRun \<Rightarrow> 'b \<Rightarrow> (reconcile_error + BackendObservation) \<times> 'b)
    \<Rightarrow> (BackendRun \<Rightarrow> 'b \<Rightarrow> (reconcile_error + BackendObservation) \<times> 'b) \<Rightarrow> 'b Reconciler \<Rightarrow> 'b Reconciler" where
  "other_backend ensure inspect rc =
     rc\<lparr>rc_backend := (rc_backend rc)\<lparr>Ensure := ensure, Inspect := inspect\<rparr>\<rparr>"

lemma other_backend_env: "rc_env (other_backend e i rc) = rc_env rc"
  by (simp add: other_backend_def)

lemma other_backend_call: "call_store (other_backend e i rc) = call_store rc"
  by (intro ext) (simp add: call_store_def other_backend_def)

lemma other_backend_Delete: "call_Delete (other_backend e i rc) = call_Delete rc"
  by (intro ext) (simp add: call_Delete_def other_backend_def)

lemma other_backend_stopping:
  "v_State run = StateStopping \<Longrightarrow> reconcileRun (other_backend e i rc) run = reconcileRun rc run"
proof -
  assume stopping: "v_State run = StateStopping"
  have "claim (other_backend e i rc) = claim rc" "report (other_backend e i rc) = report rc"
    unfolding claim_def report_def other_backend_call by (simp_all add: other_backend_def)
  moreover have "backendRun (other_backend e i rc) = backendRun rc"
    unfolding backendRun_def other_backend_call ..
  ultimately show ?thesis
    by (simp add: reconcileRun_def reconcile_stopping_def other_backend_Delete stopping)
qed

lemma other_backend_page:
  "reconcile_page (other_backend e i rc) True runs w = reconcile_page rc True runs w"
proof (induction runs arbitrary: w)
  case (Cons run runs)
  then show ?case using other_backend_stopping [of run e i rc] by (cases "v_State run = StateStopping") simp_all
qed simp

lemma other_backend_pass:
  "reconcile_pass fuel (other_backend e i rc) True after w = reconcile_pass fuel rc True after w"
  by (induction fuel arbitrary: after w)
     (simp_all add: other_backend_call other_backend_env other_backend_page Let_def split: prod.split sum.split)

lemma blocked_Reconcile:
  assumes "reconcile_pass fuel rc True [] w = Some (Inr (), w1)" "cleanup_pending rc w1 = (Inr True, w2)"
  shows "Reconcile fuel (other_backend e i rc) w = Some (Inr (), w2)"
proof -
  have "cleanup_pending (other_backend e i rc) w1 = (Inr True, w2)"
    using assms(2) by (simp add: cleanup_pending_def other_backend_call other_backend_env)
  then show ?thesis using assms(1) by (simp add: Reconcile_def other_backend_pass)
qed

section \<open>Progress of one run\<close>

text \<open>Nobody else touches the store, and a store call is short compared with the lease.\<close>

definition alone :: "'b Reconciler \<Rightarrow> bool" where
  "alone rc \<longleftrightarrow> (\<forall>n st. rc_others rc n st = st)"

definition lease_covers :: "'b Reconciler \<Rightarrow> store \<Rightarrow> bool" where
  "lease_covers rc st \<longleftrightarrow> validOwner (rc_owner rc) \<and> 1000000000 \<le> rc_lease rc
     \<and> rc_lease rc \<le> maxClaimLease (rc_env rc)
     \<and> env_now (rc_env rc) (ticks st + 3) < env_now (rc_env rc) (ticks st + 1) + rc_lease rc"

text \<open>A live row of the table that this reconciler may claim and that no sweep expires meanwhile.\<close>

definition claimable :: "'b Reconciler \<Rightarrow> store \<Rightarrow> row \<Rightarrow> Run \<Rightarrow> bool" where
  "claimable rc st r run \<longleftrightarrow> r \<in> set (local_runs st) \<and> validateStoredRun r = Some run \<and> deleted_at r = None
     \<and> state_active (state r) \<and> (reconcileOwner r = [] \<or> reconcileOwner r = rc_owner rc)
     \<and> (state r = StateStopping \<or> \<not> reached (env_now (rc_env rc) (ticks st + 2)) (deadline_at r))"

lemma validate_view:
  assumes "validateStoredRun r = Some run"
  shows "v_RunID run = run_id r" "v_Revision run = revision r" "v_State run = state r"
    "v_TerminalTarget run = terminal_target r" "v_LastReason run = last_reason r" "valid_row r"
  using assms by (auto simp: valid_row_view populateRunMetadata_def scanStoredRun_def)

lemma sweep_row_kept:
  assumes "state_active (state r)" "state r = StateStopping \<or> \<not> reached now (deadline_at r)"
  shows "sweep_row now r = r"
  using assms by (auto simp: sweep_row_def sweep_update_def state_active_def)

lemma reached_mono: "reached now t \<Longrightarrow> now \<le> now' \<Longrightarrow> reached now' t"
  by (auto simp: reached_def split: option.splits)

lemma swept_kept:
  assumes "store_inv env st" "r \<in> set (local_runs st)" "state_active (state r)"
    "state r = StateStopping \<or> \<not> reached (env_now env (ticks st)) (deadline_at r)" "valid_row r" "deleted_at r = None"
  shows "loadForUpdate (run_id r) (swept env st) = Inr (r, the (validateStoredRun r))" "r \<in> set (swept env st)"
proof -
  show in_swept: "r \<in> set (swept env st)"
    unfolding swept_def set_map using assms(2) sweep_row_kept [OF assms(3,4)] by (metis image_eqI)
  have "find (\<lambda>q. run_id q = run_id r) (swept env st) = Some r"
    by (rule find_distinct) (use swept_ok(1) [OF assms(1)] in_swept in \<open>auto simp: table_ok_def\<close>)
  then show "loadForUpdate (run_id r) (swept env st) = Inr (r, the (validateStoredRun r))"
    using assms(5,6) by (auto simp: loadForUpdate_def query_run_def valid_row_def)
qed

end
