(* ===== verification/Reconciler_Liveness.thy ===== *)
theory Reconciler_Liveness
  imports Reconciler_Progress
begin

text \<open>
  A claim on a free row succeeds, the status update that follows within the lease succeeds too,
  and so one visit of the reconciler takes a run to its next state: pending to preparing,
  preparing to running when the backend is ready, stopping to its target when the backend has
  cleaned up.
\<close>

section \<open>Claim, then report\<close>

definition claim_input :: "'b Reconciler \<Rightarrow> Run \<Rightarrow> ClaimInput" where
  "claim_input rc run = \<lparr>claim_RunID = v_RunID run, claim_Owner = rc_owner rc,
     claim_ExpectedRevision = v_Revision run, claim_Lease = rc_lease rc\<rparr>"

definition claimed_as :: "'b Reconciler \<Rightarrow> store \<Rightarrow> row \<Rightarrow> Run \<Rightarrow> row" where
  "claimed_as rc st r run = claim_row (claim_input rc run) (tx_now (rc_env rc) st) r"

lemma unexpired_now:
  assumes "store_inv (rc_env rc) st" "claimable rc st r run"
  shows "state r = StateStopping \<or> \<not> reached (env_now (rc_env rc) (ticks st)) (deadline_at r)"
proof -
  have "env_now (rc_env rc) (ticks st) \<le> env_now (rc_env rc) (ticks st + 2)"
    using assms(1) by (simp add: store_inv_def monoD)
  then show ?thesis using assms(2) reached_mono by (auto simp: claimable_def)
qed

lemma valid_row_ids: "valid_row r \<Longrightarrow> validRunID (run_id r) \<and> 1 \<le> revision r"
  by (auto simp: valid_row_iff row_fields_ok_def)

lemma claim_step:
  assumes "store_inv (rc_env rc) st" "lease_covers rc st" "claimable rc st r run"
  obtains v st' where "Claim (rc_env rc) (claim_input rc run) st = (Inr v, st')"
    "v_Revision v = revision r + 1" "claimed_as rc st r run \<in> set (local_runs st')"
    "ticks st' = ticks st + 2" "store_inv (rc_env rc) st'"
proof -
  let ?env = "rc_env rc" and ?in = "claim_input rc run"
  have r: "r \<in> set (local_runs st)" "validateStoredRun r = Some run" "deleted_at r = None" "state_active (state r)"
    using assms(3) by (auto simp: claimable_def)
  note view = validate_view [OF r(2)]
  note kept = swept_kept [OF assms(1) r(1,4) unexpired_now [OF assms(1,3)] view(6) r(3)]
  note ok = swept_ok(1) [OF assms(1)]
  have in_r: "claim_RunID ?in = run_id r" "claim_ExpectedRevision ?in = revision r" "claim_Owner ?in = rc_owner rc"
    "claim_Lease ?in = rc_lease rc"
    by (simp_all add: claim_input_def view)
  have upd: "update_one ErrOwnershipConflict (at_revision (run_id r) (revision r)) f (swept ?env st)
      = Inr (map (\<lambda>q. if q = r then f q else q) (swept ?env st))" for f
  proof (rule update_one_unique [OF table_ok_distinct [OF ok] kept(2)])
    show "q = r" if "q \<in> set (swept ?env st)" "at_revision (run_id r) (revision r) q" for q
      using that by (rule at_revision_unique [OF ok kept(2) refl])
  qed (simp add: at_revision_def)
  have free: "\<not> (reconcileOwner r \<noteq> [] \<and> reconcileOwner r \<noteq> rc_owner rc
      \<and> (case reconcile_until r of None \<Rightarrow> False | Some t \<Rightarrow> tx_now ?env st < t))"
    using assms(3) by (auto simp: claimable_def)
  have nt: "\<not> (revision r \<noteq> revision r \<or> state_terminal (state r))" using r(4) by (simp add: state_active_def)
  define v where "v = (the (validateStoredRun r))\<lparr>v_ReconcileOwner := rc_owner rc,
      v_ReconcileUntil := Some (tx_now ?env st + rc_lease rc), v_Revision := revision r + 1,
      v_UpdatedAt := tx_now ?env st\<rparr>"
  define rs where "rs = map (\<lambda>q. if q = r then claim_row ?in (tx_now ?env st) q else q) (swept ?env st)"
  have "claimTx ?in (tx_now ?env st) (swept ?env st) = (Inr v, rs)"
    unfolding claimTx_def in_r kept(1) sum.case prod.case if_not_P [OF nt] if_not_P [OF free] upd
    by (simp add: v_def rs_def)
  moreover have "\<not> (\<not> validRunID (run_id r) \<or> \<not> validOwner (rc_owner rc) \<or> revision r < 1
      \<or> rc_lease rc < 1000000000 \<or> maxClaimLease ?env < rc_lease rc)"
    using assms(2) valid_row_ids [OF view(6)] by (auto simp: lease_covers_def)
  ultimately have c: "Claim ?env ?in st = (Inr v, st\<lparr>ticks := Suc (Suc (ticks st)), local_runs := rs\<rparr>)"
    unfolding Claim_def in_r after_sweep_in_tx [OF assms(1)] by simp
  have "claimed_as rc st r run \<in> set rs"
    using kept(2) by (force simp: rs_def claimed_as_def)
  then show thesis
    using that [OF c] op_ok_inv [OF Claim_op_ok [OF assms(1) c]] by (simp add: v_def)
qed

text \<open>The state a successful transition leads to: a completed immutable replacement starts over.\<close>

definition next_state :: "row \<Rightarrow> State \<Rightarrow> State" where
  "next_state q s =
     (if state q = StateStopping \<and> pendingSnapshot q \<noteq> [] \<and> last_reason q = ''immutable-replacement-requested''
      then StatePending else s)"

lemma update_tx:
  assumes "table_ok rs" "q \<in> set rs" "deleted_at q = None" "st_RunID input = run_id q"
    "st_ExpectedRevision input = revision q" "holds_lease (st_Owner input) now q"
    "st_State input \<noteq> state q" "transitionAllowed (state q) (st_State input)"
    "state q = StateStopping \<longrightarrow> st_State input = terminal_target q"
  obtains res rs' p where "updateStatusTx input now rs = (res, rs')" "p \<in> set rs'" "run_id p = run_id q"
    "state p = next_state q (st_State input)" "(\<exists>v. res = Inr v) \<or> res = Inl ErrGone \<and> state_terminal (st_State input)"
proof -
  note valid = table_okD(1) [OF assms(1,2)]
  have load: "loadForUpdate (run_id q) rs = Inr (q, the (validateStoredRun q))"
  proof -
    have "find (\<lambda>r. run_id r = run_id q) rs = Some q"
      by (rule find_distinct) (use assms(1,2) in \<open>auto simp: table_ok_def\<close>)
    then show ?thesis using valid assms(3) by (auto simp: loadForUpdate_def query_run_def valid_row_def)
  qed
  have upd: "update_one ErrOwnershipConflict (input_row input) f rs = Inr (map (\<lambda>r. if r = q then f r else r) rs)" for f
  proof (rule update_one_unique [OF table_ok_distinct [OF assms(1)] assms(2)])
    show "r = q" if "r \<in> set rs" "input_row input r" for r
      using that at_revision_unique [OF assms(1,2) refl] assms(4) by (simp add: input_row_def)
  qed (simp add: input_row_def at_revision_def assms(4,5))
  have mem: "f q \<in> set (map (\<lambda>r. if r = q then f r else r) rs)" for f using assms(2) by force
  obtain resolved where dec: "DecodeResolvedAgentRun (snapshot q) = Some resolved"
    using valid by (rule valid_rowE)
  have lease: "\<not> (revision q \<noteq> st_ExpectedRevision input \<or> reconcileOwner q \<noteq> st_Owner input
      \<or> \<not> (case reconcile_until q of None \<Rightarrow> False | Some t \<Rightarrow> now < t))"
    using assms(5,6) by (simp add: holds_lease_def)
  consider (promote) "state q = StatePreparing" "st_State input = StateRunning" "pendingSnapshot q \<noteq> []"
    | (replace) "state q = StateStopping" "pendingSnapshot q \<noteq> []" "last_reason q = ''immutable-replacement-requested''"
    | (plain) "\<not> (state q = StatePreparing \<and> st_State input = StateRunning \<and> pendingSnapshot q \<noteq> [])"
      "\<not> (state q = StateStopping \<and> pendingSnapshot q \<noteq> [] \<and> last_reason q = ''immutable-replacement-requested'')"
    by blast
  then show thesis
  proof cases
    case promote
    then obtain pending where "DecodeResolvedAgentRun (pendingSnapshot q) = Some pending"
      using valid_pending_run [OF valid] by blast
    then have "\<exists>v. updateStatusTx input now rs = (Inr v,
        map (\<lambda>r. if r = q then promote_row (st_Reason input) (new_cursor input q) now r else r) rs)"
      unfolding updateStatusTx_def assms(4) load sum.case prod.case if_not_P [OF lease]
      using assms(7,8) promote by (simp add: promote_tx_def upd)
    then obtain v where "updateStatusTx input now rs = (Inr v,
        map (\<lambda>r. if r = q then promote_row (st_Reason input) (new_cursor input q) now r else r) rs)" ..
    from that [OF this mem] promote show thesis by (simp add: promote_row_def next_state_def)
  next
    case replace
    then obtain pending where p: "DecodeResolvedAgentRun (pendingSnapshot q) = Some pending"
      using valid_pending_run [OF valid] by blast
    have "state_terminal (st_State input)"
      using assms(8) replace(1) by (auto simp: state_terminal_def)
    then have "\<exists>v. updateStatusTx input now rs = (Inr v, map (\<lambda>r. if r = q then replace_row now r else r) rs)"
      unfolding updateStatusTx_def assms(4) load sum.case prod.case if_not_P [OF lease]
      using assms(7-9) replace p by (simp add: replace_tx_def upd)
    then obtain v where "updateStatusTx input now rs = (Inr v, map (\<lambda>r. if r = q then replace_row now r else r) rs)" ..
    from that [OF this mem] replace show thesis by (simp add: replace_row_def next_state_def)
  next
    case plain
    define deleted where "deleted = (if state_terminal (st_State input) \<and> delete_requested q then Some now else None)"
    define f where "f = status_row input (terminalExpiry now (st_State input) resolved) deleted
      (if st_State input = StateStopping then st_TerminalTarget input else StateEmpty) (new_cursor input q) now"
    have "\<exists>v. updateStatusTx input now rs = (if deleted \<noteq> None then Inl ErrGone else Inr v,
        map (\<lambda>r. if r = q then f r else r) rs)"
      unfolding updateStatusTx_def assms(4) load sum.case prod.case if_not_P [OF lease]
      using assms(7-9) plain by (auto simp: transition_tx_def upd dec Let_def f_def deleted_def)
    then obtain v where u: "updateStatusTx input now rs = (if deleted \<noteq> None then Inl ErrGone else Inr v,
        map (\<lambda>r. if r = q then f r else r) rs)" ..
    have "run_id (f q) = run_id q" "state (f q) = next_state q (st_State input)"
      using plain(2) by (auto simp: f_def status_row_def next_state_def)
    then show thesis by (rule that [OF u mem]) (simp add: deleted_def)
  qed
qed

lemma report_step:
  assumes "store_inv (rc_env rc) st" "lease_covers rc st" "claimable rc st r run"
    "Claim (rc_env rc) (claim_input rc run) st = (Inr v, st')" "v_Revision v = revision r + 1"
    "claimed_as rc st r run \<in> set (local_runs st')" "ticks st' = ticks st + 2" "store_inv (rc_env rc) st'"
    "s \<noteq> state r" "transitionAllowed (state r) s" "state r = StateStopping \<longrightarrow> s = terminal_target r"
    "validReason reason" "case cursor of None \<Rightarrow> True | Some c \<Rightarrow> validLifecycleCursor c" "s \<noteq> StateStopping"
  shows "\<exists>res st2 p. UpdateStatus (rc_env rc) \<lparr>st_RunID = v_RunID run, st_Owner = rc_owner rc,
       st_ExpectedRevision = v_Revision v, st_State = s, st_TerminalTarget = StateEmpty, st_Reason = reason,
       st_LifecycleCursor = cursor\<rparr> st' = (res, st2)
     \<and> p \<in> set (local_runs st2) \<and> run_id p = run_id r \<and> state p = next_state r s
     \<and> ((\<exists>v. res = Inr v) \<or> res = Inl ErrGone \<and> state_terminal s)"
proof -
  let ?env = "rc_env rc" and ?q = "claimed_as rc st r run"
  let ?in = "\<lparr>st_RunID = v_RunID run, st_Owner = rc_owner rc, st_ExpectedRevision = v_Revision v,
       st_State = s, st_TerminalTarget = StateEmpty, st_Reason = reason, st_LifecycleCursor = cursor\<rparr>"
  have r: "validateStoredRun r = Some run" "deleted_at r = None" "state_active (state r)"
    "state r = StateStopping \<or> \<not> reached (env_now ?env (ticks st + 2)) (deadline_at r)"
    using assms(3) by (auto simp: claimable_def)
  note view = validate_view [OF r(1)]
  have q: "run_id ?q = run_id r" "state ?q = state r" "deleted_at ?q = None" "deadline_at ?q = deadline_at r"
    "revision ?q = revision r + 1" "reconcile_owner ?q = Some (rc_owner rc)"
    "reconcile_until ?q = Some (tx_now ?env st + rc_lease rc)" "terminal_target ?q = terminal_target r"
    "pendingSnapshot ?q = pendingSnapshot r" "last_reason ?q = last_reason r"
    by (simp_all add: claimed_as_def claim_row_def claim_input_def r pendingSnapshot_def)
  have ok': "table_ok (local_runs st')" using assms(8) by (simp add: store_inv_def)
  have kept: "?q \<in> set (swept ?env st')"
    by (rule swept_kept(2) [OF assms(8,6)]) (use q r assms(7) table_okD(1) [OF ok' assms(6)] in auto)
  have lease: "holds_lease (rc_owner rc) (tx_now ?env st') ?q"
    using assms(2) by (simp add: holds_lease_def q reconcileOwner_def tx_now_def assms(7) lease_covers_def eval_nat_numeral)
  obtain res rs' p where tx: "updateStatusTx ?in (tx_now ?env st') (swept ?env st') = (res, rs')"
    "p \<in> set rs'" "run_id p = run_id ?q" "state p = next_state ?q s"
    "(\<exists>v. res = Inr v) \<or> res = Inl ErrGone \<and> state_terminal s"
    by (rule update_tx [OF swept_ok(1) [OF assms(8)] kept, of ?in "tx_now ?env st'"])
       (use q lease assms(5,9-11) view(1) in simp_all)
  have "state_valid s" "validOwner (rc_owner rc)" "validRunID (v_RunID run)" "1 \<le> v_Revision v"
    using assms(2,5,10) valid_row_ids [OF view(6)] view(1)
    by (cases "state r"; auto simp: lease_covers_def)+
  then have "UpdateStatus ?env ?in st' = (res, st'\<lparr>ticks := Suc (Suc (ticks st')), local_runs := rs'\<rparr>)"
    using assms(12-14) tx(1) by (auto simp: UpdateStatus_def after_sweep_in_tx [OF assms(8)] split: option.splits)
  moreover have "next_state ?q s = next_state r s" by (simp add: next_state_def q)
  ultimately show ?thesis using tx(2-5) q(1) by auto
qed

section \<open>One visit\<close>

lemma call_alone: "alone rc \<Longrightarrow> call_store rc op w =
    (map_sum StoreError id (fst (op (w_store w))), w\<lparr>w_store := snd (op (w_store w)), w_calls := Suc (w_calls w)\<rparr>)"
  by (simp add: call_store_def alone_def split_beta)

lemma backendRun_ok:
  assumes "alone rc" "table_ok (local_runs (w_store w))" "r \<in> set (local_runs (w_store w))"
    "validateStoredRun r = Some run" "deleted_at r = None"
  obtains br w' where "backendRun rc run w = (Inr br, w')" "w_store w' = w_store w" "w_backend w' = w_backend w"
proof -
  note view = validate_view [OF assms(4)]
  have "find (\<lambda>q. run_id q = run_id r) (local_runs (w_store w)) = Some r"
    by (rule find_distinct) (use assms(2,3) in \<open>auto simp: table_ok_def\<close>)
  then have load: "loadForUpdate (v_RunID run) (local_runs (w_store w)) = Inr (r, run)"
    using assms(4,5) by (simp add: loadForUpdate_def query_run_def view)
  obtain resolved where dec: "DecodeResolvedAgentRun (snapshot r) = Some resolved"
      "snapshot_digest r = sha256_hex (snapshot r)" "hex_digest (ownership_digest r)"
    using view(6) by (rule valid_rowE)
  have ne: "snapshot_digest r \<noteq> []" "ownership_digest r \<noteq> []"
    using dec(2,3) sha256_hex_length [of "snapshot r"] by (auto simp: hex_digest_def len_def)
  have id: "validRunID (v_RunID run)" using valid_row_ids [OF view(6)] view(1) by simp
  show thesis
  proof (cases "pendingSnapshot r = []")
    case True
    with load id dec ne that show thesis
      by (simp add: backendRun_def act_bind_def call_alone [OF assms(1)] backendSnapshot_def act_return_def Let_def)
  next
    case False
    then obtain pending where "DecodeResolvedAgentRun (pendingSnapshot r) = Some pending"
        "pending_snapshot_digest r = sha256_hex (pendingSnapshot r)"
      using valid_pending_run [OF view(6)] by blast
    moreover have "sha256_hex (pendingSnapshot r) \<noteq> []" using sha256_hex_length [of "pendingSnapshot r"] by auto
    ultimately show thesis using False load id dec ne that
      by (simp add: backendRun_def act_bind_def call_alone [OF assms(1)] backendSnapshot_def
          ResolvedSnapshot_def act_return_def Let_def)
  qed
qed

lemma visit_setup:
  assumes "alone rc" "store_inv (rc_env rc) (w_store w)" "lease_covers rc (w_store w)" "claimable rc (w_store w) r run"
  obtains br w1 v w2 where "backendRun rc run w = (Inr br, w1)" "w_backend w1 = w_backend w"
    "claim rc run w1 = (Inr v, w2)" "w_backend w2 = w_backend w"
    "Claim (rc_env rc) (claim_input rc run) (w_store w) = (Inr v, w_store w2)" "v_Revision v = revision r + 1"
    "claimed_as rc (w_store w) r run \<in> set (local_runs (w_store w2))" "ticks (w_store w2) = ticks (w_store w) + 2"
    "store_inv (rc_env rc) (w_store w2)"
proof -
  have "table_ok (local_runs (w_store w))" using assms(2) by (simp add: store_inv_def)
  then obtain br w1 where b: "backendRun rc run w = (Inr br, w1)" "w_store w1 = w_store w" "w_backend w1 = w_backend w"
    by (rule backendRun_ok [OF assms(1), where r = r]) (use assms(4) in \<open>auto simp: claimable_def\<close>)
  obtain v st' where c: "Claim (rc_env rc) (claim_input rc run) (w_store w) = (Inr v, st')"
    "v_Revision v = revision r + 1" "claimed_as rc (w_store w) r run \<in> set (local_runs st')"
    "ticks st' = ticks (w_store w) + 2" "store_inv (rc_env rc) st'"
    using assms(2-4) by (rule claim_step)
  have "claim rc run w1 = (Inr v, w1\<lparr>w_store := st', w_calls := Suc (w_calls w1)\<rparr>)"
    using c(1) b(2) by (simp add: claim_def call_alone [OF assms(1)] claim_input_def)
  from that [OF b(1,3) this] c b show thesis by simp
qed

definition reaches :: "string \<Rightarrow> State \<Rightarrow> store \<Rightarrow> bool" where
  "reaches rid s st \<longleftrightarrow> (\<exists>p \<in> set (local_runs st). run_id p = rid \<and> state p = s)"

lemma visit_report:
  assumes "alone rc" "store_inv (rc_env rc) (w_store w)" "lease_covers rc (w_store w)" "claimable rc (w_store w) r run"
    "Claim (rc_env rc) (claim_input rc run) (w_store w) = (Inr v, w_store w2)" "v_Revision v = revision r + 1"
    "claimed_as rc (w_store w) r run \<in> set (local_runs (w_store w2))" "ticks (w_store w2) = ticks (w_store w) + 2"
    "store_inv (rc_env rc) (w_store w2)"
    "s \<noteq> state r" "transitionAllowed (state r) s" "state r = StateStopping \<longrightarrow> s = terminal_target r"
    "validReason reason" "case cursor of None \<Rightarrow> True | Some c \<Rightarrow> validLifecycleCursor c" "s \<noteq> StateStopping"
  shows "\<exists>res w3. discard (report rc run v s StateEmpty reason cursor) w2 = (res, w3)
    \<and> reaches (run_id r) (next_state r s) (w_store w3)
    \<and> (res = Inr () \<or> res = Inl (StoreError ErrGone) \<and> state_terminal s)"
proof -
  obtain res st2 p where u: "UpdateStatus (rc_env rc) \<lparr>st_RunID = v_RunID run, st_Owner = rc_owner rc,
       st_ExpectedRevision = v_Revision v, st_State = s, st_TerminalTarget = StateEmpty, st_Reason = reason,
       st_LifecycleCursor = cursor\<rparr> (w_store w2) = (res, st2)"
    "p \<in> set (local_runs st2)" "run_id p = run_id r" "state p = next_state r s"
    "(\<exists>v. res = Inr v) \<or> res = Inl ErrGone \<and> state_terminal s"
    using report_step [OF assms(2-15)] by blast
  then show ?thesis
    by (auto simp: discard_def report_def call_alone [OF assms(1)] reaches_def)
qed

lemma visit_pending:
  assumes "alone rc" "store_inv (rc_env rc) (w_store w)" "lease_covers rc (w_store w)"
    "claimable rc (w_store w) r run" "state r = StatePending"
  shows "\<exists>w'. reconcileRun rc run w = (Inr (), w') \<and> reaches (run_id r) StatePreparing (w_store w')"
proof -
  obtain br w1 v w2 where s: "backendRun rc run w = (Inr br, w1)" "w_backend w1 = w_backend w"
    "claim rc run w1 = (Inr v, w2)" "w_backend w2 = w_backend w"
    "Claim (rc_env rc) (claim_input rc run) (w_store w) = (Inr v, w_store w2)" "v_Revision v = revision r + 1"
    "claimed_as rc (w_store w) r run \<in> set (local_runs (w_store w2))" "ticks (w_store w2) = ticks (w_store w) + 2"
    "store_inv (rc_env rc) (w_store w2)"
    using assms(1-4) by (rule visit_setup)
  have "v_State run = StatePending" using assms(4,5) validate_view(3) by (auto simp: claimable_def)
  moreover have "validReason ''backend-preparing''" by code_simp
  with visit_report [OF assms(1-4) s(5-9), of StatePreparing "''backend-preparing''" None] assms(5)
  obtain w3 where "discard (report rc run v StatePreparing StateEmpty ''backend-preparing'' None) w2 = (Inr (), w3)"
    "reaches (run_id r) StatePreparing (w_store w3)" by (auto simp: next_state_def)
  ultimately show ?thesis
    using s(1,3) by (simp add: reconcileRun_def reconcile_pending_def act_bind_def)
qed

lemma visit_preparing:
  assumes "alone rc" "store_inv (rc_env rc) (w_store w)" "lease_covers rc (w_store w)"
    "claimable rc (w_store w) r run" "state r = StatePreparing"
    "\<And>br. \<exists>obs b. Ensure (rc_backend rc) br (w_backend w) = (Inr obs, b) \<and> obs_Ready obs
       \<and> obs_TerminalTarget obs = StateEmpty \<and> validLifecycleCursor (obs_LifecycleCursor obs)"
  shows "\<exists>w'. reconcileRun rc run w = (Inr (), w') \<and> reaches (run_id r) StateRunning (w_store w')"
proof -
  obtain br w1 v w2 where s: "backendRun rc run w = (Inr br, w1)" "w_backend w1 = w_backend w"
    "claim rc run w1 = (Inr v, w2)" "w_backend w2 = w_backend w"
    "Claim (rc_env rc) (claim_input rc run) (w_store w) = (Inr v, w_store w2)" "v_Revision v = revision r + 1"
    "claimed_as rc (w_store w) r run \<in> set (local_runs (w_store w2))" "ticks (w_store w2) = ticks (w_store w) + 2"
    "store_inv (rc_env rc) (w_store w2)"
    using assms(1-4) by (rule visit_setup)
  obtain obs b where e: "Ensure (rc_backend rc) br (w_backend w) = (Inr obs, b)" "obs_Ready obs"
    "obs_TerminalTarget obs = StateEmpty" "validLifecycleCursor (obs_LifecycleCursor obs)" using assms(6) by blast
  let ?w = "w2\<lparr>w_backend := b\<rparr>"
  have "v_State run = StatePreparing" using assms(4,5) validate_view(3) by (auto simp: claimable_def)
  define reason where "reason = (if v_LastReason run = ''backend-recovery-requested'' then ''backend-recovered''
                       else if br_ConfigurationRollout br then ''configuration-applied'' else ''backend-ready'')"
  have "validReason ''backend-recovered''" "validReason ''configuration-applied''" "validReason ''backend-ready''"
    by code_simp+
  then have "validReason reason" by (simp add: reason_def)
  with visit_report [OF assms(1-4), of v ?w StateRunning reason "Some (obs_LifecycleCursor obs)"] s(5-9) assms(5) e(4)
  obtain w3 where "discard (report rc run v StateRunning StateEmpty reason (Some (obs_LifecycleCursor obs))) ?w = (Inr (), w3)"
    "reaches (run_id r) StateRunning (w_store w3)" by (auto simp: next_state_def)
  then show ?thesis
    using s(1,3,4) e \<open>v_State run = StatePreparing\<close>
    by (simp add: reconcileRun_def reconcile_preparing_def act_bind_def call_Ensure_def ensured_def Let_def reason_def)
qed

lemma visit_stopping:
  assumes "alone rc" "store_inv (rc_env rc) (w_store w)" "lease_covers rc (w_store w)"
    "claimable rc (w_store w) r run" "state r = StateStopping"
    "\<And>br. fst (DeleteRun (rc_backend rc) br (w_backend w)) = None"
  shows "\<exists>res w'. reconcileRun rc run w = (res, w') \<and> (res = Inr () \<or> res = Inl (StoreError ErrGone))
    \<and> reaches (run_id r) (next_state r (terminal_target r)) (w_store w')"
proof -
  obtain br w1 v w2 where s: "backendRun rc run w = (Inr br, w1)" "w_backend w1 = w_backend w"
    "claim rc run w1 = (Inr v, w2)" "w_backend w2 = w_backend w"
    "Claim (rc_env rc) (claim_input rc run) (w_store w) = (Inr v, w_store w2)" "v_Revision v = revision r + 1"
    "claimed_as rc (w_store w) r run \<in> set (local_runs (w_store w2))" "ticks (w_store w2) = ticks (w_store w) + 2"
    "store_inv (rc_env rc) (w_store w2)"
    using assms(1-4) by (rule visit_setup)
  obtain b where d: "DeleteRun (rc_backend rc) br (w_backend w) = (None, b)" using assms(6) [of br] by (metis prod.collapse)
  let ?w = "w2\<lparr>w_backend := b\<rparr>"
  have view: "v_State run = StateStopping" "v_TerminalTarget run = terminal_target r" "valid_row r"
    using assms(4,5) validate_view by (auto simp: claimable_def)
  have "state_terminal (terminal_target r)"
    using valid_lifecycle [OF view(3)] assms(5) by (simp add: row_lifecycle_ok_def)
  then have t: "terminal_target r \<noteq> StateStopping" "transitionAllowed StateStopping (terminal_target r)"
    by (auto simp: state_terminal_def)
  have "validReason ''backend-cleanup-complete''" by code_simp
  with visit_report [OF assms(1-4), of v ?w "terminal_target r" "''backend-cleanup-complete''" None] s(5-9) assms(5) t
  obtain res w3 where "discard (report rc run v (terminal_target r) StateEmpty ''backend-cleanup-complete'' None) ?w = (res, w3)"
    "reaches (run_id r) (next_state r (terminal_target r)) (w_store w3)" "res = Inr () \<or> res = Inl (StoreError ErrGone)"
    by auto
  then show ?thesis
    using s(1,3,4) d view
    by (simp add: reconcileRun_def reconcile_stopping_def act_bind_def call_Delete_def)
qed

end
