(* ===== verification/Sample_Runs.thy ===== *)
theory Sample_Runs
  imports Run_Store
begin

text \<open>
  Concrete documents and a concrete environment on which the properties of the store are
  exercised: a canonical resolved-run document with a variable image, its decoded value, and the
  evaluation of the decoder and the encoder on it.
\<close>

definition sample_document :: "string \<Rightarrow> string" where
  \<open>sample_document img =
     ''{"contract_version":"nvt.resolved-agent-run/v1","run_id":"run-1","principal":{"issuer":"https://id.example","subject":"u"},"profile":"p","workflow":"w","image":"'' @ img @
     ''","runtime":{"type":"codex","autonomy":"interactive","user":"root"},"agent_config":{"runtime":{"command":"codex"}},"broker":{},"egress":{"mode":"direct"},"workspace_instructions":{},"resources":{},"persistence":{"workspace":true,"runtime_state":true},"retention":"r","ttl":{"active_seconds":60},"lifecycle":{},"execution":{"name":"b","kind":"docker"}}''\<close>

definition sample_config :: string where
  \<open>sample_config = ''{"runtime":{"command":"codex"}}''\<close>

definition sample_run :: "string \<Rightarrow> ResolvedAgentRun" where
  "sample_run img = zero_ResolvedAgentRun\<lparr>
     ContractVersion := contract_version, RunID := ''run-1'',
     run_Principal := \<lparr>Issuer = ''https://id.example'', Subject = ''u'', DisplayName = []\<rparr>,
     run_Profile := ''p'', run_Workflow := ''w'', Image := img,
     run_Runtime := zero_Runtime\<lparr>rt_Type := ''codex'', Autonomy := ''interactive'', rt_User := ''root''\<rparr>,
     AgentConfig := sample_config,
     run_Egress := zero_Egress\<lparr>egress_Mode := ''direct''\<rparr>,
     run_Persistence := \<lparr>Workspace = True, RuntimeState = True, DockerData = False\<rparr>,
     Retention := ''r'', run_TTL := zero_TTL\<lparr>ActiveSeconds := 60\<rparr>,
     Execution := \<lparr>be_Name = ''b'', be_Kind = ''docker''\<rparr>\<rparr>"

lemma sample_decodes:
  "DecodeResolvedAgentRun (sample_document ''i'') = Some (sample_run ''i'')"
  "DecodeResolvedAgentRun (sample_document ''j'') = Some (sample_run ''j'')"
  by code_simp+

lemma sample_encodes:
  "enc_ResolvedAgentRun (sample_run ''i'') = Some (sample_document ''i'')"
  "enc_ResolvedAgentRun (sample_run ''j'') = Some (sample_document ''j'')"
  by code_simp+

lemma sample_size:
  "len (sample_document ''i'') \<le> MaxDocumentBytes" "len (sample_document ''j'') \<le> MaxDocumentBytes"
  by code_simp+

lemma sample_canonical:
  "canonicalSnapshot (sample_document ''i'')
     = Some (sample_document ''i'', sample_run ''i'', sha256_hex (sample_document ''i''))"
  "canonicalSnapshot (sample_document ''j'')
     = Some (sample_document ''j'', sample_run ''j'', sha256_hex (sample_document ''j''))"
  using sample_size by (simp_all add: canonicalSnapshot_def sample_decodes sample_encodes)

lemma sample_config_compact:
  "enc_raw (AgentConfig (sample_run img)) = Some sample_config" "len sample_config \<le> MaxAgentConfigBytes"
proof -
  have "AgentConfig (sample_run img) = sample_config" by (simp add: sample_run_def)
  moreover have "enc_raw sample_config = Some sample_config" by code_simp
  ultimately show "enc_raw (AgentConfig (sample_run img)) = Some sample_config" by simp
  show "len sample_config \<le> MaxAgentConfigBytes" by code_simp
qed

definition sample_key :: string where
  "sample_key = ''key-0123456789abcdef''"

definition sample_input :: "string \<Rightarrow> CreateInput" where
  "sample_input img = \<lparr>in_IdempotencyKey = sample_key, in_ActiveGroup = [], in_ResolvedRun = sample_document img\<rparr>"

definition sample_prepared :: "string \<Rightarrow> preparedCreate" where
  "sample_prepared img = \<lparr>prep_input = sample_input img, prep_snapshot = sample_document img,
     prep_resolved = sample_run img, prep_digest = sha256_hex (sample_document img)\<rparr>"

lemma sample_key_valid: "validIdempotencyKey sample_key"
  by code_simp

lemma sample_prepare:
  "prepare_inputs [] [] [] [sample_input ''i''] = Inr [sample_prepared ''i'']"
  "prepare_inputs [] [] [] [sample_input ''j''] = Inr [sample_prepared ''j'']"
  using sample_key_valid by (simp_all add: sample_input_def sample_canonical sample_prepared_def)

text \<open>A clock that ticks once per reading, in nanoseconds, and room for four runs.\<close>

definition sample_env :: store_env where
  "sample_env = \<lparr>maxActiveRuns = 4, maxClaimLease = 60 * 1000000000, env_now = int\<rparr>"

definition empty_store :: store where
  "empty_store = \<lparr>local_runs = [], ticks = 0\<rparr>"

lemma sample_clock: "mono (env_now sample_env)"
  by (simp add: sample_env_def mono_def)

end
