(* ===== verification/Store_Properties.thy ===== *)
theory Store_Properties
  imports Store_Safety Sample_Runs
begin

text \<open>
  The properties of the durable run store: what every reachable table satisfies and how rows
  evolve.
\<close>

section \<open>Witness data\<close>

lemma sample_fits: "config_fits (sample_input ''i'')" "config_fits (sample_input ''j'')"
  by (simp_all add: config_fits_def sample_input_def sample_decodes sample_config_compact)

definition created_store :: store where
  "created_store = snd (Create sample_env (sample_input ''i'') empty_store)"

lemma created_step: "store_step sample_env empty_store created_store"
  unfolding created_store_def
  by (rule step_Create [where input = "sample_input ''i''" and
        res = "fst (Create sample_env (sample_input ''i'') empty_store)"])
     (simp_all add: sample_fits(1) no_replacement_rollback_def empty_store_def del: prepare_inputs.simps)

definition created_row :: row where
  "created_row = new_row 1 (sample_prepared ''i'')"

lemma created_rows: "local_runs created_store = [created_row]" "ticks created_store = 2"
proof -
  have "classify_all 1 False False [sample_prepared ''i''] []
      = Inr ([(sample_prepared ''i'', ActNew, \<lparr>result_Run = zero_Run, result_Created = False\<rparr>)], [])"
    by (simp add: queryByIdempotency_def)
  moreover have "in_ActiveGroup (prep_input (sample_prepared ''i'')) = []"
    by (simp add: sample_prepared_def sample_input_def)
  ultimately show "local_runs created_store = [created_row]" "ticks created_store = 2"
    by (simp_all add: created_store_def created_row_def Create_def after_sweep_def Sweep_def sweepTx_def
        select_live_def empty_store_def createBatch_def sample_prepare sample_env_def len_def in_tx_def
        batchTx_def batch_admit_def items_with_def check_def batch_phases_def insert_item_def
        del: prepare_inputs.simps classify_all.simps)
qed

section \<open>Every reachable row is well formed\<close>



lemma reachable_inv:
  "mono (env_now env) \<Longrightarrow> local_runs s = [] \<Longrightarrow> (store_step env)\<^sup>*\<^sup>* s t \<Longrightarrow> store_inv env t"
  using run_store.inv_reachable [of env s t] by (simp add: store_initial_def)

lemma created_inv: "store_inv sample_env created_store"
  using reachable_inv [OF sample_clock, of empty_store] created_step by (auto simp: empty_store_def)

section \<open>Histories\<close>

text \<open>
  C2. Rows never disappear and keep their run identifier, idempotency key, active group, creation time and
  deadline; every change of a row raises its revision, so equal revisions mean equal rows; and a
  tombstone is never changed again.
\<close>

theorem history_grows:
  assumes "store_inv env s" "(store_step env)\<^sup>*\<^sup>* s t" "r \<in> set (local_runs s)"
  shows "\<exists>q \<in> set (local_runs t). same_identity r q \<and> revision r \<le> revision q
    \<and> (revision q = revision r \<longrightarrow> q = r) \<and> (deleted_at r \<noteq> None \<longrightarrow> q = r)"
proof -
  from store_steps_ok [OF assms(2,1)] assms(3) obtain q where "q \<in> set (local_runs t)" "row_evolves r q"
    by (auto simp: op_ok_def table_evolves_def)
  then show ?thesis by (auto simp: row_evolves_def same_identity_def)
qed

theorem history_grows_witness:
  "\<exists>q \<in> set (local_runs (snd (Sweep sample_env created_store))). same_identity created_row q"
proof -
  have "store_step sample_env created_store (snd (Sweep sample_env created_store))"
    by (rule step_Sweep [where res = "fst (Sweep sample_env created_store)"]) simp
  then have "(store_step sample_env)\<^sup>*\<^sup>* created_store (snd (Sweep sample_env created_store))" by simp
  then show ?thesis using history_grows [OF created_inv _, of _ created_row] created_rows by auto
qed

end
