(* ===== verification/Lifecycle_Properties.thy ===== *)
theory Lifecycle_Properties
  imports Reconciler_Liveness Store_Properties
begin

text \<open>
  The properties of leases, revisions, listings and the reconciler, each with an instance on the
  store that holds the sample run.
\<close>

section \<open>Witness data\<close>

definition sample_backend :: "unit LocalBackend" where
  "sample_backend = \<lparr>
     Ensure = (\<lambda>_ b. (Inr \<lparr>obs_Ready = True, obs_TerminalTarget = StateEmpty, obs_LifecycleCursor = ''c1''\<rparr>, b)),
     Inspect = (\<lambda>_ b. (Inr \<lparr>obs_Ready = True, obs_TerminalTarget = StateEmpty, obs_LifecycleCursor = ''c1''\<rparr>, b)),
     DeleteRun = (\<lambda>_ b. (None, b))\<rparr>"

definition sample_reconciler :: "unit Reconciler" where
  "sample_reconciler = \<lparr>rc_env = sample_env, rc_backend = sample_backend, rc_owner = ''ctl'',
     rc_lease = 1000000000, rc_others = (\<lambda>_ st. st)\<rparr>"

definition sample_world :: "unit world" where
  "sample_world = \<lparr>w_store = created_store, w_backend = (), w_calls = 0\<rparr>"

definition sample_view :: Run where
  "sample_view = the (validateStoredRun created_row)"

lemma created_valid: "valid_row created_row" "validateStoredRun created_row = Some sample_view"
proof -
  show "valid_row created_row" using created_inv created_rows by (auto simp: store_inv_def table_ok_def)
  then show "validateStoredRun created_row = Some sample_view" by (auto simp: valid_row_def sample_view_def)
qed

lemma created_fields:
  "run_id created_row = ''run-1''" "revision created_row = 1" "state created_row = StatePending"
  "deleted_at created_row = None" "reconcile_owner created_row = None"
  "\<not> reached 4 (deadline_at created_row)"
proof -
  have "deadline_at created_row = Some 60000000001"
    by (simp add: created_row_def new_row_def sample_prepared_def sample_run_def optionalDeadline_def duration_seconds_def
        zero_ResolvedAgentRun_def zero_TTL_def)
  then show "\<not> reached 4 (deadline_at created_row)" by (simp add: reached_def)
qed (simp_all add: created_row_def new_row_def sample_prepared_def sample_run_def)

lemma sample_others: "others_ok sample_reconciler" "quiet sample_reconciler" "alone sample_reconciler"
  by (simp_all add: others_ok_def quiet_def alone_def sample_reconciler_def)

lemma sample_lease: "lease_covers sample_reconciler created_store"
proof -
  have "validOwner ''ctl''" by code_simp
  then show ?thesis by (simp add: lease_covers_def sample_reconciler_def sample_env_def created_rows)
qed

lemma sample_claimable: "claimable sample_reconciler created_store created_row sample_view"
  using created_valid created_fields
  by (simp add: claimable_def created_rows sample_reconciler_def sample_env_def state_active_iff reconcileOwner_def)

lemma sample_rc: "rc_env sample_reconciler = sample_env" "rc_owner sample_reconciler = ''ctl''"
  by (simp_all add: sample_reconciler_def)

lemma sample_claims:
  obtains v st' where "Claim sample_env (claim_input sample_reconciler sample_view) created_store = (Inr v, st')"
    "v_Revision v = revision created_row + 1"
    "claimed_as sample_reconciler created_store created_row sample_view \<in> set (local_runs st')"
    "ticks st' = ticks created_store + 2" "store_inv sample_env st'"
  using claim_step [OF created_inv [folded sample_rc(1)] sample_lease sample_claimable] unfolding sample_rc(1) .

section \<open>Leases and revisions\<close>

text \<open>
  C3. A lease excludes other owners: after a successful claim, and after whatever other store
  operations, a claim of the same run at the leased revision by another owner fails as long as
  the lease has not run out, and a status update at that revision by another owner fails at any
  time. Only a change of the row, which raises its revision, ends the lease early.
\<close>

theorem lease_excludes:
  assumes "store_inv env st" "Claim env a st = (Inr v, st1)" "(store_step env)\<^sup>*\<^sup>* st1 st2"
    "claim_RunID b = claim_RunID a" "claim_Owner b \<noteq> claim_Owner a" "claim_ExpectedRevision b = v_Revision v"
    "st_RunID c = claim_RunID a" "st_Owner c \<noteq> claim_Owner a" "st_ExpectedRevision c = v_Revision v"
  shows "(tx_now env st2 < the (v_ReconcileUntil v) \<longrightarrow> (\<exists>e. fst (Claim env b st2) = Inl e))
    \<and> (\<exists>e. fst (UpdateStatus env c st2) = Inl e)"
proof -
  have inv1: "store_inv env st1" using Claim_op_ok [OF assms(1,2)] by (rule op_ok_inv)
  have inv2: "store_inv env st2" using inv_steps [OF inv1 assms(3)] .
  note held = lease_row_steps [OF assms(1-3)]
  obtain until where until: "v_ReconcileUntil v = Some until"
    using assms(1,2) by (rule claim_success) auto
  have owner: "claim_Owner a \<noteq> []"
    using assms(2) by (auto simp: Claim_def validOwner_def split: if_splits)
  have "\<exists>e. fst (Claim env b st2) = Inl e" if early: "tx_now env st2 < the (v_ReconcileUntil v)"
  proof (cases "fst (Claim env b st2)")
    case (Inr vb)
    then obtain stb where b: "Claim env b st2 = (Inr vb, stb)" by (cases "Claim env b st2") simp
    obtain r where r: "r \<in> set (swept env st2)" "run_id r = claim_RunID b"
        "revision r = claim_ExpectedRevision b" "reconcileOwner r = [] \<or> reconcileOwner r = claim_Owner b
       \<or> \<not> (case reconcile_until r of None \<Rightarrow> False | Some t \<Rightarrow> tx_now env st2 < t)"
      using inv2 b by (rule claim_success)
    have "reconcile_owner r = Some (claim_Owner a)" "reconcile_until r = Some until"
      using held(2) [OF r(1)] r(2,3) assms(4,6) until by simp_all
    with r(4) assms(5) early until owner show ?thesis by (simp add: reconcileOwner_def)
  qed simp
  moreover have "\<exists>e. fst (UpdateStatus env c st2) = Inl e"
  proof (cases "fst (UpdateStatus env c st2)")
    case (Inr vc)
    then obtain stc where "UpdateStatus env c st2 = (Inr vc, stc)" by (cases "UpdateStatus env c st2") simp
    from update_success [OF inv2 this] obtain r view where
      r: "loadForUpdate (st_RunID c) (swept env st2) = Inr (r, view)" "revision r = st_ExpectedRevision c"
        "holds_lease (st_Owner c) (tx_now env st2) r" by blast
    note row = loadForUpdate_row [OF r(1)]
    have "reconcile_owner r = Some (claim_Owner a)" using held(2) [OF row(1)] row(2) r(2) assms(7,9) by simp
    with r(3) assms(8) show ?thesis by (simp add: holds_lease_def reconcileOwner_def)
  qed simp
  ultimately show ?thesis by blast
qed

theorem lease_excludes_witness:
  "\<exists>v st1. Claim sample_env (claim_input sample_reconciler sample_view) created_store = (Inr v, st1)
    \<and> (\<exists>e. fst (UpdateStatus sample_env \<lparr>st_RunID = ''run-1'', st_Owner = ''rival'', st_ExpectedRevision = 2,
          st_State = StatePreparing, st_TerminalTarget = StateEmpty, st_Reason = [], st_LifecycleCursor = None\<rparr> st1) = Inl e)"
proof -
  obtain v st1 where c: "Claim sample_env (claim_input sample_reconciler sample_view) created_store = (Inr v, st1)"
    "v_Revision v = revision created_row + 1" by (rule sample_claims)
  have id: "v_RunID sample_view = ''run-1''" using validate_view(1) [OF created_valid(2)] created_fields(1) by simp
  show ?thesis
    using lease_excludes [OF created_inv c(1) rtranclp.rtrancl_refl,
        of "\<lparr>claim_RunID = ''run-1'', claim_Owner = ''rival'', claim_ExpectedRevision = 2, claim_Lease = 1000000000\<rparr>"
           "\<lparr>st_RunID = ''run-1'', st_Owner = ''rival'', st_ExpectedRevision = 2, st_State = StatePreparing,
             st_TerminalTarget = StateEmpty, st_Reason = [], st_LifecycleCursor = None\<rparr>"] c
    by (auto simp: claim_input_def id sample_rc created_fields(2))
qed

text \<open>
  C4. A revision authorises one claim: once a claim at an expected revision has succeeded, every
  later claim and every later status update of that run that names the same or an older revision
  fails, whatever operations came in between.
\<close>

theorem revision_used_once:
  assumes "store_inv env st" "Claim env a st = (Inr v, st1)" "(store_step env)\<^sup>*\<^sup>* st1 st2"
    "claim_RunID b = claim_RunID a" "claim_ExpectedRevision b \<le> claim_ExpectedRevision a"
    "st_RunID c = claim_RunID a" "st_ExpectedRevision c \<le> claim_ExpectedRevision a"
  shows "(\<exists>e. fst (Claim env b st2) = Inl e) \<and> (\<exists>e. fst (UpdateStatus env c st2) = Inl e)"
proof -
  have inv2: "store_inv env st2"
    using inv_steps [OF op_ok_inv [OF Claim_op_ok [OF assms(1,2)]] assms(3)] .
  note held = lease_row_steps(1) [OF assms(1-3)]
  have v: "v_Revision v = claim_ExpectedRevision a + 1" using assms(1,2) by (rule claimed_row)
  have "\<exists>e. fst (Claim env b st2) = Inl e"
  proof (cases "fst (Claim env b st2)")
    case (Inr vb)
    then obtain stb where b: "Claim env b st2 = (Inr vb, stb)" by (cases "Claim env b st2") simp
    obtain r where r: "r \<in> set (swept env st2)" "run_id r = claim_RunID b" "revision r = claim_ExpectedRevision b"
      using inv2 b by (rule claim_success)
    have "v_Revision v \<le> revision r" using held [OF r(1)] r(2) assms(4) by simp
    with r(3) v assms(5) show ?thesis by simp
  qed simp
  moreover have "\<exists>e. fst (UpdateStatus env c st2) = Inl e"
  proof (cases "fst (UpdateStatus env c st2)")
    case (Inr vc)
    then obtain stc where "UpdateStatus env c st2 = (Inr vc, stc)" by (cases "UpdateStatus env c st2") simp
    from update_success [OF inv2 this] obtain r view where
      r: "loadForUpdate (st_RunID c) (swept env st2) = Inr (r, view)" "revision r = st_ExpectedRevision c" by blast
    have "v_Revision v \<le> revision r" using held [OF loadForUpdate_row(1) [OF r(1)]] loadForUpdate_row(2) [OF r(1)] assms(6) by simp
    with r(2) v assms(7) show ?thesis by simp
  qed simp
  ultimately show ?thesis ..
qed

theorem revision_used_once_witness:
  "\<exists>v st1. Claim sample_env (claim_input sample_reconciler sample_view) created_store = (Inr v, st1)
    \<and> (\<exists>e. fst (Claim sample_env (claim_input sample_reconciler sample_view) st1) = Inl e)"
proof -
  obtain v st1 where c: "Claim sample_env (claim_input sample_reconciler sample_view) created_store = (Inr v, st1)"
    by (rule sample_claims)
  have id: "v_RunID sample_view = ''run-1''" "v_Revision sample_view = 1"
    using validate_view(1,2) [OF created_valid(2)] created_fields(1,2) by simp_all
  show ?thesis
    using revision_used_once [OF created_inv c rtranclp.rtrancl_refl, of "claim_input sample_reconciler sample_view"
        "\<lparr>st_RunID = ''run-1'', st_Owner = ''ctl'', st_ExpectedRevision = 1, st_State = StatePreparing,
          st_TerminalTarget = StateEmpty, st_Reason = [], st_LifecycleCursor = None\<rparr>"] c
    by (auto simp: claim_input_def id)
qed



section \<open>Listing\<close>

text \<open>
  C10. A listing is total and complete: on every reachable table, with a limit in range and a
  cursor that is empty or a run identifier, it returns the first \<open>limit\<close> live runs after the
  cursor in the order of their identifiers, and when there are more its cursor is the identifier of the last one,
  from which the next listing continues without skipping or repeating a run.
\<close>

theorem listing_complete:
  assumes "store_inv env st" "1 \<le> limit" "limit \<le> 500" "after = [] \<or> validRunID after"
  shows "\<exists>page st1 rows. list_runs env limit after active st = (Inr page, st1)
    \<and> rows = list_query active after (local_runs st1)
    \<and> list_Runs page = map (the \<circ> validateStoredRun) (take (nat limit) rows)
    \<and> (if limit < len rows
       then list_NextAfter page = run_id (rows ! (nat limit - 1))
          \<and> list_query active (list_NextAfter page) (local_runs st1) = drop (nat limit) rows
       else list_NextAfter page = [])"
proof -
  define st1 where "st1 = snd (Sweep env st)"
  define rows where "rows = list_query active after (local_runs st1)"
  have run: "list_runs env limit after active st = (Inr (page_of limit rows), st1)"
    using list_runs_page [OF assms] by (simp add: Let_def st1_def rows_def)
  have ok: "table_ok (local_runs st1)"
    using Sweep_op_ok(1) [OF assms(1), of "fst (Sweep env st)" st1] by (simp add: st1_def op_ok_def store_inv_def)
  then have "list_all valid_row rows"
    using list_query_set [of active after "local_runs st1"] by (auto simp: table_ok_def list_all_iff rows_def)
  note views = views_valid [OF this]
  have "list_NextAfter (page_of limit rows) = run_id (rows ! (nat limit - 1))
      \<and> list_query active (list_NextAfter (page_of limit rows)) (local_runs st1) = drop (nat limit) rows"
    if more: "limit < len rows"
  proof -
    have n: "nat limit - 1 < length rows" "take (nat limit) rows \<noteq> []" using more assms(2) by (auto simp: len_def)
    have "last (take (nat limit) rows) = rows ! (nat limit - 1)"
      using n more by (simp add: last_conv_nth len_def min_def)
    moreover have "valid_row (rows ! (nat limit - 1))"
      using \<open>list_all valid_row rows\<close> n(1) by (simp add: list_all_length)
    ultimately have next_id: "list_NextAfter (page_of limit rows) = run_id (rows ! (nat limit - 1))"
      using more n validate_view(1) [of "rows ! (nat limit - 1)"]
      by (auto simp: page_of_def views take_map last_map len_def valid_row_def)
    have "list_query active (run_id (rows ! (nat limit - 1))) (local_runs st1) = drop (Suc (nat limit - 1)) rows"
      using list_query_next [of "local_runs st1" "nat limit - 1" active after] ok n(1) by (simp add: rows_def table_ok_def)
    with next_id assms(2) show ?thesis by simp
  qed
  moreover have "list_Runs (page_of limit rows) = map (the \<circ> validateStoredRun) (take (nat limit) rows)"
    by (simp add: page_of_def Let_def views take_map)
  moreover have "list_NextAfter (page_of limit rows) = []" if "\<not> limit < len rows"
    using that by (simp add: page_of_def Let_def views len_def)
  ultimately show ?thesis using run rows_def by auto
qed

theorem listing_complete_witness:
  "\<exists>page st1. list_runs sample_env 1 [] False created_store = (Inr page, st1)
    \<and> list_Runs page = map (the \<circ> validateStoredRun) (take 1 (list_query False [] (local_runs st1)))"
  using listing_complete [OF created_inv, of 1 "[]" False] by auto

section \<open>The reconciler\<close>

text \<open>
  C6. A round of the reconciler refines the store: whatever the backend answers, and whatever
  other goroutines do to the store through its operations before each of its calls, recovery and
  reconciliation take the store to the new one by store steps only. In particular the abort of a
  rejected configuration, which checks neither state nor lease in its statement, only ever hits a
  preparing row, and the invariant of the store holds afterwards.
\<close>

theorem round_refines_store:
  assumes "others_ok rc" "store_inv (rc_env rc) (w_store w)" "run_round fuel rc recovered w = Some (flag, w')"
  shows "(store_step (rc_env rc))\<^sup>*\<^sup>* (w_store w) (w_store w') \<and> store_inv (rc_env rc) (w_store w')"
  using run_round_steps [OF assms] inv_steps [OF assms(2)] by blast

theorem round_refines_store_witness:
  "\<exists>flag w'. run_round 2 sample_reconciler False sample_world = Some (flag, w')
    \<and> (store_step sample_env)\<^sup>*\<^sup>* created_store (w_store w')"
proof -
  have inv: "store_inv (rc_env sample_reconciler) (w_store sample_world)" "length (local_runs (w_store sample_world)) < 2"
    using created_inv by (simp_all add: sample_rc sample_world_def created_rows)
  obtain flag w' where r: "run_round 2 sample_reconciler False sample_world = Some (flag, w')"
    using run_round_returns [OF sample_others(1,2) inv] by blast
  then show ?thesis
    using round_refines_store [OF sample_others(1) inv(1) r] by (auto simp: sample_rc sample_world_def)
qed



text \<open>
  C9. Cleanup comes before new work: while the store holds a stopping run and more active runs
  than its capacity, reconciliation neither prepares nor inspects any backend run. Its result and the world it
  leaves are the same whatever those two backend operations would do.
\<close>

theorem cleanup_before_new_work:
  assumes "reconcile_pass fuel rc True [] w = Some (Inr (), w1)" "cleanup_pending rc w1 = (Inr True, w2)"
  shows "Reconcile fuel (rc\<lparr>rc_backend := (rc_backend rc)\<lparr>Ensure := ensure, Inspect := inspect\<rparr>\<rparr>) w = Some (Inr (), w2)"
  using blocked_Reconcile [OF assms] by (simp add: other_backend_def)

definition crowded_reconciler :: "unit Reconciler" where
  "crowded_reconciler = sample_reconciler\<lparr>rc_env := sample_env\<lparr>maxActiveRuns := 0\<rparr>,
     rc_others := (\<lambda>n st. if n = 1 then st\<lparr>local_runs := [created_row\<lparr>state := StateStopping\<rparr>]\<rparr> else st)\<rparr>"

theorem cleanup_before_new_work_witness:
  "\<exists>w2. Reconcile 1 (crowded_reconciler\<lparr>rc_backend := (rc_backend crowded_reconciler)\<lparr>Ensure := (\<lambda>_ b. (Inl ErrBackendRetryable, b)),
      Inspect := (\<lambda>_ b. (Inl ErrBackendRetryable, b))\<rparr>\<rparr>) \<lparr>w_store = empty_store, w_backend = (), w_calls = 0\<rparr> = Some (Inr (), w2)
    \<and> local_runs (w_store w2) \<noteq> []"
proof -
  let ?w = "\<lparr>w_store = empty_store, w_backend = (), w_calls = 0\<rparr>"
  have "reconcile_pass 1 crowded_reconciler True [] ?w = Some (Inr (), ?w\<lparr>w_store := empty_store\<lparr>ticks := 1\<rparr>, w_calls := 1\<rparr>)"
    by (simp add: call_store_def crowded_reconciler_def sample_reconciler_def ListRuns_def list_runs_def MaxListLimit_def
        after_sweep_def Sweep_def sweepTx_def select_live_def empty_store_def sample_env_def list_query_def len_def)
  moreover have "cleanup_pending crowded_reconciler (?w\<lparr>w_store := empty_store\<lparr>ticks := 1\<rparr>, w_calls := 1\<rparr>)
      = (Inr True, ?w\<lparr>w_store := empty_store\<lparr>ticks := 1, local_runs := [created_row\<lparr>state := StateStopping\<rparr>]\<rparr>, w_calls := 2\<rparr>)"
    by (simp add: cleanup_pending_def call_store_def crowded_reconciler_def replacementCleanupPending_def Let_def
        sample_env_def created_fields(4) state_active_iff len_def)
  ultimately show ?thesis
    using cleanup_before_new_work by fastforce
qed

text \<open>
  C7. A run makes progress: when this reconciler is alone on the store, its lease outlasts the
  calls of one visit, and the run is live, free to claim and not past its deadline, one visit takes a pending
  run to preparing, a preparing run to running once the backend reports it ready, and a stopping
  run whose backend resources are gone to its terminal target, or back to pending when an
  immutable replacement was waiting.
\<close>

theorem visit_progress:
  assumes "alone rc" "store_inv (rc_env rc) (w_store w)" "lease_covers rc (w_store w)"
    "claimable rc (w_store w) r run"
    "\<And>br. \<exists>obs b. Ensure (rc_backend rc) br (w_backend w) = (Inr obs, b) \<and> obs_Ready obs
       \<and> obs_TerminalTarget obs = StateEmpty \<and> validLifecycleCursor (obs_LifecycleCursor obs)"
    "\<And>br. fst (DeleteRun (rc_backend rc) br (w_backend w)) = None"
  shows "(state r = StatePending \<longrightarrow>
       (\<exists>w'. reconcileRun rc run w = (Inr (), w') \<and> reaches (run_id r) StatePreparing (w_store w')))
    \<and> (state r = StatePreparing \<longrightarrow>
       (\<exists>w'. reconcileRun rc run w = (Inr (), w') \<and> reaches (run_id r) StateRunning (w_store w')))
    \<and> (state r = StateStopping \<longrightarrow>
       (\<exists>res w'. reconcileRun rc run w = (res, w') \<and> (res = Inr () \<or> res = Inl (StoreError ErrGone))
          \<and> reaches (run_id r) (next_state r (terminal_target r)) (w_store w')))"
  using visit_pending [OF assms(1-4)] visit_preparing [OF assms(1-4) _ assms(5)]
    visit_stopping [OF assms(1-4) _ assms(6)] by blast

theorem visit_progress_witness:
  "\<exists>w'. reconcileRun sample_reconciler sample_view sample_world = (Inr (), w')
    \<and> reaches ''run-1'' StatePreparing (w_store w')"
proof -
  have "validLifecycleCursor ''c1''" by code_simp
  then show ?thesis
    using visit_progress [OF sample_others(3), of sample_world created_row sample_view]
      created_inv sample_lease sample_claimable created_fields(1,3)
    by (simp add: sample_rc sample_world_def sample_backend_def sample_reconciler_def)
qed

end
