(* ===== verification/Create_Properties.thy ===== *)
theory Create_Properties
  imports Store_Leases Store_Properties
begin

text \<open>
  The creation of runs, one input at a time: what a batch of one does on a new and on a known
  idempotency key, the capacity of the store, the retention of terminal runs, and the rollback of
  a pending immutable replacement, which leaves a row that no operation accepts any more.
\<close>

section \<open>A batch of one\<close>

definition no_result :: CreateResult where
  "no_result = \<lparr>result_Run = zero_Run, result_Created = False\<rparr>"

lemma single_new:
  assumes "table_ok rs" "queryByIdempotency (prep_key c) (map (sweep_row now) rs) = None"
  shows "batchTx env [c] reclaim False replace ack now rs =
    (case batch_admit env reclaim ack [(c, ActNew, no_result)] [] (map (sweep_row now) rs) of
       Some e \<Rightarrow> (Inl e, rs)
     | None \<Rightarrow>
         (case insert_item now c (map (sweep_row now) rs) of
            Inl e \<Rightarrow> (Inl e, rs)
          | Inr (res, rs') \<Rightarrow> (Inr [res], rs')))"
proof -
  obtain n where sw: "sweepTx now rs = Inr (n, map (sweep_row now) rs)" using sweepTx_map [OF assms(1)] by blast
  show ?thesis
    using assms(2)
    by (simp add: batchTx_def sw no_result_def batch_phases_def split: option.split sum.split prod.split)
qed

lemma single_existing:
  assumes "table_ok rs" "queryByIdempotency (prep_key c) (map (sweep_row now) rs) = Some e" "valid_row e"
  shows "batchTx env [c] reclaim False replace ack now rs =
    (case classify_existing now reclaim replace c e of
       Inl er \<Rightarrow> (Inl er, rs)
     | Inr act \<Rightarrow>
         (case batch_admit env reclaim ack [(c, act, initial_result act e)] [] (map (sweep_row now) rs) of
            Some er \<Rightarrow> (Inl er, rs)
          | None \<Rightarrow>
              if act = ActReplay then (Inr [initial_result act e], map (sweep_row now) rs)
              else (case apply_item now (c, act, initial_result act e) (map (sweep_row now) rs) of
                      Inl er \<Rightarrow> (Inl er, rs)
                    | Inr (res, rs') \<Rightarrow> (Inr [res], rs'))))"
proof -
  obtain n where sw: "sweepTx now rs = Inr (n, map (sweep_row now) rs)" using sweepTx_map [OF assms(1)] by blast
  have cls: "classify_all now reclaim replace [c] (map (sweep_row now) rs) =
      result_bind (classify_existing now reclaim replace c e)
        (\<lambda>act. Inr ([(c, act, initial_result act e)], map (sweep_row now) rs))"
    using assms(2,3) by (simp add: load_existing_valid)
  show ?thesis
  proof (cases "classify_existing now reclaim replace c e")
    case (Inl er)
    then show ?thesis by (simp add: batchTx_def sw cls del: classify_all.simps)
  next
    case (Inr act)
    then have new: "act \<noteq> ActNew"
      by (auto simp: classify_existing_def split: if_splits option.splits)
    have phases: "apply_phases now batch_phases [(c, act, res)] rs0 =
        (if act = ActReplay then Inr ([(c, act, res)], rs0)
         else result_bind (apply_item now (c, act, res) rs0) (\<lambda>(res', rs'). Inr ([(c, act, res')], rs')))" for res rs0
      using new
      by (cases act) (simp_all add: batch_phases_def split: sum.split prod.split, (cases "apply_item now (c, act, res) rs0"; auto)+)
    define rs0 where "rs0 = map (sweep_row now) rs"
    define res where "res = initial_result act e"
    have tx: "batchTx env [c] reclaim False replace ack now rs =
        (case (case batch_admit env reclaim ack [(c, act, res)] [] rs0 of
             None \<Rightarrow> result_bind (apply_phases now batch_phases [(c, act, res)] rs0)
               (\<lambda>(items', rs2). result_bind (apply_prune now [] rs2) (\<lambda>rs3. Inr (map (\<lambda>(_, _, res). res) items', rs3)))
           | Some er \<Rightarrow> Inl er) of
           Inl er \<Rightarrow> (Inl er, rs) | Inr (results, rs') \<Rightarrow> (Inr results, rs'))"
      unfolding rs0_def res_def
      by (simp add: batchTx_def sw cls Inr del: classify_all.simps apply_phases.simps apply_prune.simps)
    show ?thesis
      unfolding tx phases Inr sum.case rs0_def [symmetric] res_def [symmetric]
      by (cases "batch_admit env reclaim ack [(c, act, res)] [] rs0"; cases "apply_item now (c, act, res) rs0") auto
  qed
qed

lemma queryByIdempotency_unique:
  assumes "table_ok rs" "e \<in> set rs"
  shows "queryByIdempotency (idempotency_key e) rs = Some e"
  unfolding queryByIdempotency_def by (rule find_distinct) (use assms in \<open>auto simp: table_ok_def\<close>)

text \<open>The table that \<open>Create\<close> looks at: swept by itself and once more by the batch.\<close>

definition twice_swept :: "store_env \<Rightarrow> store \<Rightarrow> row list" where
  "twice_swept env st = map (sweep_row (tx_now env st)) (swept env st)"

lemma twice_swept_ok:
  assumes "store_inv env st"
  shows "table_ok (twice_swept env st)"
proof -
  let ?st1 = "st\<lparr>ticks := Suc (ticks st), local_runs := swept env st\<rparr>"
  obtain n where "Sweep env st = (Inr n, ?st1)"
    using assms unfolding swept_def by (rule Sweep_ok)
  then have "store_inv env ?st1" using Sweep_op_ok(1) [OF assms] op_ok_inv by blast
  from swept_ok(1) [OF this] show ?thesis by (simp add: twice_swept_def tx_now_def swept_def)
qed

lemma Create_single:
  assumes "store_inv env st" "prepare_inputs [] [] [] [input] = Inr [c]" "1 \<le> maxActiveRuns env"
  shows "Create env input st =
    (let (res, rs) = batchTx env [c] False False False False (tx_now env st) (swept env st)
     in (map_sum id hd res, st\<lparr>ticks := Suc (Suc (ticks st)), local_runs := rs\<rparr>))"
  using assms(1)
  by (rule Sweep_ok)
     (use assms(2,3) in \<open>simp add: Create_def after_sweep_def createBatch_def in_tx_def len_def tx_now_def swept_def
        split: prod.split sum.split del: prepare_inputs.simps\<close>)

lemma Create_prepared:
  assumes "store_inv env st" "Create env input st = (Inr res, st')"
  obtains c where "prepare_inputs [] [] [] [input] = Inr [c]" "1 \<le> maxActiveRuns env"
proof -
  obtain st1 results where b: "createBatch env [input] False False False False st1 = (Inr results, st')"
    using assms(2) by (auto simp: Create_def after_sweep_def split: prod.splits sum.splits)
  then obtain cs where cs: "prepare_inputs [] [] [] [input] = Inr cs" and cap: "1 \<le> maxActiveRuns env"
    by (auto simp: createBatch_def len_def split: if_splits sum.splits simp del: prepare_inputs.simps)
  from prepare_inputs_ok [OF cs] obtain c where "cs = [c]" by (cases cs) auto
  with that cs cap show thesis by blast
qed

section \<open>Known keys\<close>




section \<open>Capacity\<close>

text \<open>
  C12. A run is created only within capacity: when \<open>Create\<close> reports a new run, the store holds at
  most \<open>maxActiveRuns\<close> live runs in an active state, the new one included.
\<close>

theorem create_within_capacity:
  assumes "store_inv env st" "Create env input st = (Inr res, st')" "result_Created res"
  shows "len (filter (\<lambda>r. deleted_at r = None \<and> state_active (state r)) (local_runs st')) \<le> maxActiveRuns env"
proof -
  obtain c where c: "prepare_inputs [] [] [] [input] = Inr [c]" "1 \<le> maxActiveRuns env"
    using assms(1,2) by (rule Create_prepared)
  let ?now = "tx_now env st" and ?rs = "twice_swept env st"
  obtain r where tx: "batchTx env [c] False False False False ?now (swept env st) = (Inr r, local_runs st')" "res = hd r"
    using assms(2) unfolding Create_single [OF assms(1) c]
    by (cases "batchTx env [c] False False False False ?now (swept env st)")
       (auto split: sum.splits simp: Let_def, metis Inl_Inr_False map_sum.simps(1) obj_sumE map_sum.simps(2) sum.inject(2))
  show ?thesis
  proof (cases "queryByIdempotency (prep_key c) (map (sweep_row ?now) (swept env st))")
    case None
    note single = single_new [OF swept_ok(1) [OF assms(1)] None, of env False False False, folded twice_swept_def]
    have adm: "batch_admit env False False [(c, ActNew, no_result)] [] ?rs = None"
      using tx(1) unfolding single by (cases "batch_admit env False False [(c, ActNew, no_result)] [] ?rs") auto
    then have "local_runs st' = ?rs @ [new_row ?now c]"
      using tx(1) unfolding single by (auto simp: insert_item_def split: if_splits)
    moreover have "len (filter (counted False) ?rs) + 1 \<le> maxActiveRuns env"
      using adm by (simp add: batch_admit_def items_with_def first_error_None len_def not_less)
    moreover have "counted False = (\<lambda>r. deleted_at r = None \<and> state_active (state r))"
      by (simp add: fun_eq_iff counted_def)
    ultimately show ?thesis by (simp add: len_def new_row_def state_active_iff)
  next
    case (Some e)
    have e: "e \<in> set ?rs" using queryByIdempotency_row [OF Some] by (simp add: twice_swept_def)
    note valid = table_okD(1) [OF twice_swept_ok [OF assms(1)] e]
    have "\<not> result_Created res"
      using tx unfolding single_existing [OF swept_ok(1) [OF assms(1)] Some valid]
      by (auto simp: apply_item_def initial_result_def Let_def result_bind_Inr
          split: sum.splits option.splits if_splits prod.splits)
    with assms(3) show ?thesis by simp
  qed
qed

lemma created_result:
  "fst (Create sample_env (sample_input ''i'') empty_store) = Inr r \<Longrightarrow> result_Created r"
  "\<exists>r. fst (Create sample_env (sample_input ''i'') empty_store) = Inr r"
proof -
  have inv: "store_inv sample_env empty_store"
    using sample_clock by (simp add: store_inv_def table_ok_def created_by_def empty_store_def)
  have "prep_input (sample_prepared ''i'') = sample_input ''i''" "in_ActiveGroup (sample_input ''i'') = []"
    by (simp_all add: sample_prepared_def sample_input_def)
  then have "\<exists>r. batchTx sample_env [sample_prepared ''i''] False False False False 1 [] = (Inr [r], [created_row]) \<and> result_Created r"
    by (simp add: single_new [of "[]", simplified table_ok_def queryByIdempotency_def, simplified] batch_admit_def items_with_def
        check_def insert_item_def sample_env_def len_def created_row_def)
  then show "fst (Create sample_env (sample_input ''i'') empty_store) = Inr r \<Longrightarrow> result_Created r"
    "\<exists>r. fst (Create sample_env (sample_input ''i'') empty_store) = Inr r"
    using Create_single [OF inv sample_prepare(1)]
    by (auto simp: sample_env_def swept_def tx_now_def empty_store_def)
qed

theorem create_within_capacity_witness:
  "len (filter (\<lambda>r. deleted_at r = None \<and> state_active (state r)) (local_runs created_store)) \<le> 4"
proof -
  have inv: "store_inv sample_env empty_store"
    using sample_clock by (simp add: store_inv_def table_ok_def created_by_def empty_store_def)
  obtain r where r: "Create sample_env (sample_input ''i'') empty_store = (Inr r, created_store)"
    using created_result(2) by (metis created_store_def prod.collapse)
  then have "result_Created r" using created_result(1) by simp
  from create_within_capacity [OF inv r this] show ?thesis by (simp add: sample_env_def)
qed

section \<open>Retention\<close>

text \<open>
  C13. The retention of a terminal run is computed without overflow: for a run that the decoder
  accepts, the expiry is one of the configured spans of its terminal state in nanoseconds, the shortest one,
  lies strictly after the present and at most a year away; the multiplication of \<open>time.Duration\<close>,
  which wraps at 64 bits, never does so here.
\<close>

theorem retention_bounds:
  assumes "DecodeResolvedAgentRun data = Some resolved" "terminalExpiry now s resolved = Some t"
  shows "state_terminal s \<and> now < t \<and> t \<le> now + 31536000 * 1000000000
    \<and> (\<exists>d \<in> set (expiry_candidates s resolved). t = now + d * 1000000000)
    \<and> (\<forall>d \<in> set (expiry_candidates s resolved). t \<le> now + d * 1000000000)"
proof -
  have ttl: "ttl_ok (run_TTL resolved)" using assms(1) by (rule Decode_TTL)
  obtain c cs where cs: "expiry_candidates s resolved = c # cs" and s: "state_terminal s"
    and t: "t = now + duration_seconds (foldl (\<lambda>m d. if d < m then d else m) c cs)"
    using assms(2) by (auto simp: terminalExpiry_def split: if_splits list.splits)
  let ?m = "foldl (\<lambda>m d. if d < m then d else m) c cs"
  have range: "0 < d \<and> d \<le> 31536000" if "d \<in> set (expiry_candidates s resolved)" for d
    using that ttl by (auto simp: expiry_candidates_def Let_def ttl_ok_def split: if_splits)
  have m: "?m \<in> set (expiry_candidates s resolved)" "\<forall>d \<in> set (expiry_candidates s resolved). ?m \<le> d"
    using foldl_min [of c cs] by (simp_all add: cs)
  have "duration_seconds ?m = ?m * 1000000000" using range [OF m(1)] by (intro duration_seconds_exact) auto
  with t s m range [OF m(1)] show ?thesis by auto
qed

definition retained_document :: string where
  \<open>retained_document =
     ''{"contract_version":"nvt.resolved-agent-run/v1","run_id":"run-2","principal":{"issuer":"https://id.example","subject":"u"},"profile":"p","workflow":"w","image":"i","runtime":{"type":"codex","autonomy":"interactive","user":"root"},"agent_config":{"runtime":{"command":"codex"}},"broker":{},"egress":{"mode":"direct"},"workspace_instructions":{},"resources":{},"persistence":{},"retention":"r","ttl":{"failed_seconds":600,"run_retention_seconds":3600},"lifecycle":{},"execution":{"name":"b","kind":"docker"}}''\<close>

definition retained_run :: ResolvedAgentRun where
  "retained_run = (sample_run ''i'')\<lparr>RunID := ''run-2'', run_Persistence := zero_Persistence,
     run_TTL := zero_TTL\<lparr>FailedSeconds := 600, RunRetentionSeconds := 3600\<rparr>\<rparr>"

theorem retention_bounds_witness:
  "terminalExpiry 5 StateFailed retained_run = Some 600000000005
   \<and> 5 < (600000000005 :: int) \<and> 600000000005 \<le> 5 + 31536000 * (1000000000 :: int)"
proof -
  have dec: "DecodeResolvedAgentRun retained_document = Some retained_run" by code_simp
  have exp: "terminalExpiry 5 StateFailed retained_run = Some 600000000005" by code_simp
  from retention_bounds [OF dec exp] exp show ?thesis by simp
qed

section \<open>Rolling back a replacement\<close>

text \<open>
  C14. Resubmitting the original document of a workstation while its immutable replacement waits
  for cleanup makes the store unavailable. The batch succeeds, but its rollback statement puts
  the row back to preparing without clearing the delete request and the terminal target that the
  replacement had set; the row then fails its validation, and so does the sweep that precedes
  every later operation.
\<close>

theorem rollback_makes_unavailable:
  assumes "store_inv env st" "prepare_inputs [] [] [] [input] = Inr [c]" "1 \<le> maxActiveRuns env"
    "r \<in> set (local_runs st)" "deleted_at r = None" "run_id r = RunID (prep_resolved c)"
    "rolls_back_replacement c r" "reconcile_until r = None"
    "\<And>now. len (filter (counted reclaim) (map (sweep_row now) (local_runs st))) \<le> maxActiveRuns env"
  shows "\<exists>results st'. createBatch env [input] reclaim False replace ack st = (Inr results, st')
    \<and> fst (Sweep env st') = Inl ErrStoreUnavailable"
proof -
  let ?now = "env_now env (ticks st)"
  define rs where "rs = map (sweep_row ?now) (local_runs st)"
  have r: "idempotency_key r = prep_key c" "replacement_requested r" "pendingSnapshot r \<noteq> []"
      "request_digest r = prep_digest c" using assms(7) by (simp_all add: rolls_back_replacement_def)
  have ok: "table_ok (local_runs st)" "table_ok rs" "distinct rs"
    using assms(1) swept_ok(1) [OF assms(1)] table_ok_distinct by (auto simp: rs_def swept_def store_inv_def)
  have kept: "sweep_row ?now r = r"
    using r(2) by (simp add: sweep_row_def sweep_update_def replacement_requested_def state_terminal_def)
  then have in_rs: "r \<in> set rs" using assms(4) unfolding rs_def set_map by (metis image_eqI)
  note valid = table_okD(1) [OF ok(2) in_rs]
  have q: "queryByIdempotency (prep_key c) rs = Some r"
    using queryByIdempotency_unique [OF ok(2) in_rs] r(1) by simp
  have cls: "classify_existing ?now reclaim replace c r = Inr ActCancel"
    using assms(5,6,8) r by (simp add: classify_existing_def)
  have adm: "batch_admit env reclaim ack [(c, ActCancel, initial_result ActCancel r)] [] rs = None"
    using assms(9) [of ?now] by (simp add: batch_admit_def items_with_def check_def len_def rs_def)
  let ?rs = "map (\<lambda>q. if q = r then cancel_row ?now q else q) rs"
  have pend: "pending_snapshot r \<noteq> None" using r(3) by (auto simp: pendingSnapshot_def split: option.splits)
  have upd: "update_one ErrStoreUnavailable (\<lambda>q. idempotency_key q = prep_key c \<and> pending_snapshot q \<noteq> None)
      (cancel_row ?now) rs = Inr ?rs"
    by (rule update_one_unique [OF ok(3) in_rs])
       (use r(1) pend table_unique_key [OF ok(2) in_rs] in auto)
  have row: "cancel_row ?now r \<in> set ?rs" using in_rs by force
  have "\<exists>x. queryByIdempotency (prep_key c) ?rs = Some x"
  proof -
    have "idempotency_key (cancel_row ?now r) = prep_key c" using r(1) by (simp add: cancel_row_def)
    with row have "prep_key c \<in> idempotency_key ` set ?rs" by (metis image_eqI)
    then show ?thesis using queryByIdempotency_None by blast
  qed
  then have app: "\<exists>res. apply_item ?now (c, ActCancel, initial_result ActCancel r) rs = Inr (res, ?rs)"
    unfolding apply_item_def Let_def prod.case action_update.simps upd by auto
  note single = single_existing [OF ok(1) q [unfolded rs_def] valid, of env reclaim replace ack, folded rs_def]
  obtain res where "batchTx env [c] reclaim False replace ack ?now (local_runs st) = (Inr [res], ?rs)"
    using app unfolding single cls by (auto simp: adm)
  then have b: "createBatch env [input] reclaim False replace ack st
      = (Inr [res], st\<lparr>ticks := Suc (ticks st), local_runs := ?rs\<rparr>)" (is "_ = (_, ?st')")
    using assms(2,3) by (simp add: createBatch_def in_tx_def len_def del: prepare_inputs.simps)
  have "fst (Sweep env ?st') = Inl ErrStoreUnavailable"
    by (rule Sweep_malformed [of "cancel_row ?now r"])
       (use row invalid_cancel_row [OF valid r(2)] assms(5) in \<open>simp_all add: cancel_row_def\<close>)
  with b show ?thesis by blast
qed

text \<open>A store whose only run waits for the cleanup of its replacement.\<close>

definition replaced_row :: row where
  "replaced_row = request_replacement_row 2 (sample_prepared ''j'') created_row"

definition replaced_store :: store where
  "replaced_store = \<lparr>local_runs = [replaced_row], ticks = 3\<rparr>"

lemma replaced_inv: "store_inv sample_env replaced_store"
proof -
  have created: "valid_row created_row" "created_at created_row = 1" "deleted_at created_row = None"
    using created_inv created_rows by (auto simp: store_inv_def table_ok_def created_row_def new_row_def)
  have "canonical_stable (sample_prepared ''j'')" "prepared_ok (sample_prepared ''j'')"
    using prepared_stable [OF sample_prepare(2)] prepare_inputs_ok [OF sample_prepare(2)] sample_fits(2) by auto
  then have "valid_row replaced_row"
    unfolding replaced_row_def
    by (intro valid_request_replacement_row) (use created in \<open>simp_all add: created_row_def new_row_def sample_prepared_def sample_run_def\<close>)
  then show ?thesis
    using sample_clock created(2)
    by (simp add: store_inv_def table_ok_def created_by_def replaced_store_def expiry_sound_def replaced_row_def
        request_replacement_row_def sample_env_def)
qed

theorem rollback_makes_unavailable_witness:
  "\<exists>results st'. createBatch sample_env [sample_input ''i''] True False False False replaced_store = (Inr results, st')
    \<and> fst (Sweep sample_env st') = Inl ErrStoreUnavailable"
proof (rule rollback_makes_unavailable [OF replaced_inv sample_prepare(1), of replaced_row])
  have "sample_document ''j'' \<noteq> []" by (simp add: sample_document_def)
  then show "rolls_back_replacement (sample_prepared ''i'') replaced_row"
    by (simp add: rolls_back_replacement_def replaced_row_def request_replacement_row_def replacement_requested_def
        created_row_def new_row_def pendingSnapshot_def sample_prepared_def)
  show "run_id replaced_row = RunID (prep_resolved (sample_prepared ''i''))" "deleted_at replaced_row = None"
    "reconcile_until replaced_row = None"
    by (simp_all add: replaced_row_def request_replacement_row_def created_row_def new_row_def sample_prepared_def)
  have "len (filter p (map f (local_runs replaced_store))) \<le> 1" for p f
    by (simp add: replaced_store_def len_def)
  then show "len (filter (counted True) (map (sweep_row now) (local_runs replaced_store))) \<le> maxActiveRuns sample_env" for now
    by (rule order_trans) (simp add: sample_env_def)
qed (simp_all add: sample_env_def replaced_store_def)

end
