(* ===== verification/Run_Resolver.thy ===== *)
theory Run_Resolver
  imports Run_Validation "HOL-Library.Monad_Syntax"
begin

text \<open>
  The resolver of local run requests, \<^verbatim>\<open>protocol/resolvedrun/resolver.go\<close>: the trusted configuration
  is checked once and kept as an immutable snapshot; a request selects a profile, a workflow, a
  backend and a retention policy, each of which the caller must be authorised for. A Go map is a
  HOL map. An outcome of \<^verbatim>\<open>None\<close> is a panic: \<^verbatim>\<open>clone\<close> encodes its argument as JSON and decodes it
  again, and panics when either step fails.
\<close>

datatype contract_error =
    ErrInvalidConfiguration
  | ErrInvalidRequest
  | ErrUnknownProfile
  | ErrUnknownWorkflow
  | ErrSelectionDenied
  | ErrInvalidRenderBinding

type_synonym 'a outcome = "(contract_error + 'a) option"

record Resolver =
  res_defaults :: PlatformDefaults
  res_profiles :: "string \<rightharpoonup> Profile"
  res_workflows :: "string \<rightharpoonup> Workflow"
  res_backends :: "string \<rightharpoonup> ExecutionBackend"
  res_retentions :: "string \<rightharpoonup> RetentionPolicy"

section \<open>Cloning\<close>

text \<open>
  The clone of a value of a type with the given encoder, decoder and zero value. The encoder
  writes no field that the decoder does not know, so the strict decoder of a struct serves.
\<close>

definition clone :: "('a \<Rightarrow> string option) \<Rightarrow> 'a decoder \<Rightarrow> 'a \<Rightarrow> 'a \<Rightarrow> 'a option" where
  "clone enc dec zero x =
     (case enc x of
        None \<Rightarrow> None
      | Some encoded \<Rightarrow>
          (case json_value encoded of
             None \<Rightarrow> None
           | Some v \<Rightarrow> dec v encoded zero))"

definition clone_Runtime :: "Runtime \<Rightarrow> Runtime option" where
  "clone_Runtime = clone (Some \<circ> enc_Runtime) (dec_struct Runtime_fields) zero_Runtime"

definition clone_RawMessage :: "string \<Rightarrow> string option" where
  "clone_RawMessage = clone enc_raw dec_raw []"

definition clone_Lifecycle :: "Lifecycle \<Rightarrow> Lifecycle option" where
  "clone_Lifecycle = clone (Some \<circ> enc_Lifecycle) (dec_struct Lifecycle_fields) zero_Lifecycle"

definition clone_Repositories :: "Repository list \<Rightarrow> Repository list option" where
  "clone_Repositories =
     clone (Some \<circ> enc_array enc_Repository) (dec_slice zero_Repository (dec_struct Repository_fields)) []"

definition clone_CredentialProviders :: "CredentialProviderMapping list \<Rightarrow> CredentialProviderMapping list option" where
  "clone_CredentialProviders =
     clone (Some \<circ> enc_array enc_CredentialProviderMapping)
       (dec_slice zero_CredentialProviderMapping (dec_struct CredentialProviderMapping_fields)) []"

definition clone_Broker :: "Broker \<Rightarrow> Broker option" where
  "clone_Broker = clone (Some \<circ> enc_Broker) (dec_struct Broker_fields) zero_Broker"

definition clone_Egress :: "Egress \<Rightarrow> Egress option" where
  "clone_Egress = clone (Some \<circ> enc_Egress) (dec_struct Egress_fields) zero_Egress"

definition clone_Workflow :: "Workflow \<Rightarrow> Workflow option" where
  "clone_Workflow = clone (Some \<circ> enc_Workflow) (dec_struct Workflow_fields) zero_Workflow"

definition clone_Profile :: "Profile \<Rightarrow> Profile option" where
  "clone_Profile = clone enc_Profile (dec_struct Profile_fields) zero_Profile"

definition clone_PlatformDefaults :: "PlatformDefaults \<Rightarrow> PlatformDefaults option" where
  "clone_PlatformDefaults =
     clone enc_PlatformDefaults (dec_struct PlatformDefaults_fields) zero_PlatformDefaults"

definition clone_ResolvedAgentRun :: "ResolvedAgentRun \<Rightarrow> ResolvedAgentRun option" where
  "clone_ResolvedAgentRun =
     clone enc_ResolvedAgentRun (dec_struct ResolvedAgentRun_fields) zero_ResolvedAgentRun"

section \<open>Checks of the trusted configuration\<close>

definition trimmed_byte :: "char \<Rightarrow> bool" where
  "trimmed_byte c \<longleftrightarrow> c \<in> {CHR '' '', CHR 0x09, CHR 0x0D, CHR 0x0A}"

definition stringTrimSpace :: "string \<Rightarrow> string" where
  "stringTrimSpace v = rev (dropWhile trimmed_byte (rev (dropWhile trimmed_byte v)))"

definition pathBase :: "string \<Rightarrow> string" where
  "pathBase v =
     (let base = rev (takeWhile (\<lambda>c. c \<noteq> CHR ''/'') (rev v))
      in if 4 < len base \<and> suffix ''.git'' base then take (length base - 4) base else base)"

definition workflow_repository_ok :: "Repository \<Rightarrow> bool" where
  "workflow_repository_ok r \<longleftrightarrow>
     \<not> (\<not> validRepositoryID (CheckoutTarget r) \<or> repositoryTargetFromURL (repo_URL r) \<noteq> CheckoutTarget r
        \<or> Upstream r \<noteq> [] \<and> repositoryTargetFromURL (Upstream r) = []
        \<or> \<not> validCheckoutPath (repo_Path r)
        \<or> CredentialProvider r = [] \<and> BrokerRepository r \<noteq> []
        \<or> CredentialProvider r = [] \<and> Identity r \<noteq> None
        \<or> CredentialProvider r \<noteq> [] \<and> \<not> validRepositoryID (BrokerRepository r)
        \<or> CredentialProvider r \<noteq> [] \<and> \<not> validProvider (CredentialProvider r)
        \<or> validateRepositoryIdentity (Identity r) \<noteq> None)"

definition workflow_path :: "Repository \<Rightarrow> string" where
  "workflow_path r = (if repo_Path r = [] then pathBase (CheckoutTarget r) else repo_Path r)"

fun workflow_repositories :: "string list \<Rightarrow> string list \<Rightarrow> Repository list \<Rightarrow> contract_error option" where
  "workflow_repositories identifiers paths [] = None"
| "workflow_repositories identifiers paths (r # rs) =
     (if \<not> workflow_repository_ok r then Some ErrInvalidConfiguration
      else if CheckoutTarget r \<in> set identifiers then Some ErrInvalidConfiguration
      else if workflow_path r \<in> set paths then Some ErrInvalidConfiguration
      else workflow_repositories (CheckoutTarget r # identifiers) (workflow_path r # paths) rs)"

definition validateWorkflowRepositories :: "Repository list \<Rightarrow> contract_error option" where
  "validateWorkflowRepositories = workflow_repositories [] []"

definition selectionAuthorized :: "AuthorizedSelection list \<Rightarrow> string \<Rightarrow> string \<Rightarrow> bool" where
  "selectionAuthorized selections profile workflow =
     list_ex (\<lambda>s. sel_Profile s = profile \<and> containsString (sel_Workflows s) workflow) selections"

fun allowed_names :: "(string \<rightharpoonup> 'a) \<Rightarrow> string list \<Rightarrow> string list \<Rightarrow> contract_error option" where
  "allowed_names known seen [] = None"
| "allowed_names known seen (name # names) =
     (if known name = None \<or> \<not> validName name then Some ErrInvalidConfiguration
      else if name \<in> set seen then Some ErrInvalidConfiguration
      else allowed_names known (name # seen) names)"

definition validateAllowedSelections :: "Profile \<Rightarrow> (string \<rightharpoonup> ExecutionBackend) \<Rightarrow> (string \<rightharpoonup> RetentionPolicy)
    \<Rightarrow> contract_error option" where
  "validateAllowedSelections p backends retentions = first_error [
     check (\<not> validName (DefaultBackend p) \<or> \<not> containsString (AllowedBackends p) (DefaultBackend p))
       ErrInvalidConfiguration,
     allowed_names backends [] (AllowedBackends p),
     allowed_names retentions [] (AllowedRetentions p)]"

text \<open>The profile's blocks replace the defaults; every block that is kept is cloned.\<close>

definition effective :: "PlatformDefaults \<Rightarrow> Profile \<Rightarrow> (string \<times> Runtime \<times> string \<times> Resources \<times> Lifecycle) option" where
  "effective d p = do {
     let img = (if prof_Image p \<noteq> [] then prof_Image p else def_Image d);
     runtime0 \<leftarrow> clone_Runtime (def_Runtime d);
     runtime \<leftarrow> (case prof_Runtime p of None \<Rightarrow> Some runtime0 | Some r \<Rightarrow> clone_Runtime r);
     config0 \<leftarrow> clone_RawMessage (def_AgentConfig d);
     config \<leftarrow> (if prof_AgentConfig p \<noteq> [] then clone_RawMessage (prof_AgentConfig p) else Some config0);
     let resources = (case prof_Resources p of None \<Rightarrow> def_Resources d | Some r \<Rightarrow> r);
     lifecycle0 \<leftarrow> clone_Lifecycle (def_Lifecycle d);
     lifecycle \<leftarrow> (case prof_Lifecycle p of None \<Rightarrow> Some lifecycle0 | Some l \<Rightarrow> clone_Lifecycle l);
     Some (img, runtime, config, resources, lifecycle) }"

section \<open>Building the resolver\<close>

definition outcome_bind :: "'a outcome \<Rightarrow> ('a \<Rightarrow> 'b outcome) \<Rightarrow> 'b outcome" where
  "outcome_bind x f =
     (case x of
        None \<Rightarrow> None
      | Some (Inl e) \<Rightarrow> Some (Inl e)
      | Some (Inr a) \<Rightarrow> f a)"

definition refuse_if :: "bool \<Rightarrow> contract_error \<Rightarrow> 'a outcome \<Rightarrow> 'a outcome" where
  "refuse_if cond e k = (if cond then Some (Inl e) else k)"

fun add_backends :: "ExecutionBackend list \<Rightarrow> (string \<rightharpoonup> ExecutionBackend) \<Rightarrow> (string \<rightharpoonup> ExecutionBackend) outcome" where
  "add_backends [] known = Some (Inr known)"
| "add_backends (b # bs) known =
     refuse_if (\<not> validName (be_Name b) \<or> \<not> validName (be_Kind b)) ErrInvalidConfiguration
     (refuse_if (known (be_Name b) \<noteq> None) ErrInvalidConfiguration
     (add_backends bs (known(be_Name b \<mapsto> b))))"

fun add_retentions :: "RetentionPolicy list \<Rightarrow> (string \<rightharpoonup> RetentionPolicy) \<Rightarrow> (string \<rightharpoonup> RetentionPolicy) outcome" where
  "add_retentions [] known = Some (Inr known)"
| "add_retentions (r # rs) known =
     refuse_if (\<not> validName (ret_Name r) \<or> validateTTL (ret_TTL r) \<noteq> None) ErrInvalidConfiguration
     (refuse_if (known (ret_Name r) \<noteq> None) ErrInvalidConfiguration
     (add_retentions rs (known(ret_Name r \<mapsto> r))))"

definition workflow_ok :: "Workflow \<Rightarrow> bool" where
  "workflow_ok w \<longleftrightarrow>
     \<not> (\<not> validName (wf_Name w) \<or> MaxRepositories < len (wf_Repositories w)
        \<or> validateInstructions (wf_WorkspaceInstructions w) \<noteq> None
        \<or> validateWorkflowRepositories (wf_Repositories w) \<noteq> None
        \<or> (case wf_Lifecycle w of None \<Rightarrow> False | Some l \<Rightarrow> validateLifecycle l \<noteq> None))"

fun add_workflows :: "Workflow list \<Rightarrow> (string \<rightharpoonup> Workflow) \<Rightarrow> (string \<rightharpoonup> Workflow) outcome" where
  "add_workflows [] known = Some (Inr known)"
| "add_workflows (w # ws) known =
     refuse_if (\<not> workflow_ok w) ErrInvalidConfiguration
     (refuse_if (known (wf_Name w) \<noteq> None) ErrInvalidConfiguration
     (case clone_Workflow w of
        None \<Rightarrow> None
      | Some w' \<Rightarrow> add_workflows ws (known(wf_Name w \<mapsto> w'))))"

definition profile_shape_ok :: "Profile \<Rightarrow> bool" where
  "profile_shape_ok p \<longleftrightarrow>
     \<not> (\<not> validName (prof_Name p) \<or> validateInstructions (prof_WorkspaceInstructions p) \<noteq> None
        \<or> AllowedBackends p = [] \<or> MaxExecutionBackends < len (AllowedBackends p)
        \<or> AllowedRetentions p = [] \<or> MaxRetentionPolicies < len (AllowedRetentions p)
        \<or> MaxCredentialProviderMappings < len (prof_CredentialProviders p))"

definition profile_policy_ok :: "Profile \<Rightarrow> (string \<rightharpoonup> ExecutionBackend) \<Rightarrow> (string \<rightharpoonup> RetentionPolicy) \<Rightarrow> bool" where
  "profile_policy_ok p backends retentions \<longleftrightarrow>
     validateBrokerAndEgress (prof_Broker p) (prof_Egress p) = None
     \<and> validateAllowedSelections p backends retentions = None
     \<and> validateMappingsAndRepositories (prof_CredentialProviders p) [] (prof_Broker p) (prof_Egress p) = None
     \<and> validDefaultCredentialProvider (prof_DefaultCredentialProvider p) (prof_CredentialProviders p)"

fun add_profiles :: "PlatformDefaults \<Rightarrow> (string \<rightharpoonup> ExecutionBackend) \<Rightarrow> (string \<rightharpoonup> RetentionPolicy)
    \<Rightarrow> Profile list \<Rightarrow> (string \<rightharpoonup> Profile) \<Rightarrow> (string \<rightharpoonup> Profile) outcome" where
  "add_profiles d backends retentions [] known = Some (Inr known)"
| "add_profiles d backends retentions (p # ps) known =
     refuse_if (\<not> profile_shape_ok p) ErrInvalidConfiguration
     (refuse_if (known (prof_Name p) \<noteq> None) ErrInvalidConfiguration
     (refuse_if (prof_Image p \<noteq> [] \<and> (prof_Image p \<noteq> stringTrimSpace (prof_Image p) \<or> containsControl (prof_Image p)))
        ErrInvalidConfiguration
     (case effective d p of
        None \<Rightarrow> None
      | Some (img, runtime, config, resources, lifecycle) \<Rightarrow>
          refuse_if (validateEffective img runtime config resources lifecycle \<noteq> None
                     \<or> \<not> profile_policy_ok p backends retentions) ErrInvalidConfiguration
          (case clone_Profile p of
             None \<Rightarrow> None
           | Some p' \<Rightarrow> add_profiles d backends retentions ps (known(prof_Name p \<mapsto> p'))))))"

definition configuration_sizes_ok :: "TrustedConfiguration \<Rightarrow> bool" where
  "configuration_sizes_ok c \<longleftrightarrow>
     \<not> (Profiles c = [] \<or> MaxProfiles < len (Profiles c)
        \<or> Workflows c = [] \<or> MaxWorkflows < len (Workflows c)
        \<or> ExecutionBackends c = [] \<or> MaxExecutionBackends < len (ExecutionBackends c)
        \<or> RetentionPolicies c = [] \<or> MaxRetentionPolicies < len (RetentionPolicies c))"

definition defaults_effective :: "PlatformDefaults \<Rightarrow> string option" where
  "defaults_effective d =
     validateEffective (def_Image d) (def_Runtime d) (def_AgentConfig d) (def_Resources d) (def_Lifecycle d)"

definition NewResolver :: "TrustedConfiguration \<Rightarrow> Resolver outcome" where
  "NewResolver c =
     refuse_if (\<not> configuration_sizes_ok c) ErrInvalidConfiguration
     (refuse_if (defaults_effective (Defaults c) \<noteq> None) ErrInvalidConfiguration
     (case clone_PlatformDefaults (Defaults c) of
        None \<Rightarrow> None
      | Some defaults \<Rightarrow>
          outcome_bind (add_backends (ExecutionBackends c) Map.empty) (\<lambda>backends.
          outcome_bind (add_retentions (RetentionPolicies c) Map.empty) (\<lambda>retentions.
          outcome_bind (add_workflows (Workflows c) Map.empty) (\<lambda>workflows.
          outcome_bind (add_profiles defaults backends retentions (Profiles c) Map.empty) (\<lambda>profiles.
          Some (Inr \<lparr>res_defaults = defaults, res_profiles = profiles, res_workflows = workflows,
            res_backends = backends, res_retentions = retentions\<rparr>)))))))"

definition DecodeTrustedConfiguration :: "string \<Rightarrow> TrustedConfiguration outcome" where
  "DecodeTrustedConfiguration data =
     (case decodeStrict zero_TrustedConfiguration TrustedConfiguration_fields data of
        None \<Rightarrow> Some (Inl ErrInvalidConfiguration)
      | Some c \<Rightarrow>
          (case NewResolver c of
             None \<Rightarrow> None
           | Some (Inl e) \<Rightarrow> Some (Inl ErrInvalidConfiguration)
           | Some (Inr r) \<Rightarrow> Some (Inr c)))"

section \<open>Resolving a request\<close>

text \<open>The resolved value of an authorised selection, before its final validation.\<close>

definition assemble :: "PlatformDefaults \<Rightarrow> AuthorizationContext \<Rightarrow> LocalRunRequest \<Rightarrow> Profile \<Rightarrow> Workflow
    \<Rightarrow> ExecutionBackend \<Rightarrow> RetentionPolicy \<Rightarrow> ResolvedAgentRun option" where
  "assemble d authorization request p w backend retention = do {
     (img, runtime, config, resources, lifecycle0) \<leftarrow> effective d p;
     lifecycle \<leftarrow> (case wf_Lifecycle w of None \<Rightarrow> Some lifecycle0 | Some l \<Rightarrow> clone_Lifecycle l);
     agentConfig \<leftarrow> clone_RawMessage config;
     repositories \<leftarrow> clone_Repositories (wf_Repositories w);
     providers \<leftarrow> clone_CredentialProviders (prof_CredentialProviders p);
     broker \<leftarrow> clone_Broker (prof_Broker p);
     egress \<leftarrow> clone_Egress (prof_Egress p);
     Some \<lparr>ContractVersion = contract_version, RunID = req_RunID request,
       run_Principal = ctx_Principal authorization, SourceURL = req_SourceURL request,
       run_Profile = prof_Name p, run_Workflow = wf_Name w, Image = img, run_Runtime = runtime,
       AgentConfig = agentConfig, Prompt = req_Prompt request, Repositories = repositories,
       CredentialProviders = providers, DefaultCredentialProvider = prof_DefaultCredentialProvider p,
       run_Broker = broker, run_Egress = egress,
       run_WorkspaceInstructions = \<lparr>wi_Profile = prof_WorkspaceInstructions p,
         wi_Workflow = wf_WorkspaceInstructions w\<rparr>,
       run_Resources = resources, run_Persistence = ret_Persistence retention,
       Retention = ret_Name retention, run_TTL = ret_TTL retention, run_Lifecycle = lifecycle,
       Execution = backend\<rparr> }"

definition Resolve :: "Resolver option \<Rightarrow> AuthorizationContext \<Rightarrow> LocalRunRequest \<Rightarrow> ResolvedAgentRun outcome" where
  "Resolve resolver authorization request =
     (case resolver of
        None \<Rightarrow> Some (Inl ErrInvalidRequest)
      | Some res \<Rightarrow>
          refuse_if (ValidateLocalRunRequest request \<noteq> None \<or> ValidateAuthorizationContext authorization \<noteq> None)
            ErrInvalidRequest
          (refuse_if (\<not> selectionAuthorized (Selections authorization) (req_Profile request) (req_Workflow request))
             ErrSelectionDenied
          (case res_profiles res (req_Profile request) of
             None \<Rightarrow> Some (Inl ErrUnknownProfile)
           | Some p \<Rightarrow>
          (case res_workflows res (req_Workflow request) of
             None \<Rightarrow> Some (Inl ErrUnknownWorkflow)
           | Some w \<Rightarrow>
          (let backendName = (if req_Backend request = [] then DefaultBackend p else req_Backend request) in
           refuse_if (\<not> containsString (AllowedBackends p) backendName
                      \<or> \<not> containsString (AllowedRetentions p) (req_Retention request)) ErrSelectionDenied
           (case (res_backends res backendName, res_retentions res (req_Retention request)) of
              (Some backend, Some retention) \<Rightarrow>
                refuse_if (validateMappingsAndRepositories (prof_CredentialProviders p) (wf_Repositories w)
                             (prof_Broker p) (prof_Egress p) \<noteq> None) ErrInvalidConfiguration
                (case assemble (res_defaults res) authorization request p w backend retention of
                   None \<Rightarrow> None
                 | Some resolved \<Rightarrow>
                     refuse_if (ValidateResolvedAgentRun resolved \<noteq> None) ErrInvalidConfiguration
                     (map_option Inr (clone_ResolvedAgentRun resolved)))
            | _ \<Rightarrow> Some (Inl ErrSelectionDenied)))))))"

end
