(* ===== verification/Run_Render.thy ===== *)
theory Run_Render
  imports Run_Resolver
begin

text \<open>
  Rendering the agent configuration of a resolved run, \<^verbatim>\<open>protocol/resolvedrun/render.go\<close>, and the
  runtime arguments of a typed selection, \<^verbatim>\<open>protocol/resolvedrun/runtime_selection.go\<close>. An untyped
  Go value is a tree of the datatype \<^verbatim>\<open>any\<close>; a \<^verbatim>\<open>map[string]any\<close> is an association list in key order.
\<close>

section \<open>Untyped values\<close>

datatype any =
    ANil
  | ABool bool
  | ANumber string
  | AString string
  | ASlice "any list"
  | AMap "(string \<times> any) list"

type_synonym any_map = "(string \<times> any) list"

text \<open>What \<open>Decode\<close> with \<open>UseNumber\<close> stores in an interface.\<close>

fun any_of :: "json \<Rightarrow> any" where
  "any_of JNull = ANil"
| "any_of (JBool b) = ABool b"
| "any_of (JNumber s) = ANumber s"
| "any_of (JString s) = AString s"
| "any_of (JArray vs) = ASlice (map any_of vs)"
| "any_of (JObject ms) = AMap (fold (\<lambda>(k, t, v). map_insert k v) (map (\<lambda>(k, t, v). (k, t, any_of v)) ms) [])"

lemma enc_array_cong [fundef_cong]:
  "xs = ys \<Longrightarrow> (\<And>x. x \<in> set ys \<Longrightarrow> f x = g x) \<Longrightarrow> enc_array f xs = enc_array g ys"
  by (auto simp: enc_array_def cong: map_cong)

text \<open>\<open>json.Marshal\<close> of an interface.\<close>

fun enc_any :: "any \<Rightarrow> string" where
  "enc_any ANil = ''null''"
| "enc_any (ABool b) = enc_bool b"
| "enc_any (ANumber s) = s"
| "enc_any (AString s) = enc_string s"
| "enc_any (ASlice vs) = enc_array enc_any vs"
| "enc_any (AMap ms) = enc_object (map (\<lambda>(k, v). (k, Some (enc_any v))) ms)"

text \<open>A map literal; a \<open>[]string\<close> that \<open>append\<close> built from nil stays nil when nothing was appended.\<close>

definition any_map :: "(string \<times> any) list \<Rightarrow> any_map" where
  "any_map ms = fold (\<lambda>(k, v). map_insert k v) ms []"

definition copied_strings :: "string list \<Rightarrow> any" where
  "copied_strings ss = (if ss = [] then ANil else ASlice (map AString ss))"

fun any_object :: "any option \<Rightarrow> any_map option" where
  "any_object (Some (AMap ms)) = Some ms"
| "any_object _ = None"

section \<open>Runtime arguments of a typed selection\<close>

definition codexConfigKey :: "string list \<Rightarrow> nat \<Rightarrow> string" where
  "codexConfigKey args index =
     (let arg = args ! index;
          assignment =
            (if arg = ''--config'' \<or> arg = ''-c'' then
               (if length args \<le> index + 1 then None else Some (args ! (index + 1)))
             else if prefix ''--config='' arg then Some (trim_prefix arg ''--config='')
             else if prefix ''-c'' arg \<and> \<not> prefix ''--'' arg then Some (trim_prefix (trim_prefix arg ''-c'') ''='')
             else None)
      in case assignment of
           None \<Rightarrow> []
         | Some a \<Rightarrow> (case cut_on (CHR ''='') a of None \<Rightarrow> [] | Some (key, _) \<Rightarrow> trim_space key))"

definition argumentSelectsModel :: "string list \<Rightarrow> nat \<Rightarrow> string \<Rightarrow> bool" where
  "argumentSelectsModel args index runtimeType =
     (let arg = args ! index
      in arg = ''--model'' \<or> prefix ''--model='' arg \<or> prefix ''-m'' arg \<and> \<not> prefix ''--'' arg
         \<or> runtimeType = ''codex'' \<and> codexConfigKey args index = ''model'')"

definition argumentSelectsEffort :: "string list \<Rightarrow> nat \<Rightarrow> string \<Rightarrow> bool" where
  "argumentSelectsEffort args index runtimeType =
     (let arg = args ! index
      in if runtimeType = ''claude'' then arg = ''--effort'' \<or> prefix ''--effort='' arg
         else codexConfigKey args index = ''model_reasoning_effort'')"

definition argument_conflict :: "string list \<Rightarrow> Runtime \<Rightarrow> nat \<Rightarrow> string option" where
  "argument_conflict args selection index = first_error [
     check (args ! index = ''--'') ''runtime args conflict with typed selection end-of-options boundary'',
     check (Model selection \<noteq> [] \<and> argumentSelectsModel args index (rt_Type selection))
       ''runtime args conflict with typed model'',
     check (Effort selection \<noteq> [] \<and> argumentSelectsEffort args index (rt_Type selection))
       ''runtime args conflict with typed effort'']"

definition selection_arguments :: "Runtime \<Rightarrow> string list" where
  "selection_arguments selection =
     (if Model selection \<noteq> [] then [''--model'', Model selection] else [])
     @ (if Effort selection = [] then []
        else if rt_Type selection = ''codex'' then [''--config'', ''model_reasoning_effort='' @ Effort selection]
        else [''--effort'', Effort selection])"

definition ApplyRuntimeSelectionArguments :: "string list \<Rightarrow> Runtime \<Rightarrow> string + string list" where
  "ApplyRuntimeSelectionArguments args selection =
     (if Model selection = [] \<and> Effort selection = [] then Inr args
      else if rt_Type selection \<noteq> ''codex'' \<and> rt_Type selection \<noteq> ''claude''
      then Inl ''runtime selection is unsupported''
      else case first_error (map (argument_conflict args selection) [0..<length args]) of
          Some e \<Rightarrow> Inl e
        | None \<Rightarrow> Inr (args @ selection_arguments selection))"

definition selectedRuntimeArguments :: "string list \<Rightarrow> Runtime \<Rightarrow> string + string list" where
  "selectedRuntimeArguments args selection = ApplyRuntimeSelectionArguments args selection"

fun any_strings :: "any list \<Rightarrow> string list option" where
  "any_strings [] = Some []"
| "any_strings (AString s # vs) = map_option ((#) s) (any_strings vs)"
| "any_strings _ = None"

text \<open>An absent argument list reads as nil, like an explicit null.\<close>

definition stringArguments :: "any option \<Rightarrow> string list option" where
  "stringArguments raw =
     (case raw of
        None \<Rightarrow> Some []
      | Some ANil \<Rightarrow> Some []
      | Some (ASlice vs) \<Rightarrow> any_strings vs
      | _ \<Rightarrow> None)"

definition cloneStringAnyMap :: "any_map \<Rightarrow> any_map" where
  "cloneStringAnyMap input = fold (\<lambda>(k, v). map_insert k v) input []"

definition with_arguments :: "string \<Rightarrow> any_map \<Rightarrow> Runtime \<Rightarrow> string + any_map" where
  "with_arguments message config selection =
     (case stringArguments (map_of config ''args'') of
        None \<Rightarrow> Inl message
      | Some args \<Rightarrow>
          (case selectedRuntimeArguments args selection of
             Inl e \<Rightarrow> Inl e
           | Inr updated \<Rightarrow> Inr (map_insert ''args'' (ASlice (map AString updated)) config)))"

definition applyRuntimeSelection :: "any_map \<Rightarrow> Runtime \<Rightarrow> string + any_map" where
  "applyRuntimeSelection config selection =
     (if Model selection = [] \<and> Effort selection = [] then Inr config
      else result_bind (with_arguments ''runtime args are invalid'' config selection) (\<lambda>config.
        case map_of config ''resume'' of
          None \<Rightarrow> Inr config
        | Some rawResume \<Rightarrow>
            (case any_object (Some rawResume) of
               None \<Rightarrow> Inl ''runtime resume is invalid''
             | Some resume \<Rightarrow>
                 result_bind (with_arguments ''runtime resume args are invalid'' (cloneStringAnyMap resume) selection)
                   (\<lambda>resume. Inr (map_insert ''resume'' (AMap resume) config)))))"

section \<open>Bindings\<close>

record AgentConfigBindings =
  ForwardProxyURL :: string
  RedirectBaseURLs :: "(string \<times> string) list"

definition validRuntimeEndpoint :: "string \<Rightarrow> bool" where
  "validRuntimeEndpoint v =
     (if v = [] \<or> 4096 < len v \<or> v \<noteq> trim_space v \<or> containsControl v then False
      else case url_Parse v of
          None \<Rightarrow> False
        | Some u \<Rightarrow>
            (url_Scheme u = ''http'' \<or> url_Scheme u = ''https'') \<and> url_Host u \<noteq> [] \<and> \<not> url_User u
            \<and> url_Path u = [] \<and> url_RawPath u = [] \<and> url_RawQuery u = [] \<and> url_Fragment u = [])"

definition brokerGrantHasPreparation :: "BrokerGrant \<Rightarrow> string \<Rightarrow> bool" where
  "brokerGrantHasPreparation grant operation = list_ex (\<lambda>v. v = operation) (Preparations grant)"

definition redirected :: "BrokerGrant \<Rightarrow> bool" where
  "redirected g \<longleftrightarrow> \<not> (Materialization g \<noteq> ''header-inject'' \<or> brokerGrantHasPreparation g ''catalog'')"

definition map_get :: "(string \<times> string) list \<Rightarrow> string \<Rightarrow> string" where
  "map_get m k = (case map_of m k of None \<Rightarrow> [] | Some v \<Rightarrow> v)"

definition validateRenderBindings :: "ResolvedAgentRun \<Rightarrow> AgentConfigBindings \<Rightarrow> contract_error option" where
  "validateRenderBindings v b =
     (if egress_Mode (run_Egress v) = ''direct'' then
        check (ForwardProxyURL b \<noteq> [] \<or> RedirectBaseURLs b \<noteq> []) ErrInvalidRenderBinding
      else if Transport (run_Egress v) = ''redirect'' then
        (let expected = remdups (map Provider (filter redirected (Grants (run_Broker v)))) in first_error [
           check (ForwardProxyURL b \<noteq> []) ErrInvalidRenderBinding,
           check (list_ex (\<lambda>g. redirected g \<and> \<not> validRuntimeEndpoint (map_get (RedirectBaseURLs b) (Provider g)))
             (Grants (run_Broker v))) ErrInvalidRenderBinding,
           check (len (RedirectBaseURLs b) \<noteq> len expected) ErrInvalidRenderBinding,
           check (list_ex (\<lambda>(p, _). p \<notin> set expected) (RedirectBaseURLs b)) ErrInvalidRenderBinding])
      else check (RedirectBaseURLs b \<noteq> [] \<or> \<not> validRuntimeEndpoint (ForwardProxyURL b)) ErrInvalidRenderBinding)"

section \<open>Controller-owned fields\<close>

definition runtimePlaceholder :: string where
  "runtimePlaceholder = ''NVT-PLACEHOLDER-NOT-A-KEY''"

definition unless_empty :: "string \<Rightarrow> string \<Rightarrow> (string \<times> any) list" where
  "unless_empty key v = (if v \<noteq> [] then [(key, AString v)] else [])"

definition provider_entry :: "CredentialProviderMapping \<Rightarrow> any" where
  "provider_entry m = AMap (any_map ([
     (''name'', AString (map_Name m)), (''type'', AString ''broker''),
     (''broker-provider'', AString (BrokerProvider m)), (''match'', copied_strings (MatchTargets m))]
     @ unless_empty ''credential-kind'' (CredentialKind m)))"

definition checkout_entry :: "Repository \<Rightarrow> any" where
  "checkout_entry r = AMap (any_map ([(''url'', AString (repo_URL r))]
     @ unless_empty ''path'' (repo_Path r) @ unless_empty ''upstream'' (Upstream r)))"

definition identity_entry :: "RepositoryIdentity \<Rightarrow> any" where
  "identity_entry i = AMap (any_map ([(''mode'', AString (id_Mode i))]
     @ (if id_Mode i = ''explicit'' then [(''name'', AString (id_Name i)), (''email'', AString (id_Email i))] else [])))"

definition credential_entry :: "Repository \<Rightarrow> any" where
  "credential_entry r = AMap (any_map ([
     (''match'', AString (repo_URL r)), (''provider'', AString (CredentialProvider r))]
     @ unless_empty ''username'' (CredentialUsername r)
     @ (case Identity r of None \<Rightarrow> [] | Some i \<Rightarrow> [(''identity'', identity_entry i)])))"

definition renderRepositoryPlugins :: "ResolvedAgentRun \<Rightarrow> any list" where
  "renderRepositoryPlugins v =
     (let providers = map provider_entry (CredentialProviders v);
          credentials = map credential_entry (filter (\<lambda>r. CredentialProvider r \<noteq> []) (Repositories v));
          checkouts = map checkout_entry (Repositories v)
      in (if CredentialProviders v \<noteq> [] then
            [AMap (any_map [(''name'', AString ''git-host-credentials''), (''source'', AString ''builtin''),
               (''config'', AMap (any_map ([(''providers'', ASlice providers)]
                  @ unless_empty ''default-provider'' (DefaultCredentialProvider v))))])]
          else [])
         @ (if credentials \<noteq> [] then
              [AMap (any_map [(''name'', AString ''git-credentials''), (''source'', AString ''builtin''),
                 (''when'', AString ''before-agent''),
                 (''config'', AMap [(''credentials'', ASlice credentials)])])]
            else [])
         @ (if checkouts \<noteq> [] then
              [AMap (any_map [(''name'', AString ''checkout-repos''), (''source'', AString ''builtin''),
                 (''when'', AString ''before-agent''), (''restart'', AString ''never''),
                 (''config'', AMap [(''repos'', ASlice checkouts)])])]
            else []))"

definition grant_entry :: "ResolvedAgentRun \<Rightarrow> AgentConfigBindings \<Rightarrow> BrokerGrant \<Rightarrow> any" where
  "grant_entry v b g =
     (let catalog = brokerGrantHasPreparation g ''catalog''
      in AMap (any_map ([(''provider'', AString (Provider g)), (''materialization'', AString (Materialization g))]
        @ (if catalog then [(''catalog'', ABool True)] else [])
        @ (if Transport (run_Egress v) = ''redirect'' \<and> Materialization g = ''header-inject'' \<and> \<not> catalog then
             [(''base-url'', AString (map_get (RedirectBaseURLs b) (Provider g))),
              (''hosts'', copied_strings (EgressHosts g)), (''git'', ABool (Git g))]
           else []))))"

definition renderEgress :: "ResolvedAgentRun \<Rightarrow> AgentConfigBindings \<Rightarrow> any" where
  "renderEgress v b = AMap (any_map ([
     (''mode'', AString ''mediated''), (''transport'', AString (Transport (run_Egress v))),
     (''placeholder'', AString runtimePlaceholder),
     (''grants'', ASlice (map (grant_entry v b) (Grants (run_Broker v))))]
     @ (if Enforced (run_Egress v) then [(''enforcement'', ABool True), (''operator-prepared'', ABool True)] else [])
     @ (if isTunnelTransport (Transport (run_Egress v)) then
          [(''forward-proxy-url'', AString (ForwardProxyURL b))] else [])))"

definition decodeAgentConfigObject :: "string \<Rightarrow> any_map option" where
  "decodeAgentConfigObject raw =
     (case json_value raw of
        None \<Rightarrow> None
      | Some JNull \<Rightarrow> Some []
      | Some v \<Rightarrow> any_object (Some (any_of v)))"

definition render_runtime :: "ResolvedAgentRun \<Rightarrow> any_map \<Rightarrow> any_map" where
  "render_runtime v runtime =
     (let prompted = (if Prompt v \<noteq> [] then
            map_insert ''initial-prompt''
              (AMap (any_map [(''delivery'', AString ''argument''), (''text'', AString (Prompt v))])) runtime
          else runtime)
      in if egress_Mode (run_Egress v) = ''mediated'' \<and> isTunnelTransport (Transport (run_Egress v)) then
           map_insert ''proxy'' (AMap [(''provider'', AString (ProxyProvider (run_Egress v)))]) prompted
         else prompted)"

definition render_root :: "ResolvedAgentRun \<Rightarrow> AgentConfigBindings \<Rightarrow> any_map \<Rightarrow> any_map \<Rightarrow> any_map" where
  "render_root v b root runtime =
     (let with_runtime = map_insert ''runtime'' (AMap (render_runtime v runtime)) root;
          plugins = (case map_of root ''plugins'' of Some (ASlice ps) \<Rightarrow> ps | _ \<Rightarrow> []);
          with_plugins = map_insert ''plugins'' (ASlice (renderRepositoryPlugins v @ plugins)) with_runtime
      in if egress_Mode (run_Egress v) = ''mediated''
         then map_insert ''egress'' (renderEgress v b) with_plugins else with_plugins)"

definition RenderAgentConfig :: "ResolvedAgentRun \<Rightarrow> AgentConfigBindings \<Rightarrow> string outcome" where
  "RenderAgentConfig v b =
     refuse_if (ValidateResolvedAgentRun v \<noteq> None) ErrInvalidConfiguration
     (refuse_if (validateRenderBindings v b \<noteq> None) ErrInvalidRenderBinding
     (case decodeAgentConfigObject (AgentConfig v) of
        None \<Rightarrow> Some (Inl ErrInvalidRenderBinding)
      | Some root \<Rightarrow>
          (case any_object (map_of root ''runtime'') of
             None \<Rightarrow> None
           | Some runtime \<Rightarrow>
               (case applyRuntimeSelection (cloneStringAnyMap runtime) (run_Runtime v) of
                  Inl e \<Rightarrow> Some (Inl ErrInvalidRenderBinding)
                | Inr selected \<Rightarrow>
                    (let rendered = enc_any (AMap (render_root v b root selected))
                     in refuse_if (MaxDocumentBytes < len rendered) ErrInvalidRenderBinding
                          (Some (Inr rendered)))))))"

end
