(* ===== verification/Go_HTTP.thy ===== *)
theory Go_HTTP
  imports Go_URL "HOL-Library.AList"
begin

text \<open>
  What the programs use of \<^verbatim>\<open>net/http\<close>, \<^verbatim>\<open>mime\<close>, \<^verbatim>\<open>net/url\<close> and \<^verbatim>\<open>encoding/base64\<close> on requests:
  canonical header names and the header map, media types, query strings, and base64.
\<close>

section \<open>Headers\<close>

definition letter :: "char \<Rightarrow> bool" where
  "letter c \<longleftrightarrow> 97 \<le> byte c \<and> byte c \<le> 122 \<or> 65 \<le> byte c \<and> byte c \<le> 90"

text \<open>The bytes of a header field name.\<close>

definition header_byte :: "char \<Rightarrow> bool" where
  "header_byte c \<longleftrightarrow> letter c \<or> digit c \<or> c \<in> set ''!#$%&*+-.^_`|~'' \<or> c = CHR 0x27"

definition upper_byte :: "char \<Rightarrow> char" where
  "upper_byte c = (if 97 \<le> byte c \<and> byte c \<le> 122 then char_of (byte c - 32) else c)"

definition lower_byte :: "char \<Rightarrow> char" where
  "lower_byte c = (if 65 \<le> byte c \<and> byte c \<le> 90 then char_of (byte c + 32) else c)"

fun canonical_bytes :: "bool \<Rightarrow> string \<Rightarrow> string" where
  "canonical_bytes up [] = []"
| "canonical_bytes up (c # cs) =
     (let d = (if up then upper_byte c else lower_byte c) in d # canonical_bytes (d = CHR ''-'') cs)"

definition CanonicalHeaderKey :: "string \<Rightarrow> string" where
  "CanonicalHeaderKey s = (if list_all header_byte s then canonical_bytes True s else s)"

text \<open>A header is the list of its fields, keyed by canonical names.\<close>

type_synonym http_header = "(string \<times> string list) list"

definition header_Values :: "http_header \<Rightarrow> string \<Rightarrow> string list" where
  "header_Values h name = (case map_of h (CanonicalHeaderKey name) of None \<Rightarrow> [] | Some vs \<Rightarrow> vs)"

definition header_Get :: "http_header \<Rightarrow> string \<Rightarrow> string" where
  "header_Get h name = (case header_Values h name of [] \<Rightarrow> [] | v # _ \<Rightarrow> v)"

definition header_put :: "http_header \<Rightarrow> string \<Rightarrow> string list \<Rightarrow> http_header" where
  "header_put h k vs = AList.update k vs h"

definition header_Set :: "http_header \<Rightarrow> string \<Rightarrow> string \<Rightarrow> http_header" where
  "header_Set h name v = header_put h (CanonicalHeaderKey name) [v]"

text \<open>
  \<open>strings.EqualFold\<close> against a constant whose letters no character beyond ASCII folds to
  (neither \<open>k\<close> nor \<open>s\<close>).
\<close>

definition equal_fold :: "string \<Rightarrow> string \<Rightarrow> bool" where
  "equal_fold s t \<longleftrightarrow> map lower_byte s = map lower_byte t"

section \<open>Media types\<close>

definition tspecials :: string where
  "tspecials = ''()<>@,;:/[]?='' @ [CHR 0x5C, CHR 0x22]"

definition mime_token_char :: "char \<Rightarrow> bool" where
  "mime_token_char c \<longleftrightarrow> 32 < byte c \<and> byte c < 127 \<and> c \<notin> set tspecials"

definition trim_left_space :: "string \<Rightarrow> string" where
  "trim_left_space s = concat (map snd (dropWhile (\<lambda>(r, _). is_space r) (runes s)))"

definition consumeToken :: "string \<Rightarrow> string \<times> string" where
  "consumeToken v = (takeWhile mime_token_char v, dropWhile mime_token_char v)"

definition checkMediaTypeDisposition :: "string \<Rightarrow> bool" where
  "checkMediaTypeDisposition s =
     (let (typ, rest) = consumeToken s in
      if typ = [] then False
      else if rest = [] then True
      else if hd rest \<noteq> CHR ''/'' then False
      else let (subtype, rest') = consumeToken (tl rest) in subtype \<noteq> [] \<and> rest' = [])"

fun consume_quoted :: "string \<Rightarrow> string \<Rightarrow> (string \<times> string) option" where
  "consume_quoted acc [] = None"
| "consume_quoted acc (c # cs) =
     (if c = CHR 0x22 then Some (rev acc, cs)
      else case cs of
          d # ds \<Rightarrow>
            if c = CHR 0x5C \<and> d \<in> set tspecials then consume_quoted (d # acc) ds
            else if c = CHR 0x0D \<or> c = CHR 0x0A then None
            else consume_quoted (c # acc) cs
        | [] \<Rightarrow> None)"

definition consumeValue :: "string \<Rightarrow> string \<times> string" where
  "consumeValue v =
     (if v = [] then ([], [])
      else if hd v \<noteq> CHR 0x22 then consumeToken v
      else case consume_quoted [] (tl v) of None \<Rightarrow> ([], v) | Some r \<Rightarrow> r)"

text \<open>\<open>consumeMediaParam\<close>; \<^const>\<open>None\<close> stands for an empty parameter name.\<close>

definition consumeMediaParam :: "string \<Rightarrow> (string \<times> string \<times> string) option" where
  "consumeMediaParam v =
     (let rest = trim_left_space v in
      if rest = [] \<or> hd rest \<noteq> CHR '';'' then None
      else let (param, rest1) = consumeToken (trim_left_space (tl rest)); rest2 = trim_left_space rest1 in
        if param = [] then None
        else if rest2 = [] \<or> hd rest2 \<noteq> CHR ''='' then None
        else let rest3 = trim_left_space (tl rest2); (value, rest4) = consumeValue rest3 in
          if value = [] \<and> rest4 = rest3 then None
          else Some (to_lower param, value, rest4))"

lemma trim_left_length: "length (trim_left_space s) \<le> length s"
proof -
  have "runes s = takeWhile (\<lambda>(r, _). is_space r) (runes s) @ dropWhile (\<lambda>(r, _). is_space r) (runes s)" by simp
  then have "concat (map snd (runes s)) =
      concat (map snd (takeWhile (\<lambda>(r, _). is_space r) (runes s))) @ trim_left_space s"
    unfolding trim_left_space_def by (metis concat_append map_append)
  then show ?thesis by (metis length_append le_add2 runes_bytes)
qed

lemma consume_quoted_length: "consume_quoted acc v = Some (x, rest) \<Longrightarrow> length rest < length v"
  by (induction acc v rule: consume_quoted.induct) (auto split: if_splits list.splits)

lemma consumeValue_length: "consumeValue v = (x, rest) \<Longrightarrow> length rest \<le> length v"
  by (auto simp: consumeValue_def consumeToken_def length_dropWhile_le split: if_splits option.splits
      dest!: consume_quoted_length)

lemma consumeMediaParam_shorter:
  assumes "consumeMediaParam v = Some (k, x, rest)"
  shows "length rest < length v"
proof -
  let ?r = "trim_left_space v"
  let ?t = "trim_left_space (tl ?r)"
  let ?r2 = "trim_left_space (dropWhile mime_token_char ?t)"
  have r: "?r \<noteq> []" and val: "\<exists>y. consumeValue (trim_left_space (tl ?r2)) = (y, rest)"
    using assms by (auto simp: consumeMediaParam_def consumeToken_def Let_def split: if_splits prod.splits)
  have "length rest \<le> length (trim_left_space (tl ?r2))" using val consumeValue_length by blast
  also have "\<dots> \<le> length (tl ?r2)" by (rule trim_left_length)
  also have "\<dots> \<le> length ?r2" by simp
  also have "\<dots> \<le> length (dropWhile mime_token_char ?t)" by (rule trim_left_length)
  also have "\<dots> \<le> length ?t" by (rule length_dropWhile_le)
  also have "\<dots> \<le> length (tl ?r)" by (rule trim_left_length)
  also have "\<dots> < length ?r" using r by (cases ?r) auto
  also have "\<dots> \<le> length v" by (rule trim_left_length)
  finally show ?thesis .
qed

text \<open>The loop over the parameters: whether they parse, and repeated names carry equal values.\<close>

function media_params_ok :: "(string \<times> string) list \<Rightarrow> string \<Rightarrow> bool" where
  "media_params_ok seen v =
     (let v = trim_left_space v in
      if v = [] then True
      else case consumeMediaParam v of
          None \<Rightarrow> trim_space v = '';''
        | Some (key, value, rest) \<Rightarrow>
            (case map_of seen key of
               Some x \<Rightarrow> x = value \<and> media_params_ok seen rest
             | None \<Rightarrow> media_params_ok ((key, value) # seen) rest))"
  by pat_completeness auto
termination
  by (relation "measure (\<lambda>(_, v). length v)")
     (auto dest!: consumeMediaParam_shorter intro: less_le_trans trim_left_length)

definition ParseMediaType :: "string \<Rightarrow> string option" where
  "ParseMediaType v =
     (let base = takeWhile (\<lambda>c. c \<noteq> CHR '';'') v;
          mediatype = trim_space (to_lower base)
      in if \<not> checkMediaTypeDisposition mediatype then None
         else if media_params_ok [] (drop (length base) v) then Some mediatype
         else None)"

section \<open>Query strings\<close>

type_synonym url_query = "(string \<times> string list) list"

definition query_add :: "string \<Rightarrow> string \<Rightarrow> url_query \<Rightarrow> url_query" where
  "query_add k v q = AList.update k ((case map_of q k of None \<Rightarrow> [] | Some vs \<Rightarrow> vs) @ [v]) q"

text \<open>\<open>url.ParseQuery\<close>; \<^const>\<open>None\<close> stands for any error, on which every caller gives up.\<close>

fun parse_pairs :: "string list \<Rightarrow> url_query \<Rightarrow> url_query option" where
  "parse_pairs [] q = Some q"
| "parse_pairs (p # ps) q =
     (if CHR '';'' \<in> set p then None
      else if p = [] then parse_pairs ps q
      else let (k, v) = (case cut_on (CHR ''='') p of None \<Rightarrow> (p, []) | Some kv \<Rightarrow> kv) in
        case (QueryUnescape k, QueryUnescape v) of
          (Some k', Some v') \<Rightarrow> parse_pairs ps (query_add k' v' q)
        | _ \<Rightarrow> None)"

definition ParseQuery :: "string \<Rightarrow> url_query option" where
  "ParseQuery raw = (if raw = [] then Some [] else parse_pairs (split_on (CHR ''&'') raw) [])"

definition query_Get :: "url_query \<Rightarrow> string \<Rightarrow> string" where
  "query_Get q k = (case map_of q k of Some (v # _) \<Rightarrow> v | _ \<Rightarrow> [])"

section \<open>Base64\<close>

definition base64_val :: "char \<Rightarrow> int option" where
  "base64_val c =
     (if 65 \<le> byte c \<and> byte c \<le> 90 then Some (byte c - 65)
      else if 97 \<le> byte c \<and> byte c \<le> 122 then Some (byte c - 71)
      else if digit c then Some (byte c + 4)
      else if c = CHR ''+'' then Some 62
      else if c = CHR ''/'' then Some 63
      else None)"

fun base64_quads :: "string \<Rightarrow> string option" where
  "base64_quads [] = Some []"
| "base64_quads (a # b # c # d # rest) =
     (case (base64_val a, base64_val b) of
        (Some x, Some y) \<Rightarrow>
          if c = CHR ''='' then
            (if d = CHR ''='' \<and> rest = [] then Some [char_of (x * 4 + y div 16)] else None)
          else (case base64_val c of
              None \<Rightarrow> None
            | Some z \<Rightarrow>
                if d = CHR ''='' then
                  (if rest = [] then Some [char_of (x * 4 + y div 16), char_of ((y mod 16) * 16 + z div 4)] else None)
                else (case base64_val d of
                    None \<Rightarrow> None
                  | Some u \<Rightarrow>
                      map_option ((@) [char_of (x * 4 + y div 16), char_of ((y mod 16) * 16 + z div 4),
                                       char_of ((z mod 4) * 64 + u)]) (base64_quads rest)))
      | _ \<Rightarrow> None)"
| "base64_quads _ = None"

text \<open>\<open>base64.StdEncoding.DecodeString\<close>: line breaks are skipped.\<close>

definition base64_DecodeString :: "string \<Rightarrow> string option" where
  "base64_DecodeString s = base64_quads (filter (\<lambda>c. c \<noteq> CHR 0x0D \<and> c \<noteq> CHR 0x0A) s)"

end
