(* ===== verification/Destination_Policy.thy ===== *)
theory Destination_Policy
  imports Domain_Policy Go_HTTP
begin

text \<open>
  The address policy of the egress proxy, \<^verbatim>\<open>egressd/internal/egress/destination_policy.go\<close>, the
  textual form of addresses and the normalisation of CONNECT targets in \<^verbatim>\<open>forward_proxy.go\<close>. The
  DNS lookup is a parameter: a function from a host name to the addresses it resolves to.
\<close>

section \<open>Addresses as text\<close>

definition dec_octet :: "int \<Rightarrow> string" where
  "dec_octet n = (if n < 10 then [char_of (48 + n)]
     else if n < 100 then [char_of (48 + n div 10), char_of (48 + n mod 10)]
     else [char_of (48 + n div 100), char_of (48 + n div 10 mod 10), char_of (48 + n mod 10)])"

definition hex_nibble :: "int \<Rightarrow> char" where
  "hex_nibble n = char_of (if n < 10 then 48 + n else 87 + n)"

text \<open>A 16-bit group in lower-case hexadecimal without leading zeros.\<close>

definition hex_group :: "int \<Rightarrow> string" where
  "hex_group n =
     (let ds = dropWhile (\<lambda>c. c = CHR ''0'')
        [hex_nibble (n div 4096 mod 16), hex_nibble (n div 256 mod 16), hex_nibble (n div 16 mod 16)]
      in ds @ [hex_nibble (n mod 16)])"

definition v6_u16s :: "128 word \<Rightarrow> int list" where
  "v6_u16s w = map (\<lambda>i. uint (drop_bit (112 - 16 * i) w) mod 65536) [0..<8]"

definition zeros_from :: "int list \<Rightarrow> nat \<Rightarrow> nat" where
  "zeros_from gs i = length (takeWhile (\<lambda>g. g = 0) (drop i gs))"

text \<open>The first longest run of at least two zero groups, as its start and its end.\<close>

definition zero_run :: "int list \<Rightarrow> (nat \<times> nat) option" where
  "zero_run gs = fold (\<lambda>i best.
     let l = zeros_from gs i in
     if 2 \<le> l \<and> (case best of None \<Rightarrow> 0 | Some (a, b) \<Rightarrow> b - a) < l then Some (i, i + l) else best) [0..<8] None"

definition v4_text :: "32 word \<Rightarrow> string" where
  "v4_text w = join_with ''.'' (map (\<lambda>i. dec_octet (uint (drop_bit (24 - 8 * i) w) mod 256)) [0..<4])"

definition v6_text :: "128 word \<Rightarrow> string" where
  "v6_text w =
     (let gs = v6_u16s w in
      case zero_run gs of
        None \<Rightarrow> join_with '':'' (map hex_group gs)
      | Some (a, b) \<Rightarrow>
          join_with '':'' (map hex_group (take a gs)) @ ''::'' @ join_with '':'' (map hex_group (drop b gs)))"

text \<open>\<open>Addr.String\<close>\<close>

definition addr_String :: "addr \<Rightarrow> string" where
  "addr_String a =
     (case a of
        AddrInvalid \<Rightarrow> ''invalid IP''
      | V4 w \<Rightarrow> v4_text w
      | V6 w z \<Rightarrow>
          (if is4in6 a then ''::ffff:'' @ v4_text (ucast w) else v6_text w)
          @ (if z = [] then [] else CHR ''%'' # z))"

section \<open>The policy\<close>

datatype destination_error =
    InvalidCIDR nat
  | DestinationDenied
  | ResolveFailed
  | NoAddresses
  | ResolutionDenied
  | PinnedInvalid
  | PinnedUnresolved
  | PinnedResolutionInvalid

record destinationPolicy =
  denied :: "prefix_t list"

text \<open>\<open>netip.MustParsePrefix\<close> panics on a malformed prefix; \<^const>\<open>None\<close> is the panic.\<close>

fun mustPrefixes :: "string list \<Rightarrow> prefix_t list option" where
  "mustPrefixes [] = Some []"
| "mustPrefixes (v # vs) =
     (case parse_prefix v of
        None \<Rightarrow> None
      | Some p \<Rightarrow> map_option ((#) p) (mustPrefixes vs))"

definition defaultDeniedPrefixes :: "prefix_t list option" where
  "defaultDeniedPrefixes = mustPrefixes [
     ''0.0.0.0/8'', ''10.0.0.0/8'', ''100.64.0.0/10'', ''127.0.0.0/8'',
     ''169.254.0.0/16'', ''172.16.0.0/12'', ''192.0.0.0/24'', ''192.0.2.0/24'',
     ''192.88.99.0/24'', ''192.168.0.0/16'', ''198.18.0.0/15'', ''198.51.100.0/24'', ''203.0.113.0/24'',
     ''224.0.0.0/4'', ''240.0.0.0/4'',
     ''::/96'', ''::ffff:0:0/96'', ''64:ff9b::/96'', ''64:ff9b:1::/48'',
     ''100::/64'', ''100:0:0:1::/64'', ''2001::/32'', ''2001:2::/48'',
     ''2001:10::/28'', ''2001:20::/28'', ''2001:db8::/32'', ''2002::/16'',
     ''3fff::/20'', ''5f00::/16'', ''fc00::/7'', ''fe80::/10'', ''fec0::/10'', ''ff00::/8'']"

fun configured_prefixes :: "nat \<Rightarrow> string list \<Rightarrow> destination_error + prefix_t list" where
  "configured_prefixes index [] = Inr []"
| "configured_prefixes index (v # vs) =
     (case parse_prefix v of
        None \<Rightarrow> Inl (InvalidCIDR index)
      | Some p \<Rightarrow> map_sum id ((#) (masked p)) (configured_prefixes (Suc index) vs))"

text \<open>The default prefixes are built when the package is initialised; here they are an argument.\<close>

definition newDestinationPolicy :: "prefix_t list \<Rightarrow> string list \<Rightarrow> destination_error + destinationPolicy" where
  "newDestinationPolicy defaults configured =
     map_sum id (\<lambda>ps. \<lparr>denied = defaults @ ps\<rparr>) (configured_prefixes 0 configured)"

definition addr_allowed :: "destinationPolicy \<Rightarrow> addr \<Rightarrow> bool" where
  "addr_allowed p address =
     (let a = unmap address in
      if a = AddrInvalid \<or> is_unspecified a \<or> is_loopback a \<or> is_private a
         \<or> is_link_local_unicast a \<or> is_link_local_multicast a \<or> is_multicast a
      then False
      else \<not> list_ex (\<lambda>prefix. prefix_contains prefix a) (denied p))"

fun validated_addresses :: "destinationPolicy \<Rightarrow> addr list \<Rightarrow> addr list \<Rightarrow> addr list option" where
  "validated_addresses p [] acc = Some acc"
| "validated_addresses p (a # as) acc =
     (let candidate = unmap a in
      if \<not> addr_allowed p candidate then None
      else validated_addresses p as (if candidate \<in> set acc then acc else acc @ [candidate]))"

definition resolveAllowedAddresses ::
  "(string \<Rightarrow> addr list option) \<Rightarrow> destinationPolicy \<Rightarrow> string \<Rightarrow> destination_error + addr list" where
  "resolveAllowedAddresses lookup p host =
     (case parse_addr host of
        Some literal \<Rightarrow>
          if \<not> addr_allowed p (unmap literal) then Inl DestinationDenied else Inr [unmap literal]
      | None \<Rightarrow>
          (case lookup host of
             None \<Rightarrow> Inl ResolveFailed
           | Some [] \<Rightarrow> Inl NoAddresses
           | Some addresses \<Rightarrow>
               (case validated_addresses p addresses [] of
                  None \<Rightarrow> Inl ResolutionDenied
                | Some validated \<Rightarrow> Inr (filter is4 validated @ filter (\<lambda>a. \<not> is4 a) validated))))"

definition pinned_ok :: "addr \<Rightarrow> bool" where
  "pinned_ok a \<longleftrightarrow> \<not> (a = AddrInvalid \<or> is_unspecified a \<or> is_multicast a)"

fun pinned_addresses :: "addr list \<Rightarrow> addr list \<Rightarrow> addr list option" where
  "pinned_addresses [] acc = Some acc"
| "pinned_addresses (a # as) acc =
     (if \<not> pinned_ok (unmap a) then None
      else pinned_addresses as (if unmap a \<in> set acc then acc else acc @ [unmap a]))"

definition resolvePinnedAddresses :: "(string \<Rightarrow> addr list option) \<Rightarrow> string \<Rightarrow> destination_error + addr list" where
  "resolvePinnedAddresses lookup host =
     (case parse_addr host of
        Some literal \<Rightarrow> if \<not> pinned_ok (unmap literal) then Inl PinnedInvalid else Inr [unmap literal]
      | None \<Rightarrow>
          (case lookup host of
             None \<Rightarrow> Inl PinnedUnresolved
           | Some [] \<Rightarrow> Inl PinnedUnresolved
           | Some addresses \<Rightarrow>
               (case pinned_addresses addresses [] of
                  None \<Rightarrow> Inl PinnedResolutionInvalid
                | Some result \<Rightarrow> Inr result)))"

section \<open>CONNECT targets\<close>

definition normalizeProxyHost :: "string \<Rightarrow> string option" where
  "normalizeProxyHost host =
     (if host = [] then None
      else if hd host = CHR ''['' \<or> last host = CHR '']'' then None
      else case parse_addr host of
          Some a \<Rightarrow> Some (addr_String (unmap a))
        | None \<Rightarrow> normalizeDomainName host)"

record connectTarget =
  target_host :: string
  target_port :: int

definition parseConnectTarget :: "string \<Rightarrow> connectTarget option" where
  "parseConnectTarget v =
     (if sublist ''://'' v \<or> contains_any v (''/@?# '' @ [CHR 0x5C, CHR 0x09, CHR 0x0D, CHR 0x0A])
         \<or> CHR ''%'' \<in> set v
      then None
      else case SplitHostPort v of
          None \<Rightarrow> None
        | Some (host, portText) \<Rightarrow>
            (case normalizeProxyHost host of
               None \<Rightarrow> None
             | Some h \<Rightarrow>
                 (case atoi portText of
                    None \<Rightarrow> None
                  | Some port \<Rightarrow>
                      if port < 1 \<or> 65535 < port then None
                      else Some \<lparr>target_host = h, target_port = port\<rparr>)))"

definition connectTargetFromRequest :: "string \<Rightarrow> string \<Rightarrow> connectTarget option" where
  "connectTargetFromRequest url_host host_header =
     (case parseConnectTarget url_host of
        None \<Rightarrow> None
      | Some target \<Rightarrow>
          if host_header \<noteq> [] then
            (case parseConnectTarget host_header of
               None \<Rightarrow> None
             | Some header \<Rightarrow> if header \<noteq> target then None else Some target)
          else Some target)"

end
