(* ===== verification/Egress_Config.thy ===== *)
theory Egress_Config
  imports Destination_Policy
begin

text \<open>
  The configuration of the egress proxy and its validation,
  \<^verbatim>\<open>egressd/internal/egress/config.go\<close>. Every check is kept, in the order of the source; an error
  names the check. Reading the file and the non-strict JSON decoder are not modelled. Whether a text
  holds at least one PEM certificate (\<^verbatim>\<open>CertPool.AppendCertsFromPEM\<close>) is the argument \<open>pem_ok\<close>.
\<close>

section \<open>Types\<close>

definition Placeholder :: string where
  "Placeholder = ''NVT-PLACEHOLDER-NOT-A-KEY''"

definition maxForwardProxyConcurrentTunnels :: int where
  "maxForwardProxyConcurrentTunnels = 4096"

record egress_Route =
  er_Listen :: string
  er_Capability :: string
  er_Upstream :: string
  er_InjectionHost :: string
  er_AllowInsecureUpstream :: bool
  er_ListenTLSCert :: string
  er_ListenTLSKey :: string
  er_ListenTLS :: string
  er_MaxRequests :: int

definition RouteListenTLSCA :: string where
  "RouteListenTLSCA = ''ca''"

definition TLSEnabled :: "egress_Route \<Rightarrow> bool" where
  "TLSEnabled r \<longleftrightarrow> er_ListenTLS r = RouteListenTLSCA \<or> er_ListenTLSCert r \<noteq> [] \<and> er_ListenTLSKey r \<noteq> []"

record CAConfig =
  ca_PublishDir :: string
  ca_LeafDNSNames :: "string list"
  ca_ServeAddr :: string
  ca_CertFile :: string
  ca_KeyFile :: string

record ForwardProxyInjectRoute =
  ir_Host :: string
  ir_Capability :: string
  ir_Upstream :: string
  ir_AllowInsecureUpstream :: bool
  ir_UpstreamCAPEM :: string
  ir_UpstreamServerName :: string
  ir_AllowPrivateUpstream :: bool
  ir_MaxRequests :: int
  ir_RequireCapabilityHint :: bool

record ForwardProxyConfig =
  fp_Listen :: string
  fp_TransparentMode :: bool
  fp_AllowHosts :: "string list"
  fp_AllowUnmatchedHosts :: bool
  fp_DomainPolicy :: "DomainPolicy option"
  fp_AllowPorts :: "int list"
  fp_MaxConcurrentTunnels :: int
  fp_TunnelIdleTimeoutSeconds :: int
  fp_DenyCIDRs :: "string list"
  fp_InjectRoutes :: "ForwardProxyInjectRoute list"

record egress_Config =
  eg_BrokerURL :: string
  eg_AllowInsecureBroker :: bool
  eg_BrokerCAFile :: string
  eg_Routes :: "egress_Route list"
  eg_ForwardProxy :: "ForwardProxyConfig option"
  eg_CA :: "CAConfig option"

datatype egress_config_error =
    NothingConfigured
  | BrokerURLInvalid
  | BrokerURLInsecure
  | BrokerURLScheme
  | RouteInvalid nat string
  | CAInvalid string
  | LeafNameInvalid nat string
  | ForwardProxyInvalid string
  | InjectRouteInvalid nat string

section \<open>Defaults and hosts\<close>

definition effectiveAllowPorts :: "ForwardProxyConfig \<Rightarrow> int list" where
  "effectiveAllowPorts c = (if fp_AllowPorts c = [] then [80, 443] else fp_AllowPorts c)"

definition effectiveMaxConcurrentTunnels :: "ForwardProxyConfig \<Rightarrow> int" where
  "effectiveMaxConcurrentTunnels c = (if fp_MaxConcurrentTunnels c = 0 then 256 else fp_MaxConcurrentTunnels c)"

text \<open>In nanoseconds, with the wrap-around of \<^verbatim>\<open>time.Duration\<close>.\<close>

definition wrap64 :: "int \<Rightarrow> int" where
  "wrap64 i = sint (of_int i :: 64 word)"

definition effectiveTunnelIdleTimeout :: "ForwardProxyConfig \<Rightarrow> int" where
  "effectiveTunnelIdleTimeout c =
     (if fp_TunnelIdleTimeoutSeconds c = 0 then 60 * 1000000000
      else wrap64 (fp_TunnelIdleTimeoutSeconds c * 1000000000))"

definition normalizedRouteUpstreamHost :: "string \<Rightarrow> string option" where
  "normalizedRouteUpstreamHost upstream =
     (if CHR '':'' \<in> set upstream then
        (case SplitHostPort upstream of None \<Rightarrow> None | Some (host, _) \<Rightarrow> normalizeProxyHost host)
      else normalizeProxyHost upstream)"

definition validateUpstream :: "string \<Rightarrow> string option" where
  "validateUpstream upstream =
     (if upstream = [] then Some ''must not be empty''
      else if sublist ''://'' upstream \<or> contains_any upstream (''/@?# '' @ [CHR 0x5C, CHR 0x09])
      then Some ''must be a bare host''
      else if CHR '':'' \<in> set upstream then
        (case SplitHostPort upstream of
           None \<Rightarrow> Some ''invalid host:port''
         | Some (host, port) \<Rightarrow>
             (case atoi port of
                None \<Rightarrow> Some ''invalid port''
              | Some n \<Rightarrow>
                  if n < 1 \<or> 65535 < n then Some ''invalid port''
                  else if host = [] then Some ''empty host''
                  else None))
      else None)"

section \<open>The forward proxy\<close>

text \<open>The hosts of \<open>inject_routes\<close> under the domain policy.\<close>

fun policy_admits_routes :: "DomainPolicy \<Rightarrow> nat \<Rightarrow> ForwardProxyInjectRoute list \<Rightarrow> egress_config_error option" where
  "policy_admits_routes p index [] = None"
| "policy_admits_routes p index (r # rs) =
     (if \<not> fst (Decide p (ir_Host r)) then Some (InjectRouteInvalid index ''host is denied by domain_policy'')
      else if ir_AllowPrivateUpstream r then policy_admits_routes p (Suc index) rs
      else case normalizedRouteUpstreamHost (ir_Upstream r) of
          None \<Rightarrow> policy_admits_routes p (Suc index) rs
        | Some host \<Rightarrow>
            if \<not> fst (Decide p host) then Some (InjectRouteInvalid index ''upstream is denied by domain_policy'')
            else policy_admits_routes p (Suc index) rs)"

definition ForwardProxyConfig_Validate :: "prefix_t list \<Rightarrow> ForwardProxyConfig \<Rightarrow> egress_config_error option" where
  "ForwardProxyConfig_Validate defaults c =
     (if fp_Listen c = [] then Some (ForwardProxyInvalid ''listen is required'')
      else if list_ex (\<lambda>h. normalizeProxyHost h = None) (fp_AllowHosts c)
      then Some (ForwardProxyInvalid ''allow_hosts'')
      else if fp_DomainPolicy c \<noteq> None \<and> (fp_AllowUnmatchedHosts c \<or> fp_AllowHosts c \<noteq> [])
      then Some (ForwardProxyInvalid ''domain_policy is mutually exclusive'')
      else if (case fp_DomainPolicy c of None \<Rightarrow> False | Some p \<Rightarrow> Validate p \<noteq> None)
      then Some (ForwardProxyInvalid ''domain_policy'')
      else if list_ex (\<lambda>port. port < 1 \<or> 65535 < port) (effectiveAllowPorts c)
      then Some (ForwardProxyInvalid ''allow_ports'')
      else if fp_MaxConcurrentTunnels c < 0 \<or> maxForwardProxyConcurrentTunnels < fp_MaxConcurrentTunnels c
      then Some (ForwardProxyInvalid ''max_concurrent_tunnels'')
      else if fp_TunnelIdleTimeoutSeconds c < 0 then Some (ForwardProxyInvalid ''tunnel_idle_timeout_seconds'')
      else case newDestinationPolicy defaults (fp_DenyCIDRs c) of
          Inl e \<Rightarrow> Some (ForwardProxyInvalid ''deny_cidrs'')
        | Inr _ \<Rightarrow>
            (case fp_DomainPolicy c of
               None \<Rightarrow> None
             | Some p \<Rightarrow> policy_admits_routes p 0 (fp_InjectRoutes c)))"

definition some_values :: "'a option list \<Rightarrow> 'a list" where
  "some_values xs = concat (map (\<lambda>x. case x of None \<Rightarrow> [] | Some y \<Rightarrow> [y]) xs)"

definition inject_route_error :: "(string \<Rightarrow> bool) \<Rightarrow> ForwardProxyInjectRoute \<Rightarrow> string option" where
  "inject_route_error pem_ok r =
     (if ir_Capability r = [] then Some ''capability is required''
      else if validateUpstream (ir_Upstream r) \<noteq> None then Some ''upstream''
      else if ir_MaxRequests r < 0 then Some ''max_requests must be non-negative''
      else if (ir_UpstreamCAPEM r = []) \<noteq> (ir_UpstreamServerName r = [])
      then Some ''must set upstream_ca_pem and upstream_server_name together''
      else if ir_UpstreamCAPEM r \<noteq> [] \<and> \<not> pem_ok (ir_UpstreamCAPEM r) then Some ''upstream_ca_pem is invalid''
      else if ir_UpstreamCAPEM r \<noteq> []
           \<and> contains_any (ir_UpstreamServerName r) (''/@?# '' @ [CHR 0x5C, CHR 0x09, CHR 0x0D, CHR 0x0A])
      then Some ''upstream_server_name is invalid''
      else if ir_AllowPrivateUpstream r \<and> (ir_UpstreamCAPEM r = [] \<or> ir_AllowInsecureUpstream r)
      then Some ''private upstream requires pinned TLS CA and server name''
      else None)"

fun inject_overlap :: "(string \<Rightarrow> bool) \<Rightarrow> string list \<Rightarrow> string list \<Rightarrow> string list \<Rightarrow> nat
    \<Rightarrow> ForwardProxyInjectRoute list \<Rightarrow> egress_config_error option" where
  "inject_overlap pem_ok routeHosts blindHosts seen index [] = None"
| "inject_overlap pem_ok routeHosts blindHosts seen index (r # rs) =
     (case normalizeProxyHost (ir_Host r) of
        None \<Rightarrow> Some (InjectRouteInvalid index ''host'')
      | Some host \<Rightarrow>
          if net_parse_ip host then Some (InjectRouteInvalid index ''host must be a DNS name, not an IP'')
          else case inject_route_error pem_ok r of
              Some e \<Rightarrow> Some (InjectRouteInvalid index e)
            | None \<Rightarrow>
                (let hostCapability = host @ [CHR 0x00] @ ir_Capability r in
                 if hostCapability \<in> set seen then Some (InjectRouteInvalid index ''duplicated'')
                 else if host \<in> set blindHosts \<or> host \<in> set routeHosts
                 then Some (InjectRouteInvalid index ''overlaps a blind-tunnel or mediated route host'')
                 else inject_overlap pem_ok routeHosts blindHosts (hostCapability # seen) (Suc index) rs))"

definition validateForwardProxyRouteOverlap ::
  "(string \<Rightarrow> bool) \<Rightarrow> egress_Route list \<Rightarrow> ForwardProxyConfig \<Rightarrow> egress_config_error option" where
  "validateForwardProxyRouteOverlap pem_ok routes c =
     (let routeHosts = some_values (map (\<lambda>r. normalizedRouteUpstreamHost (er_Upstream r)) routes);
          blindHosts = some_values (map normalizeProxyHost (fp_AllowHosts c))
      in if list_ex (\<lambda>h. to_lower h \<in> set routeHosts) (fp_AllowHosts c)
         then Some (ForwardProxyInvalid ''allow_hosts overlaps mediated route upstream'')
         else inject_overlap pem_ok routeHosts blindHosts [] 0 (fp_InjectRoutes c))"

text \<open>The names for which the certificate authority may mint a leaf.\<close>

definition ForwardProxyUpstreamLeafNames :: "egress_Config \<Rightarrow> string list" where
  "ForwardProxyUpstreamLeafNames c =
     (case eg_ForwardProxy c of
        None \<Rightarrow> []
      | Some fp \<Rightarrow> some_values (map (\<lambda>r. normalizeProxyHost (ir_Host r)) (fp_InjectRoutes fp)))"

section \<open>The whole configuration\<close>

definition broker_url_error :: "egress_Config \<Rightarrow> egress_config_error option" where
  "broker_url_error c =
     (case url_Parse (eg_BrokerURL c) of
        None \<Rightarrow> Some BrokerURLInvalid
      | Some u \<Rightarrow>
          if url_Host u = [] then Some BrokerURLInvalid
          else if url_Scheme u = ''https'' then None
          else if url_Scheme u = ''http'' then
            (if \<not> eg_AllowInsecureBroker c then Some BrokerURLInsecure else None)
          else Some BrokerURLScheme)"

definition egress_route_error :: "egress_Config \<Rightarrow> egress_Route \<Rightarrow> string option" where
  "egress_route_error c r =
     (if er_Listen r = [] then Some ''listen is required''
      else if er_Capability r = [] then Some ''capability is required''
      else if validateUpstream (er_Upstream r) \<noteq> None then Some ''upstream''
      else if er_MaxRequests r < 0 then Some ''max_requests must be non-negative''
      else if (er_ListenTLSCert r = []) \<noteq> (er_ListenTLSKey r = [])
      then Some ''listen_tls_cert and listen_tls_key must be set together''
      else if er_ListenTLS r = [] then None
      else if er_ListenTLS r = RouteListenTLSCA then
        (if er_ListenTLSCert r \<noteq> [] \<or> er_ListenTLSKey r \<noteq> []
         then Some ''listen_tls: ca is mutually exclusive with listen_tls_cert/listen_tls_key''
         else if eg_CA c = None then Some ''listen_tls: ca requires the config-level ca block''
         else None)
      else Some ''listen_tls must be ca when set'')"

fun egress_routes_error :: "egress_Config \<Rightarrow> nat \<Rightarrow> egress_Route list \<Rightarrow> egress_config_error option" where
  "egress_routes_error c index [] = None"
| "egress_routes_error c index (r # rs) =
     (case egress_route_error c r of
        Some e \<Rightarrow> Some (RouteInvalid index e)
      | None \<Rightarrow> egress_routes_error c (Suc index) rs)"

definition realUpstreamHosts :: "egress_Config \<Rightarrow> string list" where
  "realUpstreamHosts c =
     some_values (map (\<lambda>r. normalizedRouteUpstreamHost (er_Upstream r)) (eg_Routes c))
     @ (case eg_ForwardProxy c of
          None \<Rightarrow> []
        | Some fp \<Rightarrow>
            some_values (concat (map (\<lambda>r. [normalizeProxyHost (ir_Host r), normalizedRouteUpstreamHost (ir_Upstream r)])
              (fp_InjectRoutes fp))))"

fun leaf_names_error :: "string list \<Rightarrow> nat \<Rightarrow> string list \<Rightarrow> egress_config_error option" where
  "leaf_names_error hosts index [] = None"
| "leaf_names_error hosts index (name # names) =
     (if name = [] then Some (LeafNameInvalid index ''must not be empty'')
      else if to_lower name \<in> set hosts then Some (LeafNameInvalid index ''matches a real upstream host'')
      else leaf_names_error hosts (Suc index) names)"

definition ca_error :: "egress_Config \<Rightarrow> CAConfig \<Rightarrow> egress_config_error option" where
  "ca_error c ca =
     (if (ca_CertFile ca = []) \<noteq> (ca_KeyFile ca = [])
      then Some (CAInvalid ''cert_file and key_file must be set together'')
      else if ca_PublishDir ca = [] \<and> ca_ServeAddr ca = [] \<and> ca_CertFile ca = []
      then Some (CAInvalid ''requires publish_dir, serve_addr, or cert_file/key_file'')
      else leaf_names_error (realUpstreamHosts c) 0 (ca_LeafDNSNames ca))"

definition forward_proxy_error ::
  "prefix_t list \<Rightarrow> (string \<Rightarrow> bool) \<Rightarrow> egress_Config \<Rightarrow> ForwardProxyConfig \<Rightarrow> egress_config_error option" where
  "forward_proxy_error defaults pem_ok c fp =
     (case ForwardProxyConfig_Validate defaults fp of
        Some e \<Rightarrow> Some e
      | None \<Rightarrow>
          (case validateForwardProxyRouteOverlap pem_ok (eg_Routes c) fp of
             Some e \<Rightarrow> Some e
           | None \<Rightarrow>
               if fp_InjectRoutes fp \<noteq> [] \<and> eg_CA c = None
               then Some (ForwardProxyInvalid ''inject_routes require the config-level ca block'')
               else None))"

definition Config_Validate :: "prefix_t list \<Rightarrow> (string \<Rightarrow> bool) \<Rightarrow> egress_Config \<Rightarrow> egress_config_error option" where
  "Config_Validate defaults pem_ok c =
     (if eg_Routes c = [] \<and> eg_ForwardProxy c = None then Some NothingConfigured
      else case (if eg_Routes c \<noteq> [] \<or> (case eg_ForwardProxy c of None \<Rightarrow> False | Some fp \<Rightarrow> fp_InjectRoutes fp \<noteq> [])
                 then broker_url_error c else None) of
          Some e \<Rightarrow> Some e
        | None \<Rightarrow>
            (case egress_routes_error c 0 (eg_Routes c) of
               Some e \<Rightarrow> Some e
             | None \<Rightarrow>
                 (case (case eg_CA c of None \<Rightarrow> None | Some ca \<Rightarrow> ca_error c ca) of
                    Some e \<Rightarrow> Some e
                  | None \<Rightarrow>
                      (case eg_ForwardProxy c of
                         None \<Rightarrow> None
                       | Some fp \<Rightarrow> forward_proxy_error defaults pem_ok c fp))))"

end
