(* ===== verification/Forward_Proxy.thy ===== *)
theory Forward_Proxy
  imports Egress_Config
begin

text \<open>
  The CONNECT proxy, \<^verbatim>\<open>egressd/internal/egress/forward_proxy.go\<close>: its initialisation, the choice of
  an injection route, the decision on a request, and the bounded tunnel queue. The network is an
  environment of the decision: the DNS lookup, the addresses that accept a connection, the outcome of
  the tunnel queue and of taking over the client connection. The queue itself is a transition system
  over the goroutines that use it. Relaying bytes, TLS and the counters of the log lines that do not
  decide anything are left out; the counters of the queue are kept.
\<close>

section \<open>Initialisation\<close>

record injectProxy =
  ip_capability :: string
  ip_requireCapabilityHint :: bool
  ip_Route :: egress_Route
  ip_AllowPrivateUpstream :: bool
  ip_UpstreamCAPEM :: string
  ip_UpstreamServerName :: string

record ForwardProxy =
  px_Config :: ForwardProxyConfig
  px_allowHosts :: "string list"
  px_allowPorts :: "int list"
  px_injectProxies :: "(string \<times> injectProxy list) list"
  px_destinationPolicy :: destinationPolicy

text \<open>The route of the proxy behind an injection route, as \<open>init\<close> fills it in.\<close>

definition inject_proxy_of :: "string \<Rightarrow> ForwardProxyInjectRoute \<Rightarrow> injectProxy" where
  "inject_proxy_of host r = \<lparr>ip_capability = ir_Capability r, ip_requireCapabilityHint = ir_RequireCapabilityHint r,
     ip_Route = \<lparr>er_Listen = [], er_Capability = ir_Capability r, er_Upstream = ir_Upstream r, er_InjectionHost = host,
       er_AllowInsecureUpstream = ir_AllowInsecureUpstream r, er_ListenTLSCert = [], er_ListenTLSKey = [],
       er_ListenTLS = [], er_MaxRequests = ir_MaxRequests r\<rparr>,
     ip_AllowPrivateUpstream = ir_AllowPrivateUpstream r, ip_UpstreamCAPEM = ir_UpstreamCAPEM r,
     ip_UpstreamServerName = ir_UpstreamServerName r\<rparr>"

definition routes_of :: "(string \<times> injectProxy list) list \<Rightarrow> string \<Rightarrow> injectProxy list" where
  "routes_of m host = (case map_of m host of None \<Rightarrow> [] | Some rs \<Rightarrow> rs)"

fun add_inject_routes :: "ForwardProxyInjectRoute list \<Rightarrow> (string \<times> injectProxy list) list
    \<Rightarrow> (string \<times> injectProxy list) list" where
  "add_inject_routes [] m = m"
| "add_inject_routes (r # rs) m =
     (case normalizeProxyHost (ir_Host r) of
        None \<Rightarrow> add_inject_routes rs m
      | Some host \<Rightarrow> add_inject_routes rs (AList.update host (routes_of m host @ [inject_proxy_of host r]) m))"

text \<open>An invalid \<open>deny_cidrs\<close> leaves the zero policy, as the source ignores the error here.\<close>

definition init_proxy :: "prefix_t list \<Rightarrow> ForwardProxyConfig \<Rightarrow> ForwardProxy" where
  "init_proxy defaults c = \<lparr>px_Config = c,
     px_allowHosts = some_values (map normalizeProxyHost (fp_AllowHosts c)),
     px_allowPorts = effectiveAllowPorts c,
     px_injectProxies = add_inject_routes (fp_InjectRoutes c) [],
     px_destinationPolicy = (case newDestinationPolicy defaults (fp_DenyCIDRs c) of
        Inl _ \<Rightarrow> \<lparr>denied = []\<rparr> | Inr p \<Rightarrow> p)\<rparr>"

section \<open>Decisions\<close>

definition portAllowed :: "ForwardProxy \<Rightarrow> int \<Rightarrow> bool" where
  "portAllowed p port \<longleftrightarrow> port \<in> set (px_allowPorts p)"

definition target_allowed :: "ForwardProxy \<Rightarrow> connectTarget \<Rightarrow> bool \<times> string" where
  "target_allowed p t =
     (if \<not> portAllowed p (target_port t) then (False, ''port_denied'')
      else case fp_DomainPolicy (px_Config p) of
          Some policy \<Rightarrow> Decide policy (target_host t)
        | None \<Rightarrow>
            if fp_AllowUnmatchedHosts (px_Config p) \<or> target_host t \<in> set (px_allowHosts p)
            then (True, ''legacy_host_allow'')
            else (False, ''target_not_allowed''))"

text \<open>The answer of a route selection: no route, a refusal, or the route.\<close>

datatype route_choice = NoRoute | RouteRefused | RouteFound injectProxy

definition auto_routes :: "injectProxy list \<Rightarrow> injectProxy list" where
  "auto_routes rs = filter (\<lambda>r. \<not> ip_requireCapabilityHint r) rs"

definition injectProxy_for :: "ForwardProxy \<Rightarrow> string \<Rightarrow> string \<Rightarrow> route_choice" where
  "injectProxy_for p host capabilityHint =
     (let routes = routes_of (px_injectProxies p) host in
      if routes = [] then NoRoute
      else if capabilityHint \<noteq> [] then
        (case find (\<lambda>r. ip_capability r = capabilityHint) routes of
           Some r \<Rightarrow> RouteFound r
         | None \<Rightarrow> RouteRefused)
      else case auto_routes routes of
          [] \<Rightarrow> NoRoute
        | [r] \<Rightarrow> RouteFound r
        | _ \<Rightarrow> RouteRefused)"

definition transparentInjectProxy :: "ForwardProxy \<Rightarrow> string \<Rightarrow> string \<Rightarrow> route_choice" where
  "transparentInjectProxy p host capabilityHint =
     (let routes = routes_of (px_injectProxies p) host in
      if routes = [] then NoRoute
      else if capabilityHint \<noteq> [] then injectProxy_for p host capabilityHint
      else case auto_routes routes of
          [] \<Rightarrow> NoRoute
        | [r] \<Rightarrow> RouteFound r
        | _ \<Rightarrow> RouteRefused)"

definition capabilityHintFromConnect :: "http_header \<Rightarrow> string" where
  "capabilityHintFromConnect h =
     (let value = trim_space (header_Get h ''X-NVT-Capability'') in
      if value \<noteq> [] then value
      else let auth = trim_space (header_Get h ''Proxy-Authorization'') in
        if auth = [] then []
        else if length auth < 6 \<or> \<not> equal_fold (take 6 auth) ''Basic '' then []
        else case base64_DecodeString (trim_space (drop 6 auth)) of
            None \<Rightarrow> []
          | Some decoded \<Rightarrow> (case cut_on (CHR '':'') decoded of None \<Rightarrow> [] | Some (user, _) \<Rightarrow> user))"

record connect_request =
  cr_Path :: string
  cr_Method :: string
  cr_URLHost :: string
  cr_Host :: string
  cr_Header :: http_header

record connect_env =
  ce_lookup :: "string \<Rightarrow> addr list option"
  ce_dial :: "string \<Rightarrow> bool"
  ce_acquire :: "string option"
  ce_hijacker :: bool
  ce_hijack :: bool
  ce_CA :: bool

datatype connect_outcome =
    PublicCatalog
  | Denied int string
  | Intercepted connectTarget injectProxy
  | Tunnelled connectTarget addr

text \<open>\<open>net.JoinHostPort\<close> of an address and a port.\<close>

definition JoinHostPort :: "string \<Rightarrow> string \<Rightarrow> string" where
  "JoinHostPort host port =
     (if CHR '':'' \<in> set host then CHR ''['' # host @ '']:'' @ port else host @ CHR '':'' # port)"

definition port_text :: "int \<Rightarrow> string" where
  "port_text port = concat (map (\<lambda>d. [char_of (48 + d)])
     (dropWhile (\<lambda>d. d = 0) [port div 10000 mod 10, port div 1000 mod 10, port div 100 mod 10, port div 10 mod 10])
     @ [[char_of (48 + port mod 10)]])"

definition dialResolvedAddresses :: "connect_env \<Rightarrow> addr list \<Rightarrow> string \<Rightarrow> addr option" where
  "dialResolvedAddresses env addresses port =
     find (\<lambda>a. ce_dial env (JoinHostPort (addr_String a) port)) addresses"

definition serveMITM :: "connect_env \<Rightarrow> connectTarget \<Rightarrow> injectProxy \<Rightarrow> connect_outcome" where
  "serveMITM env t r =
     (if \<not> ce_CA env then Denied 500 ''mitm_unconfigured''
      else case ce_acquire env of
          Some errorClass \<Rightarrow> Denied 503 errorClass
        | None \<Rightarrow>
            if \<not> ce_hijacker env then Denied 500 ''hijack_unavailable''
            else if \<not> ce_hijack env then Denied 500 ''hijack_failed''
            else Intercepted t r)"

definition serve_tunnel :: "ForwardProxy \<Rightarrow> connect_env \<Rightarrow> connectTarget \<Rightarrow> connect_outcome" where
  "serve_tunnel p env t =
     (let (allowed, reason) = target_allowed p t in
      if \<not> allowed then Denied 403 reason
      else case ce_acquire env of
          Some errorClass \<Rightarrow> Denied 503 errorClass
        | None \<Rightarrow>
            (case resolveAllowedAddresses (ce_lookup env) (px_destinationPolicy p) (target_host t) of
               Inl _ \<Rightarrow> Denied 403 ''destination_denied''
             | Inr addresses \<Rightarrow>
                 (case dialResolvedAddresses env addresses (port_text (target_port t)) of
                    None \<Rightarrow> Denied 502 ''upstream_unreachable''
                  | Some a \<Rightarrow>
                      if \<not> ce_hijacker env then Denied 500 ''hijack_unavailable''
                      else if \<not> ce_hijack env then Denied 500 ''hijack_failed''
                      else Tunnelled t a)))"

definition ForwardProxy_ServeHTTP :: "ForwardProxy \<Rightarrow> connect_env \<Rightarrow> connect_request \<Rightarrow> connect_outcome" where
  "ForwardProxy_ServeHTTP p env r =
     (if cr_Path r = ''/_nvt/catalog'' then PublicCatalog
      else if cr_Method r \<noteq> ''CONNECT'' then Denied 405 ''plain_http_not_supported''
      else case connectTargetFromRequest (cr_URLHost r) (cr_Host r) of
          None \<Rightarrow> Denied 400 ''malformed_target''
        | Some t \<Rightarrow>
            if \<not> portAllowed p (target_port t) then Denied 403 ''target_not_allowed''
            else if (case fp_DomainPolicy (px_Config p) of
                       None \<Rightarrow> False | Some policy \<Rightarrow> \<not> fst (Decide policy (target_host t)))
            then Denied 403 (snd (Decide (the (fp_DomainPolicy (px_Config p))) (target_host t)))
            else let hint = capabilityHintFromConnect (cr_Header r);
                     choice = (if fp_TransparentMode (px_Config p) then transparentInjectProxy p (target_host t) hint
                               else injectProxy_for p (target_host t) hint)
                 in case choice of
                      RouteRefused \<Rightarrow> Denied 403 ''capability_not_allowed''
                    | RouteFound route \<Rightarrow> serveMITM env t route
                    | NoRoute \<Rightarrow> serve_tunnel p env t)"

text \<open>The dial of an injection route; the error of a failed resolution and of a failed dial are one.\<close>

definition dialInjectRouteTarget :: "ForwardProxy \<Rightarrow> connect_env \<Rightarrow> string \<Rightarrow> string \<Rightarrow> bool \<Rightarrow> addr option" where
  "dialInjectRouteTarget p env host port allowPrivate =
     (case (if allowPrivate then resolvePinnedAddresses (ce_lookup env) host
            else resolveAllowedAddresses (ce_lookup env) (px_destinationPolicy p) host) of
        Inl _ \<Rightarrow> None
      | Inr addresses \<Rightarrow> dialResolvedAddresses env addresses port)"

section \<open>The tunnel queue\<close>

text \<open>
  Where a goroutine stands in \<open>acquireTunnel\<close>: before the first \<open>select\<close>, after it found no free
  slot, in the queue, holding a slot and still counted in the queue, holding a slot, and gone.
\<close>

datatype tunnel_phase = Arriving | SlotsFull | Queued | Promoted | Active | Finished

record tunnel_state =
  tn_slots :: nat
  tn_queue :: nat
  tn_active :: int
  tn_queued :: int
  tn_admitted :: nat
  tn_timedOut :: nat
  tn_rejected :: nat
  tn_phases :: "tunnel_phase list"

datatype tunnel_event =
    Arrive
  | CancelledEarly nat
  | TakeSlot nat
  | FindFull nat
  | JoinQueue nat
  | QueueFull nat
  | TakeQueuedSlot nat
  | LeaveQueue nat
  | TimeOut nat
  | CancelQueued nat
  | Release nat

definition at_phase :: "tunnel_state \<Rightarrow> nat \<Rightarrow> tunnel_phase \<Rightarrow> bool" where
  "at_phase s i ph \<longleftrightarrow> i < length (tn_phases s) \<and> tn_phases s ! i = ph"

definition to_phase :: "nat \<Rightarrow> tunnel_phase \<Rightarrow> tunnel_state \<Rightarrow> tunnel_state" where
  "to_phase i ph s = s\<lparr>tn_phases := (tn_phases s)[i := ph]\<rparr>"

fun tunnel_step :: "nat \<Rightarrow> tunnel_event \<Rightarrow> tunnel_state \<Rightarrow> tunnel_state option" where
  "tunnel_step cap Arrive s = Some (s\<lparr>tn_phases := tn_phases s @ [Arriving]\<rparr>)"
| "tunnel_step cap (CancelledEarly i) s =
     (if at_phase s i Arriving then Some (to_phase i Finished (s\<lparr>tn_rejected := tn_rejected s + 1\<rparr>)) else None)"
| "tunnel_step cap (TakeSlot i) s =
     (if at_phase s i Arriving \<and> tn_slots s < cap
      then Some (to_phase i Active (s\<lparr>tn_slots := tn_slots s + 1, tn_active := tn_active s + 1,
             tn_admitted := tn_admitted s + 1\<rparr>))
      else None)"
| "tunnel_step cap (FindFull i) s =
     (if at_phase s i Arriving \<and> \<not> tn_slots s < cap then Some (to_phase i SlotsFull s) else None)"
| "tunnel_step cap (JoinQueue i) s =
     (if at_phase s i SlotsFull \<and> tn_queue s < cap
      then Some (to_phase i Queued (s\<lparr>tn_queue := tn_queue s + 1, tn_queued := tn_queued s + 1\<rparr>)) else None)"
| "tunnel_step cap (QueueFull i) s =
     (if at_phase s i SlotsFull \<and> \<not> tn_queue s < cap
      then Some (to_phase i Finished (s\<lparr>tn_rejected := tn_rejected s + 1\<rparr>)) else None)"
| "tunnel_step cap (TakeQueuedSlot i) s =
     (if at_phase s i Queued \<and> tn_slots s < cap
      then Some (to_phase i Promoted (s\<lparr>tn_slots := tn_slots s + 1\<rparr>)) else None)"
| "tunnel_step cap (LeaveQueue i) s =
     (if at_phase s i Promoted
      then Some (to_phase i Active (s\<lparr>tn_queue := tn_queue s - 1, tn_queued := tn_queued s - 1,
             tn_active := tn_active s + 1, tn_admitted := tn_admitted s + 1\<rparr>))
      else None)"
| "tunnel_step cap (TimeOut i) s =
     (if at_phase s i Queued
      then Some (to_phase i Finished (s\<lparr>tn_queue := tn_queue s - 1, tn_queued := tn_queued s - 1,
             tn_timedOut := tn_timedOut s + 1, tn_rejected := tn_rejected s + 1\<rparr>))
      else None)"
| "tunnel_step cap (CancelQueued i) s =
     (if at_phase s i Queued
      then Some (to_phase i Finished (s\<lparr>tn_queue := tn_queue s - 1, tn_queued := tn_queued s - 1,
             tn_rejected := tn_rejected s + 1\<rparr>))
      else None)"
| "tunnel_step cap (Release i) s =
     (if at_phase s i Active
      then Some (to_phase i Finished (s\<lparr>tn_slots := tn_slots s - 1, tn_active := tn_active s - 1\<rparr>)) else None)"

definition tunnel_start :: tunnel_state where
  "tunnel_start = \<lparr>tn_slots = 0, tn_queue = 0, tn_active = 0, tn_queued = 0, tn_admitted = 0,
     tn_timedOut = 0, tn_rejected = 0, tn_phases = []\<rparr>"

inductive tunnel_reachable :: "nat \<Rightarrow> tunnel_state \<Rightarrow> bool" for cap where
  start: "tunnel_reachable cap tunnel_start"
| step: "tunnel_reachable cap s \<Longrightarrow> tunnel_step cap e s = Some s' \<Longrightarrow> tunnel_reachable cap s'"

end
