(* ===== verification/Egress_Reporter.thy ===== *)
theory Egress_Reporter
  imports Domain_Policy
begin

text \<open>
  Audit reports of the egress proxy, \<^verbatim>\<open>egressd/internal/egress/reporter.go\<close>: the reduction of a
  request path to an audit class, and the bounded queue with its batches. The loop of \<^verbatim>\<open>Run\<close> and of
  \<^verbatim>\<open>finalDrain\<close> is a sequence of events; whether the broker accepts a batch is part of the event.
\<close>

section \<open>Path classes\<close>

definition pathClassMaxLen :: nat where
  "pathClassMaxLen = 64"

definition class_rune :: "int \<Rightarrow> bool" where
  "class_rune r \<longleftrightarrow> 97 \<le> r \<and> r \<le> 122 \<or> 48 \<le> r \<and> r \<le> 57 \<or> r = 46 \<or> r = 95 \<or> r = 45"

text \<open>The loop stops once the class has its full length.\<close>

fun keep_class_runes :: "int list \<Rightarrow> string \<Rightarrow> string" where
  "keep_class_runes [] acc = acc"
| "keep_class_runes (r # rs) acc =
     (if pathClassMaxLen \<le> length acc then acc
      else keep_class_runes rs (if class_rune r then acc @ [char_of r] else acc))"

definition sanitizePathClass :: "string \<Rightarrow> string" where
  "sanitizePathClass segment = keep_class_runes (map fst (runes (to_lower segment))) []"

definition PathClass :: "string \<Rightarrow> string" where
  "PathClass path =
     (if suffix ''/info/refs'' path then ''info-refs''
      else if suffix ''/git-upload-pack'' path then ''git-upload-pack''
      else if suffix ''/git-receive-pack'' path then ''git-receive-pack''
      else let trimmed = takeWhile (\<lambda>c. c \<noteq> CHR ''/'') (trim_prefix path ''/'') in
        if trimmed = [] then ''root''
        else let class = sanitizePathClass trimmed in
          if class = [] then ''other'' else class)"

section \<open>The queue\<close>

record ReportEntry =
  rep_Capability :: string
  rep_Host :: string
  rep_Method :: string
  rep_PathClass :: string
  rep_Status :: int
  rep_Port :: int
  rep_Decision :: string

record Reporter =
  rp_queue :: "ReportEntry list"
  rp_batch :: "ReportEntry list"
  rp_dropped :: nat
  rp_sent :: "ReportEntry list"
  rp_stopped :: bool

definition defaultReportQueueSize :: nat where
  "defaultReportQueueSize = 1024"

definition defaultReportBatchSize :: nat where
  "defaultReportBatchSize = 100"

definition NewReporter :: Reporter where
  "NewReporter = \<lparr>rp_queue = [], rp_batch = [], rp_dropped = 0, rp_sent = [], rp_stopped = False\<rparr>"

definition Enqueue :: "ReportEntry \<Rightarrow> Reporter \<Rightarrow> Reporter" where
  "Enqueue e r =
     (if length (rp_queue r) < defaultReportQueueSize then r\<lparr>rp_queue := rp_queue r @ [e]\<rparr>
      else r\<lparr>rp_dropped := rp_dropped r + 1\<rparr>)"

text \<open>\<open>send\<close> with the answer of the broker, and the emptied batch of the callers.\<close>

definition send_batch :: "bool \<Rightarrow> Reporter \<Rightarrow> Reporter" where
  "send_batch accepted r =
     (if rp_batch r = [] then r
      else if accepted then r\<lparr>rp_sent := rp_sent r @ rp_batch r, rp_batch := []\<rparr>
      else r\<lparr>rp_dropped := rp_dropped r + length (rp_batch r), rp_batch := []\<rparr>)"

definition receive_entry :: "bool \<Rightarrow> Reporter \<Rightarrow> Reporter" where
  "receive_entry accepted r =
     (case rp_queue r of
        [] \<Rightarrow> r
      | e # es \<Rightarrow>
          let r' = r\<lparr>rp_queue := es, rp_batch := rp_batch r @ [e]\<rparr> in
          if defaultReportBatchSize \<le> length (rp_batch r') then send_batch accepted r' else r')"

text \<open>\<open>finalDrain\<close>: the entries that are in the queue, then the rest of the batch.\<close>

fun drain_entries :: "nat \<Rightarrow> (nat \<Rightarrow> bool) \<Rightarrow> Reporter \<Rightarrow> Reporter" where
  "drain_entries 0 accepted r = r"
| "drain_entries (Suc n) accepted r = drain_entries n accepted (receive_entry (accepted n) r)"

definition finalDrain :: "(nat \<Rightarrow> bool) \<Rightarrow> bool \<Rightarrow> Reporter \<Rightarrow> Reporter" where
  "finalDrain accepted last_accepted r =
     (send_batch last_accepted (drain_entries (length (rp_queue r)) accepted r))\<lparr>rp_stopped := True\<rparr>"

datatype report_event =
    Offer ReportEntry
  | Receive bool
  | Tick bool
  | Stop "nat \<Rightarrow> bool" bool

fun report_step :: "report_event \<Rightarrow> Reporter \<Rightarrow> Reporter" where
  "report_step (Offer e) r = Enqueue e r"
| "report_step (Receive accepted) r = (if rp_stopped r then r else receive_entry accepted r)"
| "report_step (Tick accepted) r = (if rp_stopped r then r else send_batch accepted r)"
| "report_step (Stop accepted last_accepted) r =
     (if rp_stopped r then r else finalDrain accepted last_accepted r)"

definition report_run :: "report_event list \<Rightarrow> Reporter" where
  "report_run es = fold report_step es NewReporter"

definition offered :: "report_event list \<Rightarrow> nat" where
  "offered es = length (filter (\<lambda>e. case e of Offer _ \<Rightarrow> True | _ \<Rightarrow> False) es)"

end
