(* ===== verification/Injection_Proxy.thy ===== *)
theory Injection_Proxy
  imports Egress_Config Egress_Reporter
begin

text \<open>
  The credential-injecting proxy of one route, \<^verbatim>\<open>egressd/internal/egress/proxy.go\<close> and
  \<^verbatim>\<open>broker.go\<close>: the cache of injection material, the request quota, the headers of the outbound
  request and the branches of \<^verbatim>\<open>ServeHTTP\<close>. The broker and the transport are environments: the reply
  to the n-th call and to an outbound request. A reply of the broker is its decoded document with its
  expiry parsed; the wire formats are not modelled. Go maps are lists of pairs in the order in which
  an iteration yields them. A time is an instant in nanoseconds.
\<close>

section \<open>Material\<close>

definition zero_instant :: int where
  "zero_instant = - 62135596800 * 1000000000"

record Material =
  m_Headers :: "(string \<times> string) list"
  m_AppendHeaders :: "(string \<times> string) list"
  m_Strip :: "string list"
  m_ExpiresAt :: int

datatype reply_expiry = ExpiryAbsent | ExpiryMalformed | ExpiryAt int

record injectionResponse =
  ij_OK :: bool
  ij_Headers :: "(string \<times> string) list"
  ij_AppendHeaders :: "(string \<times> string) list"
  ij_Strip :: "string list"
  ij_ExpiresAt :: reply_expiry

record injectionRequest =
  iq_Capability :: string
  iq_Host :: string
  iq_Method :: string
  iq_Path :: string
  iq_Upgrade :: bool

datatype broker_reply = BrokerUnreachable | BrokerStatus int | BrokerUndecodable | BrokerReply injectionResponse

datatype material_error = ErrInjectionDenied | MaterialUnavailable

definition overlappingHeaderNames :: "(string \<times> string) list \<Rightarrow> (string \<times> string) list \<Rightarrow> string list \<Rightarrow> bool" where
  "overlappingHeaderNames headers appendHeaders strip =
     (let restricted = map (CanonicalHeaderKey \<circ> fst) headers @ map CanonicalHeaderKey strip
      in list_ex (\<lambda>(name, _). CanonicalHeaderKey name \<in> set restricted) appendHeaders)"

definition FetchHeaders :: "broker_reply \<Rightarrow> material_error + Material" where
  "FetchHeaders reply =
     (case reply of
        BrokerUnreachable \<Rightarrow> Inl MaterialUnavailable
      | BrokerStatus status \<Rightarrow> Inl (if status = 403 then ErrInjectionDenied else MaterialUnavailable)
      | BrokerUndecodable \<Rightarrow> Inl MaterialUnavailable
      | BrokerReply d \<Rightarrow>
          if \<not> ij_OK d then Inl MaterialUnavailable
          else if overlappingHeaderNames (ij_Headers d) (ij_AppendHeaders d) (ij_Strip d) then Inl MaterialUnavailable
          else let m = \<lparr>m_Headers = ij_Headers d, m_AppendHeaders = ij_AppendHeaders d, m_Strip = ij_Strip d,
                        m_ExpiresAt = zero_instant\<rparr> in
            case ij_ExpiresAt d of
              ExpiryAbsent \<Rightarrow> Inr m
            | ExpiryMalformed \<Rightarrow> Inl MaterialUnavailable
            | ExpiryAt t \<Rightarrow> Inr (m\<lparr>m_ExpiresAt := t\<rparr>))"

section \<open>The cache\<close>

definition expiryMargin :: int where
  "expiryMargin = 30 * 1000000000"

definition maxCacheTTL :: int where
  "maxCacheTTL = 60 * 1000000000"

definition maxCacheEntries :: nat where
  "maxCacheEntries = 256"

record cacheEntry =
  ce_material :: Material
  ce_fetchedAt :: int

record Proxy_env =
  pe_Route :: egress_Route
  pe_broker :: "nat \<Rightarrow> injectionRequest \<Rightarrow> broker_reply"
  pe_now :: "nat \<Rightarrow> int"

record Proxy =
  pr_cache :: "(string \<times> cacheEntry) list"
  pr_requestCount :: int
  pr_calls :: nat
  pr_ticks :: nat

definition proxy_now :: "Proxy_env \<Rightarrow> Proxy \<Rightarrow> int \<times> Proxy" where
  "proxy_now env p = (pe_now env (pr_ticks p), p\<lparr>pr_ticks := Suc (pr_ticks p)\<rparr>)"

definition injectionHost :: "string \<Rightarrow> string" where
  "injectionHost upstream = (case SplitHostPort upstream of None \<Rightarrow> upstream | Some (host, _) \<Rightarrow> host)"

definition brokerInjectionHost :: "egress_Route \<Rightarrow> string" where
  "brokerInjectionHost r = (if er_InjectionHost r \<noteq> [] then er_InjectionHost r else injectionHost (er_Upstream r))"

definition entryValidLocked :: "int \<Rightarrow> cacheEntry \<Rightarrow> bool" where
  "entryValidLocked now entry =
     (if \<not> now < ce_fetchedAt entry + maxCacheTTL then False
      else if m_ExpiresAt (ce_material entry) \<noteq> zero_instant
      then now < m_ExpiresAt (ce_material entry) - expiryMargin
      else True)"

definition format_bool :: "bool \<Rightarrow> string" where
  "format_bool b = (if b then ''true'' else ''false'')"

definition cache_key :: "string \<Rightarrow> string \<Rightarrow> bool \<Rightarrow> string" where
  "cache_key method path upgrade = method @ '' '' @ path @ '' '' @ format_bool upgrade"

text \<open>The part of \<open>material\<close> after a miss; the clock is read for the expiry check only when there is an expiry.\<close>

definition fetch_material :: "Proxy_env \<Rightarrow> string \<Rightarrow> string \<Rightarrow> bool \<Rightarrow> Proxy \<Rightarrow> (material_error + Material) \<times> Proxy" where
  "fetch_material env method path upgrade p =
     (let request = \<lparr>iq_Capability = er_Capability (pe_Route env), iq_Host = brokerInjectionHost (pe_Route env),
                     iq_Method = method, iq_Path = path, iq_Upgrade = upgrade\<rparr>;
          p1 = p\<lparr>pr_calls := Suc (pr_calls p)\<rparr>
      in case FetchHeaders (pe_broker env (pr_calls p) request) of
           Inl e \<Rightarrow> (Inl e, p1)
         | Inr m \<Rightarrow>
             (let (expired, p2) =
                    (if m_ExpiresAt m \<noteq> zero_instant
                     then let (now, p2) = proxy_now env p1 in (\<not> now < m_ExpiresAt m - expiryMargin, p2)
                     else (False, p1))
              in if expired then (Inl MaterialUnavailable, p2)
                 else let cache = (if maxCacheEntries \<le> length (pr_cache p2) then [] else pr_cache p2);
                          (fetchedAt, p3) = proxy_now env p2
                      in (Inr m, p3\<lparr>pr_cache := AList.update (cache_key method path upgrade)
                            \<lparr>ce_material = m, ce_fetchedAt = fetchedAt\<rparr> cache\<rparr>)))"

definition proxy_material :: "Proxy_env \<Rightarrow> string \<Rightarrow> string \<Rightarrow> bool \<Rightarrow> Proxy \<Rightarrow> (material_error + Material) \<times> Proxy" where
  "proxy_material env method path upgrade p =
     (let key = cache_key method path upgrade in
      case map_of (pr_cache p) key of
        Some entry \<Rightarrow>
          (let (now, p1) = proxy_now env p in
           if entryValidLocked now entry then (Inr (ce_material entry), p1)
           else fetch_material env method path upgrade (p1\<lparr>pr_cache := AList.delete key (pr_cache p1)\<rparr>))
      | None \<Rightarrow> fetch_material env method path upgrade p)"

section \<open>The outbound request\<close>

definition hopByHopHeaders :: "string list" where
  "hopByHopHeaders = [''Connection'', ''Keep-Alive'', ''Proxy-Authenticate'', ''Proxy-Authorization'',
     ''Proxy-Connection'', ''Te'', ''Trailer'', ''Transfer-Encoding'', ''Upgrade'']"

definition sensitiveWorkloadHeader :: "string \<Rightarrow> bool" where
  "sensitiveWorkloadHeader name \<longleftrightarrow>
     (let canonical = CanonicalHeaderKey name in
      canonical = ''Authorization'' \<or> canonical = ''Proxy-Authorization'' \<or> prefix ''Impersonate-'' canonical)"

definition containsPlaceholder :: "string list \<Rightarrow> bool" where
  "containsPlaceholder vs = list_ex (\<lambda>v. sublist Placeholder v) vs"

definition header_tokens :: "string list \<Rightarrow> string list" where
  "header_tokens vs = concat (map (\<lambda>v. filter (\<lambda>t. t \<noteq> []) (map trim_space (split_on (CHR '','') v))) vs)"

text \<open>The first occurrence of every token, in order.\<close>

definition unique_tokens :: "string list \<Rightarrow> string list" where
  "unique_tokens ts = rev (remdups (rev ts))"

definition appendHeaderTokens :: "http_header \<Rightarrow> string \<Rightarrow> string \<Rightarrow> http_header" where
  "appendHeaderTokens h name v =
     header_Set h name (join_with '','' (unique_tokens (header_tokens (header_Values h name @ [v]))))"

definition headerHasToken :: "http_header \<Rightarrow> string \<Rightarrow> string \<Rightarrow> bool" where
  "headerHasToken h name token =
     list_ex (\<lambda>v. list_ex (\<lambda>part. equal_fold (trim_space part) token) (split_on (CHR '','') v)) (header_Values h name)"

record proxy_request =
  pq_Method :: string
  pq_RequestURI :: string
  pq_Path :: string
  pq_Header :: http_header

definition isUpgradeRequest :: "proxy_request \<Rightarrow> bool" where
  "isUpgradeRequest r \<longleftrightarrow>
     headerHasToken (pq_Header r) ''Connection'' ''upgrade'' \<and> header_Get (pq_Header r) ''Upgrade'' \<noteq> []"

definition copyUpgradeHeaders :: "http_header \<Rightarrow> http_header \<Rightarrow> http_header" where
  "copyUpgradeHeaders dst src =
     (let dst1 = header_Set dst ''Connection'' ''Upgrade'';
          upgrade = header_Get src ''Upgrade''
      in if upgrade \<noteq> [] then header_Set dst1 ''Upgrade'' upgrade else dst1)"

record outbound_request =
  ob_Method :: string
  ob_URL :: string
  ob_Host :: string
  ob_Header :: http_header

text \<open>The workload header that is carried over.\<close>

definition forwarded_header :: "Material \<Rightarrow> string \<times> string list \<Rightarrow> bool" where
  "forwarded_header m = (\<lambda>(name, values).
     let canonical = CanonicalHeaderKey name in
     \<not> (canonical \<in> set hopByHopHeaders \<or> canonical \<in> set (map CanonicalHeaderKey (m_Strip m))
        \<or> sensitiveWorkloadHeader canonical \<or> canonical = ''Host'')
     \<and> \<not> containsPlaceholder values)"

definition carried_headers :: "Material \<Rightarrow> http_header \<Rightarrow> http_header" where
  "carried_headers m h = fold (\<lambda>(name, values) out. header_put out (CanonicalHeaderKey name) values)
     (filter (forwarded_header m) h) []"

definition injected_headers :: "Material \<Rightarrow> http_header \<Rightarrow> http_header" where
  "injected_headers m h =
     fold (\<lambda>(name, v) out. appendHeaderTokens out name v) (m_AppendHeaders m)
       (fold (\<lambda>(name, v) out. header_Set out name v) (m_Headers m) h)"

text \<open>\<open>http.NewRequest\<close> refuses a method that is no token and an URL that does not parse.\<close>

definition buildOutbound :: "egress_Route \<Rightarrow> proxy_request \<Rightarrow> Material \<Rightarrow> outbound_request option" where
  "buildOutbound route r m =
     (let scheme = (if er_AllowInsecureUpstream route then ''http'' else ''https'');
          url = scheme @ ''://'' @ er_Upstream route @ pq_RequestURI r;
          header = injected_headers m (carried_headers m (pq_Header r))
      in if \<not> list_all header_byte (pq_Method r) \<or> url_Parse url = None then None
         else Some \<lparr>ob_Method = (if pq_Method r = [] then ''GET'' else pq_Method r), ob_URL = url,
                ob_Host = er_Upstream route,
                ob_Header = (if isUpgradeRequest r then copyUpgradeHeaders header (pq_Header r) else header)\<rparr>)"

section \<open>Serving a request\<close>

definition quotaExceeded :: "egress_Route \<Rightarrow> Proxy \<Rightarrow> bool \<times> Proxy" where
  "quotaExceeded route p =
     (if er_MaxRequests route \<le> 0 then (False, p)
      else let n = wrap64 (pr_requestCount p + 1) in (er_MaxRequests route < n, p\<lparr>pr_requestCount := n\<rparr>))"

text \<open>An answer of the transport: its status, and whether an upgraded connection can be relayed and taken over.\<close>

datatype transport_reply = TransportError | TransportResponse int bool bool bool

text \<open>
  The answer to the workload (status 0 when none is written), the request that was sent upstream, and the audit entry.
\<close>

record proxy_result =
  rs_status :: int
  rs_reason :: string
  rs_sent :: "outbound_request option"
  rs_report :: ReportEntry

definition proxy_report :: "egress_Route \<Rightarrow> proxy_request \<Rightarrow> int \<Rightarrow> ReportEntry" where
  "proxy_report route r status = \<lparr>rep_Capability = er_Capability route, rep_Host = brokerInjectionHost route,
     rep_Method = pq_Method r, rep_PathClass = PathClass (pq_Path r), rep_Status = status, rep_Port = 0, rep_Decision = []\<rparr>"

definition refused :: "egress_Route \<Rightarrow> proxy_request \<Rightarrow> int \<Rightarrow> string \<Rightarrow> proxy_result" where
  "refused route r status reason = \<lparr>rs_status = status, rs_reason = reason, rs_sent = None,
     rs_report = proxy_report route r status\<rparr>"

definition serveUpgrade :: "egress_Route \<Rightarrow> proxy_request \<Rightarrow> outbound_request \<Rightarrow> transport_reply \<Rightarrow> proxy_result" where
  "serveUpgrade route r out reply =
     (case reply of
        TransportError \<Rightarrow> (refused route r 502 ''egress-upstream-unreachable'')\<lparr>rs_sent := Some out\<rparr>
      | TransportResponse status bidirectional hijacker hijacked \<Rightarrow>
          if status \<noteq> 101
          then \<lparr>rs_status = status, rs_reason = [], rs_sent = Some out, rs_report = proxy_report route r status\<rparr>
          else if \<not> bidirectional \<or> \<not> hijacker
          then (refused route r 502 ''egress-upgrade-unavailable'')\<lparr>rs_sent := Some out\<rparr>
          else if \<not> hijacked then (refused route r 502 [])\<lparr>rs_status := 0, rs_sent := Some out\<rparr>
          else \<lparr>rs_status = status, rs_reason = [], rs_sent = Some out, rs_report = proxy_report route r status\<rparr>)"

definition Proxy_ServeHTTP :: "Proxy_env \<Rightarrow> (outbound_request \<Rightarrow> transport_reply) \<Rightarrow> proxy_request \<Rightarrow> Proxy
    \<Rightarrow> proxy_result \<times> Proxy" where
  "Proxy_ServeHTTP env transport r p =
     (let route = pe_Route env in
      case proxy_material env (pq_Method r) (pq_RequestURI r) (isUpgradeRequest r) p of
        (Inl ErrInjectionDenied, p1) \<Rightarrow> (refused route r 403 ''egress-injection-forbidden'', p1)
      | (Inl MaterialUnavailable, p1) \<Rightarrow> (refused route r 502 ''egress-injection-unavailable'', p1)
      | (Inr m, p1) \<Rightarrow>
          (case buildOutbound route r m of
             None \<Rightarrow> (refused route r 502 ''egress-request-invalid'', p1)
           | Some out \<Rightarrow>
               (case quotaExceeded route p1 of
                  (True, p2) \<Rightarrow> (refused route r 429 ''egress-quota-exceeded'', p2)
                | (False, p2) \<Rightarrow>
                    if isUpgradeRequest r then (serveUpgrade route r out (transport out), p2)
                    else (case transport out of
                        TransportError \<Rightarrow> ((refused route r 502 ''egress-upstream-unreachable'')\<lparr>rs_sent := Some out\<rparr>, p2)
                      | TransportResponse status _ _ _ \<Rightarrow>
                          (\<lparr>rs_status = status, rs_reason = [], rs_sent = Some out,
                             rs_report = proxy_report route r status\<rparr>, p2)))))"

text \<open>A run of the proxy over the requests it serves, in the order of their quota steps.\<close>

fun proxy_run :: "Proxy_env \<Rightarrow> (outbound_request \<Rightarrow> transport_reply) \<Rightarrow> proxy_request list \<Rightarrow> Proxy
    \<Rightarrow> proxy_result list \<times> Proxy" where
  "proxy_run env transport [] p = ([], p)"
| "proxy_run env transport (r # rs) p =
     (let (x, p1) = Proxy_ServeHTTP env transport r p; (xs, p2) = proxy_run env transport rs p1 in (x # xs, p2))"

definition new_proxy :: Proxy where
  "new_proxy = \<lparr>pr_cache = [], pr_requestCount = 0, pr_calls = 0, pr_ticks = 0\<rparr>"

end
