(* ===== verification/Egress_Safety.thy ===== *)
theory Egress_Safety
  imports Forward_Proxy Injection_Proxy
begin

text \<open>
  Lemmas on the egress proxy: the addresses a resolution yields, the injection routes that the
  initialisation builds, the invariant of the tunnel queue, the headers of an outbound request, the
  cache of injection material and the request quota.
\<close>

section \<open>Addresses\<close>

definition admitted :: "destinationPolicy \<Rightarrow> addr \<Rightarrow> bool" where
  "admitted p a \<longleftrightarrow> addr_allowed p a \<and> unmap a = a"

lemma validated_addresses_ok:
  assumes "validated_addresses p as acc = Some vs" "distinct acc" "\<forall>a \<in> set acc. admitted p a"
  shows "distinct vs \<and> set vs = set acc \<union> unmap ` set as \<and> (\<forall>a \<in> set vs. admitted p a)"
  using assms
proof (induction as arbitrary: acc)
  case (Cons a as)
  let ?acc = "if unmap a \<in> set acc then acc else acc @ [unmap a]"
  have a: "addr_allowed p (unmap a)" "validated_addresses p as ?acc = Some vs"
    using Cons.prems(1) by (simp_all add: Let_def split: if_splits)
  have "admitted p (unmap a)" using a(1) by (simp add: admitted_def)
  then have "distinct ?acc" "\<forall>x \<in> set ?acc. admitted p x" "set ?acc = insert (unmap a) (set acc)"
    using Cons.prems(2,3) by auto
  with Cons.IH [OF a(2)] show ?case by simp
qed simp

lemma validated_addresses_None:
  "validated_addresses p as acc = None \<longleftrightarrow> (\<exists>a \<in> set as. \<not> addr_allowed p (unmap a))"
  by (induction as arbitrary: acc) (simp_all add: Let_def)

lemma resolve_allowed:
  assumes "resolveAllowedAddresses lookup p host = Inr vs"
  shows "distinct vs" "vs \<noteq> []" "\<forall>a \<in> set vs. admitted p a"
    "case parse_addr host of Some literal \<Rightarrow> vs = [unmap literal]
      | None \<Rightarrow> \<exists>as. lookup host = Some as \<and> set vs = unmap ` set as"
proof -
  have "distinct vs \<and> vs \<noteq> [] \<and> (\<forall>a \<in> set vs. admitted p a)
    \<and> (case parse_addr host of Some literal \<Rightarrow> vs = [unmap literal]
      | None \<Rightarrow> \<exists>as. lookup host = Some as \<and> set vs = unmap ` set as)"
  proof (cases "parse_addr host")
    case (Some literal)
    then show ?thesis using assms by (auto simp: resolveAllowedAddresses_def admitted_def split: if_splits)
  next
    case None
    then obtain as validated where as: "lookup host = Some as" "as \<noteq> []"
      "validated_addresses p as [] = Some validated" "vs = filter is4 validated @ filter (\<lambda>a. \<not> is4 a) validated"
      using assms by (auto simp: resolveAllowedAddresses_def split: option.splits list.splits)
    have v: "distinct validated" "set validated = unmap ` set as" "\<forall>a \<in> set validated. admitted p a"
      using validated_addresses_ok [OF as(3)] by auto
    have set: "set vs = set validated" by (auto simp: as(4))
    have "vs \<noteq> []" using v(2) as(2) set by (metis image_is_empty set_empty)
    moreover have "distinct vs" using v(1) by (auto simp: as(4))
    ultimately show ?thesis using v(2,3) as(1) None set by simp
  qed
  then show "distinct vs" "vs \<noteq> []" "\<forall>a \<in> set vs. admitted p a"
    "case parse_addr host of Some literal \<Rightarrow> vs = [unmap literal]
      | None \<Rightarrow> \<exists>as. lookup host = Some as \<and> set vs = unmap ` set as" by blast+
qed

text \<open>A CONNECT target never carries a zone.\<close>

lemma name_no_percent: "normalizeDomainName h = Some n \<Longrightarrow> CHR ''%'' \<notin> set n"
  using normalizeDomainName_Some [of h n] labels_name_chars [of n]
  by (auto simp: list_all_iff name_char_def lowerAlphaNumeric_def byte_def)

lemma dialled:
  assumes "dialResolvedAddresses env as port = Some a"
  shows "a \<in> set as"
  using assms by (auto simp: dialResolvedAddresses_def dest: find_Some_set)

section \<open>Injection routes\<close>

lemma routes_of_update:
  "routes_of (AList.update k v m) host = (if host = k then v else routes_of m host)"
  by (simp add: routes_of_def AList.update_conv')

lemma add_inject_routes_of:
  "routes_of (add_inject_routes rs m) host = routes_of m host @
     map (inject_proxy_of host) (filter (\<lambda>r. normalizeProxyHost (ir_Host r) = Some host) rs)"
  by (induction rs m rule: add_inject_routes.induct) (auto simp: routes_of_update split: option.splits)

lemma init_routes:
  "routes_of (px_injectProxies (init_proxy defaults c)) host =
     map (inject_proxy_of host) (filter (\<lambda>r. normalizeProxyHost (ir_Host r) = Some host) (fp_InjectRoutes c))"
  by (simp add: init_proxy_def add_inject_routes_of) (simp add: routes_of_def)

lemma some_values_set: "set (some_values xs) = {x. Some x \<in> set xs}"
  by (auto simp: some_values_def split: option.splits)

lemma inject_overlap_disjoint:
  assumes "inject_overlap pem_ok routeHosts blindHosts seen i rs = None" "r \<in> set rs"
  shows "\<exists>host. normalizeProxyHost (ir_Host r) = Some host \<and> host \<notin> set blindHosts \<and> host \<notin> set routeHosts
    \<and> inject_route_error pem_ok r = None \<and> \<not> net_parse_ip host"
  using assms
  by (induction pem_ok routeHosts blindHosts seen i rs rule: inject_overlap.induct)
     (auto simp: Let_def split: option.splits if_splits)

lemma choice_cases:
  assumes "injectProxy_for p host hint = RouteFound r \<or> transparentInjectProxy p host hint = RouteFound r"
  shows "r \<in> set (routes_of (px_injectProxies p) host)"
    "if hint \<noteq> [] then ip_capability r = hint else auto_routes (routes_of (px_injectProxies p) host) = [r]"
proof -
  have "r \<in> set (routes_of (px_injectProxies p) host) \<and>
    (if hint \<noteq> [] then ip_capability r = hint else auto_routes (routes_of (px_injectProxies p) host) = [r])"
  proof (cases "hint = []")
    case True
    then have "auto_routes (routes_of (px_injectProxies p) host) = [r]"
      using assms by (auto simp: injectProxy_for_def transparentInjectProxy_def Let_def split: if_splits list.splits)
    moreover from this have "r \<in> set (auto_routes (routes_of (px_injectProxies p) host))" by simp
    then have "r \<in> set (routes_of (px_injectProxies p) host)" by (simp add: auto_routes_def)
    ultimately show ?thesis using True by simp
  next
    case False
    then have "find (\<lambda>r. ip_capability r = hint) (routes_of (px_injectProxies p) host) = Some r"
      using assms by (auto simp: injectProxy_for_def transparentInjectProxy_def Let_def split: if_splits option.splits)
    then show ?thesis using False by (auto dest: find_Some_set)
  qed
  then show "r \<in> set (routes_of (px_injectProxies p) host)"
    "if hint \<noteq> [] then ip_capability r = hint else auto_routes (routes_of (px_injectProxies p) host) = [r]" by auto
qed

section \<open>The tunnel queue\<close>

lemma count_list_update:
  "i < length xs \<Longrightarrow> count_list (xs[i := y]) z + (if xs ! i = z then 1 else 0) =
     count_list xs z + (if y = z then 1 else 0)"
proof (induction xs arbitrary: i)
  case (Cons x xs)
  show ?case
  proof (cases i)
    case (Suc j)
    then show ?thesis using Cons.IH [of j] Cons.prems by (simp split: if_splits)
  qed simp
qed simp

definition tunnel_inv :: "nat \<Rightarrow> tunnel_state \<Rightarrow> bool" where
  "tunnel_inv cap s \<longleftrightarrow>
     (let n = count_list (tn_phases s) in
      tn_slots s = n Active + n Promoted \<and> tn_slots s \<le> cap
      \<and> tn_queue s = n Queued + n Promoted \<and> tn_queue s \<le> cap
      \<and> tn_active s = int (n Active) \<and> tn_queued s = int (tn_queue s)
      \<and> tn_admitted s + tn_rejected s = n Active + n Finished \<and> tn_timedOut s \<le> tn_rejected s)"

lemma phase_counts:
  assumes "at_phase s i ph"
  shows "0 < count_list (tn_phases s) ph"
    "count_list ((tn_phases s)[i := ph']) z =
      count_list (tn_phases s) z + (if ph' = z then 1 else 0) - (if ph = z then 1 else 0)"
proof -
  have i: "i < length (tn_phases s)" "tn_phases s ! i = ph" using assms by (auto simp: at_phase_def)
  then have "ph \<in> set (tn_phases s)" by auto
  then show "0 < count_list (tn_phases s) ph" by (simp add: count_list_0_iff neq0_conv [symmetric] del: neq0_conv)
  show "count_list ((tn_phases s)[i := ph']) z =
      count_list (tn_phases s) z + (if ph' = z then 1 else 0) - (if ph = z then 1 else 0)"
    using count_list_update [OF i(1), of ph' z] i(2) by (auto split: if_splits)
qed

lemma tunnel_step_inv:
  assumes "tunnel_inv cap s" "tunnel_step cap e s = Some s'"
  shows "tunnel_inv cap s'"
  using assms
  by (cases e)
     (auto simp: tunnel_inv_def Let_def to_phase_def phase_counts(2) split: if_splits; frule phase_counts(1); simp)+

section \<open>Outbound headers\<close>

lemma map_of_put: "map_of (header_put h k vs) x = (if x = k then Some vs else map_of h x)"
  by (simp add: header_put_def AList.update_conv')

lemma set_put: "set (header_put h k vs) \<subseteq> insert (k, vs) (set h)"
  unfolding header_put_def by (induction h) auto

text \<open>A workload header is carried over under its canonical name, and only when nothing blocks that name.\<close>

definition blocked :: "Material \<Rightarrow> string \<Rightarrow> bool" where
  "blocked m k \<longleftrightarrow> k \<in> set hopByHopHeaders \<or> k \<in> set (map CanonicalHeaderKey (m_Strip m))
     \<or> sensitiveWorkloadHeader k \<or> k = ''Host''"

definition carried_ok :: "Material \<Rightarrow> string \<times> string list \<Rightarrow> bool" where
  "carried_ok m f \<longleftrightarrow> \<not> blocked m (fst f) \<and> \<not> containsPlaceholder (snd f)"

lemma carried_fold:
  assumes "list_all (forwarded_header m) xs" "list_all (carried_ok m) out"
  shows "list_all (carried_ok m) (fold (\<lambda>(name, values) out. header_put out (CanonicalHeaderKey name) values) xs out)"
  using assms
proof (induction xs arbitrary: out)
  case (Cons x xs)
  obtain name v where x: "x = (name, v)" by (cases x)
  have "carried_ok m (CanonicalHeaderKey name, v)"
    using Cons.prems(1) by (auto simp: x forwarded_header_def blocked_def carried_ok_def Let_def)
  then have "list_all (carried_ok m) (header_put out (CanonicalHeaderKey name) v)"
    using Cons.prems(2) set_put [of out "CanonicalHeaderKey name" v] by (auto simp: list_all_iff)
  with Cons show ?case by (simp add: x)
qed simp

lemma carried_keys:
  assumes "(k, vs) \<in> set (carried_headers m h)"
  shows "\<not> blocked m k \<and> \<not> containsPlaceholder vs"
proof -
  have "list_all (carried_ok m) (carried_headers m h)"
    unfolding carried_headers_def by (rule carried_fold) (simp_all add: list_all_iff)
  with assms show ?thesis by (auto simp: list_all_iff carried_ok_def)
qed

lemma carried_blocked: "blocked m k \<Longrightarrow> map_of (carried_headers m h) k = None"
  using carried_keys by (metis map_of_SomeD not_None_eq)

text \<open>What is injected under a name depends on the carried headers of that name only.\<close>

lemma append_local:
  assumes "map_of h k = map_of h' k"
  shows "map_of (appendHeaderTokens h name v) k = map_of (appendHeaderTokens h' name v) k"
  using assms by (auto simp: appendHeaderTokens_def header_Set_def map_of_put header_Values_def)

lemma injected_local:
  assumes "map_of h k = map_of h' k"
  shows "map_of (injected_headers m h) k = map_of (injected_headers m h') k"
proof -
  have local: "map_of (fold (\<lambda>(name, v) out. f out name v) xs h) k = map_of (fold (\<lambda>(name, v) out. f out name v) xs h') k"
    if "map_of h k = map_of h' k" "\<And>h h' name v. map_of h k = map_of h' k \<Longrightarrow> map_of (f h name v) k = map_of (f h' name v) k"
    for f :: "http_header \<Rightarrow> string \<Rightarrow> string \<Rightarrow> http_header" and xs h h'
    using that(1)
  proof (induction xs arbitrary: h h')
    case (Cons x xs)
    show ?case using Cons.IH [OF that(2) [OF Cons.prems]] by (cases x) simp
  qed simp
  have "map_of (header_Set h name v) k = map_of (header_Set h' name v) k" if "map_of h k = map_of h' k" for h h' name v
    using that by (simp add: header_Set_def map_of_put)
  then show ?thesis
    unfolding injected_headers_def by (intro local append_local assms)
qed

lemma upgrade_local:
  "k \<noteq> ''Connection'' \<Longrightarrow> k \<noteq> ''Upgrade'' \<Longrightarrow> map_of (copyUpgradeHeaders dst src) k = map_of dst k"
  by (auto simp: copyUpgradeHeaders_def Let_def header_Set_def map_of_put CanonicalHeaderKey_def header_byte_def
      letter_def byte_def upper_byte_def lower_byte_def)

section \<open>The placeholder\<close>

lemma sublist_split_char:
  assumes "sublist x (a @ c # b)" "c \<notin> set x"
  shows "sublist x a \<or> sublist x b"
proof -
  from assms(1) consider "sublist x a" | "sublist x (c # b)" | x1 x2 where "x = x1 @ x2" "suffix x1 a" "prefix x2 (c # b)"
    by (auto simp: sublist_append)
  then show ?thesis
  proof cases
    case 2
    then have "prefix x (c # b) \<or> sublist x b" by (auto simp: sublist_Cons_right)
    then show ?thesis using assms(2) by (cases x) auto
  next
    case 3
    with assms(2) have "x2 = []" by (cases x2) auto
    with 3 show ?thesis by auto
  qed simp
qed

lemma sublist_join:
  assumes "sublist x (join_with [c] ws)" "c \<notin> set x" "x \<noteq> []"
  shows "\<exists>w \<in> set ws. sublist x w"
  using assms(1)
proof (induction ws rule: induct_list012)
  case (3 w w' ws)
  then have "sublist x w \<or> sublist x (join_with [c] (w' # ws))"
    using sublist_split_char [OF _ assms(2)] by simp
  with 3 show ?case by auto
qed (use assms(3) in auto)

lemma join_sublist: "w \<in> set ws \<Longrightarrow> sublist w (join_with sep ws)"
proof (induction ws rule: induct_list012)
  case (3 v v' ws)
  have "sublist v (v @ sep @ join_with sep (v' # ws))" "sublist (join_with sep (v' # ws)) (v @ sep @ join_with sep (v' # ws))"
    by (auto simp: sublist_append)
  with 3 show ?case by (auto dest: sublist_order.order_trans)
qed auto

lemma trim_sublist: "sublist (trim_space s) s"
proof -
  define rs where "rs = dropWhile (\<lambda>(r, _). is_space r) (runes s)"
  define mid where "mid = rev (dropWhile (\<lambda>(r, _). is_space r) (rev rs))"
  obtain pre where pre: "runes s = pre @ rs" unfolding rs_def by (metis takeWhile_dropWhile_id)
  obtain post where post: "rs = mid @ post"
    unfolding mid_def by (metis rev_append rev_rev_ident takeWhile_dropWhile_id)
  have "s = concat (map snd (runes s))" by (simp add: runes_bytes)
  also have "\<dots> = concat (map snd pre) @ concat (map snd mid) @ concat (map snd post)"
    unfolding pre post by simp
  finally show ?thesis
    unfolding trim_space_def rs_def [symmetric] mid_def [symmetric] by (metis sublist_appendI)
qed

end
