(* ===== verification/Injection_Safety.thy ===== *)
theory Injection_Safety
  imports Egress_Safety
begin

text \<open>
  Lemmas on the injecting proxy over a run: no placeholder in what is sent, where cached material
  comes from, how old it can be, and how many requests a quota lets through.
\<close>

section \<open>No placeholder\<close>

definition clean_header :: "http_header \<Rightarrow> bool" where
  "clean_header h \<longleftrightarrow> list_all (\<lambda>(_, vs). \<not> containsPlaceholder vs) h"

definition clean_material :: "Material \<Rightarrow> bool" where
  "clean_material m \<longleftrightarrow> list_all (\<lambda>(_, v). \<not> sublist Placeholder v) (m_Headers m @ m_AppendHeaders m)"

lemma clean_put: "clean_header h \<Longrightarrow> \<not> containsPlaceholder vs \<Longrightarrow> clean_header (header_put h k vs)"
  using set_put [of h k vs] by (auto simp: clean_header_def list_all_iff)

lemma clean_values:
  assumes "clean_header h" "v \<in> set (header_Values h name)"
  shows "\<not> sublist Placeholder v"
proof -
  obtain vs where vs: "map_of h (CanonicalHeaderKey name) = Some vs" "v \<in> set vs"
    using assms(2) by (cases "map_of h (CanonicalHeaderKey name)") (simp_all add: header_Values_def)
  then have "(CanonicalHeaderKey name, vs) \<in> set h" by (simp add: map_of_SomeD)
  with assms(1) vs(2) show ?thesis by (auto simp: clean_header_def containsPlaceholder_def list_all_iff list_ex_iff)
qed

lemma token_sublist:
  assumes "t \<in> set (header_tokens vs)"
  shows "\<exists>v \<in> set vs. sublist t v"
proof -
  obtain v w where v: "v \<in> set vs" "w \<in> set (split_on (CHR '','') v)" "t = trim_space w"
    using assms by (auto simp: header_tokens_def)
  have "sublist w (join_with [CHR '',''] (split_on (CHR '','') v))" using v(2) by (rule join_sublist)
  then have "sublist w v" by (simp add: join_split)
  then show ?thesis using v trim_sublist [of w] by (metis sublist_order.order_trans)
qed

lemma append_clean:
  assumes "clean_header h" "\<not> sublist Placeholder v"
  shows "clean_header (appendHeaderTokens h name v)"
proof -
  let ?ts = "unique_tokens (header_tokens (header_Values h name @ [v]))"
  have "\<not> sublist Placeholder t" if "t \<in> set ?ts" for t
  proof -
    have "t \<in> set (header_tokens (header_Values h name @ [v]))" using that by (simp add: unique_tokens_def)
    then obtain u where "u \<in> set (header_Values h name @ [v])" "sublist t u" using token_sublist by blast
    then show ?thesis using assms clean_values [OF assms(1)] by (auto dest: sublist_order.order_trans)
  qed
  then have "\<not> sublist Placeholder (join_with '','' ?ts)"
    using sublist_join [of Placeholder "CHR '',''" ?ts] by (auto simp: Placeholder_def)
  then show ?thesis
    unfolding appendHeaderTokens_def header_Set_def using assms(1) by (intro clean_put) (simp_all add: containsPlaceholder_def)
qed

lemma injected_clean:
  assumes "clean_header h" "clean_material m"
  shows "clean_header (injected_headers m h)"
proof -
  have fold: "clean_header (fold (\<lambda>(name, v) out. f out name v) xs h)"
    if "clean_header h" "list_all (\<lambda>(_, v). \<not> sublist Placeholder v) xs"
      "\<And>h name v. clean_header h \<Longrightarrow> \<not> sublist Placeholder v \<Longrightarrow> clean_header (f h name v)"
    for f :: "http_header \<Rightarrow> string \<Rightarrow> string \<Rightarrow> http_header" and xs h
    using that(1,2)
  proof (induction xs arbitrary: h)
    case (Cons x xs)
    then show ?case using that(3) by (cases x) simp
  qed simp
  have set: "clean_header (header_Set h name v)" if "clean_header h" "\<not> sublist Placeholder v" for h name v
    unfolding header_Set_def using that by (intro clean_put) (simp_all add: containsPlaceholder_def)
  have m: "list_all (\<lambda>(_, v). \<not> sublist Placeholder v) (m_Headers m)"
    "list_all (\<lambda>(_, v). \<not> sublist Placeholder v) (m_AppendHeaders m)"
    using assms(2) by (simp_all add: clean_material_def)
  show ?thesis
    unfolding injected_headers_def using fold [OF fold [OF assms(1) m(1) set] m(2) append_clean] by simp
qed

lemma carried_clean: "clean_header (carried_headers m h)"
  using carried_keys by (auto simp: clean_header_def list_all_iff)

section \<open>Cached material\<close>

definition request_for :: "Proxy_env \<Rightarrow> string \<Rightarrow> string \<Rightarrow> bool \<Rightarrow> injectionRequest" where
  "request_for env method path upgrade = \<lparr>iq_Capability = er_Capability (pe_Route env),
     iq_Host = brokerInjectionHost (pe_Route env), iq_Method = method, iq_Path = path, iq_Upgrade = upgrade\<rparr>"

definition answered :: "Proxy_env \<Rightarrow> nat \<Rightarrow> string \<Rightarrow> string \<Rightarrow> bool \<Rightarrow> Material \<Rightarrow> bool" where
  "answered env n method path upgrade m \<longleftrightarrow>
     FetchHeaders (pe_broker env n (request_for env method path upgrade)) = Inr m"

lemma cache_key_inject:
  assumes "cache_key a p u = cache_key b q v" "CHR '' '' \<notin> set a" "CHR '' '' \<notin> set b"
  shows "a = b \<and> p = q \<and> u = v"
proof -
  have "takeWhile (\<lambda>c. c \<noteq> CHR '' '') (cache_key a p u) = a" "takeWhile (\<lambda>c. c \<noteq> CHR '' '') (cache_key b q v) = b"
    using assms(2,3) by (auto simp: cache_key_def takeWhile_append takeWhile_eq_all_conv)
  with assms(1) have ab: "a = b" by simp
  with assms(1) have "rev (p @ '' '' @ format_bool u) = rev (q @ '' '' @ format_bool v)" by (simp add: cache_key_def)
  with ab show ?thesis by (cases u; cases v) (simp_all add: format_bool_def)
qed

text \<open>Every cached entry is an earlier answer of the broker to the request its key spells out.\<close>

definition entry_ok :: "Proxy_env \<Rightarrow> Proxy \<Rightarrow> string \<times> cacheEntry \<Rightarrow> bool" where
  "entry_ok env p = (\<lambda>(key, e). \<exists>n method path upgrade. n < pr_calls p \<and> CHR '' '' \<notin> set method
     \<and> key = cache_key method path upgrade \<and> answered env n method path upgrade (ce_material e)
     \<and> (\<exists>j < pr_ticks p. ce_fetchedAt e = pe_now env j))"

definition cache_ok :: "Proxy_env \<Rightarrow> Proxy \<Rightarrow> bool" where
  "cache_ok env p \<longleftrightarrow> list_all (entry_ok env p) (pr_cache p)"

lemma entry_mono: "entry_ok env p e \<Longrightarrow> pr_calls p \<le> pr_calls q \<Longrightarrow> pr_ticks p \<le> pr_ticks q \<Longrightarrow> entry_ok env q e"
  by (cases e) (fastforce simp: entry_ok_def intro: less_le_trans)

lemma cache_mono:
  "cache_ok env p \<Longrightarrow> set (pr_cache q) \<subseteq> set (pr_cache p) \<Longrightarrow> pr_calls p \<le> pr_calls q \<Longrightarrow> pr_ticks p \<le> pr_ticks q
     \<Longrightarrow> cache_ok env q"
  by (auto simp: cache_ok_def list_all_iff intro: entry_mono)

lemma update_set: "set (AList.update k v al) \<subseteq> insert (k, v) (set al)"
  by (induction al) auto

definition not_expired :: "int \<Rightarrow> Material \<Rightarrow> bool" where
  "not_expired now m \<longleftrightarrow> (m_ExpiresAt m \<noteq> zero_instant \<longrightarrow> now < m_ExpiresAt m - expiryMargin)"

lemma fetch_material_ok:
  assumes "cache_ok env p" "CHR '' '' \<notin> set method" "fetch_material env method path upgrade p = (res, p')"
  shows "cache_ok env p' \<and> pr_calls p' = Suc (pr_calls p) \<and> pr_ticks p \<le> pr_ticks p'
    \<and> pr_requestCount p' = pr_requestCount p
    \<and> (\<forall>m. res = Inr m \<longrightarrow> answered env (pr_calls p) method path upgrade m \<and> not_expired (pe_now env (pr_ticks p)) m)"
proof (cases "FetchHeaders (pe_broker env (pr_calls p) (request_for env method path upgrade))")
  case (Inl e)
  then have "res = Inl e" "p' = p\<lparr>pr_calls := Suc (pr_calls p)\<rparr>"
    using assms(3) by (auto simp: fetch_material_def request_for_def Let_def)
  then show ?thesis using assms(1) by (auto intro: cache_mono)
next
  case (Inr m)
  define p1 where "p1 = p\<lparr>pr_calls := Suc (pr_calls p)\<rparr>"
  define p2 where "p2 = (if m_ExpiresAt m \<noteq> zero_instant then p1\<lparr>pr_ticks := Suc (pr_ticks p1)\<rparr> else p1)"
  have reply: "answered env (pr_calls p) method path upgrade m" using Inr by (simp add: answered_def)
  have p2: "pr_cache p2 = pr_cache p" "pr_calls p2 = Suc (pr_calls p)" "pr_ticks p \<le> pr_ticks p2"
    "pr_requestCount p2 = pr_requestCount p"
    by (simp_all add: p2_def p1_def)
  show ?thesis
  proof (cases "not_expired (pe_now env (pr_ticks p)) m")
    case False
    then have "res = Inl MaterialUnavailable" "p' = p2"
      using assms(3) Inr by (auto simp: fetch_material_def request_for_def not_expired_def proxy_now_def p2_def p1_def Let_def split: if_splits)
    then show ?thesis using assms(1) p2 by (auto intro: cache_mono)
  next
    case True
    define entry where "entry = \<lparr>ce_material = m, ce_fetchedAt = pe_now env (pr_ticks p2)\<rparr>"
    define cache where "cache = (if maxCacheEntries \<le> length (pr_cache p) then [] else pr_cache p)"
    have res: "res = Inr m" "p' = p2\<lparr>pr_ticks := Suc (pr_ticks p2),
        pr_cache := AList.update (cache_key method path upgrade) entry cache\<rparr>"
      using assms(3) Inr True
      by (auto simp: fetch_material_def request_for_def not_expired_def proxy_now_def p2_def p1_def Let_def entry_def cache_def split: if_splits)
    have "entry_ok env p' (cache_key method path upgrade, entry)"
    proof -
      have "pr_calls p < pr_calls p'" "pr_ticks p2 < pr_ticks p'" by (simp_all add: res p2)
      then show ?thesis using reply assms(2) unfolding entry_ok_def prod.case entry_def cacheEntry.simps by blast
    qed
    moreover have "entry_ok env p' x" if "x \<in> set cache" for x
      using that assms(1) p2 by (auto simp: cache_ok_def list_all_iff cache_def res intro: entry_mono split: if_splits)
    ultimately have "cache_ok env p'"
      using update_set [of "cache_key method path upgrade" entry cache] by (auto simp: cache_ok_def list_all_iff res(2))
    then show ?thesis using reply True p2 by (simp add: res)
  qed
qed

end
