(* ===== verification/Egress_Runs.thy ===== *)
theory Egress_Runs
  imports Injection_Safety
begin

text \<open>
  Lemmas on runs of the egress proxy: the origin and age of the material that is injected, the
  request counter, and the accounting of the audit queue.
\<close>

section \<open>Material over a run\<close>

text \<open>
  Material that may be injected now: an answer of the broker to exactly this request, which is either
  the answer to the present call or was stored less than the cache bound ago, and not about to expire
  at one of the clock readings of the call.
\<close>

definition usable :: "Proxy_env \<Rightarrow> Proxy \<Rightarrow> string \<Rightarrow> string \<Rightarrow> bool \<Rightarrow> Material \<Rightarrow> bool" where
  "usable env p method path upgrade m \<longleftrightarrow>
     (\<exists>n \<le> pr_calls p. answered env n method path upgrade m \<and>
        (n = pr_calls p \<or> (\<exists>j < pr_ticks p. pe_now env (pr_ticks p) < pe_now env j + maxCacheTTL)))
     \<and> (not_expired (pe_now env (pr_ticks p)) m \<or> not_expired (pe_now env (Suc (pr_ticks p))) m)"

lemma material_ok:
  assumes "cache_ok env p" "CHR '' '' \<notin> set method" "proxy_material env method path upgrade p = (res, p')"
  shows "cache_ok env p' \<and> pr_requestCount p' = pr_requestCount p \<and> (\<forall>m. res = Inr m \<longrightarrow> usable env p method path upgrade m)"
proof (cases "map_of (pr_cache p) (cache_key method path upgrade)")
  case None
  then have "fetch_material env method path upgrade p = (res, p')" using assms(3) by (simp add: proxy_material_def Let_def)
  from fetch_material_ok [OF assms(1,2) this] show ?thesis unfolding usable_def by blast
next
  case (Some entry)
  let ?now = "pe_now env (pr_ticks p)" and ?p1 = "p\<lparr>pr_ticks := Suc (pr_ticks p)\<rparr>"
  have "entry_ok env p (cache_key method path upgrade, entry)"
    using assms(1) map_of_SomeD [OF Some] by (simp add: cache_ok_def list_all_iff)
  then obtain n method' path' upgrade' j where e: "n < pr_calls p" "CHR '' '' \<notin> set method'"
    "cache_key method path upgrade = cache_key method' path' upgrade'"
    "answered env n method' path' upgrade' (ce_material entry)" "j < pr_ticks p" "ce_fetchedAt entry = pe_now env j"
    by (auto simp: entry_ok_def)
  have same: "method' = method" "path' = path" "upgrade' = upgrade"
    using cache_key_inject [OF e(3) assms(2) e(2)] by auto
  show ?thesis
  proof (cases "entryValidLocked ?now entry")
    case True
    then have "res = Inr (ce_material entry)" "p' = ?p1"
      using assms(3) Some by (simp_all add: proxy_material_def proxy_now_def Let_def)
    moreover have "?now < pe_now env j + maxCacheTTL" "not_expired ?now (ce_material entry)"
      using True by (simp_all add: entryValidLocked_def not_expired_def e(6) split: if_splits)
    moreover have "cache_ok env ?p1" using assms(1) by (rule cache_mono) simp_all
    ultimately show ?thesis
      using e(1,4,5) unfolding usable_def same by (auto intro: less_imp_le)
  next
    case False
    let ?p2 = "?p1\<lparr>pr_cache := AList.delete (cache_key method path upgrade) (pr_cache p)\<rparr>"
    have fetch: "fetch_material env method path upgrade ?p2 = (res, p')"
      using assms(3) Some False by (simp add: proxy_material_def proxy_now_def Let_def)
    have "cache_ok env ?p2" using assms(1) by (rule cache_mono) (auto simp: AList.delete_eq)
    from fetch_material_ok [OF this assms(2) fetch] show ?thesis unfolding usable_def by auto
  qed
qed

text \<open>A state of the proxy that requests lead to.\<close>

definition token_methods :: "proxy_request list \<Rightarrow> bool" where
  "token_methods rs \<longleftrightarrow> list_all (\<lambda>r. CHR '' '' \<notin> set (pq_Method r)) rs"

lemma ServeHTTP_state:
  assumes "Proxy_ServeHTTP env transport r p = (x, p')" "proxy_material env (pq_Method r) (pq_RequestURI r) (isUpgradeRequest r) p = (res, p1)"
  shows "pr_cache p' = pr_cache p1 \<and> pr_calls p' = pr_calls p1 \<and> pr_ticks p' = pr_ticks p1"
  using assms
  by (auto simp: Proxy_ServeHTTP_def quotaExceeded_def Let_def
      split: sum.splits material_error.splits option.splits if_splits prod.splits bool.splits transport_reply.splits)

lemma cache_ok_cong:
  "pr_cache q = pr_cache p \<Longrightarrow> pr_calls q = pr_calls p \<Longrightarrow> pr_ticks q = pr_ticks p \<Longrightarrow> cache_ok env p \<Longrightarrow> cache_ok env q"
  by (rule cache_mono [of env p q]) simp_all

lemma run_cache_ok:
  assumes "cache_ok env p" "token_methods rs" "proxy_run env transport rs p = (xs, p')"
  shows "cache_ok env p'"
  using assms
proof (induction rs arbitrary: p xs)
  case (Cons r rs)
  obtain x p1 where serve: "Proxy_ServeHTTP env transport r p = (x, p1)" by (cases "Proxy_ServeHTTP env transport r p")
  obtain ys p2 where rest: "proxy_run env transport rs p1 = (ys, p2)" by (cases "proxy_run env transport rs p1")
  obtain res q where m: "proxy_material env (pq_Method r) (pq_RequestURI r) (isUpgradeRequest r) p = (res, q)"
    by (cases "proxy_material env (pq_Method r) (pq_RequestURI r) (isUpgradeRequest r) p")
  have "CHR '' '' \<notin> set (pq_Method r)" using Cons.prems(2) by (simp add: token_methods_def)
  then have "cache_ok env q" by (rule material_ok [OF Cons.prems(1) _ m, THEN conjunct1])
  moreover have "pr_cache p1 = pr_cache q" "pr_calls p1 = pr_calls q" "pr_ticks p1 = pr_ticks q"
    using ServeHTTP_state [OF serve m] by simp_all
  ultimately have "cache_ok env p1" by (metis cache_ok_cong)
  moreover have "token_methods rs" using Cons.prems(2) by (simp add: token_methods_def)
  moreover have "proxy_run env transport rs p1 = (ys, p')" using Cons.prems(3) serve rest by simp
  ultimately show ?case by (rule Cons.IH)
qed simp

lemma new_cache_ok: "cache_ok env new_proxy"
  by (simp add: cache_ok_def new_proxy_def)

section \<open>The quota\<close>

lemma wrap64_id: "- (2 ^ 63) \<le> i \<Longrightarrow> i < 2 ^ 63 \<Longrightarrow> wrap64 i = i"
  by (simp add: wrap64_def sint_sbintrunc' signed_take_bit_int_eq_self)

lemma material_count:
  assumes "proxy_material env method path upgrade p = (res, p')"
  shows "pr_requestCount p' = pr_requestCount p"
  using assms
  by (auto simp: proxy_material_def fetch_material_def proxy_now_def Let_def
      split: option.splits sum.splits if_splits prod.splits)

text \<open>A request reaches the upstream only when the counter it raised is within the limit.\<close>

lemma ServeHTTP_count:
  assumes "Proxy_ServeHTTP env transport r p = (x, p')" "0 < er_MaxRequests (pe_Route env)"
    "0 \<le> pr_requestCount p" "pr_requestCount p + 1 < 2 ^ 63"
  shows "(pr_requestCount p' = pr_requestCount p \<and> rs_sent x = None)
    \<or> (pr_requestCount p' = pr_requestCount p + 1 \<and> (rs_sent x \<noteq> None \<longrightarrow> pr_requestCount p' \<le> er_MaxRequests (pe_Route env)))"
proof -
  obtain res q where m: "proxy_material env (pq_Method r) (pq_RequestURI r) (isUpgradeRequest r) p = (res, q)"
    by (cases "proxy_material env (pq_Method r) (pq_RequestURI r) (isUpgradeRequest r) p")
  have c: "pr_requestCount q = pr_requestCount p" using m by (rule material_count)
  have w: "wrap64 (pr_requestCount p + 1) = pr_requestCount p + 1" using assms(3,4) by (intro wrap64_id) simp_all
  show ?thesis
    using assms(1,2) c unfolding Proxy_ServeHTTP_def Let_def m
    by (auto simp: quotaExceeded_def Let_def w refused_def
        split: sum.splits material_error.splits option.splits if_splits bool.splits transport_reply.splits)
qed

lemma run_count:
  assumes "proxy_run env transport rs p = (xs, p')" "0 < er_MaxRequests (pe_Route env)"
    "0 \<le> pr_requestCount p" "pr_requestCount p + int (length rs) < 2 ^ 63"
  shows "int (length (filter (\<lambda>x. rs_sent x \<noteq> None) xs)) \<le> max 0 (er_MaxRequests (pe_Route env) - pr_requestCount p)"
  using assms
proof (induction rs arbitrary: p xs)
  case (Cons r rs)
  obtain x p1 where serve: "Proxy_ServeHTTP env transport r p = (x, p1)" by (cases "Proxy_ServeHTTP env transport r p")
  obtain ys p2 where rest: "proxy_run env transport rs p1 = (ys, p2)" by (cases "proxy_run env transport rs p1")
  have xs: "xs = x # ys" "p' = p2" using Cons.prems(1) serve rest by simp_all
  have count: "(pr_requestCount p1 = pr_requestCount p \<and> rs_sent x = None)
    \<or> (pr_requestCount p1 = pr_requestCount p + 1 \<and> (rs_sent x \<noteq> None \<longrightarrow> pr_requestCount p1 \<le> er_MaxRequests (pe_Route env)))"
    by (rule ServeHTTP_count [OF serve]) (use Cons.prems in simp_all)
  have "int (length (filter (\<lambda>x. rs_sent x \<noteq> None) ys)) \<le> max 0 (er_MaxRequests (pe_Route env) - pr_requestCount p1)"
    by (rule Cons.IH) (use rest count Cons.prems xs in auto)
  then show ?case using count by (auto simp: xs(1))
qed simp

section \<open>The audit queue\<close>

definition report_inv :: "Reporter \<Rightarrow> bool" where
  "report_inv r \<longleftrightarrow> length (rp_queue r) \<le> defaultReportQueueSize \<and> length (rp_batch r) < defaultReportBatchSize"

definition accounted :: "Reporter \<Rightarrow> nat" where
  "accounted r = length (rp_queue r) + length (rp_batch r) + length (rp_sent r) + rp_dropped r"

lemma send_accounted [simp]: "accounted (send_batch ok r) = accounted r"
  by (simp add: accounted_def send_batch_def)

lemma receive_accounted [simp]: "accounted (receive_entry ok r) = accounted r"
proof (cases "rp_queue r")
  case (Cons e es)
  then have "accounted (r\<lparr>rp_queue := es, rp_batch := rp_batch r @ [e]\<rparr>) = accounted r" by (simp add: accounted_def)
  then show ?thesis by (simp add: receive_entry_def Cons Let_def)
qed (simp add: receive_entry_def)

lemma drain_accounted [simp]: "accounted (drain_entries n ok r) = accounted r"
  by (induction n arbitrary: r) simp_all

lemma send_inv: "length (rp_queue r) \<le> defaultReportQueueSize \<Longrightarrow> length (rp_batch r) \<le> defaultReportBatchSize
    \<Longrightarrow> report_inv (send_batch ok r)"
  by (simp add: report_inv_def send_batch_def defaultReportBatchSize_def)

lemma receive_inv: "report_inv r \<Longrightarrow> report_inv (receive_entry ok r)"
  by (cases "rp_queue r") (auto simp: receive_entry_def Let_def report_inv_def intro!: send_inv [unfolded report_inv_def])

lemma drain_inv: "report_inv r \<Longrightarrow> report_inv (drain_entries n ok r)"
  by (induction n arbitrary: r) (simp_all add: receive_inv)

lemma report_step_inv:
  assumes "report_inv r"
  shows "report_inv (report_step e r)"
    "accounted (report_step e r) = accounted r + (case e of Offer _ \<Rightarrow> 1 | _ \<Rightarrow> 0)"
proof -
  have send: "report_inv (send_batch ok q)" if "report_inv q" for ok q
    using that by (intro send_inv) (simp_all add: report_inv_def)
  have stop: "report_inv (q\<lparr>rp_stopped := True\<rparr>) = report_inv q" "accounted (q\<lparr>rp_stopped := True\<rparr>) = accounted q" for q
    by (simp_all add: report_inv_def accounted_def)
  show "report_inv (report_step e r)"
    using assms send receive_inv drain_inv
    by (cases e) (auto simp: finalDrain_def stop Enqueue_def report_inv_def)
  show "accounted (report_step e r) = accounted r + (case e of Offer _ \<Rightarrow> 1 | _ \<Rightarrow> 0)"
    by (cases e) (simp_all add: finalDrain_def stop, simp add: Enqueue_def accounted_def)
qed

lemma report_fold:
  assumes "report_inv r"
  shows "report_inv (fold report_step es r) \<and> accounted (fold report_step es r) = accounted r + offered es"
  using assms
proof (induction es arbitrary: r)
  case (Cons e es)
  then show ?case using report_step_inv [OF Cons.prems, of e] Cons.IH by (cases e) (simp_all add: offered_def)
qed (simp add: offered_def)

end
