(* ===== verification/Egress_Properties.thy ===== *)
theory Egress_Properties
  imports Egress_Runs
begin

text \<open>
  The properties of the forward proxy: where a tunnel may lead and which credential a connection
  gets.
\<close>

section \<open>Where a tunnel leads\<close>

lemma configured_prefixes_masked:
  assumes "configured_prefixes i vs = Inr ps" "v \<in> set vs"
  shows "\<exists>q. parse_prefix v = Some q \<and> masked q \<in> set ps"
  using assms
proof (induction vs arbitrary: i ps)
  case (Cons w ws)
  obtain q rest where "parse_prefix w = Some q" "configured_prefixes (Suc i) ws = Inr rest" "ps = masked q # rest"
    using Cons.prems(1) by (cases "parse_prefix w"; cases "configured_prefixes (Suc i) ws") auto
  with Cons show ?case by auto
qed simp

text \<open>Every branch of the decision that ends in a tunnel.\<close>

lemma tunnelled_cases:
  assumes "ForwardProxy_ServeHTTP p env r = Tunnelled t a"
  obtains addresses where "connectTargetFromRequest (cr_URLHost r) (cr_Host r) = Some t" "cr_Method r = ''CONNECT''"
    "portAllowed p (target_port t)" "fst (target_allowed p t)"
    "auto_routes (routes_of (px_injectProxies p) (target_host t)) = []"
    "resolveAllowedAddresses (ce_lookup env) (px_destinationPolicy p) (target_host t) = Inr addresses" "a \<in> set addresses"
proof -
  let ?hint = "capabilityHintFromConnect (cr_Header r)"
  have connect: "cr_Method r = ''CONNECT''" "cr_Path r \<noteq> ''/_nvt/catalog''"
    using assms by (auto simp: ForwardProxy_ServeHTTP_def split: if_splits)
  then obtain t' where t': "connectTargetFromRequest (cr_URLHost r) (cr_Host r) = Some t'" "portAllowed p (target_port t')"
    using assms by (auto simp: ForwardProxy_ServeHTTP_def split: option.splits if_splits)
  define choice where "choice = (if fp_TransparentMode (px_Config p) then transparentInjectProxy p (target_host t') ?hint
    else injectProxy_for p (target_host t') ?hint)"
  have "choice = NoRoute \<and> serve_tunnel p env t' = Tunnelled t a"
    using assms connect t' unfolding ForwardProxy_ServeHTTP_def Let_def choice_def
    by (auto simp: serveMITM_def split: route_choice.splits option.splits if_splits)
  then have none: "choice = NoRoute" and serve: "serve_tunnel p env t' = Tunnelled t a" by simp_all
  have auto: "auto_routes (routes_of (px_injectProxies p) (target_host t')) = []"
    using none by (auto simp: choice_def transparentInjectProxy_def injectProxy_for_def auto_routes_def Let_def
        split: if_splits list.splits option.splits)
  have allowed: "fst (target_allowed p t')"
    using serve by (auto simp: serve_tunnel_def split: prod.splits if_splits)
  with serve obtain addresses where "resolveAllowedAddresses (ce_lookup env) (px_destinationPolicy p) (target_host t') = Inr addresses"
    "dialResolvedAddresses env addresses (port_text (target_port t')) = Some a" "t = t'"
    by (auto simp: serve_tunnel_def split: prod.splits if_splits option.splits sum.splits)
  with that connect t' allowed auto dialled show thesis by blast
qed

text \<open>
  C19. A connection that the proxy tunnels without looking inside was asked for with CONNECT, for a
  port of the configuration and a host that the domain policy permits (or, without one, that
  \<open>allow_hosts\<close> or \<open>allow_unmatched_hosts\<close> admits), and no injection route that needs no hint serves
  that host. The address that is dialled is the literal of the target or one of the answers of the
  single lookup, of which every answer is admissible: it is no loopback, private, link-local,
  multicast or unspecified address, and neither a prefix of the built-in deny list nor one of
  \<open>deny_cidrs\<close> contains it.
\<close>
theorem tunnelled_destination:
  assumes "defaultDeniedPrefixes = Some defaults" "ForwardProxyConfig_Validate defaults c = None"
    "ForwardProxy_ServeHTTP (init_proxy defaults c) env r = Tunnelled t a"
  shows "cr_Method r = ''CONNECT'' \<and> connectTargetFromRequest (cr_URLHost r) (cr_Host r) = Some t
    \<and> target_port t \<in> set (effectiveAllowPorts c)
    \<and> (case fp_DomainPolicy c of Some policy \<Rightarrow> fst (Decide policy (target_host t))
        | None \<Rightarrow> fp_AllowUnmatchedHosts c \<or> Some (target_host t) \<in> normalizeProxyHost ` set (fp_AllowHosts c))
    \<and> (\<forall>ir \<in> set (fp_InjectRoutes c). normalizeProxyHost (ir_Host ir) = Some (target_host t) \<longrightarrow> ir_RequireCapabilityHint ir)
    \<and> (case parse_addr (target_host t) of Some literal \<Rightarrow> a = unmap literal
        | None \<Rightarrow> \<exists>answers. ce_lookup env (target_host t) = Some answers \<and> a \<in> unmap ` set answers)
    \<and> a \<noteq> AddrInvalid \<and> \<not> is_unspecified a \<and> \<not> is_loopback a \<and> \<not> is_private a \<and> \<not> is_link_local_unicast a \<and> \<not> is_multicast a
    \<and> (\<forall>q \<in> set defaults. \<not> prefix_contains q a)
    \<and> (\<forall>v \<in> set (fp_DenyCIDRs c). \<exists>q. parse_prefix v = Some q \<and> \<not> prefix_contains (masked q) a)"
proof -
  let ?p = "init_proxy defaults c"
  obtain ps where ps: "configured_prefixes 0 (fp_DenyCIDRs c) = Inr ps"
    "newDestinationPolicy defaults (fp_DenyCIDRs c) = Inr \<lparr>denied = defaults @ ps\<rparr>"
    using assms(2) by (auto simp: ForwardProxyConfig_Validate_def newDestinationPolicy_def split: if_splits sum.splits option.splits)
      (cases "configured_prefixes 0 (fp_DenyCIDRs c)"; simp)+
  have px: "px_Config ?p = c" "px_allowPorts ?p = effectiveAllowPorts c"
    "set (px_allowHosts ?p) = {h. Some h \<in> normalizeProxyHost ` set (fp_AllowHosts c)}"
    "px_destinationPolicy ?p = \<lparr>denied = defaults @ ps\<rparr>"
    by (simp_all add: init_proxy_def ps(2) some_values_set)
  from tunnelled_cases [OF assms(3)] obtain addresses where
    t: "connectTargetFromRequest (cr_URLHost r) (cr_Host r) = Some t" "cr_Method r = ''CONNECT''"
      "portAllowed ?p (target_port t)" "fst (target_allowed ?p t)" and
    routes: "auto_routes (routes_of (px_injectProxies ?p) (target_host t)) = []" and
    as: "resolveAllowedAddresses (ce_lookup env) (px_destinationPolicy ?p) (target_host t) = Inr addresses" "a \<in> set addresses" .
  have a: "admitted \<lparr>denied = defaults @ ps\<rparr> a" using resolve_allowed(3) [OF as(1)] as(2) px(4) by simp
  have from_lookup: "case parse_addr (target_host t) of Some literal \<Rightarrow> a = unmap literal
      | None \<Rightarrow> \<exists>answers. ce_lookup env (target_host t) = Some answers \<and> a \<in> unmap ` set answers"
    using resolve_allowed(4) [OF as(1)] as(2) by (auto split: option.splits)
  have policy: "case fp_DomainPolicy c of Some policy \<Rightarrow> fst (Decide policy (target_host t))
      | None \<Rightarrow> fp_AllowUnmatchedHosts c \<or> Some (target_host t) \<in> normalizeProxyHost ` set (fp_AllowHosts c)"
    using t(3,4) px by (auto simp: target_allowed_def split: option.splits if_splits)
  have hint: "\<forall>ir \<in> set (fp_InjectRoutes c). normalizeProxyHost (ir_Host ir) = Some (target_host t) \<longrightarrow> ir_RequireCapabilityHint ir"
    using routes by (auto simp: init_routes auto_routes_def filter_empty_conv inject_proxy_of_def)
  have "\<forall>q \<in> set (defaults @ ps). \<not> prefix_contains q a" and
    kinds: "a \<noteq> AddrInvalid \<and> \<not> is_unspecified a \<and> \<not> is_loopback a \<and> \<not> is_private a \<and> \<not> is_link_local_unicast a \<and> \<not> is_multicast a"
    using a by (auto simp: admitted_def addr_allowed_def Let_def list_ex_iff split: if_splits)
  moreover from this have "\<forall>v \<in> set (fp_DenyCIDRs c). \<exists>q. parse_prefix v = Some q \<and> \<not> prefix_contains (masked q) a"
    using configured_prefixes_masked [OF ps(1)] by (metis Un_iff set_append)
  ultimately show ?thesis
    using t policy hint from_lookup px(2) unfolding portAllowed_def by auto
qed

text \<open>A configuration with one mediated host and everything else under a domain policy.\<close>

definition sample_inject :: ForwardProxyInjectRoute where
  "sample_inject = \<lparr>ir_Host = ''api.github.com'', ir_Capability = ''github'', ir_Upstream = ''api.github.com:443'',
     ir_AllowInsecureUpstream = False, ir_UpstreamCAPEM = [], ir_UpstreamServerName = [],
     ir_AllowPrivateUpstream = False, ir_MaxRequests = 100, ir_RequireCapabilityHint = False\<rparr>"

definition sample_forward :: ForwardProxyConfig where
  "sample_forward = \<lparr>fp_Listen = '':3128'', fp_TransparentMode = False, fp_AllowHosts = [], fp_AllowUnmatchedHosts = False,
     fp_DomainPolicy = Some \<lparr>DefaultAction = ''deny'', Allow = [''example.org'', ''github.com''], Deny = []\<rparr>,
     fp_AllowPorts = [], fp_MaxConcurrentTunnels = 2, fp_TunnelIdleTimeoutSeconds = 0,
     fp_DenyCIDRs = [''8.0.0.0/8''], fp_InjectRoutes = [sample_inject]\<rparr>"

definition sample_network :: connect_env where
  "sample_network = \<lparr>ce_lookup = (\<lambda>_. Some [V4 0x5DB8D822]), ce_dial = (\<lambda>_. True), ce_acquire = None,
     ce_hijacker = True, ce_hijack = True, ce_CA = True\<rparr>"

definition sample_connect :: "string \<Rightarrow> connect_request" where
  "sample_connect host = \<lparr>cr_Path = [], cr_Method = ''CONNECT'', cr_URLHost = host @ '':443'', cr_Host = host @ '':443'',
     cr_Header = []\<rparr>"

text \<open>The built-in deny list, in the form it has once the package is initialised.\<close>

definition built_in :: "prefix_t list" where
  "built_in = [
     \<lparr>pfx_addr = V4 0, pfx_bits = 8\<rparr>, \<lparr>pfx_addr = V4 0xA000000, pfx_bits = 8\<rparr>,
     \<lparr>pfx_addr = V4 0x64400000, pfx_bits = 10\<rparr>, \<lparr>pfx_addr = V4 0x7F000000, pfx_bits = 8\<rparr>,
     \<lparr>pfx_addr = V4 0xA9FE0000, pfx_bits = 16\<rparr>, \<lparr>pfx_addr = V4 0xAC100000, pfx_bits = 12\<rparr>,
     \<lparr>pfx_addr = V4 0xC0000000, pfx_bits = 24\<rparr>, \<lparr>pfx_addr = V4 0xC0000200, pfx_bits = 24\<rparr>,
     \<lparr>pfx_addr = V4 0xC0586300, pfx_bits = 24\<rparr>, \<lparr>pfx_addr = V4 0xC0A80000, pfx_bits = 16\<rparr>,
     \<lparr>pfx_addr = V4 0xC6120000, pfx_bits = 15\<rparr>, \<lparr>pfx_addr = V4 0xC6336400, pfx_bits = 24\<rparr>,
     \<lparr>pfx_addr = V4 0xCB007100, pfx_bits = 24\<rparr>, \<lparr>pfx_addr = V4 0xE0000000, pfx_bits = 4\<rparr>,
     \<lparr>pfx_addr = V4 0xF0000000, pfx_bits = 4\<rparr>, \<lparr>pfx_addr = V6 0 [], pfx_bits = 96\<rparr>,
     \<lparr>pfx_addr = V6 0xFFFF00000000 [], pfx_bits = 96\<rparr>, \<lparr>pfx_addr = V6 0x64FF9B000000000000000000000000 [], pfx_bits = 96\<rparr>,
     \<lparr>pfx_addr = V6 0x64FF9B000100000000000000000000 [], pfx_bits = 48\<rparr>, \<lparr>pfx_addr = V6 0x1000000000000000000000000000000 [], pfx_bits = 64\<rparr>,
     \<lparr>pfx_addr = V6 0x1000000000000010000000000000000 [], pfx_bits = 64\<rparr>, \<lparr>pfx_addr = V6 0x20010000000000000000000000000000 [], pfx_bits = 32\<rparr>,
     \<lparr>pfx_addr = V6 0x20010002000000000000000000000000 [], pfx_bits = 48\<rparr>, \<lparr>pfx_addr = V6 0x20010010000000000000000000000000 [], pfx_bits = 28\<rparr>,
     \<lparr>pfx_addr = V6 0x20010020000000000000000000000000 [], pfx_bits = 28\<rparr>, \<lparr>pfx_addr = V6 0x20010DB8000000000000000000000000 [], pfx_bits = 32\<rparr>,
     \<lparr>pfx_addr = V6 0x20020000000000000000000000000000 [], pfx_bits = 16\<rparr>, \<lparr>pfx_addr = V6 0x3FFF0000000000000000000000000000 [], pfx_bits = 20\<rparr>,
     \<lparr>pfx_addr = V6 0x5F000000000000000000000000000000 [], pfx_bits = 16\<rparr>, \<lparr>pfx_addr = V6 0xFC000000000000000000000000000000 [], pfx_bits = 7\<rparr>,
     \<lparr>pfx_addr = V6 0xFE800000000000000000000000000000 [], pfx_bits = 10\<rparr>, \<lparr>pfx_addr = V6 0xFEC00000000000000000000000000000 [], pfx_bits = 10\<rparr>,
     \<lparr>pfx_addr = V6 0xFF000000000000000000000000000000 [], pfx_bits = 8\<rparr>]"

lemma built_in: "defaultDeniedPrefixes = Some built_in"
  by code_simp

lemma sample_validates: "ForwardProxyConfig_Validate built_in sample_forward = None"
  by code_simp

lemma sample_tunnel:
  "ForwardProxy_ServeHTTP (init_proxy built_in sample_forward) sample_network (sample_connect ''example.org'') =
     Tunnelled \<lparr>target_host = ''example.org'', target_port = 443\<rparr> (V4 0x5DB8D822)"
  by code_simp

theorem tunnelled_destination_witness:
  "defaultDeniedPrefixes = Some built_in \<and> ForwardProxyConfig_Validate built_in sample_forward = None
   \<and> ForwardProxy_ServeHTTP (init_proxy built_in sample_forward) sample_network (sample_connect ''example.org'') =
       Tunnelled \<lparr>target_host = ''example.org'', target_port = 443\<rparr> (V4 0x5DB8D822)
   \<and> \<not> is_private (V4 0x5DB8D822) \<and> 443 \<in> set (effectiveAllowPorts sample_forward)"
  using tunnelled_destination [OF built_in sample_validates sample_tunnel] built_in sample_validates sample_tunnel by simp

section \<open>Which credential a connection gets\<close>

lemma intercepted_cases:
  assumes "ForwardProxy_ServeHTTP p env r = Intercepted t x"
  shows "connectTargetFromRequest (cr_URLHost r) (cr_Host r) = Some t \<and> portAllowed p (target_port t)
    \<and> (case fp_DomainPolicy (px_Config p) of Some policy \<Rightarrow> fst (Decide policy (target_host t)) | None \<Rightarrow> True)
    \<and> (injectProxy_for p (target_host t) (capabilityHintFromConnect (cr_Header r)) = RouteFound x
       \<or> transparentInjectProxy p (target_host t) (capabilityHintFromConnect (cr_Header r)) = RouteFound x)"
  using assms unfolding ForwardProxy_ServeHTTP_def Let_def
  by (auto simp: serveMITM_def serve_tunnel_def split: route_choice.splits option.splits if_splits prod.splits sum.splits)

text \<open>
  C20. A connection that the proxy intercepts gets the credential of one injection route of the
  configuration, for a port and a host that the policies permit. When the workload names a
  capability, the route is one for exactly that capability; when it names none, the route needs no
  hint and every other route of the host that needs none has the same capability. In a validated
  configuration the host is never also tunnelled blindly through \<open>allow_hosts\<close> nor the upstream of a
  mediated route, and the certificate authority, which has to exist, may mint its leaf.
\<close>
theorem injection_capability:
  assumes "Config_Validate defaults pem_ok c = None" "eg_ForwardProxy c = Some fp"
    "ForwardProxy_ServeHTTP (init_proxy defaults fp) env r = Intercepted t x"
  shows "\<exists>ir \<in> set (fp_InjectRoutes fp). normalizeProxyHost (ir_Host ir) = Some (target_host t)
    \<and> x = inject_proxy_of (target_host t) ir \<and> target_port t \<in> set (effectiveAllowPorts fp)
    \<and> (case fp_DomainPolicy fp of Some policy \<Rightarrow> fst (Decide policy (target_host t)) | None \<Rightarrow> True)
    \<and> (let hint = capabilityHintFromConnect (cr_Header r) in
        if hint \<noteq> [] then ir_Capability ir = hint
        else \<not> ir_RequireCapabilityHint ir
          \<and> (\<forall>ir' \<in> set (fp_InjectRoutes fp). normalizeProxyHost (ir_Host ir') = Some (target_host t)
               \<longrightarrow> \<not> ir_RequireCapabilityHint ir' \<longrightarrow> ir_Capability ir' = ir_Capability ir))
    \<and> Some (target_host t) \<notin> normalizeProxyHost ` set (fp_AllowHosts fp)
    \<and> Some (target_host t) \<notin> (\<lambda>route. normalizedRouteUpstreamHost (er_Upstream route)) ` set (eg_Routes c)
    \<and> eg_CA c \<noteq> None \<and> target_host t \<in> set (ForwardProxyUpstreamLeafNames c)"
proof -
  let ?host = "target_host t" and ?hint = "capabilityHintFromConnect (cr_Header r)"
  let ?routes = "routes_of (px_injectProxies (init_proxy defaults fp)) ?host"
  have "forward_proxy_error defaults pem_ok c fp = None"
    using assms(1,2) by (auto simp: Config_Validate_def split: if_splits option.splits)
  then have over: "validateForwardProxyRouteOverlap pem_ok (eg_Routes c) fp = None"
    and ca: "fp_InjectRoutes fp \<noteq> [] \<Longrightarrow> eg_CA c \<noteq> None"
    by (auto simp: forward_proxy_error_def split: option.splits if_splits)
  from intercepted_cases [OF assms(3)] have t: "portAllowed (init_proxy defaults fp) (target_port t)"
    "case fp_DomainPolicy fp of Some policy \<Rightarrow> fst (Decide policy ?host) | None \<Rightarrow> True"
    and choice: "injectProxy_for (init_proxy defaults fp) ?host ?hint = RouteFound x
      \<or> transparentInjectProxy (init_proxy defaults fp) ?host ?hint = RouteFound x"
    by (simp_all add: init_proxy_def split: option.splits)
  obtain ir where ir: "ir \<in> set (fp_InjectRoutes fp)" "normalizeProxyHost (ir_Host ir) = Some ?host" "x = inject_proxy_of ?host ir"
    using choice_cases(1) [OF choice] by (auto simp: init_routes)
  have disjoint: "?host \<notin> set (some_values (map normalizeProxyHost (fp_AllowHosts fp)))"
    "?host \<notin> set (some_values (map (\<lambda>r. normalizedRouteUpstreamHost (er_Upstream r)) (eg_Routes c)))"
    using over ir(1,2) inject_overlap_disjoint [of pem_ok _ _ "[]" 0 "fp_InjectRoutes fp" ir]
    by (auto simp: validateForwardProxyRouteOverlap_def Let_def split: if_splits)
  have hint: "let hint = ?hint in if hint \<noteq> [] then ir_Capability ir = hint
      else \<not> ir_RequireCapabilityHint ir
        \<and> (\<forall>ir' \<in> set (fp_InjectRoutes fp). normalizeProxyHost (ir_Host ir') = Some ?host
             \<longrightarrow> \<not> ir_RequireCapabilityHint ir' \<longrightarrow> ir_Capability ir' = ir_Capability ir)"
  proof (cases "?hint = []")
    case True
    then have auto: "auto_routes ?routes = [x]" using choice_cases(2) [OF choice] by simp
    have mem: "inject_proxy_of ?host ir' \<in> set (auto_routes ?routes)" if "ir' \<in> set (fp_InjectRoutes fp)"
      "normalizeProxyHost (ir_Host ir') = Some ?host" "\<not> ir_RequireCapabilityHint ir'" for ir'
      using that by (auto simp: auto_routes_def init_routes inject_proxy_of_def)
    have "x \<in> set (auto_routes ?routes)" using auto by simp
    then have "\<not> ip_requireCapabilityHint x" by (simp add: auto_routes_def)
    then have need: "\<not> ir_RequireCapabilityHint ir" by (simp add: ir(3) inject_proxy_of_def)
    have "ir_Capability ir' = ir_Capability ir" if "ir' \<in> set (fp_InjectRoutes fp)"
      "normalizeProxyHost (ir_Host ir') = Some ?host" "\<not> ir_RequireCapabilityHint ir'" for ir'
    proof -
      have "inject_proxy_of ?host ir' = inject_proxy_of ?host ir" using mem [OF that] auto ir(3) by simp
      then show ?thesis by (simp add: inject_proxy_of_def)
    qed
    with need True show ?thesis by simp
  next
    case False
    then have "ip_capability x = ?hint" using choice_cases(2) [OF choice] by simp
    with False show ?thesis by (simp add: ir(3) inject_proxy_of_def)
  qed
  have "fp_InjectRoutes fp \<noteq> []" using ir(1) by auto
  moreover have "?host \<in> set (ForwardProxyUpstreamLeafNames c)"
    using ir(1,2) by (force simp: ForwardProxyUpstreamLeafNames_def assms(2) some_values_set)
  ultimately show ?thesis
    using ir t hint disjoint ca by (intro bexI [of _ ir]) (auto simp: some_values_set portAllowed_def init_proxy_def)
qed

definition sample_egress :: egress_Config where
  "sample_egress = \<lparr>eg_BrokerURL = ''https://broker:7347'', eg_AllowInsecureBroker = False, eg_BrokerCAFile = [],
     eg_Routes = [], eg_ForwardProxy = Some sample_forward,
     eg_CA = Some \<lparr>ca_PublishDir = ''/ca'', ca_LeafDNSNames = [], ca_ServeAddr = [], ca_CertFile = [], ca_KeyFile = []\<rparr>\<rparr>"

lemma sample_egress_validates: "Config_Validate built_in (\<lambda>_. True) sample_egress = None"
  by code_simp

lemma sample_intercepted:
  "ForwardProxy_ServeHTTP (init_proxy built_in sample_forward) sample_network (sample_connect ''API.github.com'') =
     Intercepted \<lparr>target_host = ''api.github.com'', target_port = 443\<rparr> (inject_proxy_of ''api.github.com'' sample_inject)"
  by code_simp

theorem injection_capability_witness:
  "Config_Validate built_in (\<lambda>_. True) sample_egress = None \<and> eg_ForwardProxy sample_egress = Some sample_forward
   \<and> ForwardProxy_ServeHTTP (init_proxy built_in sample_forward) sample_network (sample_connect ''API.github.com'') =
       Intercepted \<lparr>target_host = ''api.github.com'', target_port = 443\<rparr> (inject_proxy_of ''api.github.com'' sample_inject)
   \<and> ''api.github.com'' \<in> set (ForwardProxyUpstreamLeafNames sample_egress)"
proof -
  have fp: "eg_ForwardProxy sample_egress = Some sample_forward" by (simp add: sample_egress_def)
  show ?thesis
    using injection_capability [OF sample_egress_validates fp sample_intercepted] sample_egress_validates fp sample_intercepted
    by auto
qed

text \<open>
  A host of \<open>allow_hosts\<close> that is written with a final dot escapes the comparison with the mediated
  upstreams, which folds the case only: the configuration is accepted and the proxy tunnels
  blindly to the host of a mediated route.
\<close>
definition overlapping_egress :: egress_Config where
  "overlapping_egress = sample_egress\<lparr>
     eg_Routes := [\<lparr>er_Listen = '':8080'', er_Capability = ''github'', er_Upstream = ''github.com:443'', er_InjectionHost = [],
       er_AllowInsecureUpstream = False, er_ListenTLSCert = [], er_ListenTLSKey = [], er_ListenTLS = [], er_MaxRequests = 0\<rparr>],
     eg_ForwardProxy := Some (sample_forward\<lparr>fp_DomainPolicy := None, fp_AllowHosts := [''github.com.''], fp_InjectRoutes := []\<rparr>)\<rparr>"

theorem overlap_missed:
  "Config_Validate built_in (\<lambda>_. True) overlapping_egress = None
   \<and> (case eg_ForwardProxy overlapping_egress of None \<Rightarrow> False | Some fp \<Rightarrow>
        ForwardProxy_ServeHTTP (init_proxy built_in fp) sample_network (sample_connect ''github.com'') =
          Tunnelled \<lparr>target_host = ''github.com'', target_port = 443\<rparr> (V4 0x5DB8D822))
   \<and> map (\<lambda>route. normalizedRouteUpstreamHost (er_Upstream route)) (eg_Routes overlapping_egress) = [Some ''github.com'']"
  by code_simp

end
