(* ===== verification/Injection_Properties.thy ===== *)
theory Injection_Properties
  imports Egress_Properties
begin

text \<open>
  The properties of the headers that an upstream sees behind the injecting proxy.
\<close>

section \<open>Outbound headers\<close>



definition sample_material :: Material where
  "sample_material = \<lparr>m_Headers = [(''Authorization'', ''Bearer real'')], m_AppendHeaders = [(''Accept'', ''a/b'')],
     m_Strip = [''x-secret''], m_ExpiresAt = zero_instant\<rparr>"

definition sample_route :: egress_Route where
  "sample_route = ip_Route (inject_proxy_of ''api.github.com'' sample_inject)"

definition sample_workload :: proxy_request where
  "sample_workload = \<lparr>pq_Method = ''GET'', pq_RequestURI = ''/user'', pq_Path = ''/user'',
     pq_Header = [(''Authorization'', [''Bearer mine'']), (''Accept'', [''c/d'']), (''X-Token'', [Placeholder])]\<rparr>"

definition sample_outbound :: outbound_request where
  "sample_outbound = \<lparr>ob_Method = ''GET'', ob_URL = ''https://api.github.com:443/user'', ob_Host = ''api.github.com:443'',
     ob_Header = [(''Accept'', [''c/d,a/b'']), (''Authorization'', [''Bearer real''])]\<rparr>"



section \<open>The placeholder\<close>

lemma upgrade_keys: "CanonicalHeaderKey ''Connection'' = ''Connection''" "CanonicalHeaderKey ''Upgrade'' = ''Upgrade''"
  by code_simp+

lemma Upgrade_clean: "\<not> containsPlaceholder [''Upgrade'']"
  by code_simp

text \<open>
  C22. The placeholder that stands for a credential inside the sandbox does not reach an upstream: no
  header that is sent carries it, when the material of the broker does not, but for the \<open>Upgrade\<close>
  header of a connection upgrade, which is copied as the workload sent it.
\<close>
theorem placeholder_stays:
  assumes "buildOutbound route r m = Some out" "clean_material m" "(k, vs) \<in> set (ob_Header out)" "containsPlaceholder vs"
  shows "k = ''Upgrade'' \<and> isUpgradeRequest r \<and> vs = [header_Get (pq_Header r) ''Upgrade'']"
proof -
  let ?h = "injected_headers m (carried_headers m (pq_Header r))"
  have h: "clean_header ?h" using carried_clean assms(2) by (rule injected_clean)
  have "clean_header (header_put ?h ''Connection'' [''Upgrade''])" using h Upgrade_clean by (rule clean_put)
  moreover have "ob_Header out = (if isUpgradeRequest r then copyUpgradeHeaders ?h (pq_Header r) else ?h)"
    using assms(1) by (auto simp: buildOutbound_def Let_def split: if_splits)
  ultimately show ?thesis
    using h assms(3,4) set_put [of "header_put ?h ''Connection'' [''Upgrade'']" "''Upgrade''" "[header_Get (pq_Header r) ''Upgrade'']"]
    by (auto simp: copyUpgradeHeaders_def header_Set_def upgrade_keys clean_header_def list_all_iff Let_def split: if_splits)
qed

text \<open>The \<open>Upgrade\<close> header that carries the placeholder out.\<close>

definition upgrade_workload :: proxy_request where
  "upgrade_workload = sample_workload\<lparr>pq_Header := [(''Connection'', [''Upgrade'']), (''Upgrade'', [Placeholder])]\<rparr>"

definition upgrade_outbound :: outbound_request where
  "upgrade_outbound = sample_outbound\<lparr>ob_Header := [(''Authorization'', [''Bearer real'']), (''Accept'', [''a/b'']),
     (''Connection'', [''Upgrade'']), (''Upgrade'', [Placeholder])]\<rparr>"

theorem upgrade_carries_placeholder:
  "buildOutbound sample_route upgrade_workload sample_material = Some upgrade_outbound
   \<and> map_of (ob_Header upgrade_outbound) ''Upgrade'' = Some [Placeholder]"
  by code_simp

theorem placeholder_stays_witness:
  "isUpgradeRequest upgrade_workload \<and> clean_material sample_material \<and> containsPlaceholder [Placeholder]"
proof -
  have built: "buildOutbound sample_route upgrade_workload sample_material = Some upgrade_outbound" by code_simp
  have clean: "clean_material sample_material" by code_simp
  have mem: "(''Upgrade'', [Placeholder]) \<in> set (ob_Header upgrade_outbound)" by (simp add: upgrade_outbound_def)
  have holder: "containsPlaceholder [Placeholder]" by (simp add: containsPlaceholder_def)
  from placeholder_stays [OF built clean mem holder] clean holder show ?thesis by simp
qed

end
