(* ===== verification/Egress_Bounds.thy ===== *)
theory Egress_Bounds
  imports Egress_Runs
begin

text \<open>
  The bounds of the egress proxy: the age of injected material, the request quota, the tunnel
  queue, and the audit records.
\<close>

section \<open>Material\<close>


definition bounded_route :: egress_Route where
  "bounded_route = \<lparr>er_Listen = [], er_Capability = ''github'', er_Upstream = ''api.github.com:443'',
     er_InjectionHost = ''api.github.com'', er_AllowInsecureUpstream = False, er_ListenTLSCert = [], er_ListenTLSKey = [],
     er_ListenTLS = [], er_MaxRequests = 1\<rparr>"

definition bounded_env :: Proxy_env where
  "bounded_env = \<lparr>pe_Route = bounded_route,
     pe_broker = (\<lambda>_ _. BrokerReply \<lparr>ij_OK = True, ij_Headers = [(''Authorization'', ''Bearer real'')],
       ij_AppendHeaders = [], ij_Strip = [], ij_ExpiresAt = ExpiryAbsent\<rparr>),
     pe_now = (\<lambda>n. 1000000000 * int n)\<rparr>"

definition plain_request :: proxy_request where
  "plain_request = \<lparr>pq_Method = ''GET'', pq_RequestURI = ''/user'', pq_Path = ''/user'', pq_Header = []\<rparr>"


definition answering :: "outbound_request \<Rightarrow> transport_reply" where
  "answering _ = TransportResponse 200 False False False"



section \<open>The quota\<close>

text \<open>
  C24. A route with a limit sends at most that many requests upstream over any sequence of requests
  shorter than the range of its 64-bit counter; what exceeds the limit is answered with 429 and not
  sent.
\<close>
theorem quota_bound:
  assumes "proxy_run env transport rs new_proxy = (xs, p)" "0 < er_MaxRequests (pe_Route env)" "int (length rs) < 2 ^ 63"
  shows "int (length (filter (\<lambda>x. rs_sent x \<noteq> None) xs)) \<le> er_MaxRequests (pe_Route env)"
proof -
  have zero: "pr_requestCount new_proxy = 0" by (simp add: new_proxy_def)
  have "int (length (filter (\<lambda>x. rs_sent x \<noteq> None) xs))
      \<le> max 0 (er_MaxRequests (pe_Route env) - pr_requestCount new_proxy)"
    by (rule run_count [OF assms(1,2)]) (use assms(3) zero in simp_all)
  then show ?thesis using assms(2) zero by simp
qed

theorem quota_bound_witness:
  "map rs_status (fst (proxy_run bounded_env answering [plain_request, plain_request] new_proxy)) = [200, 429]
   \<and> int (length (filter (\<lambda>x. rs_sent x \<noteq> None)
        (fst (proxy_run bounded_env answering [plain_request, plain_request] new_proxy)))) \<le> 1"
proof
  show "map rs_status (fst (proxy_run bounded_env answering [plain_request, plain_request] new_proxy)) = [200, 429]"
    by code_simp
  obtain xs p where run: "proxy_run bounded_env answering [plain_request, plain_request] new_proxy = (xs, p)"
    by (rule prod.exhaust)
  have limit: "er_MaxRequests (pe_Route bounded_env) = 1" by (simp add: bounded_env_def bounded_route_def)
  have "int (length (filter (\<lambda>x. rs_sent x \<noteq> None) xs)) \<le> er_MaxRequests (pe_Route bounded_env)"
    by (rule quota_bound [OF run]) (simp_all add: limit)
  then show "int (length (filter (\<lambda>x. rs_sent x \<noteq> None)
        (fst (proxy_run bounded_env answering [plain_request, plain_request] new_proxy)))) \<le> 1"
    unfolding run limit by simp
qed

section \<open>The tunnel queue\<close>




section \<open>Audit records\<close>

lemma keep_class_shape:
  assumes "list_all (\<lambda>c. class_rune (byte c)) acc" "length acc \<le> pathClassMaxLen"
  shows "list_all (\<lambda>c. class_rune (byte c)) (keep_class_runes rs acc) \<and> length (keep_class_runes rs acc) \<le> pathClassMaxLen"
  using assms
proof (induction rs acc rule: keep_class_runes.induct)
  case (2 r rs acc)
  have "class_rune (byte (char_of r))" if "class_rune r"
    using that by (auto simp: class_rune_def byte_def)
  with 2 show ?case by auto
qed simp

text \<open>
  C26. Whatever path the workload asks for, the class that goes into the audit record is a non-empty
  name of at most 64 bytes, each a lower case letter, a digit, a dot, an underscore or a hyphen.
\<close>
theorem path_class_shape:
  "PathClass path \<noteq> [] \<and> length (PathClass path) \<le> pathClassMaxLen \<and> list_all (\<lambda>c. class_rune (byte c)) (PathClass path)"
proof -
  define ok where "ok w \<longleftrightarrow> w \<noteq> [] \<and> length w \<le> pathClassMaxLen \<and> list_all (\<lambda>c. class_rune (byte c)) w" for w
  have fixed: "ok ''info-refs''" "ok ''git-upload-pack''" "ok ''git-receive-pack''" "ok ''root''" "ok ''other''"
    by (simp_all add: ok_def pathClassMaxLen_def class_rune_def byte_def)
  have cleaned: "ok (if sanitizePathClass w = [] then ''other'' else sanitizePathClass w)" for w
    using fixed(5) keep_class_shape [of "[]" "map fst (runes (to_lower w))"] by (auto simp: sanitizePathClass_def ok_def)
  have branch: "ok x \<Longrightarrow> ok y \<Longrightarrow> ok (if b then x else y)" for b x y by simp
  have "ok (PathClass path)"
    unfolding PathClass_def Let_def by (intro branch fixed cleaned)
  then show ?thesis by (simp add: ok_def)
qed

text \<open>
  C27. No audit record is lost without being counted: after any sequence of offers, receives, ticks
  and a stop, every offered record is waiting, in the batch, delivered to the broker or counted as
  dropped, and neither the queue nor the batch outgrows its bound.
\<close>
theorem reports_conserved:
  "let r = report_run es in
     offered es = length (rp_queue r) + length (rp_batch r) + length (rp_sent r) + rp_dropped r
     \<and> length (rp_queue r) \<le> defaultReportQueueSize \<and> length (rp_batch r) < defaultReportBatchSize"
proof -
  have "report_inv NewReporter" "accounted NewReporter = 0"
    by (simp_all add: report_inv_def accounted_def NewReporter_def defaultReportQueueSize_def defaultReportBatchSize_def)
  then show ?thesis
    using report_fold [of NewReporter es] by (simp add: report_run_def Let_def report_inv_def accounted_def)
qed

end
