(* ===== verification/Local_Routes.thy ===== *)
theory Local_Routes
  imports Local_Run
begin

text \<open>
  The route metadata that the local controller hands to a gateway,
  \<^verbatim>\<open>protocol/localroutes/contract.go\<close>: its types and its validators. Names that the run contract
  also uses carry the prefix \<open>route_\<close>. A \<^verbatim>\<open>time.Time\<close> is its instant in nanoseconds with a flag that
  says whether its location is \<^verbatim>\<open>time.UTC\<close>. The JSON decoder of these documents (\<^verbatim>\<open>decode.go\<close>) is not
  modelled, because it rests on the lenient timestamp parser of the standard library.
\<close>

section \<open>Types\<close>

definition routes_api_version :: string where
  "routes_api_version = ''nvt.local-routes/v1''"

definition MaxRunsPerPage :: int where
  "MaxRunsPerPage = 8"

definition MaxExposures :: int where
  "MaxExposures = 64"

definition MaxNameBytes :: int where
  "MaxNameBytes = 63"

definition route_MaxSourceURLBytes :: int where
  "route_MaxSourceURLBytes = 2048"

record time_value =
  time_instant :: int
  time_utc :: bool

text \<open>\<open>IsZero\<close>: the first instant of the year 1.\<close>

definition time_is_zero :: "time_value \<Rightarrow> bool" where
  "time_is_zero t \<longleftrightarrow> time_instant t = - 62135596800 * 1000000000"

record route_Principal =
  rp_Issuer :: string
  rp_Subject :: string
  rp_DisplayName :: string

record Endpoint =
  ep_Host :: string
  ep_Path :: string
  ep_UpstreamHost :: string
  ep_UpstreamPort :: int

record Exposure =
  ex_Name :: string
  ex_Host :: string
  ex_UpstreamHost :: string
  ex_UpstreamPort :: int

record route_Run =
  rr_APIVersion :: string
  rr_RunID :: string
  rr_State :: string
  rr_Ready :: bool
  rr_Principal :: route_Principal
  rr_SourceURL :: string
  rr_Profile :: string
  rr_Workflow :: string
  rr_CreatedAt :: time_value
  rr_Session :: Endpoint
  rr_Exposures :: "Exposure list"

record route_List =
  rl_APIVersion :: string
  rl_Runs :: "route_Run list"
  rl_NextAfter :: string

section \<open>Validators\<close>

definition route_alphaNumeric :: "char \<Rightarrow> bool" where
  "route_alphaNumeric c \<longleftrightarrow> 97 \<le> byte c \<and> byte c \<le> 122 \<or> 48 \<le> byte c \<and> byte c \<le> 57"

definition route_validName :: "string \<Rightarrow> bool" where
  "route_validName v =
     (if v = [] \<or> MaxNameBytes < len v \<or> \<not> route_alphaNumeric (hd v) then False
      else if list_ex (\<lambda>(r, _). r \<noteq> 45 \<and> (r < 97 \<or> 122 < r) \<and> (r < 48 \<or> 57 < r)) (runes (tl v)) then False
      else last v \<noteq> CHR ''-'')"

definition route_validText :: "string \<Rightarrow> int \<Rightarrow> bool \<Rightarrow> bool" where
  "route_validText v maximum allowEmpty \<longleftrightarrow>
     (allowEmpty \<or> v \<noteq> []) \<and> len v \<le> maximum \<and> valid_utf8 v \<and> v = trim_space v
     \<and> \<not> contains_any v [CHR 0x00, CHR 0x0D, CHR 0x0A]"

definition validHTTPSIssuer :: "string \<Rightarrow> bool" where
  "validHTTPSIssuer v =
     (case url_Parse v of
        None \<Rightarrow> False
      | Some u \<Rightarrow>
          0 < len v \<and> len v \<le> 2048 \<and> url_Scheme u = ''https'' \<and> url_Host u \<noteq> [] \<and> \<not> url_User u
          \<and> url_RawQuery u = [] \<and> url_Fragment u = [] \<and> url_String u = v \<and> v = trim_space v
          \<and> \<not> contains_any v [CHR 0x00, CHR 0x0D, CHR 0x0A])"

definition validPrincipal :: "route_Principal \<Rightarrow> bool" where
  "validPrincipal p \<longleftrightarrow> validHTTPSIssuer (rp_Issuer p) \<and> route_validText (rp_Subject p) 1024 False
     \<and> route_validText (rp_DisplayName p) 512 True"

definition validOptionalSourceURL :: "string \<Rightarrow> bool" where
  "validOptionalSourceURL v =
     (if v = [] then True
      else if route_MaxSourceURLBytes < len v \<or> \<not> valid_utf8 v \<or> v \<noteq> trim_space v \<or> has_control_rune v then False
      else case url_Parse v of
          None \<Rightarrow> False
        | Some u \<Rightarrow>
            if url_Scheme u \<noteq> ''https'' \<or> url_Host u = [] \<or> Hostname u = [] \<or> url_User u
               \<or> url_Opaque u \<noteq> [] \<or> url_String u \<noteq> v
            then False
            else case QueryUnescape (url_RawQuery u) of
                None \<Rightarrow> False
              | Some q \<Rightarrow>
                  valid_utf8 (url_Path u) \<and> valid_utf8 q \<and> valid_utf8 (url_Fragment u)
                  \<and> \<not> has_control_rune (url_Path u) \<and> \<not> has_control_rune q
                  \<and> \<not> has_control_rune (url_Fragment u))"

definition validHost :: "string \<Rightarrow> bool" where
  "validHost v =
     (if v = [] \<or> 253 < len v \<or> v \<noteq> to_lower v \<or> suffix ''.'' v
         \<or> contains_any v ('':/@?#'' @ [CHR 0x5C, CHR 0x00, CHR 0x0D, CHR 0x0A])
      then False
      else list_all route_validName (split_on (CHR ''.'') v))"

definition validPath :: "string \<Rightarrow> bool" where
  "validPath v =
     (if len v < 3 \<or> 512 < len v \<or> hd v \<noteq> CHR ''/'' \<or> last v \<noteq> CHR ''/'' \<or> sublist ''//'' v
         \<or> contains_any v (''%?#'' @ [CHR 0x5C, CHR 0x00, CHR 0x0D, CHR 0x0A])
      then False
      else list_all route_validName (split_on (CHR ''/'') (trim_slashes v)))"

definition validEndpoint :: "Endpoint \<Rightarrow> bool \<Rightarrow> bool" where
  "validEndpoint e requirePath =
     (if \<not> validHost (ep_Host e) \<or> \<not> validHost (ep_UpstreamHost e) \<or> ep_UpstreamPort e < 1
         \<or> 65535 < ep_UpstreamPort e
      then False
      else if requirePath then validPath (ep_Path e)
      else ep_Path e = [])"

definition validState :: "string \<Rightarrow> bool" where
  "validState v \<longleftrightarrow> v \<in> {''pending'', ''preparing'', ''running'', ''stopping''}"

fun validate_exposures :: "string \<Rightarrow> string list \<Rightarrow> Exposure list \<Rightarrow> bool" where
  "validate_exposures session seen [] = True"
| "validate_exposures session seen (e # es) =
     (if \<not> route_validName (ex_Name e) \<or> \<not> validHost (ex_Host e) \<or> \<not> validHost (ex_UpstreamHost e)
         \<or> ex_UpstreamPort e < 1 \<or> 65535 < ex_UpstreamPort e \<or> ex_Host e = session
      then False
      else if ex_Name e \<in> set seen then False
      else validate_exposures session (ex_Name e # seen) es)"

definition ValidateRun :: "route_Run \<Rightarrow> bool" where
  "ValidateRun r =
     (if rr_APIVersion r \<noteq> routes_api_version \<or> \<not> route_validName (rr_RunID r) \<or> \<not> validState (rr_State r)
         \<or> rr_Ready r \<noteq> (rr_State r = ''running'') \<or> \<not> validPrincipal (rr_Principal r)
         \<or> \<not> validOptionalSourceURL (rr_SourceURL r)
         \<or> \<not> route_validName (rr_Profile r) \<or> \<not> route_validName (rr_Workflow r) \<or> time_is_zero (rr_CreatedAt r)
         \<or> \<not> time_utc (rr_CreatedAt r) \<or> \<not> validEndpoint (rr_Session r) True
         \<or> MaxExposures < len (rr_Exposures r)
      then False
      else validate_exposures (ep_Host (rr_Session r)) [] (rr_Exposures r))"

fun validate_route_runs :: "string list \<Rightarrow> string \<Rightarrow> route_Run list \<Rightarrow> bool" where
  "validate_route_runs seen previous [] = True"
| "validate_route_runs seen previous (r # rs) =
     (if \<not> ValidateRun r \<or> previous \<noteq> [] \<and> rr_RunID r \<le> previous then False
      else if rr_RunID r \<in> set seen then False
      else validate_route_runs (rr_RunID r # seen) (rr_RunID r) rs)"

text \<open>A nil slice of runs is refused by the source; the model has no nil slices, and the callers pass one made with \<open>make\<close>.\<close>

definition ValidateList :: "route_List \<Rightarrow> bool" where
  "ValidateList l =
     (if rl_APIVersion l \<noteq> routes_api_version \<or> MaxRunsPerPage < len (rl_Runs l)
         \<or> rl_NextAfter l \<noteq> [] \<and> \<not> route_validName (rl_NextAfter l)
      then False
      else validate_route_runs [] [] (rl_Runs l))"

end
