(* ===== verification/HTTP_Request.thy ===== *)
theory HTTP_Request
  imports Run_Reconciler Local_Routes Go_HTTP
begin

text \<open>
  Requests and responses of the local controller: the request decoder, the error responses and the
  bearer checks of \<^verbatim>\<open>http.go\<close> and \<^verbatim>\<open>api_auth.go\<close>, and the private token files of \<^verbatim>\<open>scheduling.go\<close>. A
  response is its status, the reason and run identifier of its log line, and the value that is
  encoded as its body. The file system is a partial map from paths to files.
\<close>

section \<open>Requests\<close>

record request =
  rq_Method :: string
  rq_URL :: url
  rq_Header :: http_header
  rq_Body :: "string option"

text \<open>The body is what the client sends, or \<^const>\<open>None\<close> when reading it fails within the limit.\<close>

definition MaxRequestBytes :: int where
  "MaxRequestBytes = 1088 * 1024"

definition read_body :: "request \<Rightarrow> string option" where
  "read_body r = map_option (take (nat (MaxRequestBytes + 1))) (rq_Body r)"

function scanJSONValue :: "int \<Rightarrow> json \<Rightarrow> bool" where
  "scanJSONValue depth v =
     (depth \<le> 66 \<and>
      (case v of
         JObject ms \<Rightarrow>
           distinct (map fst ms) \<and> list_all (\<lambda>m. scanJSONValue (depth + 1) (snd (snd m))) ms
       | JArray vs \<Rightarrow> list_all (\<lambda>w. scanJSONValue (depth + 1) w) vs
       | _ \<Rightarrow> True))"
  by pat_completeness auto
termination
proof (relation "measure (\<lambda>(_, v). size v)", goal_cases)
  case (2 depth v vs w)
  from 2(2) have "size w < size (JArray vs)" by (induction vs) auto
  with 2 show ?case by simp
next
  case (3 depth v ms m)
  from 3(2) have "size (snd (snd m)) < size (JObject ms)"
    by (induction ms) (auto split: prod.splits)
  with 3 show ?case by simp
qed simp

declare scanJSONValue.simps [simp del]

text \<open>The value of the document, when it is one value and passes the duplicate check.\<close>

definition rejectDuplicateJSONKeys :: "string \<Rightarrow> json option" where
  "rejectDuplicateJSONKeys data =
     (case json_value data of
        None \<Rightarrow> None
      | Some v \<Rightarrow> if scanJSONValue 0 v then Some v else None)"

definition decodeRequest :: "'a \<Rightarrow> 'a fields \<Rightarrow> request \<Rightarrow> 'a option" where
  "decodeRequest zero fs r =
     (if ParseMediaType (header_Get (rq_Header r) ''Content-Type'') \<noteq> Some ''application/json'' then None
      else case read_body r of
          None \<Rightarrow> None
        | Some data \<Rightarrow>
            if data = [] \<or> MaxRequestBytes < len data \<or> \<not> valid_utf8 data then None
            else case rejectDuplicateJSONKeys data of
                None \<Rightarrow> None
              | Some v \<Rightarrow> dec_struct fs v data zero)"

definition emptyBody :: "request \<Rightarrow> bool" where
  "emptyBody r = (case read_body r of None \<Rightarrow> False | Some data \<Rightarrow> len data \<le> MaxRequestBytes \<and> trim_space data = [])"

fun state_of :: "string \<Rightarrow> State" where
  "state_of s =
     (if s = ''pending'' then StatePending else if s = ''preparing'' then StatePreparing
      else if s = ''running'' then StateRunning else if s = ''stopping'' then StateStopping
      else if s = ''completed'' then StateCompleted else if s = ''failed'' then StateFailed
      else if s = ''expired'' then StateExpired else if s = [] then StateEmpty else StateOther s)"

fun state_text :: "State \<Rightarrow> string" where
  "state_text StatePending = ''pending''"
| "state_text StatePreparing = ''preparing''"
| "state_text StateRunning = ''running''"
| "state_text StateStopping = ''stopping''"
| "state_text StateCompleted = ''completed''"
| "state_text StateFailed = ''failed''"
| "state_text StateExpired = ''expired''"
| "state_text StateEmpty = []"
| "state_text (StateOther s) = s"

definition dec_state :: "State decoder" where
  "dec_state j raw s = map_option state_of (dec_string j raw (state_text s))"

record createRequest =
  cq_APIVersion :: string
  cq_IdempotencyKey :: string
  cq_ResolvedRun :: string

definition zero_createRequest :: createRequest where
  "zero_createRequest = \<lparr>cq_APIVersion = [], cq_IdempotencyKey = [], cq_ResolvedRun = []\<rparr>"

definition createRequest_fields :: "createRequest fields" where
  "createRequest_fields = [
     fld ''api_version'' cq_APIVersion cq_APIVersion_update dec_string,
     fld ''idempotency_key'' cq_IdempotencyKey cq_IdempotencyKey_update dec_string,
     fld ''resolved_run'' cq_ResolvedRun cq_ResolvedRun_update dec_raw]"

record claimRequest =
  lq_APIVersion :: string
  lq_Owner :: string
  lq_ExpectedRevision :: int
  lq_LeaseSeconds :: int

definition zero_claimRequest :: claimRequest where
  "zero_claimRequest = \<lparr>lq_APIVersion = [], lq_Owner = [], lq_ExpectedRevision = 0, lq_LeaseSeconds = 0\<rparr>"

definition claimRequest_fields :: "claimRequest fields" where
  "claimRequest_fields = [
     fld ''api_version'' lq_APIVersion lq_APIVersion_update dec_string,
     fld ''owner'' lq_Owner lq_Owner_update dec_string,
     fld ''expected_revision'' lq_ExpectedRevision lq_ExpectedRevision_update (dec_int 64),
     fld ''lease_seconds'' lq_LeaseSeconds lq_LeaseSeconds_update (dec_int 64)]"

record statusRequest =
  sq_APIVersion :: string
  sq_Owner :: string
  sq_ExpectedRevision :: int
  sq_State :: State
  sq_TerminalTarget :: State
  sq_Reason :: string

definition zero_statusRequest :: statusRequest where
  "zero_statusRequest = \<lparr>sq_APIVersion = [], sq_Owner = [], sq_ExpectedRevision = 0, sq_State = StateEmpty,
     sq_TerminalTarget = StateEmpty, sq_Reason = []\<rparr>"

definition statusRequest_fields :: "statusRequest fields" where
  "statusRequest_fields = [
     fld ''api_version'' sq_APIVersion sq_APIVersion_update dec_string,
     fld ''owner'' sq_Owner sq_Owner_update dec_string,
     fld ''expected_revision'' sq_ExpectedRevision sq_ExpectedRevision_update (dec_int 64),
     fld ''state'' sq_State sq_State_update dec_state,
     fld ''terminal_target'' sq_TerminalTarget sq_TerminalTarget_update dec_state,
     fld ''reason'' sq_Reason sq_Reason_update dec_string]"

section \<open>Responses\<close>

record scheduleAdmissionResponse =
  ad_Scheduled :: bool
  ad_Reason :: string
  ad_State :: State
  ad_AgentRun :: "(string \<times> string) option"

datatype http_body =
    NoBody
  | ErrorBody string
  | RunBody Run
  | CreatedBody bool Run
  | RunsBody ListResult
  | RouteBody route_Run
  | RoutesBody route_List
  | AdmissionBody scheduleAdmissionResponse

record response =
  rsp_status :: int
  rsp_reason :: string
  rsp_runID :: string
  rsp_body :: http_body

definition respond :: "int \<Rightarrow> string \<Rightarrow> string \<Rightarrow> http_body \<Rightarrow> response" where
  "respond status reason runID body = \<lparr>rsp_status = status, rsp_reason = reason, rsp_runID = runID, rsp_body = body\<rparr>"

definition writeMethod :: "string \<Rightarrow> response" where
  "writeMethod runID = respond 405 ''method-not-allowed'' runID (ErrorBody ''method-not-allowed'')"

fun error_status :: "store_error \<Rightarrow> int \<times> string" where
  "error_status ErrInvalidRequest = (400, ''invalid-request'')"
| "error_status ErrNotFound = (404, ''not-found'')"
| "error_status ErrGone = (410, ''gone'')"
| "error_status ErrConflict = (409, ''conflict'')"
| "error_status ErrInvalidTransition = (409, ''conflict'')"
| "error_status ErrOwnershipConflict = (409, ''conflict'')"
| "error_status ErrCapacityExceeded = (429, ''capacity-exceeded'')"
| "error_status ErrStoreUnavailable = (503, ''unavailable'')"
| "error_status ErrActiveGroup = (500, ''internal-error'')"
| "error_status (ErrDestructiveReconcile _ _) = (500, ''internal-error'')"

definition writeError :: "store_error \<Rightarrow> string \<Rightarrow> response" where
  "writeError e runID = (let (status, reason) = error_status e in respond status reason runID (ErrorBody reason))"

definition writeUnauthorized :: response where
  "writeUnauthorized = respond 401 ''not-authorized'' [] (ErrorBody ''not-authorized'')"

definition routeClass :: "string \<Rightarrow> string" where
  "routeClass path =
     (if path = ''/healthz'' then ''health''
      else if path = ''/readyz'' then ''ready''
      else if path = ''/v1/runs'' then ''runs''
      else if path = ''/v1/routes'' then ''routes''
      else if prefix ''/v1/routes/'' path then ''route''
      else if prefix ''/v1/schedules/'' path then ''schedule''
      else if suffix ''/cancel'' path then ''run-cancel''
      else if suffix ''/claim'' path then ''run-claim''
      else if suffix ''/status'' path then ''run-status''
      else if prefix ''/v1/runs/'' path then ''run''
      else ''unknown'')"

section \<open>Bearer tokens\<close>

record file_t =
  file_regular :: bool
  file_perm :: int
  file_size :: int
  file_data :: "string option"

type_synonym digest = "int list"
type_synonym filesystem = "string \<Rightarrow> file_t option"

text \<open>The permission bits of group and others are the six low bits.\<close>

definition readPrivateBearer :: "filesystem \<Rightarrow> string \<Rightarrow> string option" where
  "readPrivateBearer fs path =
     (case fs path of
        None \<Rightarrow> None
      | Some f \<Rightarrow>
          if \<not> file_regular f \<or> file_perm f mod 64 \<noteq> 0 \<or> file_size f < 32 \<or> 4096 < file_size f then None
          else case file_data f of
              None \<Rightarrow> None
            | Some data \<Rightarrow>
                if 4096 < len data then None
                else let token = trim_space data in
                  if len token < 32 \<or> 4096 < len token \<or> \<not> valid_utf8 token
                     \<or> list_ex (\<lambda>(r, _). r \<le> 32 \<or> r = 127) (runes token)
                  then None else Some token)"

definition privateBearerDigest :: "filesystem \<Rightarrow> string \<Rightarrow> digest option" where
  "privateBearerDigest fs path = map_option sha256_bytes (readPrivateBearer fs path)"

datatype apiAudience = AudienceNone | AudienceAdmin | AudienceRoutes

record APIAuthorization =
  auth_admin :: "digest option"
  auth_routes :: "digest option"

definition apiAudienceForPath :: "string \<Rightarrow> apiAudience" where
  "apiAudienceForPath path =
     (if path = ''/v1/routes'' \<or> prefix ''/v1/routes/'' path then AudienceRoutes
      else if path = ''/v1/runs'' \<or> prefix ''/v1/runs/'' path then AudienceAdmin
      else AudienceNone)"

definition expected_digest :: "APIAuthorization option \<Rightarrow> apiAudience \<Rightarrow> digest option" where
  "expected_digest authorization audience =
     (case authorization of
        None \<Rightarrow> None
      | Some a \<Rightarrow>
          (case audience of AudienceAdmin \<Rightarrow> auth_admin a | AudienceRoutes \<Rightarrow> auth_routes a | AudienceNone \<Rightarrow> None))"

text \<open>The token of the one \<open>Authorization\<close> header, when it has the form and the length of a bearer token.\<close>

definition bearer_token :: "request \<Rightarrow> string option" where
  "bearer_token r =
     (case header_Values (rq_Header r) ''Authorization'' of
        [v] \<Rightarrow>
          if len v < 7 + 32 \<or> 7 + 4096 < len v \<or> take 7 v \<noteq> ''Bearer '' then None
          else let token = drop 7 v in if len token < 32 \<or> 4096 < len token then None else Some token
      | _ \<Rightarrow> None)"

definition permits :: "APIAuthorization option \<Rightarrow> request \<Rightarrow> apiAudience \<Rightarrow> bool" where
  "permits authorization r audience =
     (if audience = AudienceNone then True
      else case expected_digest authorization audience of
          None \<Rightarrow> False
        | Some expected \<Rightarrow>
            (case bearer_token r of None \<Rightarrow> False | Some token \<Rightarrow> sha256_bytes token = expected))"

end
