(* ===== verification/Run_Routes.thy ===== *)
theory Run_Routes
  imports HTTP_Request
begin

text \<open>
  The routes of runs, \<^verbatim>\<open>localcontroller/internal/controller/routes.go\<close>, and the server they and the
  other handlers belong to. The provider of backend routes is a parameter: a function of the run and
  the state of the backend. As in the reconciler, other goroutines may change the store before each
  call of it; the function \<open>srv_others\<close> says how.
\<close>

section \<open>The server\<close>

record BackendRoutes =
  bk_Session :: Endpoint
  bk_Exposures :: "Exposure list"

type_synonym 'b RouteProvider = "BackendRun \<Rightarrow> 'b \<Rightarrow> BackendRoutes option \<times> 'b"

record 'b HTTPServer =
  srv_env :: store_env
  srv_others :: "nat \<Rightarrow> store \<Rightarrow> store"
  srv_storeReady :: "store \<Rightarrow> bool"
  srv_backendReady :: "('b \<Rightarrow> bool) option"
  srv_routeProvider :: "'b RouteProvider option"
  srv_authorization :: "APIAuthorization option"

type_synonym ('b, 'a) serve = "'b world \<Rightarrow> (store_error + 'a) \<times> 'b world"

definition serve_store :: "'b HTTPServer \<Rightarrow> 'a store_op \<Rightarrow> ('b, 'a) serve" where
  "serve_store srv op w =
     (let (res, st) = op (srv_others srv (w_calls w) (w_store w))
      in (res, w\<lparr>w_store := st, w_calls := Suc (w_calls w)\<rparr>))"

definition serve_bind :: "('b, 'a) serve \<Rightarrow> ('a \<Rightarrow> ('b, 'c) serve) \<Rightarrow> ('b, 'c) serve" where
  "serve_bind m f w = (case m w of (Inl e, w1) \<Rightarrow> (Inl e, w1) | (Inr a, w1) \<Rightarrow> f a w1)"

section \<open>Routes\<close>

definition encodeCanonicalResolved :: "ResolvedAgentRun \<Rightarrow> string option" where
  "encodeCanonicalResolved v =
     (case enc_ResolvedAgentRun v of
        None \<Rightarrow> None
      | Some encoded \<Rightarrow> if MaxDocumentBytes < len encoded then None else Some encoded)"

text \<open>The run that is handed to the provider carries only the resolved document and its digest.\<close>

definition route_backend_run :: "ResolvedAgentRun \<Rightarrow> string \<Rightarrow> BackendRun" where
  "route_backend_run resolved digest = \<lparr>br_Resolved = resolved, br_PreviousResolved = None,
     br_SnapshotDigest = digest, br_DesiredDigest = [], br_ConfigurationRollout = False, br_DeleteRequested = False,
     br_LifecycleCursor = []\<rparr>"

definition route_of_run :: "Run \<Rightarrow> ResolvedAgentRun \<Rightarrow> BackendRoutes \<Rightarrow> route_Run" where
  "route_of_run run resolved routes = \<lparr>rr_APIVersion = routes_api_version, rr_RunID = v_RunID run,
     rr_State = state_text (v_State run), rr_Ready = (v_State run = StateRunning),
     rr_Principal = \<lparr>rp_Issuer = Issuer (run_Principal resolved), rp_Subject = Subject (run_Principal resolved),
       rp_DisplayName = DisplayName (run_Principal resolved)\<rparr>,
     rr_SourceURL = SourceURL resolved, rr_Profile = run_Profile resolved, rr_Workflow = run_Workflow resolved,
     rr_CreatedAt = \<lparr>time_instant = v_CreatedAt run, time_utc = True\<rparr>,
     rr_Session = bk_Session routes, rr_Exposures = bk_Exposures routes\<rparr>"

definition routeForRun :: "'b HTTPServer \<Rightarrow> Run \<Rightarrow> ('b, route_Run) serve" where
  "routeForRun srv run w =
     (case srv_routeProvider srv of
        None \<Rightarrow> (Inl ErrNotFound, w)
      | Some provider \<Rightarrow>
          if state_terminal (v_State run) then (Inl ErrNotFound, w)
          else serve_bind (serve_store srv (ResolvedSnapshot (v_RunID run))) (\<lambda>(snapshot, digest) w1.
            case DecodeResolvedAgentRun snapshot of
              None \<Rightarrow> (Inl ErrStoreUnavailable, w1)
            | Some resolved \<Rightarrow>
                (case provider (route_backend_run resolved digest) (w_backend w1) of
                   (None, b) \<Rightarrow> (Inl ErrStoreUnavailable, w1\<lparr>w_backend := b\<rparr>)
                 | (Some routes, b) \<Rightarrow>
                     let result = route_of_run run resolved routes in
                     (if ValidateRun result then Inr result else Inl ErrStoreUnavailable, w1\<lparr>w_backend := b\<rparr>))) w)"

fun routes_for_runs :: "'b HTTPServer \<Rightarrow> Run list \<Rightarrow> ('b, route_Run list) serve" where
  "routes_for_runs srv [] w = (Inr [], w)"
| "routes_for_runs srv (run # runs) w =
     serve_bind (routeForRun srv run) (\<lambda>route w1. map_prod (map_sum id ((#) route)) id (routes_for_runs srv runs w1)) w"

definition routeList :: "'b HTTPServer \<Rightarrow> int \<Rightarrow> string \<Rightarrow> ('b, route_List) serve" where
  "routeList srv limit after w =
     (if srv_routeProvider srv = None then (Inl ErrNotFound, w)
      else if limit < 1 \<or> MaxRunsPerPage < limit then (Inl ErrInvalidRequest, w)
      else serve_bind (serve_store srv (listActive (srv_env srv) limit after)) (\<lambda>runs.
        serve_bind (routes_for_runs srv (list_Runs runs)) (\<lambda>routes w1.
          let result = \<lparr>rl_APIVersion = routes_api_version, rl_Runs = routes, rl_NextAfter = list_NextAfter runs\<rparr>
          in (if ValidateList result then Inr result else Inl ErrStoreUnavailable, w1))) w)"

end
