(* ===== verification/Controller_Config.thy ===== *)
theory Controller_Config
  imports Run_Reconciler
begin

text \<open>
  The configuration of the local controller, \<^verbatim>\<open>localcontroller/internal/controller/config.go\<close>, and the
  policy of the networks of its runs, \<^verbatim>\<open>localcontroller/internal/networkpolicy/validate.go\<close>. The process
  environment is a partial map from names to values; durations are nanoseconds with the wrap-around
  of \<^verbatim>\<open>time.Duration\<close>.
\<close>

section \<open>Paths\<close>

definition filepath_IsAbs :: "string \<Rightarrow> bool" where
  "filepath_IsAbs p \<longleftrightarrow> p \<noteq> [] \<and> hd p = CHR ''/''"

text \<open>The elements of a cleaned path: \<open>..\<close> removes the element before it, or stays in front of a relative path.\<close>

fun clean_elements :: "bool \<Rightarrow> string list \<Rightarrow> string list \<Rightarrow> string list" where
  "clean_elements rooted acc [] = rev acc"
| "clean_elements rooted acc (e # es) =
     (if e = [] \<or> e = ''.'' then clean_elements rooted acc es
      else if e = ''..'' then
        (case acc of
           [] \<Rightarrow> clean_elements rooted (if rooted then [] else [''..'']) es
         | a # as \<Rightarrow> if a = ''..'' then clean_elements rooted (''..'' # acc) es else clean_elements rooted as es)
      else clean_elements rooted (e # acc) es)"

definition filepath_Clean :: "string \<Rightarrow> string" where
  "filepath_Clean p =
     (if p = [] then ''.''
      else let rooted = filepath_IsAbs p;
               body = join_with ''/'' (clean_elements rooted [] (split_on (CHR ''/'') p))
           in if rooted then CHR ''/'' # body else if body = [] then ''.'' else body)"

text \<open>\<open>filepath.Dir\<close>: everything before the last slash, cleaned.\<close>

definition filepath_Dir :: "string \<Rightarrow> string" where
  "filepath_Dir p = filepath_Clean (rev (dropWhile (\<lambda>c. c \<noteq> CHR ''/'') (rev p)))"

section \<open>The networks of runs\<close>

definition RunNetworkPrefixBits :: nat where
  "RunNetworkPrefixBits = 28"

definition maxProtectedCIDRs :: int where
  "maxProtectedCIDRs = 256"

definition maxProtectedBytes :: int where
  "maxProtectedBytes = 4096"

text \<open>\<open>172.30.0.0/15\<close>\<close>

definition managedDockerPool :: prefix_t where
  "managedDockerPool = \<lparr>pfx_addr = V4 0xAC1E0000, pfx_bits = 15\<rparr>"

record RunNetworkPolicy =
  Pool :: prefix_t
  SubnetCapacity :: int

text \<open>\<open>Prefix.Overlaps\<close>: same family, and the leading bits of the shorter length agree.\<close>

definition prefix_overlaps :: "prefix_t \<Rightarrow> prefix_t \<Rightarrow> bool" where
  "prefix_overlaps p q =
     (let b = min (pfx_bits p) (pfx_bits q) in
      case (pfx_addr p, pfx_addr q) of
        (V4 v, V4 w) \<Rightarrow> drop_bit (32 - b) v = drop_bit (32 - b) w
      | (V6 v y, V6 w z) \<Rightarrow> drop_bit (128 - b) v = drop_bit (128 - b) w
      | _ \<Rightarrow> False)"

text \<open>\<open>strings.Fields\<close>\<close>

fun group_fields :: "(int \<times> string) list \<Rightarrow> string \<Rightarrow> string list" where
  "group_fields [] acc = (if acc = [] then [] else [acc])"
| "group_fields ((r, bs) # rs) acc =
     (if is_space r then (if acc = [] then [] else [acc]) @ group_fields rs []
      else group_fields rs (acc @ bs))"

definition strings_Fields :: "string \<Rightarrow> string list" where
  "strings_Fields s = group_fields (runes s) []"

definition protected_ok :: "prefix_t \<Rightarrow> string \<Rightarrow> bool" where
  "protected_ok pool v =
     (case parse_prefix v of
        None \<Rightarrow> False
      | Some pfx \<Rightarrow>
          if pfx \<noteq> masked pfx then False
          else \<not> (is4 (pfx_addr pfx) \<and> prefix_overlaps pool pfx))"

definition ValidateRunNetworkPolicy :: "string \<Rightarrow> string \<Rightarrow> RunNetworkPolicy option" where
  "ValidateRunNetworkPolicy runPool protectedCIDRs =
     (case parse_prefix runPool of
        None \<Rightarrow> None
      | Some pool \<Rightarrow>
          if \<not> is4 (pfx_addr pool) \<or> pool \<noteq> masked pool \<or> pfx_bits pool < 8
             \<or> RunNetworkPrefixBits - 1 < pfx_bits pool \<or> prefix_overlaps pool managedDockerPool
          then None
          else if protectedCIDRs = [] \<or> maxProtectedBytes < len protectedCIDRs
             \<or> contains_any protectedCIDRs [CHR 0x00, CHR 0x0D, CHR 0x0A]
          then None
          else let protected = strings_Fields protectedCIDRs in
            if protected = [] \<or> maxProtectedCIDRs < len protected then None
            else if \<not> list_all (protected_ok pool) protected then None
            else Some \<lparr>Pool = pool, SubnetCapacity = 2 ^ (RunNetworkPrefixBits - pfx_bits pool)\<rparr>)"

section \<open>The configuration\<close>

record Config =
  cfg_Bind :: string
  cfg_StatePath :: string
  cfg_MaxActiveRuns :: int
  cfg_MaxClaimLease :: int
  cfg_SweepInterval :: int
  cfg_ReconcileInterval :: int
  cfg_DockerHost :: string
  cfg_RunsDir :: string
  cfg_BrokerURL :: string
  cfg_BrokerCAFile :: string
  cfg_BrokerAgentsPath :: string
  cfg_IdentityKeyPath :: string
  cfg_ControllerOwner :: string
  cfg_ExternalNetwork :: string
  cfg_RunNetworkPool :: string
  cfg_ProxyPort :: int
  cfg_RouteBaseDomain :: string
  cfg_RoutePathPrefix :: string
  cfg_GatewayContainer :: string
  cfg_PlatformConfigPath :: string
  cfg_AdminTokenFile :: string
  cfg_RouteTokenFile :: string
  cfg_ProtectedCIDRs :: string
  cfg_DindImage :: string
  cfg_EgressdImage :: string
  cfg_CapturedImage :: string
  cfg_SeedImage :: string
  cfg_BackendOperationTimeout :: int

definition validRouteDomain :: "string \<Rightarrow> bool" where
  "validRouteDomain v =
     (if v = [] \<or> 190 < len v \<or> v \<noteq> to_lower v \<or> suffix ''.'' v then False
      else list_all validRunID (split_on (CHR ''.'') v))"

definition validRoutePrefix :: "string \<Rightarrow> bool" where
  "validRoutePrefix v =
     (if len v < 2 \<or> 256 < len v \<or> hd v \<noteq> CHR ''/'' \<or> suffix ''/'' v \<or> sublist ''//'' v
         \<or> contains_any v (''%?#'' @ [CHR 0x5C, CHR 0x00, CHR 0x0D, CHR 0x0A])
      then False
      else list_all validRunID (split_on (CHR ''/'') (trim_prefix v ''/'')))"

definition has_line_break :: "string \<Rightarrow> bool" where
  "has_line_break s = contains_any s [CHR 0x00, CHR 0x0D, CHR 0x0A]"

definition clean_abs :: "string \<Rightarrow> bool" where
  "clean_abs p \<longleftrightarrow> filepath_IsAbs p \<and> filepath_Clean p = p"

definition bind_ok :: "string \<Rightarrow> bool" where
  "bind_ok bind =
     (if bind = [] \<or> 512 < len bind \<or> has_line_break bind then False
      else case SplitHostPort bind of
          None \<Rightarrow> False
        | Some (host, port) \<Rightarrow>
            if host = [] \<or> port = [] then False
            else case atoi port of None \<Rightarrow> False | Some n \<Rightarrow> \<not> (n < 1 \<or> 65535 < n))"

definition broker_url_ok :: "string \<Rightarrow> bool" where
  "broker_url_ok raw =
     (case url_Parse raw of
        None \<Rightarrow> False
      | Some u \<Rightarrow> \<not> (url_Host u = [] \<or> url_User u \<or> url_RawQuery u \<noteq> [] \<or> url_Fragment u \<noteq> []
                 \<or> url_Scheme u \<noteq> ''http'' \<and> url_Scheme u \<noteq> ''https''))"

definition second :: int where
  "second = 1000000000"

definition ValidateConfig :: "Config \<Rightarrow> bool" where
  "ValidateConfig config =
     (let c1 = (if cfg_RouteBaseDomain config = [] then config\<lparr>cfg_RouteBaseDomain := ''agent.localhost''\<rparr> else config);
          c2 = (if cfg_RoutePathPrefix c1 = [] then c1\<lparr>cfg_RoutePathPrefix := ''/agents''\<rparr> else c1);
          c = (if cfg_GatewayContainer c2 = [] then c2\<lparr>cfg_GatewayContainer := ''nvt-local-gateway''\<rparr> else c2)
      in if \<not> bind_ok (cfg_Bind c) then False
         else \<not> (cfg_StatePath c = [] \<or> \<not> suffix ''.sqlite3'' (cfg_StatePath c) \<or> has_line_break (cfg_StatePath c)
           \<or> \<not> clean_abs (cfg_StatePath c) \<or> filepath_Dir (cfg_StatePath c) = ''/''
           \<or> cfg_MaxActiveRuns c < 1 \<or> 500 < cfg_MaxActiveRuns c
           \<or> (case ValidateRunNetworkPolicy (cfg_RunNetworkPool c) (cfg_ProtectedCIDRs c) of
                None \<Rightarrow> True | Some policy \<Rightarrow> SubnetCapacity policy < cfg_MaxActiveRuns c * 2)
           \<or> cfg_MaxClaimLease c < second \<or> 3600 * second < cfg_MaxClaimLease c
           \<or> cfg_SweepInterval c < second \<or> 60 * second < cfg_SweepInterval c
           \<or> cfg_ReconcileInterval c < second \<or> 60 * second < cfg_ReconcileInterval c
           \<or> cfg_BackendOperationTimeout c < second \<or> 300 * second < cfg_BackendOperationTimeout c
           \<or> cfg_MaxClaimLease c < cfg_BackendOperationTimeout c + 30 * second
           \<or> cfg_DockerHost c = [] \<or> has_line_break (cfg_DockerHost c)
           \<or> cfg_RunsDir c = [] \<or> \<not> clean_abs (cfg_RunsDir c)
           \<or> \<not> broker_url_ok (cfg_BrokerURL c)
           \<or> cfg_BrokerAgentsPath c = [] \<or> \<not> filepath_IsAbs (cfg_BrokerAgentsPath c)
           \<or> cfg_IdentityKeyPath c = [] \<or> \<not> filepath_IsAbs (cfg_IdentityKeyPath c)
           \<or> cfg_BrokerCAFile c \<noteq> [] \<and> \<not> filepath_IsAbs (cfg_BrokerCAFile c)
           \<or> cfg_ControllerOwner c = [] \<or> 63 < len (cfg_ControllerOwner c) \<or> cfg_ExternalNetwork c = []
           \<or> cfg_RunNetworkPool c = [] \<or> cfg_ProxyPort c < 1 \<or> 65535 < cfg_ProxyPort c
           \<or> cfg_ProtectedCIDRs c = [] \<or> 4096 < len (cfg_ProtectedCIDRs c)
           \<or> \<not> validRouteDomain (cfg_RouteBaseDomain c) \<or> \<not> validRoutePrefix (cfg_RoutePathPrefix c)
           \<or> \<not> validRunID (cfg_GatewayContainer c)
           \<or> cfg_PlatformConfigPath c \<noteq> [] \<and> (\<not> clean_abs (cfg_PlatformConfigPath c) \<or> has_line_break (cfg_PlatformConfigPath c))
           \<or> cfg_RouteTokenFile c = [] \<or> \<not> clean_abs (cfg_RouteTokenFile c) \<or> has_line_break (cfg_RouteTokenFile c)
           \<or> cfg_AdminTokenFile c \<noteq> [] \<and> (\<not> clean_abs (cfg_AdminTokenFile c) \<or> has_line_break (cfg_AdminTokenFile c))
           \<or> cfg_DindImage c = [] \<or> cfg_EgressdImage c = [] \<or> cfg_CapturedImage c = [] \<or> cfg_SeedImage c = []
           \<or> has_line_break (cfg_ControllerOwner c @ cfg_ExternalNetwork c @ cfg_ProtectedCIDRs c @ cfg_DindImage c
               @ cfg_EgressdImage c @ cfg_CapturedImage c @ cfg_SeedImage c)))"

section \<open>The environment\<close>

type_synonym process_env = "string \<Rightarrow> string option"

definition environmentOrDefault :: "process_env \<Rightarrow> string \<Rightarrow> string \<Rightarrow> string" where
  "environmentOrDefault env name fallback = (case env name of None \<Rightarrow> fallback | Some v \<Rightarrow> trim_space v)"

definition environmentInteger :: "process_env \<Rightarrow> string \<Rightarrow> int \<Rightarrow> int option" where
  "environmentInteger env name fallback =
     (case env name of
        None \<Rightarrow> Some fallback
      | Some v \<Rightarrow> if trim_space v = [] then None else atoi (trim_space v))"

definition seconds_duration :: "int \<Rightarrow> int" where
  "seconds_duration n = sint (of_int (n * second) :: 64 word)"

definition default_config :: "process_env \<Rightarrow> Config" where
  "default_config env = \<lparr>
     cfg_Bind = environmentOrDefault env ''NVT_LOCAL_CONTROLLER_BIND'' ''0.0.0.0:7480'',
     cfg_StatePath = environmentOrDefault env ''NVT_LOCAL_CONTROLLER_STATE'' ''/state/controller/local-controller.sqlite3'',
     cfg_MaxActiveRuns = 32,
     cfg_MaxClaimLease = 180 * second,
     cfg_SweepInterval = second,
     cfg_ReconcileInterval = second,
     cfg_DockerHost = environmentOrDefault env ''NVT_LOCAL_CONTROLLER_DOCKER_HOST'' ''unix:///var/run/docker.sock'',
     cfg_RunsDir = environmentOrDefault env ''NVT_LOCAL_CONTROLLER_RUNS_DIR'' ''/state/controller/runs'',
     cfg_BrokerURL = environmentOrDefault env ''NVT_LOCAL_CONTROLLER_BROKER_URL'' ''http://broker:7347'',
     cfg_BrokerCAFile = environmentOrDefault env ''NVT_LOCAL_CONTROLLER_BROKER_CA_FILE'' [],
     cfg_BrokerAgentsPath = environmentOrDefault env ''NVT_LOCAL_CONTROLLER_BROKER_AGENTS'' ''/broker-state/agents.yaml'',
     cfg_IdentityKeyPath = environmentOrDefault env ''NVT_LOCAL_CONTROLLER_IDENTITY_KEY_FILE'' ''/broker-state/local-controller.key'',
     cfg_ControllerOwner = environmentOrDefault env ''NVT_LOCAL_CONTROLLER_OWNER'' ''nvt-local-controller'',
     cfg_ExternalNetwork = environmentOrDefault env ''NVT_LOCAL_CONTROLLER_EXTERNAL_NETWORK'' ''agents-proxy'',
     cfg_RunNetworkPool = environmentOrDefault env ''NVT_LOCAL_CONTROLLER_RUN_NETWORK_POOL'' ''100.64.0.0/10'',
     cfg_ProxyPort = 4090,
     cfg_RouteBaseDomain = environmentOrDefault env ''NVT_LOCAL_CONTROLLER_ROUTE_BASE_DOMAIN'' ''agent.localhost'',
     cfg_RoutePathPrefix = environmentOrDefault env ''NVT_LOCAL_CONTROLLER_ROUTE_PATH_PREFIX'' ''/agents'',
     cfg_GatewayContainer = environmentOrDefault env ''NVT_LOCAL_CONTROLLER_GATEWAY_CONTAINER'' ''nvt-local-gateway'',
     cfg_PlatformConfigPath = environmentOrDefault env ''NVT_LOCAL_CONTROLLER_CONFIG'' [],
     cfg_AdminTokenFile = environmentOrDefault env ''NVT_LOCAL_CONTROLLER_ADMIN_TOKEN_FILE'' [],
     cfg_RouteTokenFile = environmentOrDefault env ''NVT_LOCAL_CONTROLLER_ROUTE_TOKEN_FILE'' [],
     cfg_ProtectedCIDRs = environmentOrDefault env ''NVT_LOCAL_CONTROLLER_DIND_PROTECTED_CIDRS'' ''127.0.0.0/8 169.254.0.0/16'',
     cfg_DindImage = environmentOrDefault env ''NVT_LOCAL_CONTROLLER_DIND_IMAGE'' ''nvt-dind:latest'',
     cfg_EgressdImage = environmentOrDefault env ''NVT_LOCAL_CONTROLLER_EGRESSD_IMAGE'' ''nvt-egressd:latest'',
     cfg_CapturedImage = environmentOrDefault env ''NVT_LOCAL_CONTROLLER_CAPTURED_IMAGE'' ''nvt-captured:latest'',
     cfg_SeedImage = environmentOrDefault env ''NVT_LOCAL_CONTROLLER_SEED_IMAGE'' ''nvt-agent-runtime:latest'',
     cfg_BackendOperationTimeout = 120 * second\<rparr>"

definition ConfigFromEnvironment :: "process_env \<Rightarrow> Config option" where
  "ConfigFromEnvironment env =
     (if list_ex (\<lambda>name. env name \<noteq> None)
           [''NVT_LOCAL_CONTROLLER_SCHEDULING_CONFIG'', ''NVT_LOCAL_CONTROLLER_NAMED_RUNS_CONFIG''] then None
      else if list_ex (\<lambda>name. case env name of None \<Rightarrow> False | Some v \<Rightarrow> trim_space v = [])
           [''NVT_LOCAL_CONTROLLER_ROUTE_BASE_DOMAIN'', ''NVT_LOCAL_CONTROLLER_ROUTE_PATH_PREFIX'',
            ''NVT_LOCAL_CONTROLLER_GATEWAY_CONTAINER''] then None
      else
        Option.bind (environmentInteger env ''NVT_LOCAL_CONTROLLER_MAX_ACTIVE_RUNS'' 32) (\<lambda>maxActiveRuns.
        Option.bind (environmentInteger env ''NVT_LOCAL_CONTROLLER_MAX_CLAIM_LEASE_SECONDS'' 180) (\<lambda>maxClaimLeaseSeconds.
        Option.bind (environmentInteger env ''NVT_LOCAL_CONTROLLER_SWEEP_SECONDS'' 1) (\<lambda>sweepSeconds.
        Option.bind (environmentInteger env ''NVT_LOCAL_CONTROLLER_RECONCILE_SECONDS'' 1) (\<lambda>reconcileSeconds.
        Option.bind (environmentInteger env ''NVT_LOCAL_CONTROLLER_BACKEND_TIMEOUT_SECONDS'' 120) (\<lambda>operationSeconds.
        Option.bind (environmentInteger env ''NVT_LOCAL_CONTROLLER_PROXY_PORT'' 4090) (\<lambda>proxyPort.
          let config = (default_config env)\<lparr>cfg_MaxActiveRuns := maxActiveRuns,
                 cfg_MaxClaimLease := seconds_duration maxClaimLeaseSeconds,
                 cfg_SweepInterval := seconds_duration sweepSeconds,
                 cfg_ReconcileInterval := seconds_duration reconcileSeconds,
                 cfg_BackendOperationTimeout := seconds_duration operationSeconds,
                 cfg_ProxyPort := proxyPort\<rparr>
          in if ValidateConfig config then Some config else None)))))))"

end
