(* ===== verification/Run_Scheduler.thy ===== *)
theory Run_Scheduler
  imports Run_Routes Run_Render Controller_Config
begin

text \<open>
  The administrator's configuration and the work of schedule producers,
  \<^verbatim>\<open>localcontroller/internal/controller/scheduling.go\<close>. The YAML library is a parameter: a function from the
  bytes of a file to the nodes of its documents, and one from a node to the value it stands for. A
  handler gives an answer, or none when it panics, which ends the connection. The store of the
  scheduler is that of the server.
\<close>

section \<open>YAML documents\<close>

datatype yaml_kind = DocumentNode | SequenceNode | MappingNode | ScalarNode | AliasNode

datatype yaml_node =
  YamlNode (node_Kind: yaml_kind) (node_Tag: string) (node_Value: string) (node_Anchor: string) (node_Alias: bool)
    (node_Content: "yaml_node list")

text \<open>The outcome of one call of \<open>Decode\<close> on the stream.\<close>

datatype yaml_document = YamlDocument yaml_node | YamlEOF | YamlError

record yaml_library =
  yaml_first :: "string \<Rightarrow> yaml_document"
  yaml_second :: "string \<Rightarrow> yaml_document"
  yaml_value :: "yaml_node \<Rightarrow> any option"

definition maxNativeConfigBytes :: int where "maxNativeConfigBytes = 2 ^ 20"
definition maxNativeConfigNodes :: int where "maxNativeConfigNodes = 32768"
definition maxNativeConfigDepth :: int where "maxNativeConfigDepth = 64"

text \<open>The counter of nodes after the walk, when it succeeds.\<close>

fun validateYAMLNode :: "yaml_node \<Rightarrow> int \<Rightarrow> int \<Rightarrow> int option"
  and validate_pairs :: "yaml_node list \<Rightarrow> string list \<Rightarrow> int \<Rightarrow> int \<Rightarrow> int option"
  and validate_items :: "yaml_node list \<Rightarrow> int \<Rightarrow> int \<Rightarrow> int option" where
  "validateYAMLNode (YamlNode kind tag v anchor alias content) depth nodes =
     (if maxNativeConfigDepth < depth then None
      else if maxNativeConfigNodes < nodes + 1 \<or> alias \<or> anchor \<noteq> [] then None
      else case kind of
          MappingNode \<Rightarrow> if odd (length content) then None else validate_pairs content [] depth (nodes + 1)
        | SequenceNode \<Rightarrow> validate_items content depth (nodes + 1)
        | ScalarNode \<Rightarrow>
            if tag \<in> {''!!str'', ''!!bool'', ''!!int'', ''!!null''} then Some (nodes + 1) else None
        | _ \<Rightarrow> None)"
| "validate_pairs [] seen depth nodes = Some nodes"
| "validate_pairs [key] seen depth nodes = None"
| "validate_pairs (key # child # content) seen depth nodes =
     (if node_Kind key \<noteq> ScalarNode \<or> node_Tag key \<noteq> ''!!str'' \<or> node_Value key = [] then None
      else if node_Value key \<in> set seen then None
      else case validateYAMLNode child (depth + 1) nodes of
          None \<Rightarrow> None
        | Some nodes' \<Rightarrow> validate_pairs content (node_Value key # seen) depth nodes')"
| "validate_items [] depth nodes = Some nodes"
| "validate_items (child # content) depth nodes =
     (case validateYAMLNode child (depth + 1) nodes of
        None \<Rightarrow> None
      | Some nodes' \<Rightarrow> validate_items content depth nodes')"

definition strictYAMLToJSON :: "yaml_library \<Rightarrow> string \<Rightarrow> string option" where
  "strictYAMLToJSON yaml data =
     (case yaml_first yaml data of
        YamlDocument document \<Rightarrow>
          (case node_Content document of
             [node] \<Rightarrow>
               if yaml_second yaml data \<noteq> YamlEOF then None
               else if validateYAMLNode node 0 0 = None then None
               else (case yaml_value yaml node of
                   None \<Rightarrow> None
                 | Some v \<Rightarrow>
                     let encoded = enc_any v in if maxNativeConfigBytes < len encoded then None else Some encoded)
           | _ \<Rightarrow> None)
      | _ \<Rightarrow> None)"

section \<open>The configuration document\<close>

record workstationReconciliation =
  rec_Prune :: bool
  rec_ReplaceOnImmutableChange :: bool
  rec_DestructiveAcknowledged :: bool

record workstationConfig =
  ws_Name :: string
  ws_Principal :: Principal
  ws_Profile :: string
  ws_Workflow :: string
  ws_Retention :: string
  ws_Backend :: string

record scheduleSelection =
  ss_Profile :: string
  ss_Workflow :: string

record scheduleProducerConfig =
  pc_Identity :: string
  pc_TokenFile :: string
  pc_AllowedPrincipalIssuers :: "string list"
  pc_Selections :: "scheduleSelection list"
  pc_DefaultWorkflow :: string
  pc_Retention :: string
  pc_Backend :: string

record scheduleConfig =
  sc_Name :: string
  sc_Producers :: "scheduleProducerConfig list"

record nativeConfiguration =
  nc_APIVersion :: string
  nc_Reconciliation :: workstationReconciliation
  nc_Defaults :: PlatformDefaults
  nc_Profiles :: "Profile list"
  nc_Workflows :: "Workflow list"
  nc_ExecutionBackends :: "ExecutionBackend list"
  nc_RetentionPolicies :: "RetentionPolicy list"
  nc_Workstations :: "workstationConfig list"
  nc_Schedules :: "scheduleConfig list"

definition NativeConfigAPIVersion :: string where
  "NativeConfigAPIVersion = ''nvt.local-platform/v1''"

definition zero_reconciliation :: workstationReconciliation where
  "zero_reconciliation = \<lparr>rec_Prune = False, rec_ReplaceOnImmutableChange = False, rec_DestructiveAcknowledged = False\<rparr>"

definition reconciliation_fields :: "workstationReconciliation fields" where
  "reconciliation_fields = [
     fld ''prune'' rec_Prune rec_Prune_update dec_bool,
     fld ''replace_on_immutable_change'' rec_ReplaceOnImmutableChange rec_ReplaceOnImmutableChange_update dec_bool,
     fld ''destructive_acknowledged'' rec_DestructiveAcknowledged rec_DestructiveAcknowledged_update dec_bool]"

definition zero_workstationConfig :: workstationConfig where
  "zero_workstationConfig = \<lparr>ws_Name = [], ws_Principal = zero_Principal, ws_Profile = [], ws_Workflow = [],
     ws_Retention = [], ws_Backend = []\<rparr>"

definition workstationConfig_fields :: "workstationConfig fields" where
  "workstationConfig_fields = [
     fld ''name'' ws_Name ws_Name_update dec_string,
     fld ''principal'' ws_Principal ws_Principal_update (dec_struct Principal_fields),
     fld ''profile'' ws_Profile ws_Profile_update dec_string,
     fld ''workflow'' ws_Workflow ws_Workflow_update dec_string,
     fld ''retention'' ws_Retention ws_Retention_update dec_string,
     fld ''backend'' ws_Backend ws_Backend_update dec_string]"

definition zero_scheduleSelection :: scheduleSelection where
  "zero_scheduleSelection = \<lparr>ss_Profile = [], ss_Workflow = []\<rparr>"

definition scheduleSelection_fields :: "scheduleSelection fields" where
  "scheduleSelection_fields = [
     fld ''profile'' ss_Profile ss_Profile_update dec_string,
     fld ''workflow'' ss_Workflow ss_Workflow_update dec_string]"

definition zero_scheduleProducerConfig :: scheduleProducerConfig where
  "zero_scheduleProducerConfig = \<lparr>pc_Identity = [], pc_TokenFile = [], pc_AllowedPrincipalIssuers = [], pc_Selections = [],
     pc_DefaultWorkflow = [], pc_Retention = [], pc_Backend = []\<rparr>"

definition scheduleProducerConfig_fields :: "scheduleProducerConfig fields" where
  "scheduleProducerConfig_fields = [
     fld ''identity'' pc_Identity pc_Identity_update dec_string,
     fld ''token_file'' pc_TokenFile pc_TokenFile_update dec_string,
     fld ''allowed_principal_issuers'' pc_AllowedPrincipalIssuers pc_AllowedPrincipalIssuers_update (dec_slice [] dec_string),
     fld ''selections'' pc_Selections pc_Selections_update (dec_slice zero_scheduleSelection (dec_struct scheduleSelection_fields)),
     fld ''default_workflow'' pc_DefaultWorkflow pc_DefaultWorkflow_update dec_string,
     fld ''retention'' pc_Retention pc_Retention_update dec_string,
     fld ''backend'' pc_Backend pc_Backend_update dec_string]"

definition zero_scheduleConfig :: scheduleConfig where
  "zero_scheduleConfig = \<lparr>sc_Name = [], sc_Producers = []\<rparr>"

definition scheduleConfig_fields :: "scheduleConfig fields" where
  "scheduleConfig_fields = [
     fld ''name'' sc_Name sc_Name_update dec_string,
     fld ''producers'' sc_Producers sc_Producers_update
       (dec_slice zero_scheduleProducerConfig (dec_struct scheduleProducerConfig_fields))]"

definition zero_nativeConfiguration :: nativeConfiguration where
  "zero_nativeConfiguration = \<lparr>nc_APIVersion = [], nc_Reconciliation = zero_reconciliation, nc_Defaults = zero_PlatformDefaults,
     nc_Profiles = [], nc_Workflows = [], nc_ExecutionBackends = [], nc_RetentionPolicies = [], nc_Workstations = [],
     nc_Schedules = []\<rparr>"

definition nativeConfiguration_fields :: "nativeConfiguration fields" where
  "nativeConfiguration_fields = [
     fld ''api_version'' nc_APIVersion nc_APIVersion_update dec_string,
     fld ''reconciliation'' nc_Reconciliation nc_Reconciliation_update (dec_struct reconciliation_fields),
     fld ''defaults'' nc_Defaults nc_Defaults_update (dec_struct PlatformDefaults_fields),
     fld ''profiles'' nc_Profiles nc_Profiles_update (dec_slice zero_Profile (dec_struct Profile_fields)),
     fld ''workflows'' nc_Workflows nc_Workflows_update (dec_slice zero_Workflow (dec_struct Workflow_fields)),
     fld ''execution_backends'' nc_ExecutionBackends nc_ExecutionBackends_update
       (dec_slice zero_ExecutionBackend (dec_struct ExecutionBackend_fields)),
     fld ''retention_policies'' nc_RetentionPolicies nc_RetentionPolicies_update
       (dec_slice zero_RetentionPolicy (dec_struct RetentionPolicy_fields)),
     fld ''workstations'' nc_Workstations nc_Workstations_update
       (dec_slice zero_workstationConfig (dec_struct workstationConfig_fields)),
     fld ''schedules'' nc_Schedules nc_Schedules_update (dec_slice zero_scheduleConfig (dec_struct scheduleConfig_fields))]"

section \<open>Loading\<close>

datatype load_error = LoadInvalidRequest | LoadInvalidPrivateBearer

text \<open>As in the resolver, \<^const>\<open>None\<close> is a panic.\<close>

type_synonym 'a load = "(load_error + 'a) option"

definition trusted_configuration :: "nativeConfiguration \<Rightarrow> TrustedConfiguration" where
  "trusted_configuration document = \<lparr>Defaults = nc_Defaults document, Profiles = nc_Profiles document,
     Workflows = nc_Workflows document, ExecutionBackends = nc_ExecutionBackends document,
     RetentionPolicies = nc_RetentionPolicies document\<rparr>"

definition decode_configuration :: "string \<Rightarrow> nativeConfiguration option" where
  "decode_configuration canonical =
     (case json_value canonical of
        None \<Rightarrow> None
      | Some v \<Rightarrow>
          (case dec_struct nativeConfiguration_fields v canonical zero_nativeConfiguration of
             None \<Rightarrow> None
           | Some document \<Rightarrow>
               if nc_APIVersion document \<noteq> NativeConfigAPIVersion
                  \<or> nc_Schedules document = [] \<and> nc_Workstations document = [] \<and> \<not> rec_Prune (nc_Reconciliation document)
                  \<or> 64 < len (nc_Schedules document) \<or> 128 < len (nc_Workstations document)
               then None else Some document))"

definition loadNativeConfiguration :: "yaml_library \<Rightarrow> filesystem \<Rightarrow> string \<Rightarrow> (nativeConfiguration \<times> Resolver) load" where
  "loadNativeConfiguration yaml fs path =
     (if \<not> filepath_IsAbs path \<or> filepath_Clean path \<noteq> path then Some (Inl LoadInvalidRequest)
      else case fs path of
          None \<Rightarrow> Some (Inl LoadInvalidRequest)
        | Some f \<Rightarrow>
            if \<not> file_regular f \<or> file_size f < 1 \<or> maxNativeConfigBytes < file_size f then Some (Inl LoadInvalidRequest)
            else case file_data f of
                None \<Rightarrow> Some (Inl LoadInvalidRequest)
              | Some data \<Rightarrow>
                  if data = [] \<or> maxNativeConfigBytes < len data then Some (Inl LoadInvalidRequest)
                  else (case strictYAMLToJSON yaml data of
                      None \<Rightarrow> Some (Inl LoadInvalidRequest)
                    | Some canonical \<Rightarrow>
                        (case decode_configuration canonical of
                           None \<Rightarrow> Some (Inl LoadInvalidRequest)
                         | Some document \<Rightarrow>
                             (case NewResolver (trusted_configuration document) of
                                None \<Rightarrow> None
                              | Some (Inl _) \<Rightarrow> Some (Inl LoadInvalidRequest)
                              | Some (Inr resolver) \<Rightarrow> Some (Inr (document, resolver))))))"

definition validIssuer :: "string \<Rightarrow> bool" where
  "validIssuer raw =
     (case url_Parse raw of
        None \<Rightarrow> False
      | Some u \<Rightarrow> url_Scheme u = ''https'' \<and> url_Host u \<noteq> [] \<and> \<not> url_User u \<and> url_RawQuery u = [] \<and> url_Fragment u = []
          \<and> url_String u = raw \<and> raw = trim_space raw \<and> \<not> contains_any raw [CHR 0x00, CHR 0x0D, CHR 0x0A])"

record schedulePolicy =
  sp_identity :: string
  sp_tokenDigest :: digest
  sp_allowedIssuers :: "string list"
  sp_selections :: "(string \<times> scheduleSelection) list"
  sp_defaultWorkflow :: string
  sp_retention :: string
  sp_backend :: string
  sp_authorization :: AuthorizationContext

text \<open>
  The authorised workflows by profile. The code ranges over a map here; the order, which no check
  depends on, is that of the first mention.
\<close>

definition authorized_selections :: "scheduleSelection list \<Rightarrow> AuthorizedSelection list" where
  "authorized_selections ss =
     map (\<lambda>p. \<lparr>sel_Profile = p, sel_Workflows = map ss_Workflow (filter (\<lambda>s. ss_Profile s = p) ss)\<rparr>)
       (rev (remdups (rev (map ss_Profile ss))))"

definition compileSchedulePolicy :: "filesystem \<Rightarrow> scheduleProducerConfig \<Rightarrow> load_error + schedulePolicy" where
  "compileSchedulePolicy fs config =
     (if \<not> validOwner (pc_Identity config) \<or> \<not> filepath_IsAbs (pc_TokenFile config)
         \<or> filepath_Clean (pc_TokenFile config) \<noteq> pc_TokenFile config
         \<or> pc_AllowedPrincipalIssuers config = [] \<or> 32 < len (pc_AllowedPrincipalIssuers config)
         \<or> pc_Selections config = [] \<or> MaxWorkflows < len (pc_Selections config)
         \<or> \<not> validRunID (pc_DefaultWorkflow config) \<or> \<not> validRunID (pc_Retention config)
         \<or> pc_Backend config \<noteq> [] \<and> \<not> validRunID (pc_Backend config)
      then Inl LoadInvalidRequest
      else case readPrivateBearer fs (pc_TokenFile config) of
          None \<Rightarrow> Inl LoadInvalidPrivateBearer
        | Some token \<Rightarrow>
            if \<not> list_all validIssuer (pc_AllowedPrincipalIssuers config) \<or> \<not> distinct (pc_AllowedPrincipalIssuers config)
               \<or> \<not> list_all (\<lambda>s. validRunID (ss_Profile s) \<and> validRunID (ss_Workflow s)) (pc_Selections config)
               \<or> \<not> distinct (map ss_Workflow (pc_Selections config))
               \<or> pc_DefaultWorkflow config \<notin> set (map ss_Workflow (pc_Selections config))
            then Inl LoadInvalidRequest
            else Inr \<lparr>sp_identity = pc_Identity config, sp_tokenDigest = sha256_bytes token,
              sp_allowedIssuers = pc_AllowedPrincipalIssuers config,
              sp_selections = map (\<lambda>s. (ss_Workflow s, s)) (pc_Selections config),
              sp_defaultWorkflow = pc_DefaultWorkflow config, sp_retention = pc_Retention config, sp_backend = pc_Backend config,
              sp_authorization = \<lparr>ctx_Principal = zero_Principal, Selections = authorized_selections (pc_Selections config)\<rparr>\<rparr>)"

record schedule =
  sch_name :: string
  sch_policies :: "schedulePolicy list"
  sch_resolver :: Resolver

record Scheduler =
  sched_schedules :: "(string \<times> schedule) list"
  sched_workstations :: "CreateInput list"
  sched_reconciliation :: workstationReconciliation

text \<open>\<open>sort.Slice\<close> by name; equal names are refused right after, whatever their order.\<close>

fun insert_by_name :: "workstationConfig \<Rightarrow> workstationConfig list \<Rightarrow> workstationConfig list" where
  "insert_by_name w [] = [w]"
| "insert_by_name w (v # vs) =
     (if string_less (ws_Name v) (ws_Name w) then v # insert_by_name w vs else w # v # vs)"

definition sort_by_name :: "workstationConfig list \<Rightarrow> workstationConfig list" where
  "sort_by_name ws = foldr insert_by_name ws []"

definition workstation_key :: "string \<Rightarrow> string" where
  "workstation_key name = ''workstation-'' @ sha256_hex (''nvt.workstation/v1'' @ [CHR 0x00] @ name)"

definition resolve_workstation :: "Resolver \<Rightarrow> workstationConfig \<Rightarrow> ResolvedAgentRun outcome" where
  "resolve_workstation resolver w =
     Resolve (Some resolver)
       \<lparr>ctx_Principal = ws_Principal w,
        Selections = [\<lparr>sel_Profile = ws_Profile w, sel_Workflows = [ws_Workflow w]\<rparr>]\<rparr>
       \<lparr>req_RunID = ws_Name w, req_Profile = ws_Profile w, req_Workflow = ws_Workflow w, req_Retention = ws_Retention w,
        req_Backend = ws_Backend w, req_Prompt = [], req_SourceURL = []\<rparr>"

fun compile_workstations :: "Resolver \<Rightarrow> workstationConfig list \<Rightarrow> string list \<Rightarrow> CreateInput list load" where
  "compile_workstations resolver [] seen = Some (Inr [])"
| "compile_workstations resolver (w # ws) seen =
     (if \<not> validRunID (ws_Name w) \<or> ws_Backend w = [] \<or> ws_Retention w = [] \<or> ws_Name w \<in> set seen
      then Some (Inl LoadInvalidRequest)
      else case resolve_workstation resolver w of
          None \<Rightarrow> None
        | Some (Inl _) \<Rightarrow> Some (Inl LoadInvalidRequest)
        | Some (Inr resolved) \<Rightarrow>
            if \<not> Workspace (run_Persistence resolved) \<or> \<not> RuntimeState (run_Persistence resolved)
               \<or> \<not> DockerData (run_Persistence resolved) \<or> run_TTL resolved \<noteq> zero_TTL
            then Some (Inl LoadInvalidRequest)
            else case encodeCanonicalResolved resolved of
                None \<Rightarrow> Some (Inl LoadInvalidRequest)
              | Some encoded \<Rightarrow>
                  map_option (map_sum id ((#) \<lparr>in_IdempotencyKey = workstation_key (ws_Name w), in_ActiveGroup = [],
                      in_ResolvedRun = encoded\<rparr>))
                    (compile_workstations resolver ws (ws_Name w # seen)))"

fun compile_producers :: "filesystem \<Rightarrow> scheduleProducerConfig list \<Rightarrow> string list \<Rightarrow> digest list
    \<Rightarrow> load_error + schedulePolicy list \<times> digest list" where
  "compile_producers fs [] identities tokens = Inr ([], tokens)"
| "compile_producers fs (p # ps) identities tokens =
     (case compileSchedulePolicy fs p of
        Inl e \<Rightarrow> Inl e
      | Inr policy \<Rightarrow>
          if sp_identity policy \<in> set identities \<or> sp_tokenDigest policy \<in> set tokens then Inl LoadInvalidRequest
          else map_sum id (map_prod ((#) policy) id)
            (compile_producers fs ps (sp_identity policy # identities) (sp_tokenDigest policy # tokens)))"

fun compile_schedules :: "filesystem \<Rightarrow> Resolver \<Rightarrow> scheduleConfig list \<Rightarrow> (string \<times> schedule) list \<Rightarrow> digest list
    \<Rightarrow> load_error + (string \<times> schedule) list" where
  "compile_schedules fs resolver [] acc tokens = Inr acc"
| "compile_schedules fs resolver (c # cs) acc tokens =
     (if \<not> validRunID (sc_Name c) \<or> sc_Producers c = [] \<or> 32 < len (sc_Producers c) \<or> map_of acc (sc_Name c) \<noteq> None
      then Inl LoadInvalidRequest
      else case compile_producers fs (sc_Producers c) [] tokens of
          Inl e \<Rightarrow> Inl e
        | Inr (policies, tokens') \<Rightarrow>
            compile_schedules fs resolver cs
              (acc @ [(sc_Name c, \<lparr>sch_name = sc_Name c, sch_policies = policies, sch_resolver = resolver\<rparr>)]) tokens')"

definition LoadScheduler :: "yaml_library \<Rightarrow> filesystem \<Rightarrow> string \<Rightarrow> store_env option \<Rightarrow> Scheduler option load" where
  "LoadScheduler yaml fs path store =
     (if path = [] then Some (Inr None)
      else case store of
          None \<Rightarrow> Some (Inl LoadInvalidRequest)
        | Some env \<Rightarrow>
            (case loadNativeConfiguration yaml fs path of
               None \<Rightarrow> None
             | Some (Inl e) \<Rightarrow> Some (Inl e)
             | Some (Inr (document, resolver)) \<Rightarrow>
                 if 128 < len (nc_Workstations document) \<or> maxActiveRuns env < len (nc_Workstations document)
                    \<or> 64 < len (nc_Schedules document)
                 then Some (Inl LoadInvalidRequest)
                 else (case compile_workstations resolver (sort_by_name (nc_Workstations document)) [] of
                     None \<Rightarrow> None
                   | Some (Inl e) \<Rightarrow> Some (Inl e)
                   | Some (Inr inputs) \<Rightarrow>
                       Some (map_sum id (\<lambda>schedules. Some \<lparr>sched_schedules = schedules, sched_workstations = inputs,
                           sched_reconciliation = nc_Reconciliation document\<rparr>)
                         (compile_schedules fs resolver (nc_Schedules document) [] [])))))"

definition BootstrapWorkstations :: "store_env \<Rightarrow> Scheduler option \<Rightarrow> unit store_op" where
  "BootstrapWorkstations env scheduler st =
     (case scheduler of
        None \<Rightarrow> (Inr (), st)
      | Some s \<Rightarrow>
          let r = sched_reconciliation s in
          if sched_workstations s = [] \<and> \<not> rec_Prune r then (Inr (), st)
          else map_prod (map_sum id (\<lambda>_. ())) id
            (ReconcileWorkstations env (sched_workstations s) (rec_Prune r) (rec_ReplaceOnImmutableChange r)
              (rec_DestructiveAcknowledged r) st))"

definition usesTokenDigest :: "Scheduler option \<Rightarrow> digest option \<Rightarrow> bool" where
  "usesTokenDigest scheduler candidate =
     (case (scheduler, candidate) of
        (Some s, Some d) \<Rightarrow> list_ex (\<lambda>(_, c). list_ex (\<lambda>p. d = sp_tokenDigest p) (sch_policies c)) (sched_schedules s)
      | _ \<Rightarrow> False)"

end
