(* ===== verification/Schedule_Work.thy ===== *)
theory Schedule_Work
  imports Run_Scheduler
begin

text \<open>
  The endpoints of schedule producers in \<^verbatim>\<open>localcontroller/internal/controller/scheduling.go\<close>: the
  authentication of a producer, the admission of work, its status and its cancellation. A handler
  takes the world to an answer, or to none when it panics, and the next world.
\<close>

type_synonym 'b handler = "'b world \<Rightarrow> response option \<times> 'b world"

definition answer :: "response \<Rightarrow> 'b handler" where
  "answer r w = (Some r, w)"

text \<open>One call of the store and the answer to its outcome.\<close>

definition with_store :: "'b HTTPServer \<Rightarrow> 'a store_op \<Rightarrow> (store_error \<Rightarrow> response) \<Rightarrow> ('a \<Rightarrow> response) \<Rightarrow> 'b handler" where
  "with_store srv op failed done w =
     (case serve_store srv op w of (Inl e, w1) \<Rightarrow> (Some (failed e), w1) | (Inr a, w1) \<Rightarrow> (Some (done a), w1))"

section \<open>The admission request\<close>

record scheduleAdmissionPrincipal =
  ap_Issuer :: string
  ap_Subject :: string
  ap_DisplayName :: string

record scheduleAdmissionWork =
  aw_ID :: string
  aw_Group :: string
  aw_Title :: string
  aw_URL :: string
  aw_Repository :: string
  aw_Principal :: scheduleAdmissionPrincipal

record scheduleAdmissionInput =
  ai_Prompt :: string

record scheduleAdmissionRequest =
  ar_Workflow :: string
  ar_Work :: scheduleAdmissionWork
  ar_Input :: scheduleAdmissionInput

definition zero_scheduleAdmissionPrincipal :: scheduleAdmissionPrincipal where
  "zero_scheduleAdmissionPrincipal = \<lparr>ap_Issuer = [], ap_Subject = [], ap_DisplayName = []\<rparr>"

definition zero_scheduleAdmissionWork :: scheduleAdmissionWork where
  "zero_scheduleAdmissionWork = \<lparr>aw_ID = [], aw_Group = [], aw_Title = [], aw_URL = [], aw_Repository = [],
     aw_Principal = zero_scheduleAdmissionPrincipal\<rparr>"

definition zero_scheduleAdmissionRequest :: scheduleAdmissionRequest where
  "zero_scheduleAdmissionRequest = \<lparr>ar_Workflow = [], ar_Work = zero_scheduleAdmissionWork, ar_Input = \<lparr>ai_Prompt = []\<rparr>\<rparr>"

definition scheduleAdmissionPrincipal_fields :: "scheduleAdmissionPrincipal fields" where
  "scheduleAdmissionPrincipal_fields = [
     fld ''issuer'' ap_Issuer ap_Issuer_update dec_string,
     fld ''subject'' ap_Subject ap_Subject_update dec_string,
     fld (fold_name ''displayName'') ap_DisplayName ap_DisplayName_update dec_string]"

definition scheduleAdmissionWork_fields :: "scheduleAdmissionWork fields" where
  "scheduleAdmissionWork_fields = [
     fld ''id'' aw_ID aw_ID_update dec_string,
     fld ''group'' aw_Group aw_Group_update dec_string,
     fld ''title'' aw_Title aw_Title_update dec_string,
     fld ''url'' aw_URL aw_URL_update dec_string,
     fld ''repository'' aw_Repository aw_Repository_update dec_string,
     fld ''principal'' aw_Principal aw_Principal_update (dec_struct scheduleAdmissionPrincipal_fields)]"

definition scheduleAdmissionInput_fields :: "scheduleAdmissionInput fields" where
  "scheduleAdmissionInput_fields = [fld ''prompt'' ai_Prompt ai_Prompt_update dec_string]"

definition scheduleAdmissionRequest_fields :: "scheduleAdmissionRequest fields" where
  "scheduleAdmissionRequest_fields = [
     fld ''workflow'' ar_Workflow ar_Workflow_update dec_string,
     fld ''work'' ar_Work ar_Work_update (dec_struct scheduleAdmissionWork_fields),
     fld ''input'' ar_Input ar_Input_update (dec_struct scheduleAdmissionInput_fields)]"

definition validWorkID :: "string \<Rightarrow> bool" where
  "validWorkID v =
     (if len v < 16 \<or> 256 < len v \<or> v \<noteq> trim_space v then False
      else list_all (\<lambda>(r, _). \<not> (r < 0x21 \<or> 0x7E < r \<or> r \<in> byte ` set (''%?#'' @ [CHR 0x5C]))) (runes v))"

definition validScheduleText :: "string \<Rightarrow> int \<Rightarrow> bool \<Rightarrow> bool" where
  "validScheduleText v maximum allowEmpty \<longleftrightarrow>
     (allowEmpty \<or> v \<noteq> []) \<and> len v \<le> maximum \<and> v = trim_space v \<and> valid_utf8 v
     \<and> \<not> contains_any v [CHR 0x00, CHR 0x0D, CHR 0x0A]"

definition validScheduleURL :: "string \<Rightarrow> bool" where
  "validScheduleURL raw \<longleftrightarrow> ValidateSourceURL raw = None"

definition validScheduleWork :: "scheduleAdmissionWork \<Rightarrow> bool" where
  "validScheduleWork v \<longleftrightarrow>
     validWorkID (aw_ID v) \<and> (aw_Group v = [] \<or> validWorkID (aw_Group v))
     \<and> validScheduleText (aw_Title v) 512 True \<and> validScheduleText (aw_Repository v) 512 False
     \<and> validScheduleURL (aw_URL v) \<and> validIssuer (ap_Issuer (aw_Principal v))
     \<and> validScheduleText (ap_Subject (aw_Principal v)) 1024 False
     \<and> validScheduleText (ap_DisplayName (aw_Principal v)) 512 True"

definition scheduleWorkQuery :: "request \<Rightarrow> string option" where
  "scheduleWorkQuery r =
     (case ParseQuery (url_RawQuery (rq_URL r)) of
        Some [(key, [v])] \<Rightarrow> if key = ''work_id'' \<and> validWorkID v then Some v else None
      | _ \<Rightarrow> None)"

text \<open>The idempotency key and the run identifier of a piece of work.\<close>

definition work_preimage :: "string \<Rightarrow> string \<Rightarrow> string \<Rightarrow> string" where
  "work_preimage scheduleName producerIdentity workID =
     ''nvt.local-scheduling/v1'' @ [CHR 0x00] @ scheduleName @ [CHR 0x00] @ producerIdentity @ [CHR 0x00] @ workID"

definition localWorkIdentity :: "string \<Rightarrow> string \<Rightarrow> string \<Rightarrow> string \<times> string" where
  "localWorkIdentity scheduleName producerIdentity workID =
     (let hexDigest = sha256_hex (work_preimage scheduleName producerIdentity workID)
      in (''local-work-'' @ hexDigest, ''local-'' @ take 32 hexDigest))"

section \<open>The handlers\<close>

definition authenticateScheduleProducer :: "request \<Rightarrow> schedule \<Rightarrow> schedulePolicy option" where
  "authenticateScheduleProducer r configured =
     (case header_Values (rq_Header r) ''Authorization'' of
        [header] \<Rightarrow>
          if \<not> prefix ''Bearer '' header \<or> count_list header (CHR '' '') \<noteq> 1 then None
          else let token = drop 7 header in
            if len token < 32 \<or> 4096 < len token then None
            else find (\<lambda>policy. sha256_bytes token = sp_tokenDigest policy) (sch_policies configured)
      | _ \<Rightarrow> None)"

definition admission :: "int \<Rightarrow> string \<Rightarrow> string \<Rightarrow> scheduleAdmissionResponse \<Rightarrow> response" where
  "admission status reason runID v = respond status reason runID (AdmissionBody v)"

definition not_admitted :: "int \<Rightarrow> string \<Rightarrow> string \<Rightarrow> response" where
  "not_admitted status reason runID =
     admission status reason runID \<lparr>ad_Scheduled = False, ad_Reason = reason, ad_State = StateEmpty, ad_AgentRun = None\<rparr>"

fun admission_error :: "store_error \<Rightarrow> int \<times> string" where
  "admission_error ErrActiveGroup = (202, ''duplicate-work'')"
| "admission_error ErrCapacityExceeded = (429, ''max-parallelism-reached'')"
| "admission_error ErrConflict = (409, ''work-conflict'')"
| "admission_error ErrGone = (409, ''work-conflict'')"
| "admission_error _ = (503, ''scheduling-unavailable'')"

definition admission_result :: "CreateResult \<Rightarrow> response" where
  "admission_result created =
     (let runID = v_RunID (result_Run created) in
      if \<not> result_Created created then not_admitted 202 ''duplicate-work'' runID
      else admission 201 ''scheduled'' runID
        \<lparr>ad_Scheduled = True, ad_Reason = [], ad_State = v_State (result_Run created), ad_AgentRun = Some (''local'', runID)\<rparr>)"

text \<open>What the resolver is asked for.\<close>

definition admission_context :: "schedulePolicy \<Rightarrow> scheduleAdmissionRequest \<Rightarrow> AuthorizationContext" where
  "admission_context policy input = (sp_authorization policy)\<lparr>ctx_Principal :=
     \<lparr>Issuer = ap_Issuer (aw_Principal (ar_Work input)), Subject = ap_Subject (aw_Principal (ar_Work input)),
      DisplayName = ap_DisplayName (aw_Principal (ar_Work input))\<rparr>\<rparr>"

definition admission_run :: "schedulePolicy \<Rightarrow> scheduleSelection \<Rightarrow> string \<Rightarrow> scheduleAdmissionRequest \<Rightarrow> LocalRunRequest" where
  "admission_run policy selection runID input = \<lparr>req_RunID = runID, req_Profile = ss_Profile selection,
     req_Workflow = ss_Workflow selection, req_Retention = sp_retention policy, req_Backend = sp_backend policy,
     req_Prompt = ai_Prompt (ar_Input input), req_SourceURL = aw_URL (ar_Work input)\<rparr>"

definition resolve_refused :: "contract_error \<Rightarrow> response" where
  "resolve_refused e =
     (if e \<in> {contract_error.ErrSelectionDenied, contract_error.ErrUnknownProfile, contract_error.ErrUnknownWorkflow}
      then not_admitted 403 ''profile-selection-denied'' []
      else not_admitted 400 ''invalid-execution-profile-configuration'' [])"

definition admit :: "'b HTTPServer \<Rightarrow> request \<Rightarrow> schedule \<Rightarrow> schedulePolicy \<Rightarrow> 'b handler" where
  "admit srv r configured policy =
     (case decodeRequest zero_scheduleAdmissionRequest scheduleAdmissionRequest_fields r of
        None \<Rightarrow> answer (not_admitted 400 ''invalid-request'' [])
      | Some input \<Rightarrow>
          if \<not> validScheduleWork (ar_Work input) \<or> MaxPromptBytes < len (ai_Prompt (ar_Input input))
             \<or> \<not> valid_utf8 (ai_Prompt (ar_Input input)) \<or> CHR 0x00 \<in> set (ai_Prompt (ar_Input input))
          then answer (not_admitted 400 ''invalid-request'' [])
          else if ap_Issuer (aw_Principal (ar_Work input)) \<notin> set (sp_allowedIssuers policy)
          then answer (not_admitted 403 ''principal-not-eligible'' [])
          else (case map_of (sp_selections policy)
                       (if ar_Workflow input = [] then sp_defaultWorkflow policy else ar_Workflow input) of
              None \<Rightarrow> answer (not_admitted 403 ''workflow-selection-denied'' [])
            | Some selection \<Rightarrow>
                (let (key, runID) = localWorkIdentity (sch_name configured) (sp_identity policy) (aw_ID (ar_Work input)) in
                 case Resolve (Some (sch_resolver configured)) (admission_context policy input)
                        (admission_run policy selection runID input) of
                   None \<Rightarrow> (\<lambda>w. (None, w))
                 | Some (Inl e) \<Rightarrow> answer (resolve_refused e)
                 | Some (Inr resolved) \<Rightarrow>
                     (case encodeCanonicalResolved resolved of
                        None \<Rightarrow> answer (not_admitted 503 ''scheduling-unavailable'' [])
                      | Some encoded \<Rightarrow>
                          with_store srv (Create (srv_env srv)
                              \<lparr>in_IdempotencyKey = key,
                               in_ActiveGroup = (if aw_Group (ar_Work input) = [] then []
                                 else fst (localWorkIdentity (sch_name configured) (sp_identity policy) (aw_Group (ar_Work input)))),
                               in_ResolvedRun = encoded\<rparr>)
                            (\<lambda>e. let (status, reason) = admission_error e in not_admitted status reason runID)
                            admission_result))))"

definition workStatus :: "'b HTTPServer \<Rightarrow> schedule \<Rightarrow> schedulePolicy \<Rightarrow> string \<Rightarrow> 'b handler" where
  "workStatus srv configured policy workID =
     (let runID = snd (localWorkIdentity (sch_name configured) (sp_identity policy) workID) in
      with_store srv (Get (srv_env srv) runID) (\<lambda>e. writeError e runID)
        (\<lambda>run. admission 200 ''ok'' runID \<lparr>ad_Scheduled = state_active (v_State run), ad_Reason = [], ad_State = v_State run,
           ad_AgentRun = Some (''local'', v_RunID run)\<rparr>))"

definition cancelWork :: "'b HTTPServer \<Rightarrow> schedule \<Rightarrow> schedulePolicy \<Rightarrow> string \<Rightarrow> 'b handler" where
  "cancelWork srv configured policy workID =
     (let runID = snd (localWorkIdentity (sch_name configured) (sp_identity policy) workID) in
      with_store srv (Cancel (srv_env srv) runID) (\<lambda>e. writeError e runID)
        (\<lambda>run. admission 202 ''cancel-requested'' runID \<lparr>ad_Scheduled = False, ad_Reason = [], ad_State = v_State run,
           ad_AgentRun = Some (''local'', v_RunID run)\<rparr>))"

definition schedule_serveHTTP :: "'b HTTPServer \<Rightarrow> Scheduler \<Rightarrow> request \<Rightarrow> 'b handler" where
  "schedule_serveHTTP srv scheduler r =
     (let parts = split_on (CHR ''/'') (trim_prefix (url_Path (rq_URL r)) ''/v1/schedules/'') in
      if length parts < 2 \<or> \<not> validRunID (hd parts) then answer (writeError ErrNotFound [])
      else case map_of (sched_schedules scheduler) (hd parts) of
          None \<Rightarrow> answer (writeError ErrNotFound [])
        | Some configured \<Rightarrow>
            (case authenticateScheduleProducer r configured of
               None \<Rightarrow> answer (not_admitted 401 ''producer-not-authorized'' [])
             | Some policy \<Rightarrow>
                 if tl parts = [''admissions''] then
                   (if rq_Method r \<noteq> ''POST'' \<or> url_RawQuery (rq_URL r) \<noteq> [] then answer (writeMethod [])
                    else admit srv r configured policy)
                 else if tl parts = [''work''] then
                   (case scheduleWorkQuery r of
                      None \<Rightarrow> answer (writeMethod [])
                    | Some workID \<Rightarrow>
                        if rq_Method r \<noteq> ''GET'' then answer (writeMethod []) else workStatus srv configured policy workID)
                 else if tl parts = [''work'', ''cancel''] then
                   (case scheduleWorkQuery r of
                      None \<Rightarrow> answer (writeMethod [])
                    | Some workID \<Rightarrow>
                        if rq_Method r \<noteq> ''POST'' \<or> \<not> emptyBody r then answer (writeMethod [])
                        else cancelWork srv configured policy workID)
                 else answer (writeError ErrNotFound [])))"

end
