(* ===== verification/HTTP_API.thy ===== *)
theory HTTP_API
  imports Schedule_Work
begin

text \<open>
  The HTTP surface of the local controller, \<^verbatim>\<open>localcontroller/internal/controller/http.go\<close>, and the
  loading of its authorisation, \<^verbatim>\<open>api_auth.go\<close>: the dispatch on path and method, and one handler for
  each operation of the store. The scheduler, a field of the server in the code, is an argument.
\<close>

section \<open>Authorisation\<close>

definition optional_digest :: "filesystem \<Rightarrow> string \<Rightarrow> digest option option" where
  "optional_digest fs path = (if path = [] then Some None else map_option Some (privateBearerDigest fs path))"

definition LoadAPIAuthorization :: "filesystem \<Rightarrow> string \<Rightarrow> string \<Rightarrow> Scheduler option \<Rightarrow> APIAuthorization option" where
  "LoadAPIAuthorization fs adminTokenFile routeTokenFile scheduler =
     (case optional_digest fs adminTokenFile of
        None \<Rightarrow> None
      | Some admin \<Rightarrow>
          (case optional_digest fs routeTokenFile of
             None \<Rightarrow> None
           | Some routes \<Rightarrow>
               if admin \<noteq> None \<and> routes \<noteq> None \<and> admin = routes then None
               else if usesTokenDigest scheduler admin \<or> usesTokenDigest scheduler routes then None
               else Some \<lparr>auth_admin = admin, auth_routes = routes\<rparr>))"

definition APIAuthorization_validate :: "APIAuthorization option \<Rightarrow> 'b RouteProvider option \<Rightarrow> bool" where
  "APIAuthorization_validate authorization routeProvider \<longleftrightarrow>
     \<not> (routeProvider \<noteq> None \<and> (case authorization of None \<Rightarrow> True | Some a \<Rightarrow> auth_routes a = None))"

section \<open>Handlers\<close>

definition page_query :: "request \<Rightarrow> int \<Rightarrow> (int \<times> string) option" where
  "page_query r fallback =
     (case ParseQuery (url_RawQuery (rq_URL r)) of
        None \<Rightarrow> None
      | Some query \<Rightarrow>
          if list_ex (\<lambda>(key, values). key \<noteq> ''limit'' \<and> key \<noteq> ''after'' \<or> length values \<noteq> 1) query then None
          else let raw = query_Get query ''limit'' in
            (case (if raw = [] then Some fallback else atoi raw) of
               None \<Rightarrow> None
             | Some limit \<Rightarrow> Some (limit, query_Get query ''after'')))"

definition serve_answer :: "('b, 'a) serve \<Rightarrow> string \<Rightarrow> ('a \<Rightarrow> response) \<Rightarrow> 'b handler" where
  "serve_answer m runID f w = (case m w of (Inl e, w1) \<Rightarrow> (Some (writeError e runID), w1) | (Inr a, w1) \<Rightarrow> (Some (f a), w1))"

definition listRoutes :: "'b HTTPServer \<Rightarrow> request \<Rightarrow> 'b handler" where
  "listRoutes srv r =
     (case page_query r MaxRunsPerPage of
        None \<Rightarrow> answer (writeError store_error.ErrInvalidRequest [])
      | Some (limit, after) \<Rightarrow> serve_answer (routeList srv limit after) [] (\<lambda>l. respond 200 ''ok'' [] (RoutesBody l)))"

definition getRoute :: "'b HTTPServer \<Rightarrow> string \<Rightarrow> 'b handler" where
  "getRoute srv runID =
     serve_answer (serve_bind (serve_store srv (Get (srv_env srv) runID)) (routeForRun srv)) runID
       (\<lambda>route. respond 200 ''ok'' runID (RouteBody route))"

definition http_create :: "'b HTTPServer \<Rightarrow> request \<Rightarrow> 'b handler" where
  "http_create srv r =
     (case decodeRequest zero_createRequest createRequest_fields r of
        None \<Rightarrow> answer (writeError store_error.ErrInvalidRequest [])
      | Some input \<Rightarrow>
          if cq_APIVersion input \<noteq> api_version then answer (writeError store_error.ErrInvalidRequest [])
          else with_store srv (Create (srv_env srv) \<lparr>in_IdempotencyKey = cq_IdempotencyKey input, in_ActiveGroup = [],
                 in_ResolvedRun = cq_ResolvedRun input\<rparr>)
            (\<lambda>e. writeError e [])
            (\<lambda>result. respond (if result_Created result then 201 else 200) ''ok'' (v_RunID (result_Run result))
               (CreatedBody (result_Created result) (result_Run result))))"

definition run_answer :: "int \<Rightarrow> string \<Rightarrow> Run \<Rightarrow> response" where
  "run_answer status runID run = respond status ''ok'' runID (RunBody run)"

definition http_get :: "'b HTTPServer \<Rightarrow> string \<Rightarrow> 'b handler" where
  "http_get srv runID = with_store srv (Get (srv_env srv) runID) (\<lambda>e. writeError e runID) (run_answer 200 runID)"

definition http_list :: "'b HTTPServer \<Rightarrow> request \<Rightarrow> 'b handler" where
  "http_list srv r =
     (case page_query r 100 of
        None \<Rightarrow> answer (writeError store_error.ErrInvalidRequest [])
      | Some (limit, after) \<Rightarrow>
          with_store srv (ListRuns (srv_env srv) limit after) (\<lambda>e. writeError e []) (\<lambda>l. respond 200 ''ok'' [] (RunsBody l)))"

definition http_cancel :: "'b HTTPServer \<Rightarrow> request \<Rightarrow> string \<Rightarrow> 'b handler" where
  "http_cancel srv r runID =
     (if \<not> emptyBody r then answer (writeError store_error.ErrInvalidRequest runID)
      else with_store srv (Cancel (srv_env srv) runID) (\<lambda>e. writeError e runID) (run_answer 200 runID))"

definition http_delete :: "'b HTTPServer \<Rightarrow> request \<Rightarrow> string \<Rightarrow> 'b handler" where
  "http_delete srv r runID =
     (if \<not> emptyBody r then answer (writeError store_error.ErrInvalidRequest runID)
      else with_store srv (Delete (srv_env srv) runID) (\<lambda>e. writeError e runID)
        (\<lambda>(run, deleted). if deleted then respond 204 ''ok'' runID NoBody else run_answer 202 runID run))"

definition http_claim :: "'b HTTPServer \<Rightarrow> request \<Rightarrow> string \<Rightarrow> 'b handler" where
  "http_claim srv r runID =
     (case decodeRequest zero_claimRequest claimRequest_fields r of
        None \<Rightarrow> answer (writeError store_error.ErrInvalidRequest runID)
      | Some input \<Rightarrow>
          if lq_APIVersion input \<noteq> api_version then answer (writeError store_error.ErrInvalidRequest runID)
          else with_store srv (Claim (srv_env srv) \<lparr>claim_RunID = runID, claim_Owner = lq_Owner input,
                 claim_ExpectedRevision = lq_ExpectedRevision input, claim_Lease = seconds_duration (lq_LeaseSeconds input)\<rparr>)
            (\<lambda>e. writeError e runID) (run_answer 200 runID))"

definition http_status :: "'b HTTPServer \<Rightarrow> request \<Rightarrow> string \<Rightarrow> 'b handler" where
  "http_status srv r runID =
     (case decodeRequest zero_statusRequest statusRequest_fields r of
        None \<Rightarrow> answer (writeError store_error.ErrInvalidRequest runID)
      | Some input \<Rightarrow>
          if sq_APIVersion input \<noteq> api_version then answer (writeError store_error.ErrInvalidRequest runID)
          else with_store srv (UpdateStatus (srv_env srv) \<lparr>st_RunID = runID, st_Owner = sq_Owner input,
                 st_ExpectedRevision = sq_ExpectedRevision input, st_State = sq_State input,
                 st_TerminalTarget = sq_TerminalTarget input, st_Reason = sq_Reason input, st_LifecycleCursor = None\<rparr>)
            (\<lambda>e. writeError e runID) (run_answer 200 runID))"

definition backend_ready :: "'b HTTPServer \<Rightarrow> 'b world \<Rightarrow> bool" where
  "backend_ready srv w \<longleftrightarrow> srv_storeReady srv (w_store w)
     \<and> (case srv_backendReady srv of None \<Rightarrow> True | Some ready \<Rightarrow> ready (w_backend w))"

definition http_ready :: "'b HTTPServer \<Rightarrow> 'b handler" where
  "http_ready srv w =
     (if \<not> backend_ready srv w then (Some (writeError ErrStoreUnavailable []), w)
      else (Some (respond 200 ''ok'' [] NoBody), w))"

section \<open>Dispatch\<close>

text \<open>The operations on one run, below \<open>/v1/runs/\<close>.\<close>

definition route_run :: "'b HTTPServer \<Rightarrow> request \<Rightarrow> 'b handler" where
  "route_run srv r =
     (let parts = split_on (CHR ''/'') (trim_prefix (url_Path (rq_URL r)) ''/v1/runs/''); runID = hd parts in
      if length parts < 1 \<or> 2 < length parts \<or> \<not> validRunID runID then answer (writeError ErrNotFound [])
      else if length parts = 1 then
        (if rq_Method r = ''GET'' then http_get srv runID
         else if rq_Method r = ''DELETE'' then http_delete srv r runID
         else answer (writeMethod runID))
      else let operation = parts ! 1 in
        if operation = ''cancel'' then
          (if rq_Method r \<noteq> ''POST'' then answer (writeMethod runID) else http_cancel srv r runID)
        else if operation = ''claim'' then
          (if rq_Method r \<noteq> ''POST'' then answer (writeMethod runID) else http_claim srv r runID)
        else if operation = ''status'' then
          (if rq_Method r \<noteq> ''PUT'' then answer (writeMethod runID) else http_status srv r runID)
        else answer (writeError ErrNotFound runID))"

definition route :: "'b HTTPServer \<Rightarrow> Scheduler option \<Rightarrow> request \<Rightarrow> 'b handler" where
  "route srv scheduler r =
     (let path = url_Path (rq_URL r); query = url_RawQuery (rq_URL r) in
      if EscapedPath (rq_URL r) \<noteq> path then answer (writeError ErrNotFound [])
      else if \<not> permits (srv_authorization srv) r (apiAudienceForPath path) then answer writeUnauthorized
      else if query \<noteq> [] \<and> path \<noteq> ''/v1/runs'' \<and> path \<noteq> ''/v1/routes'' \<and> \<not> prefix ''/v1/schedules/'' path
      then answer (writeError store_error.ErrInvalidRequest [])
      else if path = ''/healthz'' then
        (if rq_Method r \<noteq> ''GET'' then answer (writeMethod []) else answer (respond 200 ''ok'' [] NoBody))
      else if path = ''/readyz'' then
        (if rq_Method r \<noteq> ''GET'' then answer (writeMethod []) else http_ready srv)
      else if path = ''/v1/runs'' then
        (if rq_Method r = ''POST'' then http_create srv r
         else if rq_Method r = ''GET'' then http_list srv r
         else answer (writeMethod []))
      else if path = ''/v1/routes'' then
        (if rq_Method r \<noteq> ''GET'' then answer (writeMethod []) else listRoutes srv r)
      else if prefix ''/v1/routes/'' path then
        (if rq_Method r \<noteq> ''GET'' \<or> query \<noteq> [] then answer (writeMethod [])
         else let runID = trim_prefix path ''/v1/routes/'' in
           if \<not> validRunID runID \<or> CHR ''/'' \<in> set runID then answer (writeError ErrNotFound [])
           else getRoute srv runID)
      else if prefix ''/v1/schedules/'' path \<and> scheduler \<noteq> None then schedule_serveHTTP srv (the scheduler) r
      else if \<not> prefix ''/v1/runs/'' path then answer (writeError ErrNotFound [])
      else route_run srv r)"

definition NewAuthorizedHTTPHandlerWithServices :: "'b HTTPServer \<Rightarrow> Scheduler option \<Rightarrow> (request \<Rightarrow> 'b handler) option" where
  "NewAuthorizedHTTPHandlerWithServices srv scheduler =
     (if \<not> APIAuthorization_validate (srv_authorization srv) (srv_routeProvider srv) then None
      else Some (route srv scheduler))"

text \<open>A sequence of requests, one after the other.\<close>

fun serve_requests :: "'b HTTPServer \<Rightarrow> Scheduler option \<Rightarrow> request list \<Rightarrow> 'b world \<Rightarrow> response option list \<times> 'b world" where
  "serve_requests srv scheduler [] w = ([], w)"
| "serve_requests srv scheduler (r # rs) w =
     (let (x, w1) = route srv scheduler r w; (xs, w2) = serve_requests srv scheduler rs w1 in (x # xs, w2))"

end
