(* ===== verification/Sample_Platform.thy ===== *)
theory Sample_Platform
  imports HTTP_API
begin

text \<open>
  A concrete platform configuration on which the properties of the scheduler are exercised: one
  profile, one workflow, one schedule with one producer, its document and its token file.
\<close>

definition sample_any :: any where
  "sample_any = AMap [
     (''api_version'', AString ''nvt.local-platform/v1''),
     (''defaults'', AMap [
        (''agent_config'', AMap [(''runtime'', AMap [(''command'', AString ''codex'')])]),
        (''image'', AString ''i''),
        (''lifecycle'', AMap []),
        (''resources'', AMap []),
        (''runtime'', AMap [(''autonomy'', AString ''interactive''), (''type'', AString ''codex''), (''user'', AString ''root'')])]),
     (''execution_backends'', ASlice [AMap [(''kind'', AString ''docker''), (''name'', AString ''b'')]]),
     (''profiles'', ASlice [AMap [
        (''allowed_backends'', ASlice [AString ''b'']), (''allowed_retentions'', ASlice [AString ''r'']),
        (''default_backend'', AString ''b''), (''egress'', AMap [(''mode'', AString ''direct'')]), (''name'', AString ''p'')]]),
     (''retention_policies'', ASlice [AMap [(''name'', AString ''r''), (''ttl'', AMap [(''active_seconds'', ANumber ''60'')])]]),
     (''schedules'', ASlice [AMap [
        (''name'', AString ''nightly''),
        (''producers'', ASlice [AMap [
           (''allowed_principal_issuers'', ASlice [AString ''https://id.example'']),
           (''default_workflow'', AString ''w''),
           (''identity'', AString ''bot''),
           (''retention'', AString ''r''),
           (''selections'', ASlice [AMap [(''profile'', AString ''p''), (''workflow'', AString ''w'')]]),
           (''token_file'', AString ''/t'')]])]]),
     (''workflows'', ASlice [AMap [(''name'', AString ''w'')]])]"

definition sample_producer :: scheduleProducerConfig where
  "sample_producer = \<lparr>pc_Identity = ''bot'', pc_TokenFile = ''/t'', pc_AllowedPrincipalIssuers = [''https://id.example''],
     pc_Selections = [\<lparr>ss_Profile = ''p'', ss_Workflow = ''w''\<rparr>], pc_DefaultWorkflow = ''w'', pc_Retention = ''r'', pc_Backend = []\<rparr>"

text \<open>The YAML library on the one file there is.\<close>

definition sample_node :: yaml_node where
  "sample_node = YamlNode ScalarNode ''!!str'' ''document'' [] False []"

definition sample_yaml :: yaml_library where
  "sample_yaml = \<lparr>yaml_first = (\<lambda>_. YamlDocument (YamlNode DocumentNode [] [] [] False [sample_node])),
     yaml_second = (\<lambda>_. YamlEOF), yaml_value = (\<lambda>_. Some sample_any)\<rparr>"

definition producer_token :: string where
  "producer_token = ''fedcba9876543210fedcba9876543210''"

definition sample_files :: filesystem where
  "sample_files = [''/c'' \<mapsto> \<lparr>file_regular = True, file_perm = 0, file_size = 8, file_data = Some ''document''\<rparr>,
     ''/t'' \<mapsto> \<lparr>file_regular = True, file_perm = 256, file_size = 32, file_data = Some producer_token\<rparr>]"

text \<open>A principal with the one selection there is, and a request for it.\<close>

definition sample_authorization :: AuthorizationContext where
  "sample_authorization = \<lparr>ctx_Principal = \<lparr>Issuer = ''https://id.example'', Subject = ''u'', DisplayName = []\<rparr>,
     Selections = [\<lparr>sel_Profile = ''p'', sel_Workflows = [''w'']\<rparr>]\<rparr>"

definition sample_run_request :: LocalRunRequest where
  "sample_run_request = \<lparr>req_RunID = ''run-1'', req_Profile = ''p'', req_Workflow = ''w'', req_Retention = ''r'',
     req_Backend = [], req_Prompt = ''go'', req_SourceURL = []\<rparr>"

lemma sample_loads:
  "case loadNativeConfiguration sample_yaml sample_files ''/c'' of
     Some (Inr (document, resolver)) \<Rightarrow> nc_Workstations document = []
       \<and> nc_Schedules document = [\<lparr>sc_Name = ''nightly'', sc_Producers = [sample_producer]\<rparr>]
       \<and> (case Resolve (Some resolver) sample_authorization sample_run_request of Some (Inr _) \<Rightarrow> True | _ \<Rightarrow> False)
   | _ \<Rightarrow> False"
  by code_simp

lemma sample_loaded:
  obtains document resolver run where "loadNativeConfiguration sample_yaml sample_files ''/c'' = Some (Inr (document, resolver))"
    "nc_Workstations document = []" "nc_Schedules document = [\<lparr>sc_Name = ''nightly'', sc_Producers = [sample_producer]\<rparr>]"
    "Resolve (Some resolver) sample_authorization sample_run_request = Some (Inr run)"
proof -
  obtain x where x: "loadNativeConfiguration sample_yaml sample_files ''/c'' = Some x"
    using sample_loads by (cases "loadNativeConfiguration sample_yaml sample_files ''/c''") auto
  obtain document resolver where y: "x = Inr (document, resolver)" using sample_loads x by (cases x) auto
  obtain z where z: "Resolve (Some resolver) sample_authorization sample_run_request = Some z"
    using sample_loads x y by (cases "Resolve (Some resolver) sample_authorization sample_run_request") auto
  obtain run where "z = Inr run" using sample_loads x y z by (cases z) auto
  then show thesis using that [of document resolver run] sample_loads x y z by simp
qed

end
