(* ===== verification/API_Properties.thy ===== *)
theory API_Properties
  imports Sample_Platform Reconciler_Safety Sample_Runs
begin

text \<open>
  The properties of the HTTP surface: an effect needs a credential, and a credential serves one audience
  only.
\<close>

section \<open>Handlers and the world\<close>

lemma answer_same [simp]: "answer r w = (x, w') \<longleftrightarrow> x = Some r \<and> w' = w"
  by (auto simp: answer_def)

lemma ready_same: "http_ready srv w = (x, w') \<Longrightarrow> w' = w"
  by (auto simp: http_ready_def split: if_splits)

text \<open>The paths that have effects.\<close>

definition run_path :: "string \<Rightarrow> bool" where
  "run_path path \<longleftrightarrow> path = ''/v1/runs'' \<or> prefix ''/v1/runs/'' path"

definition route_path :: "string \<Rightarrow> bool" where
  "route_path path \<longleftrightarrow> path = ''/v1/routes'' \<or> prefix ''/v1/routes/'' path"

lemma audiences:
  "run_path path \<Longrightarrow> apiAudienceForPath path = AudienceAdmin"
  "route_path path \<Longrightarrow> apiAudienceForPath path = AudienceRoutes"
  by (auto simp: run_path_def route_path_def apiAudienceForPath_def prefix_def)

text \<open>What a request is handed to, when it is not answered at once.\<close>

lemma route_effect:
  assumes "route srv scheduler r w = (x, w')" "w' \<noteq> w"
  shows "permits (srv_authorization srv) r (apiAudienceForPath (url_Path (rq_URL r)))
    \<and> (run_path (url_Path (rq_URL r))
          \<and> (http_create srv r w = (x, w') \<and> rq_Method r = ''POST'' \<or> http_list srv r w = (x, w') \<and> rq_Method r = ''GET''
             \<or> route_run srv r w = (x, w'))
       \<or> route_path (url_Path (rq_URL r)) \<and> rq_Method r = ''GET''
          \<and> (listRoutes srv r w = (x, w') \<or> (\<exists>rid. getRoute srv rid w = (x, w')))
       \<or> (\<exists>s. scheduler = Some s \<and> prefix ''/v1/schedules/'' (url_Path (rq_URL r)) \<and> schedule_serveHTTP srv s r w = (x, w')))"
proof -
  define path where "path = url_Path (rq_URL r)"
  have "permits (srv_authorization srv) r (apiAudienceForPath path)"
    using assms unfolding route_def Let_def path_def [symmetric] by (auto split: if_splits)
  moreover have "run_path path
          \<and> (http_create srv r w = (x, w') \<and> rq_Method r = ''POST'' \<or> http_list srv r w = (x, w') \<and> rq_Method r = ''GET''
             \<or> route_run srv r w = (x, w'))
       \<or> route_path path \<and> rq_Method r = ''GET'' \<and> (listRoutes srv r w = (x, w') \<or> (\<exists>rid. getRoute srv rid w = (x, w')))
       \<or> (\<exists>s. scheduler = Some s \<and> prefix ''/v1/schedules/'' path \<and> schedule_serveHTTP srv s r w = (x, w'))"
    using assms unfolding route_def Let_def path_def [symmetric] run_path_def route_path_def
    by (auto dest: ready_same split: if_splits)
  ultimately show ?thesis unfolding path_def by blast
qed

text \<open>A producer's request is authenticated before anything else happens.\<close>

lemma schedule_effect:
  assumes "schedule_serveHTTP srv s r w = (x, w')" "w' \<noteq> w"
  obtains name configured policy where "map_of (sched_schedules s) name = Some configured"
    "prefix name (trim_prefix (url_Path (rq_URL r)) ''/v1/schedules/'')"
    "authenticateScheduleProducer r configured = Some policy"
    "admit srv r configured policy w = (x, w') \<and> rq_Method r = ''POST''
     \<or> (\<exists>workID. workStatus srv configured policy workID w = (x, w') \<and> rq_Method r = ''GET'')
     \<or> (\<exists>workID. cancelWork srv configured policy workID w = (x, w') \<and> rq_Method r = ''POST'')"
proof -
  define rest where "rest = trim_prefix (url_Path (rq_URL r)) ''/v1/schedules/''"
  define parts where "parts = split_on (CHR ''/'') rest"
  have parts: "\<not> length parts < 2"
    using assms unfolding schedule_serveHTTP_def Let_def rest_def [symmetric] parts_def [symmetric] by (auto split: if_splits)
  then obtain configured where configured: "map_of (sched_schedules s) (hd parts) = Some configured"
    using assms unfolding schedule_serveHTTP_def Let_def rest_def [symmetric] parts_def [symmetric]
    by (auto split: if_splits option.splits)
  then obtain policy where policy: "authenticateScheduleProducer r configured = Some policy"
    using assms unfolding schedule_serveHTTP_def Let_def rest_def [symmetric] parts_def [symmetric]
    by (auto split: if_splits option.splits)
  have name: "prefix (hd parts) rest"
  proof -
    have "rest = join_with [CHR ''/''] parts" by (simp add: parts_def join_split)
    then show ?thesis using parts by (cases parts rule: list.exhaust; cases "tl parts") auto
  qed
  have "admit srv r configured policy w = (x, w') \<and> rq_Method r = ''POST''
     \<or> (\<exists>workID. workStatus srv configured policy workID w = (x, w') \<and> rq_Method r = ''GET'')
     \<or> (\<exists>workID. cancelWork srv configured policy workID w = (x, w') \<and> rq_Method r = ''POST'')"
    using assms configured policy unfolding schedule_serveHTTP_def Let_def rest_def [symmetric] parts_def [symmetric]
    by (auto split: if_splits option.splits)
  with that configured policy name show thesis unfolding rest_def by blast
qed

section \<open>Credentials\<close>

text \<open>The request carries exactly one bearer token, and it is this one.\<close>

definition presents :: "request \<Rightarrow> string \<Rightarrow> bool" where
  "presents r token \<longleftrightarrow> header_Values (rq_Header r) ''Authorization'' = [''Bearer '' @ token] \<and> 32 \<le> len token \<and> len token \<le> 4096"

lemma take_prefix: "take 7 v = ''Bearer '' \<Longrightarrow> v = ''Bearer '' @ drop 7 v"
  by (metis append_take_drop_id)

lemma permits_presents:
  assumes "permits authorization r audience" "audience \<noteq> AudienceNone"
  shows "\<exists>token. presents r token \<and> expected_digest authorization audience = Some (sha256_bytes token)"
proof -
  obtain token where token: "bearer_token r = Some token" "expected_digest authorization audience = Some (sha256_bytes token)"
    using assms by (auto simp: permits_def split: option.splits if_splits)
  obtain v where "header_Values (rq_Header r) ''Authorization'' = [v]" "take 7 v = ''Bearer ''" "token = drop 7 v"
      "32 \<le> len token" "len token \<le> 4096"
    using token(1) by (auto simp: bearer_token_def Let_def split: list.splits if_splits)
  then have "presents r token" unfolding presents_def using take_prefix by metis
  with token(2) show ?thesis by blast
qed

lemma producer_presents:
  assumes "authenticateScheduleProducer r configured = Some policy"
  shows "\<exists>token. presents r token \<and> policy \<in> set (sch_policies configured) \<and> sp_tokenDigest policy = sha256_bytes token"
proof -
  obtain v where v: "header_Values (rq_Header r) ''Authorization'' = [v]" "prefix ''Bearer '' v"
      "32 \<le> len (drop 7 v)" "len (drop 7 v) \<le> 4096"
      "find (\<lambda>policy. sha256_bytes (drop 7 v) = sp_tokenDigest policy) (sch_policies configured) = Some policy"
    using assms by (auto simp: authenticateScheduleProducer_def Let_def split: list.splits if_splits)
  from v(2) obtain token where "v = ''Bearer '' @ token" by (auto simp: prefix_def)
  with v show ?thesis unfolding presents_def by (intro exI [of _ token]) (auto simp: find_Some_iff in_set_conv_nth)
qed

text \<open>
  C28. Nothing happens without a credential: when a request changes anything, be it the store, the
  backend or the count of store calls, it carries exactly one bearer token of at least 32 bytes, and
  that token is the administrator's for a path of runs, the gateway's for a path of routes, and that
  of a producer of the very schedule in the path for work. Every other request is answered without
  a call of the store.
\<close>
theorem effect_needs_credential:
  assumes "route srv scheduler r w = (x, w')" "w' \<noteq> w"
  shows "\<exists>token. presents r token
    \<and> (run_path (url_Path (rq_URL r)) \<and> expected_digest (srv_authorization srv) AudienceAdmin = Some (sha256_bytes token)
       \<or> route_path (url_Path (rq_URL r)) \<and> expected_digest (srv_authorization srv) AudienceRoutes = Some (sha256_bytes token)
       \<or> (\<exists>s name configured policy. scheduler = Some s \<and> prefix (''/v1/schedules/'' @ name) (url_Path (rq_URL r))
           \<and> map_of (sched_schedules s) name = Some configured \<and> policy \<in> set (sch_policies configured)
           \<and> sp_tokenDigest policy = sha256_bytes token))"
proof -
  let ?path = "url_Path (rq_URL r)"
  note effect = route_effect [OF assms]
  then consider "run_path ?path" | "route_path ?path"
    | s where "scheduler = Some s" "prefix ''/v1/schedules/'' ?path" "schedule_serveHTTP srv s r w = (x, w')" by blast
  then show ?thesis
  proof cases
    case 1
    then show ?thesis using permits_presents [of "srv_authorization srv" r] effect audiences(1) by fastforce
  next
    case 2
    then show ?thesis using permits_presents [of "srv_authorization srv" r] effect audiences(2) by fastforce
  next
    case 3
    obtain name configured policy where p: "map_of (sched_schedules s) name = Some configured"
      "prefix name (trim_prefix ?path ''/v1/schedules/'')" "authenticateScheduleProducer r configured = Some policy"
      using schedule_effect [OF 3(3) assms(2)] by blast
    obtain token where "presents r token" "policy \<in> set (sch_policies configured)" "sp_tokenDigest policy = sha256_bytes token"
      using producer_presents [OF p(3)] by blast
    moreover have "prefix (''/v1/schedules/'' @ name) ?path"
      using 3(2) p(2) by (auto simp: trim_prefix_def prefix_def)
    ultimately show ?thesis using 3(1) p(1) by blast
  qed
qed

text \<open>A server with an administrator's token, and a request for the list of runs.\<close>

definition admin_token :: string where
  "admin_token = ''0123456789abcdef0123456789abcdef''"

definition sample_server :: "unit HTTPServer" where
  "sample_server = \<lparr>srv_env = sample_env, srv_others = (\<lambda>_ st. st), srv_storeReady = (\<lambda>_. True), srv_backendReady = None,
     srv_routeProvider = None, srv_authorization = Some \<lparr>auth_admin = Some (sha256_bytes admin_token), auth_routes = None\<rparr>\<rparr>"

definition sample_request :: "string \<Rightarrow> string \<Rightarrow> request" where
  "sample_request method path = \<lparr>rq_Method = method, rq_URL = zero_url\<lparr>url_Path := path\<rparr>,
     rq_Header = [(''Authorization'', [''Bearer '' @ admin_token])], rq_Body = Some []\<rparr>"

definition empty_world :: "unit world" where
  "empty_world = \<lparr>w_store = \<lparr>local_runs = [], ticks = 0\<rparr>, w_backend = (), w_calls = 0\<rparr>"

lemma canonical_Authorization: "CanonicalHeaderKey ''Authorization'' = ''Authorization''"
  by code_simp

lemma sample_permits: "permits (srv_authorization sample_server) (sample_request method path) AudienceAdmin"
  by (simp add: permits_def expected_digest_def bearer_token_def sample_server_def sample_request_def header_Values_def
      canonical_Authorization admin_token_def len_def Let_def)

lemma sample_escaped: "EscapedPath (zero_url\<lparr>url_Path := ''/v1/runs''\<rparr>) = ''/v1/runs''"
  by code_simp

lemma with_store_calls: "with_store srv op failed done w = (x, w') \<Longrightarrow> w_calls w' = Suc (w_calls w)"
  by (auto simp: with_store_def serve_store_def Let_def split: prod.splits sum.splits)

lemma sample_listing:
  "route sample_server None (sample_request ''GET'' ''/v1/runs'') empty_world =
     http_list sample_server (sample_request ''GET'' ''/v1/runs'') empty_world"
proof -
  have "url_RawQuery (rq_URL (sample_request ''GET'' ''/v1/runs'')) = []" "url_Path (rq_URL (sample_request ''GET'' ''/v1/runs'')) = ''/v1/runs''"
    "rq_Method (sample_request ''GET'' ''/v1/runs'') = ''GET''"
    "EscapedPath (rq_URL (sample_request ''GET'' ''/v1/runs'')) = ''/v1/runs''"
    using sample_escaped by (simp_all add: sample_request_def zero_url_def)
  then show ?thesis using sample_permits by (simp add: route_def Let_def apiAudienceForPath_def)
qed

theorem effect_needs_credential_witness:
  "\<exists>x w'. route sample_server None (sample_request ''GET'' ''/v1/runs'') empty_world = (x, w') \<and> w' \<noteq> empty_world
    \<and> (\<exists>token. presents (sample_request ''GET'' ''/v1/runs'') token)"
proof -
  obtain x w' where r: "route sample_server None (sample_request ''GET'' ''/v1/runs'') empty_world = (x, w')"
    by (rule prod.exhaust)
  have "url_RawQuery (rq_URL (sample_request ''GET'' ''/v1/runs'')) = []" by (simp add: sample_request_def zero_url_def)
  then have "page_query (sample_request ''GET'' ''/v1/runs'') 100 = Some (100, [])"
    by (simp add: page_query_def ParseQuery_def query_Get_def)
  then have "w_calls w' = Suc (w_calls empty_world)"
    using r unfolding sample_listing by (auto simp: http_list_def dest: with_store_calls)
  then have "w' \<noteq> empty_world" by auto
  then show ?thesis using effect_needs_credential [OF r] r by blast
qed

section \<open>One token, one audience\<close>

definition digests_of :: "(string \<times> schedule) list \<Rightarrow> digest list" where
  "digests_of schedules = concat (map (\<lambda>(_, c). map sp_tokenDigest (sch_policies c)) schedules)"

lemma map_sum_Inr: "map_sum f g x = Inr y \<longleftrightarrow> (\<exists>z. x = Inr z \<and> y = g z)"
  by (cases x) auto

lemma compile_producers_tokens:
  assumes "compile_producers fs ps identities tokens = Inr (policies, tokens')" "distinct tokens"
  shows "tokens' = rev (map sp_tokenDigest policies) @ tokens \<and> distinct tokens'"
  using assms
proof (induction ps arbitrary: identities tokens policies)
  case (Cons p ps)
  obtain policy rest where p: "compileSchedulePolicy fs p = Inr policy" "sp_tokenDigest policy \<notin> set tokens"
    "compile_producers fs ps (sp_identity policy # identities) (sp_tokenDigest policy # tokens) = Inr (rest, tokens')"
    "policies = policy # rest"
    using Cons.prems(1) by (auto simp: map_sum_Inr split: if_splits sum.splits)
  have "tokens' = rev (map sp_tokenDigest rest) @ sp_tokenDigest policy # tokens \<and> distinct tokens'"
    by (rule Cons.IH [OF p(3)]) (use p(2) Cons.prems(2) in simp)
  moreover have "rev (map sp_tokenDigest policies) @ tokens = rev (map sp_tokenDigest rest) @ sp_tokenDigest policy # tokens"
    by (simp add: p(4))
  ultimately show ?case by metis
qed simp

lemma compile_schedules_tokens:
  assumes "compile_schedules fs resolver cs acc tokens = Inr schedules"
    "set tokens = set (digests_of acc)" "distinct tokens" "distinct (digests_of acc)" "distinct (map fst acc)"
  shows "distinct (digests_of schedules) \<and> distinct (map fst schedules)"
  using assms
proof (induction cs arbitrary: acc tokens)
  case (Cons c cs)
  let ?new = "\<lambda>policies. (sc_Name c, \<lparr>sch_name = sc_Name c, sch_policies = policies, sch_resolver = resolver\<rparr>)"
  obtain policies tokens' where p: "compile_producers fs (sc_Producers c) [] tokens = Inr (policies, tokens')"
    "compile_schedules fs resolver cs (acc @ [?new policies]) tokens' = Inr schedules" "map_of acc (sc_Name c) = None"
    using Cons.prems(1) by (auto split: if_splits sum.splits)
  have t: "tokens' = rev (map sp_tokenDigest policies) @ tokens" "distinct tokens'"
    using compile_producers_tokens [OF p(1) Cons.prems(3)] by blast+
  have d: "digests_of (acc @ [?new policies]) = digests_of acc @ map sp_tokenDigest policies" by (simp add: digests_of_def)
  have "sc_Name c \<notin> set (map fst acc)" using p(3) by (simp add: map_of_eq_None_iff)
  moreover have "set (map sp_tokenDigest policies) \<inter> set (digests_of acc) = {}" "distinct (map sp_tokenDigest policies)"
    using t Cons.prems(2) by auto
  ultimately show ?case
    using Cons.IH [OF p(2)] t Cons.prems(2,4,5) by (auto simp: d)
qed simp

lemma LoadScheduler_tokens:
  assumes "LoadScheduler yaml fs path (Some env) = Some (Inr (Some s))"
  shows "distinct (digests_of (sched_schedules s)) \<and> distinct (map fst (sched_schedules s))"
proof -
  have "\<exists>configs resolver. compile_schedules fs resolver configs [] [] = Inr (sched_schedules s)"
    using assms
    by (auto simp: LoadScheduler_def map_sum_Inr split: if_splits option.splits sum.splits prod.splits) blast
  then obtain configs resolver where "compile_schedules fs resolver configs [] [] = Inr (sched_schedules s)" by blast
  from compile_schedules_tokens [OF this] show ?thesis by (simp add: digests_of_def)
qed

lemma presents_unique: "presents r t \<Longrightarrow> presents r u \<Longrightarrow> t = u"
  by (simp add: presents_def)

lemma digests_distinct:
  assumes "distinct (digests_of schedules)" "(n, c) \<in> set schedules" "(m, d) \<in> set schedules"
    "p \<in> set (sch_policies c)" "q \<in> set (sch_policies d)" "sp_tokenDigest p = sp_tokenDigest q"
  shows "n = m \<and> p = q"
  using assms
proof (induction schedules)
  case (Cons e schedules)
  obtain k b where e: "e = (k, b)" by (cases e)
  have parts: "distinct (map sp_tokenDigest (sch_policies b))" "distinct (digests_of schedules)"
    "sp_tokenDigest ` set (sch_policies b) \<inter> set (digests_of schedules) = {}"
    using Cons.prems(1) by (auto simp: digests_of_def e)
  have member: "sp_tokenDigest x \<in> set (digests_of schedules)" if "(l, a) \<in> set schedules" "x \<in> set (sch_policies a)" for l a x
    using that by (force simp: digests_of_def)
  consider "(n, c) = e" "(m, d) = e" | "(n, c) = e" "(m, d) \<in> set schedules" | "(n, c) \<in> set schedules" "(m, d) = e"
    | "(n, c) \<in> set schedules" "(m, d) \<in> set schedules" using Cons.prems(2,3) by auto
  then show ?case
  proof cases
    case 1
    then show ?thesis using parts(1) Cons.prems(4-6) e by (auto simp: distinct_map dest: inj_onD)
  next
    case 2
    then show ?thesis using parts(3) member [of m d q] Cons.prems(4-6) e by fastforce
  next
    case 3
    then show ?thesis using parts(3) member [of n c p] Cons.prems(4-6) e by (metis disjoint_iff image_eqI prod.inject)
  next
    case 4
    then show ?thesis using Cons.IH parts(2) Cons.prems(4-6) by blast
  qed
qed simp

text \<open>
  C29. A token serves one audience only. When the authorisation and the schedules were loaded, a
  request that passes as the administrator passes neither as the gateway nor as a producer of any
  schedule, one that passes as the gateway passes as no producer, and one that passes as a producer
  passes as exactly that producer of exactly that schedule.
\<close>
theorem one_token_one_audience:
  assumes "LoadScheduler yaml fs path (Some env) = Some (Inr (Some s))"
    "LoadAPIAuthorization fs adminTokenFile routeTokenFile (Some s) = Some authorization"
    "(n, c) \<in> set (sched_schedules s)" "(m, d) \<in> set (sched_schedules s)"
  shows "\<not> (permits (Some authorization) r AudienceAdmin \<and> permits (Some authorization) r AudienceRoutes)
    \<and> (authenticateScheduleProducer r c = Some p \<longrightarrow>
         \<not> permits (Some authorization) r AudienceAdmin \<and> \<not> permits (Some authorization) r AudienceRoutes
         \<and> (\<forall>q. authenticateScheduleProducer r d = Some q \<longrightarrow> m = n \<and> q = p))"
proof -
  obtain admin routes where auth: "authorization = \<lparr>auth_admin = admin, auth_routes = routes\<rparr>"
    "\<not> (admin \<noteq> None \<and> routes \<noteq> None \<and> admin = routes)" "\<not> usesTokenDigest (Some s) admin" "\<not> usesTokenDigest (Some s) routes"
    using assms(2) by (auto simp: LoadAPIAuthorization_def split: option.splits if_splits)
  have admin: "\<exists>token. presents r token \<and> admin = Some (sha256_bytes token)" if "permits (Some authorization) r AudienceAdmin"
    using permits_presents [OF that] by (simp add: auth(1) expected_digest_def)
  have routes: "\<exists>token. presents r token \<and> routes = Some (sha256_bytes token)" if "permits (Some authorization) r AudienceRoutes"
    using permits_presents [OF that] by (simp add: auth(1) expected_digest_def)
  have used: "usesTokenDigest (Some s) (Some (sp_tokenDigest p))" if "p \<in> set (sch_policies c)" for p
    using that assms(3) by (force simp: usesTokenDigest_def list_ex_iff)
  have first: "\<not> (permits (Some authorization) r AudienceAdmin \<and> permits (Some authorization) r AudienceRoutes)"
    using admin routes auth(2) presents_unique by (metis option.distinct(1))
  have second: "\<not> permits (Some authorization) r AudienceAdmin \<and> \<not> permits (Some authorization) r AudienceRoutes
      \<and> (\<forall>q. authenticateScheduleProducer r d = Some q \<longrightarrow> m = n \<and> q = p)" if p: "authenticateScheduleProducer r c = Some p"
  proof -
    obtain token where token: "presents r token" "p \<in> set (sch_policies c)" "sp_tokenDigest p = sha256_bytes token"
      using producer_presents [OF p] by blast
    have "m = n \<and> q = p" if q: "authenticateScheduleProducer r d = Some q" for q
    proof -
      obtain u where "presents r u" "q \<in> set (sch_policies d)" "sp_tokenDigest q = sha256_bytes u"
        using producer_presents [OF q] by blast
      then show ?thesis
        using digests_distinct [OF _ assms(4,3)] LoadScheduler_tokens [OF assms(1)] token presents_unique by metis
    qed
    then show ?thesis
      using token used [OF token(2)] admin routes auth(3,4) presents_unique by metis
  qed
  show ?thesis using first second by blast
qed

text \<open>The sample platform, which has one producer and no other token.\<close>

definition producer_policy :: schedulePolicy where
  "producer_policy = \<lparr>sp_identity = ''bot'', sp_tokenDigest = sha256_bytes producer_token,
     sp_allowedIssuers = [''https://id.example''],
     sp_selections = [(''w'', \<lparr>ss_Profile = ''p'', ss_Workflow = ''w''\<rparr>)], sp_defaultWorkflow = ''w'',
     sp_retention = ''r'', sp_backend = [],
     sp_authorization = \<lparr>ctx_Principal = zero_Principal,
       Selections = authorized_selections [\<lparr>ss_Profile = ''p'', ss_Workflow = ''w''\<rparr>]\<rparr>\<rparr>"

lemma producer_policy_compiles: "compileSchedulePolicy sample_files sample_producer = Inr producer_policy"
proof -
  have "validOwner ''bot'' \<and> filepath_IsAbs ''/t'' \<and> filepath_Clean ''/t'' = ''/t'' \<and> validRunID ''w'' \<and> validRunID ''r''
      \<and> validRunID ''p'' \<and> validIssuer ''https://id.example''"
    by code_simp
  moreover have "readPrivateBearer sample_files ''/t'' = Some producer_token" by code_simp
  ultimately show ?thesis
    by (simp add: compileSchedulePolicy_def sample_producer_def producer_policy_def len_def MaxWorkflows_def)
qed

lemma sample_compiles:
  "compile_schedules sample_files resolver [\<lparr>sc_Name = ''nightly'', sc_Producers = [sample_producer]\<rparr>] [] [] =
     Inr [(''nightly'', \<lparr>sch_name = ''nightly'', sch_policies = [producer_policy], sch_resolver = resolver\<rparr>)]"
proof -
  have "validRunID ''nightly''" by code_simp
  then show ?thesis by (simp add: producer_policy_compiles len_def)
qed

lemma sample_scheduler:
  "\<exists>resolver reconciliation. LoadScheduler sample_yaml sample_files ''/c'' (Some sample_env) =
     Some (Inr (Some \<lparr>sched_schedules = [(''nightly'', \<lparr>sch_name = ''nightly'', sch_policies = [producer_policy],
       sch_resolver = resolver\<rparr>)], sched_workstations = [], sched_reconciliation = reconciliation\<rparr>))"
proof -
  obtain document resolver where d: "loadNativeConfiguration sample_yaml sample_files ''/c'' = Some (Inr (document, resolver))"
    "nc_Workstations document = []" "nc_Schedules document = [\<lparr>sc_Name = ''nightly'', sc_Producers = [sample_producer]\<rparr>]"
    by (rule sample_loaded)
  have "0 \<le> maxActiveRuns sample_env" by (simp add: sample_env_def)
  then show ?thesis
    by (simp add: LoadScheduler_def d sample_compiles len_def sort_by_name_def del: compile_schedules.simps)
qed

definition producer_request :: request where
  "producer_request = (sample_request ''POST'' ''/v1/schedules/nightly/admissions'')\<lparr>rq_Header :=
     [(''Authorization'', [''Bearer '' @ producer_token])]\<rparr>"

theorem one_token_one_audience_witness:
  "\<exists>s c authorization. LoadScheduler sample_yaml sample_files ''/c'' (Some sample_env) = Some (Inr (Some s))
     \<and> LoadAPIAuthorization sample_files [] [] (Some s) = Some authorization
     \<and> (''nightly'', c) \<in> set (sched_schedules s) \<and> authenticateScheduleProducer producer_request c = Some producer_policy
     \<and> \<not> permits (Some authorization) producer_request AudienceAdmin"
proof -
  obtain resolver reconciliation where s: "LoadScheduler sample_yaml sample_files ''/c'' (Some sample_env) =
     Some (Inr (Some \<lparr>sched_schedules = [(''nightly'', \<lparr>sch_name = ''nightly'', sch_policies = [producer_policy],
       sch_resolver = resolver\<rparr>)], sched_workstations = [], sched_reconciliation = reconciliation\<rparr>))" (is "_ = Some (Inr (Some ?s))")
    using sample_scheduler by blast
  let ?c = "\<lparr>sch_name = ''nightly'', sch_policies = [producer_policy], sch_resolver = resolver\<rparr>"
  have a: "LoadAPIAuthorization sample_files [] [] (Some ?s) = Some \<lparr>auth_admin = None, auth_routes = None\<rparr>"
    by (simp add: LoadAPIAuthorization_def optional_digest_def usesTokenDigest_def)
  have c: "(''nightly'', ?c) \<in> set (sched_schedules ?s)" by simp
  have p: "authenticateScheduleProducer producer_request ?c = Some producer_policy"
    by (simp add: authenticateScheduleProducer_def producer_request_def sample_request_def header_Values_def
        canonical_Authorization producer_token_def len_def producer_policy_def Let_def)
  show ?thesis using one_token_one_audience [OF s a c c] s a c p by blast
qed

end
