(* ===== verification/Eligibility.thy ===== *)
theory Eligibility
  imports Run_Render
begin

text \<open>
  The login eligibility policy, \<^verbatim>\<open>protocol/eligibility/policy.go\<close>: its strict parser and validator, the
  selection of claims by a path, and the evaluation. Claims are the values of \<^typ>\<open>any\<close>; a number
  stands for the text that \<open>fmt.Sprint\<close> or \<open>json.Number\<close> gives it, and a slice for one of any
  element type. Validation errors are the messages without the field they name.
\<close>

section \<open>The policy\<close>

record Condition =
  cond_ClaimPath :: string
  cond_Values :: "string list"

record Where =
  where_Array :: string
  where_All :: "Condition list"

record Rule =
  rule_ID :: string
  rule_Effect :: string
  rule_Authenticated :: bool
  rule_ClaimPath :: string
  rule_Values :: "string list"
  rule_Where :: Where

record Policy =
  pol_Default :: string
  pol_Rules :: "Rule list"

record Decision =
  dec_Allowed :: bool
  dec_RuleID :: string

definition DefaultDeny :: string where "DefaultDeny = ''deny''"
definition EffectAllow :: string where "EffectAllow = ''allow''"
definition maxRules :: int where "maxRules = 64"
definition maxConditions :: int where "maxConditions = 16"
definition maxValues :: int where "maxValues = 64"
definition maxRuleValueBytes :: int where "maxRuleValueBytes = 1024"
definition maxPathSegments :: int where "maxPathSegments = 16"
definition maxSelectedClaimNodes :: int where "maxSelectedClaimNodes = 512"

definition zero_Condition :: Condition where
  "zero_Condition = \<lparr>cond_ClaimPath = [], cond_Values = []\<rparr>"

definition zero_Where :: Where where
  "zero_Where = \<lparr>where_Array = [], where_All = []\<rparr>"

definition zero_Rule :: Rule where
  "zero_Rule = \<lparr>rule_ID = [], rule_Effect = [], rule_Authenticated = False, rule_ClaimPath = [], rule_Values = [],
     rule_Where = zero_Where\<rparr>"

definition zero_Policy :: Policy where
  "zero_Policy = \<lparr>pol_Default = [], pol_Rules = []\<rparr>"

definition Condition_fields :: "Condition fields" where
  "Condition_fields = [
     fld (fold_name ''claimPath'') cond_ClaimPath cond_ClaimPath_update dec_string,
     fld ''values'' cond_Values cond_Values_update (dec_slice [] dec_string)]"

definition Where_fields :: "Where fields" where
  "Where_fields = [
     fld ''array'' where_Array where_Array_update dec_string,
     fld ''all'' where_All where_All_update (dec_slice zero_Condition (dec_struct Condition_fields))]"

definition Rule_fields :: "Rule fields" where
  "Rule_fields = [
     fld ''id'' rule_ID rule_ID_update dec_string,
     fld ''effect'' rule_Effect rule_Effect_update dec_string,
     fld ''authenticated'' rule_Authenticated rule_Authenticated_update dec_bool,
     fld (fold_name ''claimPath'') rule_ClaimPath rule_ClaimPath_update dec_string,
     fld ''values'' rule_Values rule_Values_update (dec_slice [] dec_string),
     fld ''where'' rule_Where rule_Where_update (dec_struct Where_fields)]"

definition Policy_fields :: "Policy fields" where
  "Policy_fields = [
     fld ''default'' pol_Default pol_Default_update dec_string,
     fld ''rules'' pol_Rules pol_Rules_update (dec_slice zero_Rule (dec_struct Rule_fields))]"

section \<open>Paths\<close>

definition path_segment_ok :: "string \<Rightarrow> bool" where
  "path_segment_ok raw =
     (let segment = trim_suffix raw ''[]'' in \<not> (segment = [] \<or> 128 < len segment \<or> sublist ''[]'' segment))"

definition validPolicyPath :: "string \<Rightarrow> bool" where
  "validPolicyPath path =
     (if path = [] \<or> 2048 < len path \<or> \<not> valid_utf8 path \<or> has_control_rune path then False
      else let segments = split_on (CHR ''.'') path in
        if maxPathSegments < len segments then False else list_all path_segment_ok segments)"

text \<open>A segment of the pattern: a letter or underscore, then letters, digits, underscores and hyphens, and maybe \<open>[]\<close>.\<close>

definition claim_letter :: "char \<Rightarrow> bool" where
  "claim_letter c \<longleftrightarrow> 65 \<le> byte c \<and> byte c \<le> 90 \<or> 97 \<le> byte c \<and> byte c \<le> 122 \<or> c = CHR ''_''"

definition claim_segment_ok :: "string \<Rightarrow> bool" where
  "claim_segment_ok raw =
     (case trim_suffix raw ''[]'' of
        [] \<Rightarrow> False
      | c # cs \<Rightarrow> claim_letter c \<and> list_all (\<lambda>d. claim_letter d \<or> 48 \<le> byte d \<and> byte d \<le> 57 \<or> d = CHR ''-'') cs)"

definition validClaimPath :: "string \<Rightarrow> bool" where
  "validClaimPath path \<longleftrightarrow>
     list_all claim_segment_ok (split_on (CHR ''.'') path) \<and> len (split_on (CHR ''.'') path) \<le> maxPathSegments"

text \<open>\<open>strings.ReplaceAll\<close> of the two bytes of U+00F8 by \<open>o\<close>.\<close>

fun replace_oslash :: "string \<Rightarrow> string" where
  "replace_oslash (c # d # cs) =
     (if c = CHR 0xC3 \<and> d = CHR 0xB8 then CHR ''o'' # replace_oslash cs else c # replace_oslash (d # cs))"
| "replace_oslash cs = cs"

text \<open>\<open>strings.FieldsFunc\<close> on the five separators.\<close>

definition path_separator :: "char \<Rightarrow> bool" where
  "path_separator c \<longleftrightarrow> c \<in> set ''.[]-_''"

fun path_parts :: "string \<Rightarrow> string \<Rightarrow> string list" where
  "path_parts [] acc = (if acc = [] then [] else [acc])"
| "path_parts (c # cs) acc =
     (if path_separator c then (if acc = [] then [] else [acc]) @ path_parts cs [] else path_parts cs (acc @ [c]))"

definition isSensitivePath :: "string \<Rightarrow> bool" where
  "isSensitivePath path =
     list_ex (\<lambda>part. part \<in> {''pid'', ''ssn'', ''fodselsnummer'', ''foedselsnummer''})
       (path_parts (to_lower (replace_oslash path)) [])"

section \<open>Validation\<close>

definition validatePredicate :: "string \<Rightarrow> string list \<Rightarrow> string option" where
  "validatePredicate path values =
     (if \<not> validPolicyPath path \<or> values = [] \<or> maxValues < len values
      then Some ''requires a bounded claimPath and 1..64 values''
      else if isSensitivePath path then Some ''claimPath must be a non-sensitive JSON path''
      else if list_ex (\<lambda>v. maxRuleValueBytes < len v \<or> \<not> valid_utf8 v) values then Some ''values must be a bounded string''
      else None)"

definition hasScalar :: "Rule \<Rightarrow> bool" where
  "hasScalar r \<longleftrightarrow> rule_ClaimPath r \<noteq> [] \<or> rule_Values r \<noteq> []"

definition hasWhere :: "Rule \<Rightarrow> bool" where
  "hasWhere r \<longleftrightarrow> where_Array (rule_Where r) \<noteq> [] \<or> where_All (rule_Where r) \<noteq> []"

definition where_error :: "Where \<Rightarrow> string option" where
  "where_error v =
     (if \<not> validPolicyPath (where_Array v) \<or> where_All v = [] \<or> maxConditions < len (where_All v)
      then Some ''requires a bounded where.array and 1..16 where.all conditions''
      else if isSensitivePath (where_Array v) then Some ''where.array must be a non-sensitive JSON path''
      else first_error (map (\<lambda>c. validatePredicate (cond_ClaimPath c) (cond_Values c)) (where_All v)))"

definition rule_error :: "Rule \<Rightarrow> string option" where
  "rule_error r =
     (if trim_space (rule_ID r) = [] \<or> 128 < len (rule_ID r) \<or> \<not> valid_utf8 (rule_ID r) \<or> has_control_rune (rule_ID r)
      then Some ''id must be a bounded non-empty string without control characters''
      else if rule_Effect r \<noteq> EffectAllow then Some ''effect must be allow''
      else if length (filter (\<lambda>b. b) [rule_Authenticated r, hasScalar r, hasWhere r]) \<noteq> 1
      then Some ''must define exactly one of authenticated, claimPath+values, or where.array+all''
      else if rule_Authenticated r then None
      else if hasScalar r then validatePredicate (rule_ClaimPath r) (rule_Values r)
      else where_error (rule_Where r))"

definition Policy_Validate :: "Policy \<Rightarrow> string option" where
  "Policy_Validate p =
     (if (if pol_Default p = [] then DefaultDeny else pol_Default p) \<noteq> DefaultDeny then Some ''default must be deny''
      else if maxRules < len (pol_Rules p) then Some ''rules must contain at most 64 entries''
      else first_error (map rule_error (pol_Rules p)))"

text \<open>The outer value is \<^const>\<open>None\<close> for an error; an empty document is no policy.\<close>

definition ParsePolicy :: "string \<Rightarrow> Policy option option" where
  "ParsePolicy raw =
     (if trim_space raw = [] then Some None
      else case json_value raw of
          None \<Rightarrow> None
        | Some v \<Rightarrow>
            (case dec_struct Policy_fields v raw zero_Policy of
               None \<Rightarrow> None
             | Some p \<Rightarrow> if Policy_Validate p \<noteq> None then None else Some (Some p)))"

section \<open>Evaluation\<close>

fun sliceValues :: "any \<Rightarrow> any list option" where
  "sliceValues (ASlice vs) = Some vs"
| "sliceValues _ = None"

text \<open>One segment applied to the values selected so far.\<close>

fun select_segment :: "bool \<Rightarrow> string \<Rightarrow> any list \<Rightarrow> any list \<Rightarrow> any list option" where
  "select_segment array segment [] acc = Some acc"
| "select_segment array segment (v # vs) acc =
     (case v of
        AMap ms \<Rightarrow>
          (case map_of ms segment of
             None \<Rightarrow> select_segment array segment vs acc
           | Some x \<Rightarrow>
               if array then
                 (case sliceValues x of
                    None \<Rightarrow> None
                  | Some items \<Rightarrow>
                      if maxSelectedClaimNodes < len acc + len items then None
                      else select_segment array segment vs (acc @ items))
               else if len acc = maxSelectedClaimNodes then None
               else select_segment array segment vs (acc @ [x]))
      | _ \<Rightarrow> select_segment array segment vs acc)"

fun select_segments :: "string list \<Rightarrow> any list \<Rightarrow> any list option" where
  "select_segments [] current = Some current"
| "select_segments (raw # rest) current =
     (case select_segment (suffix ''[]'' raw) (trim_suffix raw ''[]'') current [] of
        None \<Rightarrow> None
      | Some selected \<Rightarrow> select_segments rest selected)"

definition selectValues :: "any \<Rightarrow> string \<Rightarrow> any list option" where
  "selectValues root path = select_segments (split_on (CHR ''.'') path) [root]"

definition Select :: "any \<Rightarrow> string \<Rightarrow> any list option" where
  "Select root path =
     (if path = ''$'' then Some [root] else if \<not> validClaimPath path then None else selectValues root path)"

fun scalarString :: "any \<Rightarrow> string option" where
  "scalarString (AString s) = Some s"
| "scalarString (ABool b) = Some (if b then ''true'' else ''false'')"
| "scalarString (ANumber s) = Some s"
| "scalarString _ = None"

definition claimPathMatches :: "any \<Rightarrow> string \<Rightarrow> string list \<Rightarrow> bool" where
  "claimPathMatches root path values =
     (case selectValues root path of
        None \<Rightarrow> False
      | Some selected \<Rightarrow>
          list_ex (\<lambda>v. case scalarString v of None \<Rightarrow> False | Some s \<Rightarrow> s \<in> set values) selected)"

fun is_object :: "any \<Rightarrow> bool" where
  "is_object (AMap _) = True"
| "is_object _ = False"

definition whereMatches :: "any_map \<Rightarrow> Where \<Rightarrow> bool" where
  "whereMatches claims v =
     (case selectValues (AMap claims) (where_Array v) of
        None \<Rightarrow> False
      | Some selected \<Rightarrow>
          list_ex (\<lambda>item. is_object item
            \<and> list_all (\<lambda>c. claimPathMatches item (cond_ClaimPath c) (cond_Values c)) (where_All v)) selected)"

definition rule_matches :: "any_map \<Rightarrow> Rule \<Rightarrow> bool" where
  "rule_matches claims r \<longleftrightarrow> rule_Effect r = EffectAllow
     \<and> (rule_Authenticated r
        \<or> rule_ClaimPath r \<noteq> [] \<and> claimPathMatches (AMap claims) (rule_ClaimPath r) (rule_Values r)
        \<or> where_Array (rule_Where r) \<noteq> [] \<and> whereMatches claims (rule_Where r))"

definition Evaluate :: "Policy \<Rightarrow> any_map \<Rightarrow> Decision" where
  "Evaluate policy claims =
     (case find (rule_matches claims) (pol_Rules policy) of
        Some r \<Rightarrow> \<lparr>dec_Allowed = True, dec_RuleID = rule_ID r\<rparr>
      | None \<Rightarrow> \<lparr>dec_Allowed = False, dec_RuleID = []\<rparr>)"

section \<open>What a path reaches\<close>

text \<open>
  The abstract reading of a path: the values that walking the segments through objects, and through
  the elements of the arrays that are marked, can reach.
\<close>

inductive path_reaches :: "any \<Rightarrow> string list \<Rightarrow> any \<Rightarrow> bool" where
  here: "path_reaches v [] v"
| member: "map_of ms (trim_suffix raw ''[]'') = Some x \<Longrightarrow> \<not> suffix ''[]'' raw \<Longrightarrow> path_reaches x rest v
    \<Longrightarrow> path_reaches (AMap ms) (raw # rest) v"
| element: "map_of ms (trim_suffix raw ''[]'') = Some (ASlice xs) \<Longrightarrow> suffix ''[]'' raw \<Longrightarrow> x \<in> set xs \<Longrightarrow> path_reaches x rest v
    \<Longrightarrow> path_reaches (AMap ms) (raw # rest) v"

inductive_simps path_reaches_Nil [simp]: "path_reaches u [] v"
inductive_simps path_reaches_Cons: "path_reaches u (raw # rest) v"

text \<open>One segment.\<close>

fun steps_to :: "string \<Rightarrow> any \<Rightarrow> any set" where
  "steps_to raw (AMap ms) =
     (case map_of ms (trim_suffix raw ''[]'') of
        None \<Rightarrow> {}
      | Some x \<Rightarrow> if suffix ''[]'' raw then (case x of ASlice xs \<Rightarrow> set xs | _ \<Rightarrow> {}) else {x})"
| "steps_to raw _ = {}"

lemma path_reaches_steps: "path_reaches u (raw # rest) v \<longleftrightarrow> (\<exists>x \<in> steps_to raw u. path_reaches x rest v)"
  by (cases u) (auto simp: path_reaches_Cons split: option.splits any.splits)

lemma select_segment_set:
  assumes "select_segment (suffix ''[]'' raw) (trim_suffix raw ''[]'') vs acc = Some ys"
  shows "set ys = set acc \<union> (\<Union>v \<in> set vs. steps_to raw v)"
  using assms
proof (induction vs arbitrary: acc)
  case (Cons v vs)
  show ?case
  proof (cases v)
    case (AMap ms)
    show ?thesis
    proof (cases "map_of ms (trim_suffix raw ''[]'')")
      case None
      then show ?thesis using Cons AMap by simp
    next
      case (Some x)
      show ?thesis
      proof (cases "suffix ''[]'' raw")
        case True
        then obtain items where "x = ASlice items" "select_segment True (trim_suffix raw ''[]'') vs (acc @ items) = Some ys"
          using Cons.prems AMap Some by (cases x) (auto split: if_splits)
        then show ?thesis using Cons.IH [of "acc @ items"] AMap Some True by auto
      next
        case False
        then have "select_segment False (trim_suffix raw ''[]'') vs (acc @ [x]) = Some ys"
          using Cons.prems AMap Some by (auto split: if_splits)
        then show ?thesis using Cons.IH [of "acc @ [x]"] AMap Some False by auto
      qed
    qed
  qed (use Cons in auto)
qed simp

lemma select_segment_length:
  assumes "select_segment array segment vs acc = Some ys" "len acc \<le> maxSelectedClaimNodes"
  shows "len ys \<le> maxSelectedClaimNodes"
  using assms
proof (induction vs arbitrary: acc)
  case (Cons v vs)
  show ?case
  proof (cases v)
    case (AMap ms)
    show ?thesis
    proof (cases "map_of ms segment")
      case None
      then show ?thesis using Cons AMap by simp
    next
      case (Some x)
      then obtain acc' where "select_segment array segment vs acc' = Some ys" "len acc' \<le> maxSelectedClaimNodes"
        using Cons.prems AMap by (auto simp: len_def split: if_splits option.splits)
      then show ?thesis by (rule Cons.IH)
    qed
  qed (use Cons in auto)
qed simp

lemma select_segments_set:
  assumes "select_segments segs vs = Some ys"
  shows "set ys = {v. \<exists>u \<in> set vs. path_reaches u segs v}"
  using assms
proof (induction segs arbitrary: vs)
  case (Cons raw rest)
  obtain mid where mid: "select_segment (suffix ''[]'' raw) (trim_suffix raw ''[]'') vs [] = Some mid"
    "select_segments rest mid = Some ys"
    using Cons.prems by (auto split: option.splits)
  have "set mid = (\<Union>v \<in> set vs. steps_to raw v)" using select_segment_set [OF mid(1)] by simp
  then show ?case using Cons.IH [OF mid(2)] by (auto simp: path_reaches_steps)
qed simp

lemma select_segments_length:
  "select_segments segs vs = Some ys \<Longrightarrow> len vs \<le> maxSelectedClaimNodes \<Longrightarrow> len ys \<le> maxSelectedClaimNodes"
  by (induction segs arbitrary: vs) (auto split: option.splits dest!: select_segment_length simp: maxSelectedClaimNodes_def len_def)

lemma selectValues_spec:
  assumes "selectValues root path = Some vs"
  shows "set vs = {v. path_reaches root (split_on (CHR ''.'') path) v}" "len vs \<le> maxSelectedClaimNodes"
  using select_segments_set [of "split_on (CHR ''.'') path" "[root]" vs]
    select_segments_length [of "split_on (CHR ''.'') path" "[root]" vs] assms
  by (auto simp: selectValues_def maxSelectedClaimNodes_def len_def)

end
