(* ===== verification/Spec2Isabelle.thy ===== *)
theory Spec2Isabelle
  imports Lifecycle_Properties Create_Properties Domain_Properties Run_Render Injection_Properties Egress_Bounds
    API_Properties Eligibility
begin

text \<open>
  A verification development of the local agent platform.
\<close>

end
